(* ===== verification/Prelude.thy ===== *)
theory Prelude
  imports Main "HOL-Library.Multiset" "HOL-Library.Sublist" "HOL-Library.Char_ord"
    "HOL-Library.List_Lexorder"
begin

text \<open>
  Shared vocabulary of the development: Go errors and results, the parts of Go's standard
  library the modelled code uses on strings and slices (\<open>strings\<close>, \<open>encoding/hex\<close>,
  signed 64-bit counters, map iteration), and the generic lemmas the component theories share.

  Conventions. A Go \<open>string\<close> is the list of its bytes. A value-or-error pair
  \<open>(T, error)\<close> is \<open>'a result = go_error + 'a\<close>. The result of \<open>ctx.Err()\<close> at the entry of
  an operation is an argument of type \<open>ctx\<close>; the instant \<open>time.Now()\<close> returns is an argument of
  type \<open>time\<close> (nanoseconds after Go's zero time); the bytes one call of \<open>rand.Read\<close> fills in are
  an argument of type \<open>rnd\<close>, \<open>None\<close> when the call fails. Log lines are not modelled.
\<close>

named_theorems go_string "facts about the string routines"

section \<open>Errors and results\<close>

datatype go_error =
    ErrNotFound | ErrForbidden | ErrConflict | ErrInvalidInput
  | ErrExpired | ErrInvalidCookie | ErrRuntimeNotConnected | ErrInvalidCredentials
  | ErrNew string
  | ErrWrap string go_error string

type_synonym 'a result = "go_error + 'a"
type_synonym ctx = "go_error option"
type_synonym time = int
type_synonym rnd = "string option"

text \<open>\<open>errors.Is\<close> walks the chain of wrapped errors; an error made by \<open>errors.New\<close> in place
  is never one of the sentinels.\<close>

fun errors_Is :: "go_error \<Rightarrow> go_error \<Rightarrow> bool" where
  "errors_Is (ErrWrap pre e post) target = (ErrWrap pre e post = target \<or> errors_Is e target)"
| "errors_Is e target = (e = target)"

fun error_text :: "go_error \<Rightarrow> string" where
  "error_text ErrNotFound = ''not found''"
| "error_text ErrForbidden = ''forbidden''"
| "error_text ErrConflict = ''conflict''"
| "error_text ErrInvalidInput = ''invalid input''"
| "error_text ErrExpired = ''oidc state cookie expired''"
| "error_text ErrInvalidCookie = ''oidc state cookie invalid''"
| "error_text ErrRuntimeNotConnected = ''runtime not connected''"
| "error_text ErrInvalidCredentials = ''invalid credentials''"
| "error_text (ErrNew msg) = msg"
| "error_text (ErrWrap pre e post) = pre @ error_text e @ post"

text \<open>\<open>fmt.Errorf("pre%w", err)\<close> on the error branch, and the early return on an error.\<close>

definition wrap :: "string \<Rightarrow> 'a result \<Rightarrow> 'a result" where
  "wrap pre r = (case r of Inl err \<Rightarrow> Inl (ErrWrap pre err []) | Inr x \<Rightarrow> Inr x)"

lemma wrap_Inr [simp]: "wrap pre r = Inr x \<longleftrightarrow> r = Inr x"
  by (simp add: wrap_def split: sum.splits)

lemma wrap_simps [simp]: "wrap pre (Inl e) = Inl (ErrWrap pre e [])" "wrap pre (Inr x) = Inr x"
  by (simp_all add: wrap_def)

definition rbind :: "'a result \<Rightarrow> ('a \<Rightarrow> 'b result) \<Rightarrow> 'b result" where
  "rbind r f = (case r of Inl err \<Rightarrow> Inl err | Inr x \<Rightarrow> f x)"

lemma rbind_Inr [simp]: "rbind r f = Inr y \<longleftrightarrow> (\<exists>x. r = Inr x \<and> f x = Inr y)"
  by (simp add: rbind_def split: sum.splits)

lemma rbind_simps [simp]: "rbind (Inl e) f = Inl e" "rbind (Inr x) f = f x"
  by (simp_all add: rbind_def)

section \<open>Signed 64-bit counters\<close>

definition wrap64 :: "int \<Rightarrow> int" where
  "wrap64 x = (x + 2 ^ 63) mod 2 ^ 64 - 2 ^ 63"

definition inc64 :: "int \<Rightarrow> int" where
  "inc64 x = wrap64 (x + 1)"

lemma wrap64_range: "- (2 ^ 63) \<le> wrap64 x \<and> wrap64 x < 2 ^ 63"
proof -
  have "0 \<le> (x + 2 ^ 63) mod (2 ^ 64 :: int)" "(x + 2 ^ 63) mod 2 ^ 64 < (2 ^ 64 :: int)"
    by simp_all
  then show ?thesis by (simp add: wrap64_def)
qed

lemma wrap64_id: "- (2 ^ 63) \<le> x \<Longrightarrow> x < 2 ^ 63 \<Longrightarrow> wrap64 x = x"
  by (simp add: wrap64_def)

lemma inc64_eq: "0 \<le> x \<Longrightarrow> x < 2 ^ 63 - 1 \<Longrightarrow> inc64 x = x + 1"
  unfolding inc64_def by (rule wrap64_id) simp_all

section \<open>First-match loops over a slice\<close>

text \<open>
  \<open>for i, x := range xs { if P(x) { xs[i] = f(x); return xs[i] } }\<close> and
  \<open>for i, x := range xs { if P(x) { xs = append(xs[:i], xs[i+1:]...); return } }\<close>:
  both act on the first match only and report \<open>None\<close> when the loop runs to its end. \<open>update1\<close> and
  \<open>delete1\<close> are the slice such a loop leaves behind.
\<close>

fun update1 :: "('a \<Rightarrow> bool) \<Rightarrow> ('a \<Rightarrow> 'a) \<Rightarrow> 'a list \<Rightarrow> 'a list" where
  "update1 P f [] = []"
| "update1 P f (x # xs) = (if P x then f x # xs else x # update1 P f xs)"

fun delete1 :: "('a \<Rightarrow> bool) \<Rightarrow> 'a list \<Rightarrow> 'a list" where
  "delete1 P [] = []"
| "delete1 P (x # xs) = (if P x then xs else x # delete1 P xs)"

definition update_first :: "('a \<Rightarrow> bool) \<Rightarrow> ('a \<Rightarrow> 'a) \<Rightarrow> 'a list \<Rightarrow> ('a \<times> 'a list) option" where
  "update_first P f xs = (case find P xs of None \<Rightarrow> None | Some x \<Rightarrow> Some (f x, update1 P f xs))"

definition remove_first :: "('a \<Rightarrow> bool) \<Rightarrow> 'a list \<Rightarrow> 'a list option" where
  "remove_first P xs = (case find P xs of None \<Rightarrow> None | Some x \<Rightarrow> Some (delete1 P xs))"

lemmas loop_defs = update_first_def remove_first_def

lemma find_SomeD: "find P xs = Some x \<Longrightarrow> x \<in> set xs \<and> P x"
  by (auto simp: find_Some_iff)

lemma find_append: "find P (xs @ ys) = (case find P xs of None \<Rightarrow> find P ys | Some x \<Rightarrow> Some x)"
  by (induction xs) auto

lemma map_update1 [simp]: "(\<And>x. P x \<Longrightarrow> g (f x) = g x) \<Longrightarrow> map g (update1 P f xs) = map g xs"
  by (induction xs) auto

lemma image_update1 [simp]: "(\<And>x. P x \<Longrightarrow> g (f x) = g x) \<Longrightarrow> g ` set (update1 P f xs) = g ` set xs"
  by (metis list.set_map map_update1)

lemma find_update1_same [simp]:
  "(\<And>x. P x \<Longrightarrow> P (f x)) \<Longrightarrow> find P (update1 P f xs) = map_option f (find P xs)"
  by (induction xs) auto

lemma find_update1_other:
  "(\<And>x. P x \<Longrightarrow> \<not> Q x \<and> \<not> Q (f x)) \<Longrightarrow> find Q (update1 P f xs) = find Q xs"
  by (induction xs) auto

lemma in_update1: "y \<in> set (update1 P f xs) \<Longrightarrow> y \<in> set xs \<or> (\<exists>x\<in>set xs. P x \<and> y = f x)"
  by (induction xs) (auto split: if_splits)

lemma update1_id: "find P xs = None \<Longrightarrow> update1 P f xs = xs"
  by (induction xs) (auto split: if_splits)

lemma set_delete1: "set (delete1 P xs) \<subseteq> set xs"
  by (induction xs) auto

lemma in_delete1 [dest]: "y \<in> set (delete1 P xs) \<Longrightarrow> y \<in> set xs"
  using set_delete1 by fastforce

lemma distinct_map_delete1 [simp]: "distinct (map g xs) \<Longrightarrow> distinct (map g (delete1 P xs))"
  by (induction xs) (auto simp: image_iff)

lemma find_delete1_other: "(\<And>x. P x \<Longrightarrow> \<not> Q x) \<Longrightarrow> find Q (delete1 P xs) = find Q xs"
  by (induction xs) auto

lemma filter_delete1_other: "(\<And>x. P x \<Longrightarrow> \<not> Q x) \<Longrightarrow> filter Q (delete1 P xs) = filter Q xs"
  by (induction xs) auto

text \<open>When the predicate picks out one key and the keys are distinct, removing the first match
  removes every match.\<close>

lemma delete1_key:
  assumes "distinct (map g xs)" and "\<And>x y. P x \<Longrightarrow> P y \<Longrightarrow> g x = g y"
  shows "find P (delete1 P xs) = None"
  using assms(1)
proof (induction xs)
  case Nil
  then show ?case by simp
next
  case (Cons x xs)
  show ?case
  proof (cases "P x")
    case True
    then have "\<not> P y" if "y \<in> set xs" for y
      using Cons.prems assms(2) [OF True, of y] that by (metis distinct.simps(2) image_eqI list.set_map list.simps(9))
    with True show ?thesis by (auto simp: find_None_iff)
  next
    case False
    with Cons show ?thesis by simp
  qed
qed

section \<open>Sorting a slice\<close>

text \<open>
  \<open>sort.Slice(xs, lt)\<close> as an insertion sort. Go's sort is not stable, so the two agree where the
  compared keys are distinct; the lemmas hold for any sorted permutation.
\<close>

fun insert_sorted :: "('a \<Rightarrow> 'a \<Rightarrow> bool) \<Rightarrow> 'a \<Rightarrow> 'a list \<Rightarrow> 'a list" where
  "insert_sorted lt x [] = [x]"
| "insert_sorted lt x (y # ys) = (if lt y x then y # insert_sorted lt x ys else x # y # ys)"

fun sort_slice :: "('a \<Rightarrow> 'a \<Rightarrow> bool) \<Rightarrow> 'a list \<Rightarrow> 'a list" where
  "sort_slice lt [] = []"
| "sort_slice lt (x # xs) = insert_sorted lt x (sort_slice lt xs)"

lemma mset_insert_sorted [simp]: "mset (insert_sorted lt x xs) = add_mset x (mset xs)"
  by (induction xs) auto

lemma mset_sort_slice [simp]: "mset (sort_slice lt xs) = mset xs"
  by (induction xs) auto

lemma set_sort_slice [simp]: "set (sort_slice lt xs) = set xs"
  by (metis mset_sort_slice set_mset_mset)

lemma distinct_map_sort_slice: "distinct (map g (sort_slice lt xs)) = distinct (map g xs)"
  by (metis mset_map mset_sort_slice mset_eq_imp_distinct_iff)

lemma sort_slice_sorted:
  assumes asym: "\<And>x y. lt x y \<Longrightarrow> \<not> lt y x"
    and trans: "\<And>x y z. \<not> lt y x \<Longrightarrow> \<not> lt z y \<Longrightarrow> \<not> lt z x"
  shows "sorted_wrt (\<lambda>x y. \<not> lt y x) (sort_slice lt xs)"
proof (induction xs)
  case Nil
  then show ?case by simp
next
  case (Cons x xs)
  have set_ins: "set (insert_sorted lt a ys) = insert a (set ys)" for a ys
    by (metis mset_insert_sorted set_mset_add_mset_insert set_mset_mset)
  have "sorted_wrt (\<lambda>x y. \<not> lt y x) ys \<Longrightarrow> sorted_wrt (\<lambda>x y. \<not> lt y x) (insert_sorted lt x ys)" for ys
    by (induction ys) (auto simp: set_ins dest: asym trans)
  with Cons show ?case by simp
qed

text \<open>Sorting by a key from a linear order; with distinct keys the result is strictly sorted.\<close>

lemma sort_slice_key_sorted:
  fixes key :: "'a \<Rightarrow> 'b :: linorder"
  shows "sorted (map key (sort_slice (\<lambda>a b. key a < key b) xs))"
proof -
  have "sorted_wrt (\<lambda>x y. \<not> key y < key x) (sort_slice (\<lambda>a b. key a < key b) xs)"
    by (rule sort_slice_sorted) auto
  then show ?thesis by (simp add: sorted_wrt_map not_less)
qed

lemma sort_slice_key_strict:
  fixes key :: "'a \<Rightarrow> 'b :: linorder"
  shows "distinct (map key xs) \<Longrightarrow> sorted_wrt (<) (map key (sort_slice (\<lambda>a b. key a < key b) xs))"
  by (simp only: strict_sorted_iff sort_slice_key_sorted distinct_map_sort_slice)

section \<open>Map iteration\<close>

text \<open>
  Go's \<open>range\<close> over a map visits the keys in an unspecified order. The order is an argument of
  every definition that iterates over a map; \<open>range_order m ks\<close> says that \<open>ks\<close> is such an order.
\<close>

definition range_order :: "('k \<rightharpoonup> 'v) \<Rightarrow> 'k list \<Rightarrow> bool" where
  "range_order m ks \<longleftrightarrow> distinct ks \<and> set ks = dom m"

definition range_values :: "('k \<rightharpoonup> 'v) \<Rightarrow> 'k list \<Rightarrow> 'v list" where
  "range_values m ks = List.map_filter m ks"

lemma range_values_simps [simp]:
  "range_values m [] = []"
  "range_values m (k # ks) = (case m k of None \<Rightarrow> range_values m ks | Some v \<Rightarrow> v # range_values m ks)"
  by (simp_all add: range_values_def map_filter_simps split: option.splits)

lemma set_range_values: "set (range_values m ks) = {v. \<exists>k\<in>set ks. m k = Some v}"
  by (induction ks) (auto split: option.splits)

lemma range_values_ran: "range_order m ks \<Longrightarrow> set (range_values m ks) = ran m"
  by (auto simp: set_range_values range_order_def ran_def dom_def)

section \<open>Strings\<close>

abbreviation HasPrefix :: "string \<Rightarrow> string \<Rightarrow> bool" where
  "HasPrefix s p \<equiv> prefix p s"

abbreviation HasSuffix :: "string \<Rightarrow> string \<Rightarrow> bool" where
  "HasSuffix s p \<equiv> suffix p s"

definition TrimPrefix :: "string \<Rightarrow> string \<Rightarrow> string" where
  "TrimPrefix s p = (if prefix p s then drop (length p) s else s)"

definition TrimSuffix :: "string \<Rightarrow> string \<Rightarrow> string" where
  "TrimSuffix s p = (if suffix p s then take (length s - length p) s else s)"

text \<open>\<open>strings.Contains\<close>: some suffix of \<open>s\<close> starts with \<open>sub\<close>.\<close>

fun Contains :: "string \<Rightarrow> string \<Rightarrow> bool" where
  "Contains [] sub = (sub = [])"
| "Contains (c # s) sub = (prefix sub (c # s) \<or> Contains s sub)"

lemma Contains_iff [go_string]: "Contains s sub \<longleftrightarrow> (\<exists>p q. s = p @ sub @ q)"
proof (induction s)
  case Nil
  then show ?case by auto
next
  case (Cons c s)
  show ?case (is "_ \<longleftrightarrow> ?R")
  proof
    assume "Contains (c # s) sub"
    then consider "prefix sub (c # s)" | "Contains s sub" by auto
    then show ?R
    proof cases
      case 1
      then obtain q where "c # s = [] @ sub @ q" by (auto simp: prefix_def)
      then show ?thesis by blast
    next
      case 2
      with Cons.IH obtain p q where "s = p @ sub @ q" by blast
      then have "c # s = (c # p) @ sub @ q" by simp
      then show ?thesis by blast
    qed
  next
    assume ?R
    then obtain p q where pq: "c # s = p @ sub @ q" by blast
    show "Contains (c # s) sub"
    proof (cases p)
      case Nil
      with pq have "prefix sub (c # s)" by simp
      then show ?thesis by simp
    next
      case (Cons d p')
      with pq Cons.IH show ?thesis by auto
    qed
  qed
qed

text \<open>The white space of \<open>unicode.IsSpace\<close>, each rune by its UTF-8 encoding.\<close>

definition unicode_spaces :: "string list" where
  "unicode_spaces =
     map (\<lambda>c. [c]) [CHR 0x09, CHR 0x0A, CHR 0x0B, CHR 0x0C, CHR 0x0D, CHR 0x20] @
     [[CHR 0xC2, CHR 0x85], [CHR 0xC2, CHR 0xA0], [CHR 0xE1, CHR 0x9A, CHR 0x80]] @
     map (\<lambda>c. [CHR 0xE2, CHR 0x80, c])
       [CHR 0x80, CHR 0x81, CHR 0x82, CHR 0x83, CHR 0x84, CHR 0x85, CHR 0x86, CHR 0x87,
        CHR 0x88, CHR 0x89, CHR 0x8A, CHR 0xA8, CHR 0xA9, CHR 0xAF] @
     [[CHR 0xE2, CHR 0x81, CHR 0x9F], [CHR 0xE3, CHR 0x80, CHR 0x80]]"

text \<open>Strip leading encodings taken from \<open>sps\<close> while there is one.\<close>

function strip_leading :: "string list \<Rightarrow> string \<Rightarrow> string" where
  "strip_leading sps s =
     (case find (\<lambda>sp. sp \<noteq> [] \<and> prefix sp s) sps of
        None \<Rightarrow> s
      | Some sp \<Rightarrow> strip_leading sps (drop (length sp) s))"
  by pat_completeness auto
termination
proof (relation "measure (\<lambda>(sps, s). length s)")
  fix sps s sp
  assume "find (\<lambda>sp. sp \<noteq> [] \<and> prefix sp s) sps = Some sp"
  then have "sp \<noteq> []" "prefix sp s" by (auto dest: find_SomeD)
  then have "0 < length sp" "length sp \<le> length s"
    by (simp_all add: prefix_length_le)
  then have "length s - length sp < length s" by linarith
  then have "length (drop (length sp) s) < length s" by (simp only: length_drop)
  then show "((sps, drop (length sp) s), (sps, s)) \<in> measure (\<lambda>(sps, s). length s)"
    by (simp only: in_measure prod.case)
qed simp

declare strip_leading.simps [simp del]

definition TrimLeftSpace :: "string \<Rightarrow> string" where
  "TrimLeftSpace s = strip_leading unicode_spaces s"

definition TrimRightSpace :: "string \<Rightarrow> string" where
  "TrimRightSpace s = rev (strip_leading (map rev unicode_spaces) (rev s))"

definition TrimSpace :: "string \<Rightarrow> string" where
  "TrimSpace s = TrimRightSpace (TrimLeftSpace s)"

lemma strip_leading_suffix: "suffix (strip_leading sps s) s"
proof (induction sps s rule: strip_leading.induct)
  case (1 sps s)
  show ?case
  proof (cases "find (\<lambda>sp. sp \<noteq> [] \<and> prefix sp s) sps")
    case None
    then show ?thesis by (simp add: strip_leading.simps [of sps s])
  next
    case (Some sp)
    with 1 have "suffix (strip_leading sps (drop (length sp) s)) (drop (length sp) s)" by blast
    then have "suffix (strip_leading sps (drop (length sp) s)) s"
      using suffix_drop suffix_order.trans by blast
    with Some show ?thesis by (simp add: strip_leading.simps [of sps s])
  qed
qed

lemma strip_leading_Nil [simp]: "strip_leading sps [] = []"
  using strip_leading_suffix [of sps "[]"] by simp

lemma TrimSpace_Nil [simp]: "TrimSpace [] = []"
  by (simp add: TrimSpace_def TrimLeftSpace_def TrimRightSpace_def)

text \<open>A trimmed string starts with no white space.\<close>

lemma strip_leading_fixed:
  "sp \<in> set sps \<Longrightarrow> sp \<noteq> [] \<Longrightarrow> \<not> prefix sp (strip_leading sps s)"
proof (induction sps s rule: strip_leading.induct)
  case (1 sps s)
  show ?case
  proof (cases "find (\<lambda>sp. sp \<noteq> [] \<and> prefix sp s) sps")
    case None
    then have "strip_leading sps s = s" by (simp add: strip_leading.simps [of sps s])
    with None 1(2,3) show ?thesis by (auto simp: find_None_iff)
  next
    case (Some sp)
    with 1 show ?thesis by (simp add: strip_leading.simps [of sps s])
  qed
qed

fun split_on :: "char \<Rightarrow> string \<Rightarrow> string list" where
  "split_on d [] = [[]]"
| "split_on d (c # s) =
     (if c = d then [] # split_on d s
      else case split_on d s of [] \<Rightarrow> [[c]] | w # ws \<Rightarrow> (c # w) # ws)"

fun Join :: "string list \<Rightarrow> string \<Rightarrow> string" where
  "Join [] sep = []"
| "Join [w] sep = w"
| "Join (w # v # ws) sep = w @ sep @ Join (v # ws) sep"

lemma split_on_nonempty [simp]: "split_on d s \<noteq> []"
  by (induction s) (auto split: list.splits)

lemma Join_split_on: "Join (split_on d s) [d] = s"
proof (induction s)
  case Nil
  then show ?case by simp
next
  case (Cons c s)
  then show ?case
    by (cases "split_on d s" rule: Join.cases [of "(_, [d])"]) (auto split: list.splits)
qed

lemma split_on_no_sep: "w \<in> set (split_on d s) \<Longrightarrow> d \<notin> set w"
  by (induction s arbitrary: w) (auto split: if_splits list.splits)

lemma split_on_single: "d \<notin> set w \<Longrightarrow> split_on d w = [w]"
  by (induction w) auto

lemma split_on_append: "d \<notin> set w \<Longrightarrow> split_on d (w @ d # s) = w # split_on d s"
  by (induction w) auto

lemma split_on_Join:
  "ws \<noteq> [] \<Longrightarrow> (\<forall>w\<in>set ws. d \<notin> set w) \<Longrightarrow> split_on d (Join ws [d]) = ws"
  by (induction ws "[d]" rule: Join.induct) (auto simp: split_on_single split_on_append)

text \<open>
  \<open>strings.ToLower\<close> and \<open>strings.ToUpper\<close> on ASCII input. On input with other bytes they use the
  Unicode case tables; \<open>ul\<close> stands for them where the code lowers a string it has not checked.
\<close>

definition is_ascii :: "string \<Rightarrow> bool" where
  "is_ascii s \<longleftrightarrow> (\<forall>c\<in>set s. of_char c < (128 :: nat))"

definition lower_char :: "char \<Rightarrow> char" where
  "lower_char c = (let n = of_char c :: nat in if 65 \<le> n \<and> n \<le> 90 then char_of (n + 32) else c)"

definition ToLower :: "(string \<Rightarrow> string) \<Rightarrow> string \<Rightarrow> string" where
  "ToLower ul s = (if is_ascii s then map lower_char s else ul s)"

text \<open>\<open>strconv.Itoa\<close> and \<open>%d\<close> for integers.\<close>

fun nat_digits :: "nat \<Rightarrow> string" where
  "nat_digits n = (if n < 10 then [char_of (48 + n)] else nat_digits (n div 10) @ [char_of (48 + n mod 10)])"

declare nat_digits.simps [simp del]

definition Itoa :: "int \<Rightarrow> string" where
  "Itoa i = (if i < 0 then CHR ''-'' # nat_digits (nat (- i)) else nat_digits (nat i))"

text \<open>\<open>%q\<close>: the quoted string. Bytes above 127 stand for printable runes and are kept.\<close>

definition quote_char :: "char \<Rightarrow> string" where
  "quote_char c =
     (let n = of_char c :: nat in
      if n = 34 \<or> n = 92 then [CHR 0x5C, c]
      else if n = 7 then [CHR 0x5C, CHR ''a''] else if n = 8 then [CHR 0x5C, CHR ''b'']
      else if n = 12 then [CHR 0x5C, CHR ''f''] else if n = 10 then [CHR 0x5C, CHR ''n'']
      else if n = 13 then [CHR 0x5C, CHR ''r''] else if n = 9 then [CHR 0x5C, CHR ''t'']
      else if n = 11 then [CHR 0x5C, CHR ''v'']
      else if n < 32 \<or> n = 127
      then [CHR 0x5C, CHR ''x'', ''0123456789abcdef'' ! (n div 16), ''0123456789abcdef'' ! (n mod 16)]
      else [c])"

definition Quote :: "string \<Rightarrow> string" where
  "Quote s = CHR 0x22 # concat (map quote_char s) @ [CHR 0x22]"

text \<open>The dynamic values the code inspects behind an \<open>any\<close>.\<close>

datatype any =
    AnyNil
  | AnyString string
  | AnyStrings "string list"
  | AnyList "any list"
  | AnyMap "(string \<times> any) list"
  | AnyOther string

text \<open>\<open>%v\<close>: numbers and booleans (\<open>AnyOther\<close>) carry their text; maps print in key order.\<close>

fun fmt_v :: "any \<Rightarrow> string" where
  "fmt_v AnyNil = ''<nil>''"
| "fmt_v (AnyString s) = s"
| "fmt_v (AnyStrings ss) = CHR ''['' # Join ss '' '' @ '']''"
| "fmt_v (AnyList vs) = CHR ''['' # Join (map fmt_v vs) '' '' @ '']''"
| "fmt_v (AnyMap kvs) =
     ''map['' @ Join (map (\<lambda>(k, t). k @ CHR '':'' # t)
        (sort_slice (\<lambda>a b. fst a < fst b) (map (\<lambda>(k, v). (k, fmt_v v)) kvs))) '' '' @ '']''"
| "fmt_v (AnyOther t) = t"

section \<open>Sequences of checks\<close>

text \<open>\<open>if c1 { return e1 }; if c2 { return e2 }; ...\<close>\<close>

fun refuse :: "(bool \<times> string) list \<Rightarrow> unit result" where
  "refuse [] = Inr ()"
| "refuse ((bad, msg) # cs) = (if bad then Inl (ErrNew msg) else refuse cs)"

text \<open>\<open>if err := a(); err != nil { return err }; ...\<close>\<close>

fun first_failure :: "unit result list \<Rightarrow> unit result" where
  "first_failure [] = Inr ()"
| "first_failure (r # rs) = (case r of Inl e \<Rightarrow> Inl e | Inr _ \<Rightarrow> first_failure rs)"

lemma refuse_Inr [simp]: "refuse cs = Inr u \<longleftrightarrow> (\<forall>c\<in>set cs. \<not> fst c)"
  by (induction cs rule: refuse.induct) auto

lemma first_failure_Inr [simp]: "first_failure rs = Inr u \<longleftrightarrow> (\<forall>r\<in>set rs. r = Inr ())"
  by (induction rs rule: first_failure.induct) (auto split: sum.splits)

declare refuse.simps [simp del] first_failure.simps [simp del]

text \<open>\<open>for k, v := range m { r, err := f(k, v); if err != nil { return err }; out[k] = r }\<close>: a map given as
  the list of its entries in the order \<open>range\<close> visits them.\<close>

fun map_entries :: "(string \<Rightarrow> 'a \<Rightarrow> 'b result) \<Rightarrow> (string \<times> 'a) list \<Rightarrow> (string \<times> 'b) list result" where
  "map_entries f [] = Inr []"
| "map_entries f ((k, v) # kvs) =
     (case f k v of
        Inl e \<Rightarrow> Inl e
      | Inr r \<Rightarrow> (case map_entries f kvs of Inl e \<Rightarrow> Inl e | Inr rs \<Rightarrow> Inr ((k, r) # rs)))"

lemma map_entries_Inr:
  "map_entries f kvs = Inr rs \<Longrightarrow>
     map fst rs = map fst kvs \<and> list_all2 (\<lambda>(k, v) (k', r). k' = k \<and> f k v = Inr r) kvs rs"
  by (induction f kvs arbitrary: rs rule: map_entries.induct) (auto split: sum.splits)

section \<open>Hexadecimal encoding and random identifiers\<close>

definition hex_digit :: "nat \<Rightarrow> char" where
  "hex_digit n = ''0123456789abcdef'' ! n"

definition unhex_digit :: "char \<Rightarrow> nat option" where
  "unhex_digit c =
     (let n = of_char c :: nat in
      if 48 \<le> n \<and> n \<le> 57 then Some (n - 48)
      else if 97 \<le> n \<and> n \<le> 102 then Some (n - 87)
      else if 65 \<le> n \<and> n \<le> 70 then Some (n - 55)
      else None)"

fun hex_encode :: "string \<Rightarrow> string" where
  "hex_encode [] = []"
| "hex_encode (c # s) =
     (let n = of_char c :: nat in hex_digit (n div 16) # hex_digit (n mod 16) # hex_encode s)"

fun hex_decode :: "string \<Rightarrow> string result" where
  "hex_decode [] = Inr []"
| "hex_decode [c] =
     (if unhex_digit c = None then Inl (ErrNew ''encoding/hex: invalid byte'')
      else Inl (ErrNew ''encoding/hex: odd length hex string''))"
| "hex_decode (a # b # s) =
     (case unhex_digit a of
        None \<Rightarrow> Inl (ErrNew ''encoding/hex: invalid byte'')
      | Some h \<Rightarrow>
          (case unhex_digit b of
             None \<Rightarrow> Inl (ErrNew ''encoding/hex: invalid byte'')
           | Some l \<Rightarrow>
               (case hex_decode s of
                  Inl e \<Rightarrow> Inl e
                | Inr r \<Rightarrow> Inr (char_of (16 * h + l) # r))))"

lemma unhex_hex_digit: "n < 16 \<Longrightarrow> unhex_digit (hex_digit n) = Some n"
proof -
  assume "n < 16"
  then have "n \<in> set [0..<16]" by simp
  moreover have "list_all (\<lambda>n. unhex_digit (hex_digit n) = Some n) [0..<16]" by code_simp
  ultimately show ?thesis by (simp only: list_all_iff)
qed

lemma hex_roundtrip: "hex_decode (hex_encode b) = Inr b"
proof (induction b)
  case Nil
  then show ?case by simp
next
  case (Cons c b)
  have "(of_char c :: nat) < 256" by simp
  then have "(of_char c :: nat) div 16 < 16" by (simp add: less_mult_imp_div_less)
  then have "unhex_digit (hex_digit (of_char c div 16)) = Some (of_char c div 16)"
    "unhex_digit (hex_digit (of_char c mod 16)) = Some (of_char c mod 16)"
    by (simp_all add: unhex_hex_digit)
  with Cons show ?case by (simp add: Let_def)
qed

lemma hex_encode_inj: "hex_encode a = hex_encode b \<Longrightarrow> a = b"
  by (metis hex_roundtrip sum.inject(2))

lemma hex_encode_length: "length (hex_encode b) = 2 * length b"
proof (induction b)
  case Nil
  then show ?case by simp
next
  case (Cons c b)
  have "length (hex_encode (c # b)) = Suc (Suc (length (hex_encode b)))"
    by (simp add: Let_def)
  with Cons show ?case by simp
qed

lemma hex_encode_Nil_iff [simp]: "hex_encode b = [] \<longleftrightarrow> b = []"
proof (cases b)
  case (Cons c s)
  then show ?thesis by (simp only: hex_encode.simps Let_def) simp
qed simp

text \<open>\<open>hex.EncodeToString\<close> of freshly read random bytes: \<open>newID\<close>, \<open>tokenID\<close> and
  \<open>randomSecret\<close> all have this body, with 16, 24 and 24 bytes.\<close>

definition random_hex :: "rnd \<Rightarrow> string result" where
  "random_hex r = (case r of None \<Rightarrow> Inl (ErrNew ''rand: read failed'') | Some b \<Rightarrow> Inr (hex_encode b))"

lemma random_hex_Inr: "random_hex r = Inr s \<longleftrightarrow> (\<exists>b. r = Some b \<and> s = hex_encode b)"
  by (auto simp: random_hex_def split: option.splits)

end
