(* ===== verification/Domain.thy ===== *)
theory Domain
  imports Prelude
begin

text \<open>
  The data types of \<open>internal/domain/domain.go\<close>, one record per struct, with the struct's fields in
  its order. A field's name is the Go name behind a short prefix that keeps the selectors of
  different records apart (\<open>u_\<close> users, \<open>a_\<close> agents, \<open>lm_\<close> models, \<open>gs_\<close> gateway settings,
  \<open>ic_\<close> connections, \<open>ai_\<close> agent integrations, \<open>pm_\<close> plugin manifests, \<open>ui_\<close> identities).
  A \<open>*time.Time\<close> that may be nil is an option. \<open>domain.Message\<close> has no user in the program.
\<close>

record PluginManifest =
  pm_ID :: string
  pm_YAML :: string
  pm_Enabled :: bool
  pm_Revision :: int
  pm_CreatedAt :: time
  pm_UpdatedAt :: time

record IntegrationConnection =
  ic_ProviderID :: string
  ic_UserID :: string
  ic_Scope :: string
  ic_ScopeID :: string
  ic_ExternalAccountID :: string
  ic_ExternalLogin :: string
  ic_AccountType :: string
  ic_Status :: string
  ic_Secret :: string
  ic_Revision :: int
  ic_UpdatedAt :: time
  ic_CreatedAt :: time

record AgentIntegration =
  ai_AgentID :: string
  ai_ProviderID :: string
  ai_Enabled :: bool
  ai_Revision :: int
  ai_Status :: string
  ai_UpdatedAt :: time
  ai_CreatedAt :: time

record FormFieldSummary =
  ffs_Name :: string
  ffs_Label :: string
  ffs_Secret :: bool
  ffs_Placeholder :: string
  ffs_HelpURL :: string

record MCPServerSummary =
  mss_Name :: string
  mss_Kind :: string

record ConnectionMetadata =
  cm_ExternalAccountID :: string
  cm_ExternalLogin :: string
  cm_AccountType :: string
  cm_Status :: string
  cm_Revision :: int

record AgentBindingSummary =
  abs_AgentID :: string
  abs_Enabled :: bool
  abs_Revision :: int
  abs_Status :: string

record ProviderSummary =
  ps_ProviderID :: string
  ps_Name :: string
  ps_Connected :: bool
  ps_Connection :: "ConnectionMetadata option"
  ps_AgentBindings :: "AgentBindingSummary list"
  ps_AuthKind :: string
  ps_FormFields :: "FormFieldSummary list"
  ps_MCPServers :: "MCPServerSummary list"
  ps_Description :: string

record IntegrationSummary =
  is_Providers :: "ProviderSummary list"

record User =
  u_ID :: string
  u_Username :: string
  u_Role :: string
  u_Disabled :: bool
  u_CreatedAt :: time
  u_UpdatedAt :: time

record Agent =
  a_ID :: string
  a_OwnerUserID :: string
  a_Name :: string
  a_Description :: string
  a_Runtime :: string
  a_Model :: string
  a_SystemPrompt :: string
  a_State :: string
  a_LastError :: string
  a_CreatedAt :: time
  a_UpdatedAt :: time

record LLMModel =
  lm_ID :: string
  lm_DisplayName :: string
  lm_ProviderModel :: string
  lm_Enabled :: bool
  lm_CreatedAt :: time
  lm_UpdatedAt :: time

record LLMGatewaySettings =
  gs_Enabled :: bool
  gs_BaseURL :: string
  gs_SecretName :: string
  gs_SecretKey :: string
  gs_UpdatedAt :: time

record AdminRuntimeConfig =
  arc_Provider :: string
  arc_Namespace :: string
  arc_RuntimeClassName :: string
  arc_Images :: "string \<rightharpoonup> string"

record AdminObservability =
  aob_MetricsEnabled :: bool
  aob_LoggingEnabled :: bool
  aob_GrafanaURL :: string

record AdminHealthStatus =
  ahs_Healthz :: string
  ahs_Readyz :: string

record AdminOverview =
  ao_Runtime :: AdminRuntimeConfig
  ao_Observability :: AdminObservability
  ao_Health :: AdminHealthStatus

record CreateAgentInput =
  cai_Name :: string
  cai_Description :: string
  cai_Runtime :: string
  cai_Model :: string
  cai_SystemPrompt :: string

type_synonym AuthMode = string

abbreviation AuthModeLocal :: AuthMode where "AuthModeLocal \<equiv> ''local''"
abbreviation AuthModeSSO :: AuthMode where "AuthModeSSO \<equiv> ''sso''"
abbreviation AuthModeBoth :: AuthMode where "AuthModeBoth \<equiv> ''both''"

record UserIdentity =
  ui_ProviderName :: string
  ui_Subject :: string
  ui_UserID :: string
  ui_Email :: string
  ui_DisplayName :: string
  ui_LinkedAt :: time
  ui_LastLoginAt :: "time option"

record IdPProviderDiagnostics =
  ipd_Issuer :: string
  ipd_ClientID :: string
  ipd_RedirectURI :: string
  ipd_Scopes :: "string list"
  ipd_EmailClaim :: string
  ipd_NameClaim :: string
  ipd_GroupsClaim :: string
  ipd_SecretSet :: bool

record IdPProviderSummary =
  ips_Name :: string
  ips_DisplayName :: string
  ips_Status :: string
  ips_Error :: string
  ips_Enabled :: bool
  ips_Diagnostics :: "IdPProviderDiagnostics option"

record AuthSettings =
  as_Mode :: AuthMode
  as_Providers :: "IdPProviderSummary list"

end
