(* ===== verification/Sql.thy ===== *)
theory Sql
  imports Domain
begin

text \<open>
  The SQL that \<open>internal/store/postgres.go\<close> sends, and the schema of \<open>migrations/\<close>: a table is the list
  of its rows in the order they were inserted, a statement a function on tables that gives rows back or
  an error. What a statement means is what the PostgreSQL manual says of its form: constraints are
  checked, a statement that fails changes nothing, \<open>order by\<close> sorts. A statement fails when it breaks a
  constraint, or on the way: the request may be lost, and then nothing happens, or its answer, and then
  the statement was carried out and the program is told of an error all the same (a lost connection, a
  cancelled context). \<open>coll\<close> is the collation's order on texts. Times are read in microseconds, the precision
  a \<open>timestamptz\<close> keeps.
\<close>

section \<open>Errors\<close>

definition unique_violation :: "string \<Rightarrow> go_error" where
  "unique_violation name =
     ErrNew (''ERROR: duplicate key value violates unique constraint '' @ Quote name @ '' (SQLSTATE 23505)'')"

definition reference_violation :: "string \<Rightarrow> string \<Rightarrow> go_error" where
  "reference_violation tbl name =
     ErrNew (''ERROR: insert or update on table '' @ Quote tbl @ '' violates foreign key constraint '' @ Quote name @ '' (SQLSTATE 23503)'')"

definition out_of_range :: go_error where
  "out_of_range = ErrNew ''ERROR: bigint out of range (SQLSTATE 22003)''"

abbreviation ErrNoRows :: go_error where "ErrNoRows \<equiv> ErrNew ''sql: no rows in result set''"

text \<open>\<open>strings.Contains(err.Error(), "duplicate key") || strings.Contains(err.Error(), "unique constraint")\<close>\<close>

definition is_duplicate :: "go_error \<Rightarrow> bool" where
  "is_duplicate err \<longleftrightarrow> Contains (error_text err) ''duplicate key'' \<or> Contains (error_text err) ''unique constraint''"

lemma duplicate_unique [simp]: "is_duplicate (unique_violation name)"
proof -
  have "error_text (unique_violation name) = ''ERROR: '' @ ''duplicate key'' @
      '' value violates unique constraint '' @ Quote name @ '' (SQLSTATE 23505)''"
    by (simp add: unique_violation_def)
  then show ?thesis unfolding is_duplicate_def Contains_iff by blast
qed

section \<open>Statements\<close>

text \<open>A statement sent over a connection: it is delivered and answered, or the program gets an error from
  the transport and the statement was not sent, or was carried out and its answer lost.\<close>

datatype wire = Delivered | NotSent go_error | Unanswered go_error

definition sent :: "wire \<Rightarrow> 's \<Rightarrow> ('s \<Rightarrow> 's \<times> 'a result) \<Rightarrow> 's \<times> 'a result" where
  "sent w s f =
     (case w of Delivered \<Rightarrow> f s | NotSent err \<Rightarrow> (s, Inl err) | Unanswered err \<Rightarrow> (fst (f s), Inl err))"

text \<open>For a query or the begin of a transaction only the error matters.\<close>

fun lost :: "wire \<Rightarrow> ctx" where
  "lost Delivered = None"
| "lost (NotSent err) = Some err"
| "lost (Unanswered err) = Some err"

definition asked :: "ctx \<Rightarrow> 'a result \<Rightarrow> 'a result" where
  "asked cx r = (case cx of Some err \<Rightarrow> Inl err | None \<Rightarrow> r)"

text \<open>\<open>QueryRow(...).Scan(...)\<close>: the first row.\<close>

definition one_row :: "'r list \<Rightarrow> 'r result" where
  "one_row rows = (case rows of [] \<Rightarrow> Inl ErrNoRows | row # rest \<Rightarrow> Inr row)"

text \<open>\<open>insert\<close>: \<open>uniques\<close> are the table's keys with their constraints' names, in the order they are
  checked, \<open>references\<close> the foreign keys the row must meet.\<close>

fun broken_unique :: "(string \<times> ('r \<Rightarrow> 'r \<Rightarrow> bool)) list \<Rightarrow> 'r \<Rightarrow> 'r list \<Rightarrow> go_error option" where
  "broken_unique [] row t = None"
| "broken_unique ((name, same) # uniques) row t =
     (if list_ex (same row) t then Some (unique_violation name) else broken_unique uniques row t)"

fun broken_reference :: "(bool \<times> string \<times> string) list \<Rightarrow> go_error option" where
  "broken_reference [] = None"
| "broken_reference ((ok, tbl, name) # references) =
     (if ok then broken_reference references else Some (reference_violation tbl name))"

definition insert_row ::
  "(string \<times> ('r \<Rightarrow> 'r \<Rightarrow> bool)) list \<Rightarrow> (bool \<times> string \<times> string) list \<Rightarrow> 'r \<Rightarrow> 'r list \<Rightarrow> 'r list \<times> 'r result" where
  "insert_row uniques references row t =
     (case broken_unique uniques row t of
        Some err \<Rightarrow> (t, Inl err)
      | None \<Rightarrow> (case broken_reference references of Some err \<Rightarrow> (t, Inl err) | None \<Rightarrow> (t @ [row], Inr row)))"

text \<open>\<open>update ... where ... returning\<close> and \<open>delete ... where\<close> with the number of rows affected.\<close>

definition change_rows :: "('r \<Rightarrow> bool) \<Rightarrow> ('r \<Rightarrow> 'r) \<Rightarrow> 'r list \<Rightarrow> 'r list" where
  "change_rows P f t = map (\<lambda>row. if P row then f row else row) t"

definition update_rows :: "('r \<Rightarrow> bool) \<Rightarrow> ('r \<Rightarrow> 'r) \<Rightarrow> 'r list \<Rightarrow> 'r list \<times> 'r list" where
  "update_rows P f t = (change_rows P f t, map f (filter P t))"

definition delete_rows :: "('r \<Rightarrow> bool) \<Rightarrow> 'r list \<Rightarrow> 'r list \<times> nat" where
  "delete_rows P t = (filter (\<lambda>row. \<not> P row) t, length (filter P t))"

text \<open>\<open>insert ... on conflict (key) do update set ... returning\<close>: the row in conflict is updated, and
  without one the row is inserted under the other constraints.\<close>

definition upsert_row ::
  "('r \<Rightarrow> 'r \<Rightarrow> bool) \<Rightarrow> ('r \<Rightarrow> 'r result) \<Rightarrow> (string \<times> ('r \<Rightarrow> 'r \<Rightarrow> bool)) list \<Rightarrow> (bool \<times> string \<times> string) list \<Rightarrow> 'r \<Rightarrow> 'r list
     \<Rightarrow> 'r list \<times> 'r result" where
  "upsert_row same change uniques references row t =
     (case find (same row) t of
        Some old \<Rightarrow>
          (case change old of Inl err \<Rightarrow> (t, Inl err) | Inr new \<Rightarrow> (change_rows (same row) (\<lambda>r. new) t, Inr new))
      | None \<Rightarrow> insert_row uniques references row t)"

text \<open>\<open>revision + 1\<close> of a \<open>bigint\<close>, and \<open>coalesce(nullif(n, 0), 1)\<close>.\<close>

definition bigint_succ :: "int \<Rightarrow> int result" where
  "bigint_succ n = (if n = 2 ^ 63 - 1 then Inl out_of_range else Inr (n + 1))"

definition or_one :: "int \<Rightarrow> int" where
  "or_one n = (if n = 0 then 1 else n)"

text \<open>\<open>like\<close>: \<open>%\<close> stands for any text, \<open>_\<close> for one character, a backslash takes the next one as it is.\<close>

fun like :: "string \<Rightarrow> string \<Rightarrow> bool" where
  "like [] [] = True"
| "like [] (d # s) = False"
| "like (c # p) [] = (c = CHR ''%'' \<and> like p [])"
| "like (c # p) (d # s) =
     (if c = CHR ''%'' then like p (d # s) \<or> like (c # p) s
      else if c = CHR ''_'' then like p s
      else if c = CHR 0x5C then (case p of [] \<Rightarrow> False | e # p' \<Rightarrow> e = d \<and> like p' s)
      else c = d \<and> like p s)"

definition literal :: "char \<Rightarrow> bool" where
  "literal c \<longleftrightarrow> c \<noteq> CHR ''%'' \<and> c \<noteq> CHR ''_'' \<and> c \<noteq> CHR 0x5C"

lemma like_any: "like [CHR ''%''] s"
  by (induction s) auto

lemma like_prefix: "list_all literal p \<Longrightarrow> like (p @ [CHR ''%'']) s \<longleftrightarrow> prefix p s"
proof (induction p arbitrary: s)
  case Nil
  then show ?case by (simp add: like_any)
next
  case (Cons c p)
  then show ?case by (cases s) (auto simp: literal_def)
qed

section \<open>Facts\<close>

lemma sent_simps [simp]:
  "sent Delivered s f = f s" "sent (NotSent e) s f = (s, Inl e)" "sent (Unanswered e) s f = (fst (f s), Inl e)"
  by (simp_all add: sent_def)

lemma asked_simps [simp]: "asked (Some e) r = Inl e" "asked None r = r"
  by (simp_all add: asked_def)

lemma one_row_simps [simp]: "one_row [] = Inl ErrNoRows" "one_row (r # rs) = Inr r"
  by (simp_all add: one_row_def)

end
