(* ===== verification/MemStore.thy ===== *)
theory MemStore
  imports Domain
begin

text \<open>
  The in-memory store, \<open>type Memory\<close> of \<open>internal/store/store.go\<close>: its state as a record, one
  definition per method. A method takes the state last and returns the new state and the
  method's result; a method that only reads returns the result alone. Each method holds the
  store's mutex from its first access to its return, so it is one atomic step. \<open>now\<close> is the
  instant \<open>time.Now\<close> gives it, \<open>r\<close> the random bytes of \<open>newID\<close>.
\<close>

record Memory =
  m_users :: "User list"
  m_passwordHashes :: "string \<rightharpoonup> string"
  m_agents :: "Agent list"
  m_llmModels :: "LLMModel list"
  m_gatewayEnabled :: bool
  m_gatewayBaseURL :: string
  m_gatewaySecret :: string
  m_gatewayKey :: string
  m_gatewayUpdated :: time
  m_integrations :: "IntegrationConnection list"
  m_agentIntegrations :: "AgentIntegration list"
  m_pluginManifests :: "string \<rightharpoonup> PluginManifest"
  m_userIdentities :: "UserIdentity list"
  m_appSettings :: "string \<rightharpoonup> string"

definition NewMemory :: Memory where
  "NewMemory = \<lparr>m_users = [], m_passwordHashes = Map.empty, m_agents = [], m_llmModels = [],
     m_gatewayEnabled = False, m_gatewayBaseURL = [], m_gatewaySecret = [], m_gatewayKey = [],
     m_gatewayUpdated = 0, m_integrations = [], m_agentIntegrations = [],
     m_pluginManifests = Map.empty, m_userIdentities = [],
     m_appSettings = [''auth.mode'' \<mapsto> ''local'']\<rparr>"

definition newID :: "rnd \<Rightarrow> string result" where
  "newID r = random_hex r"

text \<open>\<open>for _, x := range xs { if P(x) { return x, nil } }; return ErrNotFound\<close>\<close>

definition find_or_not_found :: "ctx \<Rightarrow> ('a \<Rightarrow> bool) \<Rightarrow> 'a list \<Rightarrow> 'a result" where
  "find_or_not_found cx P xs =
     (case cx of Some err \<Rightarrow> Inl err
      | None \<Rightarrow> (case find P xs of None \<Rightarrow> Inl ErrNotFound | Some x \<Rightarrow> Inr x))"

section \<open>Users\<close>

definition CreateUser ::
  "ctx \<Rightarrow> time \<Rightarrow> rnd \<Rightarrow> string \<Rightarrow> string \<Rightarrow> string \<Rightarrow> Memory \<Rightarrow> Memory \<times> User result" where
  "CreateUser cx now r username passwordHash role m =
     (case cx of
        Some err \<Rightarrow> (m, Inl err)
      | None \<Rightarrow>
          if \<exists>u\<in>set (m_users m). u_Username u = username then (m, Inl ErrConflict)
          else
            (case newID r of
               Inl err \<Rightarrow> (m, Inl err)
             | Inr ident \<Rightarrow>
                 let user = \<lparr>u_ID = ident, u_Username = username, u_Role = role,
                             u_Disabled = False, u_CreatedAt = now, u_UpdatedAt = now\<rparr>;
                     m1 = m\<lparr>m_users := m_users m @ [user]\<rparr>;
                     m2 = (if passwordHash \<noteq> []
                           then m1\<lparr>m_passwordHashes := (m_passwordHashes m)(username \<mapsto> passwordHash)\<rparr>
                           else m1)
                 in (m2, Inr user)))"

definition GetUser :: "ctx \<Rightarrow> string \<Rightarrow> Memory \<Rightarrow> User result" where
  "GetUser cx userID m = find_or_not_found cx (\<lambda>u. u_ID u = userID) (m_users m)"

definition GetUserByUsername :: "ctx \<Rightarrow> string \<Rightarrow> Memory \<Rightarrow> User result" where
  "GetUserByUsername cx username m = find_or_not_found cx (\<lambda>u. u_Username u = username) (m_users m)"

definition ListUsers :: "ctx \<Rightarrow> Memory \<Rightarrow> User list result" where
  "ListUsers cx m = (case cx of Some err \<Rightarrow> Inl err | None \<Rightarrow> Inr (m_users m))"

definition UpdateUser ::
  "ctx \<Rightarrow> time \<Rightarrow> string \<Rightarrow> bool option \<Rightarrow> string option \<Rightarrow> Memory \<Rightarrow> Memory \<times> User result" where
  "UpdateUser cx now userID disabled role m =
     (case cx of
        Some err \<Rightarrow> (m, Inl err)
      | None \<Rightarrow>
          (case update_first (\<lambda>u. u_ID u = userID)
                  (\<lambda>u. u\<lparr>u_Disabled := (case disabled of Some d \<Rightarrow> d | None \<Rightarrow> u_Disabled u),
                         u_Role := (case role of Some x \<Rightarrow> x | None \<Rightarrow> u_Role u),
                         u_UpdatedAt := now\<rparr>)
                  (m_users m) of
             None \<Rightarrow> (m, Inl ErrNotFound)
           | Some (u, us) \<Rightarrow> (m\<lparr>m_users := us\<rparr>, Inr u)))"

definition GetPasswordHash :: "string \<Rightarrow> Memory \<Rightarrow> string result" where
  "GetPasswordHash username m =
     (case m_passwordHashes m username of None \<Rightarrow> Inl ErrNotFound | Some h \<Rightarrow> Inr h)"

definition SetPasswordHash :: "string \<Rightarrow> string \<Rightarrow> Memory \<Rightarrow> Memory" where
  "SetPasswordHash username hash m =
     m\<lparr>m_passwordHashes := (m_passwordHashes m)(username \<mapsto> hash)\<rparr>"

section \<open>Agents\<close>

definition CreateAgent ::
  "ctx \<Rightarrow> time \<Rightarrow> rnd \<Rightarrow> string \<Rightarrow> string \<Rightarrow> string \<Rightarrow> string \<Rightarrow> string \<Rightarrow> string \<Rightarrow> Memory
     \<Rightarrow> Memory \<times> Agent result" where
  "CreateAgent cx now r ownerUserID name description runtime model systemPrompt m =
     (case cx of
        Some err \<Rightarrow> (m, Inl err)
      | None \<Rightarrow>
          (case newID r of
             Inl err \<Rightarrow> (m, Inl err)
           | Inr ident \<Rightarrow>
               let agent = \<lparr>a_ID = ident, a_OwnerUserID = ownerUserID, a_Name = name,
                            a_Description = description, a_Runtime = runtime, a_Model = model,
                            a_SystemPrompt = systemPrompt, a_State = ''idle'', a_LastError = [],
                            a_CreatedAt = now, a_UpdatedAt = now\<rparr>
               in (m\<lparr>m_agents := m_agents m @ [agent]\<rparr>, Inr agent)))"

definition GetAgent :: "ctx \<Rightarrow> string \<Rightarrow> Memory \<Rightarrow> Agent result" where
  "GetAgent cx agentID m = find_or_not_found cx (\<lambda>a. a_ID a = agentID) (m_agents m)"

definition ListAgents :: "ctx \<Rightarrow> string \<Rightarrow> Memory \<Rightarrow> Agent list result" where
  "ListAgents cx ownerUserID m =
     (case cx of Some err \<Rightarrow> Inl err
      | None \<Rightarrow> Inr (filter (\<lambda>a. a_OwnerUserID a = ownerUserID) (m_agents m)))"

definition UpdateAgentState :: "ctx \<Rightarrow> time \<Rightarrow> string \<Rightarrow> string \<Rightarrow> Memory \<Rightarrow> Memory \<times> Agent result" where
  "UpdateAgentState cx now agentID state m =
     (case cx of
        Some err \<Rightarrow> (m, Inl err)
      | None \<Rightarrow>
          (case update_first (\<lambda>a. a_ID a = agentID)
                  (\<lambda>a. a\<lparr>a_State := state, a_UpdatedAt := now\<rparr>) (m_agents m) of
             None \<Rightarrow> (m, Inl ErrNotFound)
           | Some (a, as) \<Rightarrow> (m\<lparr>m_agents := as\<rparr>, Inr a)))"

definition UpdateAgentError :: "ctx \<Rightarrow> time \<Rightarrow> string \<Rightarrow> string \<Rightarrow> Memory \<Rightarrow> Memory \<times> Agent result" where
  "UpdateAgentError cx now agentID lastError m =
     (case cx of
        Some err \<Rightarrow> (m, Inl err)
      | None \<Rightarrow>
          (case update_first (\<lambda>a. a_ID a = agentID)
                  (\<lambda>a. a\<lparr>a_LastError := lastError, a_UpdatedAt := now\<rparr>) (m_agents m) of
             None \<Rightarrow> (m, Inl ErrNotFound)
           | Some (a, as) \<Rightarrow> (m\<lparr>m_agents := as\<rparr>, Inr a)))"

definition DeleteAgent :: "ctx \<Rightarrow> string \<Rightarrow> Memory \<Rightarrow> Memory \<times> unit result" where
  "DeleteAgent cx agentID m =
     (case cx of
        Some err \<Rightarrow> (m, Inl err)
      | None \<Rightarrow>
          (case remove_first (\<lambda>a. a_ID a = agentID) (m_agents m) of
             None \<Rightarrow> (m, Inl ErrNotFound)
           | Some as \<Rightarrow>
               (m\<lparr>m_agents := as,
                  m_agentIntegrations := filter (\<lambda>ai. ai_AgentID ai \<noteq> agentID) (m_agentIntegrations m)\<rparr>,
                Inr ())))"

section \<open>LLM models and the gateway\<close>

definition CreateLLMModel ::
  "ctx \<Rightarrow> time \<Rightarrow> rnd \<Rightarrow> string \<Rightarrow> string \<Rightarrow> bool \<Rightarrow> Memory \<Rightarrow> Memory \<times> LLMModel result" where
  "CreateLLMModel cx now r displayName providerModel enabled m =
     (case cx of
        Some err \<Rightarrow> (m, Inl err)
      | None \<Rightarrow>
          (case newID r of
             Inl err \<Rightarrow> (m, Inl err)
           | Inr ident \<Rightarrow>
               let model = \<lparr>lm_ID = ident, lm_DisplayName = displayName,
                            lm_ProviderModel = providerModel, lm_Enabled = enabled,
                            lm_CreatedAt = now, lm_UpdatedAt = now\<rparr>
               in (m\<lparr>m_llmModels := m_llmModels m @ [model]\<rparr>, Inr model)))"

definition GetLLMModel :: "ctx \<Rightarrow> string \<Rightarrow> Memory \<Rightarrow> LLMModel result" where
  "GetLLMModel cx modelID m = find_or_not_found cx (\<lambda>x. lm_ID x = modelID) (m_llmModels m)"

definition ListLLMModels :: "ctx \<Rightarrow> Memory \<Rightarrow> LLMModel list result" where
  "ListLLMModels cx m = (case cx of Some err \<Rightarrow> Inl err | None \<Rightarrow> Inr (m_llmModels m))"

definition UpdateLLMModel ::
  "ctx \<Rightarrow> time \<Rightarrow> string \<Rightarrow> string option \<Rightarrow> string option \<Rightarrow> bool option \<Rightarrow> Memory
     \<Rightarrow> Memory \<times> LLMModel result" where
  "UpdateLLMModel cx now modelID displayName providerModel enabled m =
     (case cx of
        Some err \<Rightarrow> (m, Inl err)
      | None \<Rightarrow>
          (case update_first (\<lambda>x. lm_ID x = modelID)
                  (\<lambda>x. x\<lparr>lm_DisplayName := (case displayName of Some d \<Rightarrow> d | None \<Rightarrow> lm_DisplayName x),
                         lm_ProviderModel := (case providerModel of Some p \<Rightarrow> p | None \<Rightarrow> lm_ProviderModel x),
                         lm_Enabled := (case enabled of Some e \<Rightarrow> e | None \<Rightarrow> lm_Enabled x),
                         lm_UpdatedAt := now\<rparr>)
                  (m_llmModels m) of
             None \<Rightarrow> (m, Inl ErrNotFound)
           | Some (x, xs) \<Rightarrow> (m\<lparr>m_llmModels := xs\<rparr>, Inr x)))"

definition GetLLMGatewaySettings :: "ctx \<Rightarrow> Memory \<Rightarrow> LLMGatewaySettings result" where
  "GetLLMGatewaySettings cx m =
     (case cx of
        Some err \<Rightarrow> Inl err
      | None \<Rightarrow> Inr \<lparr>gs_Enabled = m_gatewayEnabled m, gs_BaseURL = m_gatewayBaseURL m,
                      gs_SecretName = m_gatewaySecret m, gs_SecretKey = m_gatewayKey m,
                      gs_UpdatedAt = m_gatewayUpdated m\<rparr>)"

definition UpsertLLMGatewaySettings ::
  "ctx \<Rightarrow> time \<Rightarrow> bool \<Rightarrow> string \<Rightarrow> string \<Rightarrow> string \<Rightarrow> Memory \<Rightarrow> Memory \<times> LLMGatewaySettings result" where
  "UpsertLLMGatewaySettings cx now enabled baseURL secretName secretKey m =
     (case cx of
        Some err \<Rightarrow> (m, Inl err)
      | None \<Rightarrow>
          let m1 = m\<lparr>m_gatewayEnabled := enabled, m_gatewayBaseURL := baseURL,
                     m_gatewaySecret := secretName, m_gatewayKey := secretKey,
                     m_gatewayUpdated := now\<rparr>
          in (m1, Inr \<lparr>gs_Enabled = m_gatewayEnabled m1, gs_BaseURL = m_gatewayBaseURL m1,
                       gs_SecretName = m_gatewaySecret m1, gs_SecretKey = m_gatewayKey m1,
                       gs_UpdatedAt = m_gatewayUpdated m1\<rparr>))"

section \<open>Integrations\<close>

text \<open>The scope a connection gets when the caller names none, the update of a stored connection, and
  a connection stored for the first time.\<close>

definition default_scope :: "IntegrationConnection \<Rightarrow> IntegrationConnection" where
  "default_scope connection =
     (let c1 = (if ic_Scope connection = [] then connection\<lparr>ic_Scope := ''user''\<rparr> else connection)
      in if ic_ScopeID c1 = [] then c1\<lparr>ic_ScopeID := ic_UserID c1\<rparr> else c1)"

definition refresh_connection :: "time \<Rightarrow> IntegrationConnection \<Rightarrow> IntegrationConnection \<Rightarrow> IntegrationConnection" where
  "refresh_connection now connection c =
     c\<lparr>ic_ExternalAccountID := ic_ExternalAccountID connection,
       ic_ExternalLogin := ic_ExternalLogin connection,
       ic_AccountType := ic_AccountType connection,
       ic_Status := ic_Status connection,
       ic_Secret := ic_Secret connection,
       ic_Scope := ic_Scope connection,
       ic_ScopeID := ic_ScopeID connection,
       ic_Revision := (let revision = inc64 (ic_Revision c)
                       in if ic_Revision connection > revision then ic_Revision connection else revision),
       ic_UpdatedAt := now\<rparr>"

definition first_connection :: "time \<Rightarrow> IntegrationConnection \<Rightarrow> IntegrationConnection" where
  "first_connection now connection =
     connection\<lparr>ic_Revision := (if ic_Revision connection = 0 then 1 else ic_Revision connection),
       ic_CreatedAt := now, ic_UpdatedAt := now\<rparr>"

definition UpsertIntegrationConnection ::
  "ctx \<Rightarrow> time \<Rightarrow> IntegrationConnection \<Rightarrow> Memory \<Rightarrow> Memory \<times> IntegrationConnection result" where
  "UpsertIntegrationConnection cx now connection m =
     (case cx of
        Some err \<Rightarrow> (m, Inl err)
      | None \<Rightarrow>
          let conn = default_scope connection in
            (case update_first (\<lambda>c. ic_ProviderID c = ic_ProviderID conn \<and> ic_UserID c = ic_UserID conn)
                    (refresh_connection now conn) (m_integrations m) of
               Some (c, cs) \<Rightarrow> (m\<lparr>m_integrations := cs\<rparr>, Inr c)
             | None \<Rightarrow>
                 let stored = first_connection now conn
                 in (m\<lparr>m_integrations := m_integrations m @ [stored]\<rparr>, Inr stored)))"

lemma default_scope_simps [simp]:
  "ic_ProviderID (default_scope c) = ic_ProviderID c"
  "ic_UserID (default_scope c) = ic_UserID c"
  "ic_Secret (default_scope c) = ic_Secret c"
  "ic_Status (default_scope c) = ic_Status c"
  "ic_Revision (default_scope c) = ic_Revision c"
  "ic_Scope (default_scope c) \<noteq> []"
  by (simp_all add: default_scope_def Let_def)

lemma refresh_connection_simps [simp]:
  "ic_ProviderID (refresh_connection now d c) = ic_ProviderID c"
  "ic_UserID (refresh_connection now d c) = ic_UserID c"
  "ic_Secret (refresh_connection now d c) = ic_Secret d"
  "ic_Status (refresh_connection now d c) = ic_Status d"
  "ic_Scope (refresh_connection now d c) = ic_Scope d"
  "ic_CreatedAt (refresh_connection now d c) = ic_CreatedAt c"
  by (simp_all add: refresh_connection_def)

lemma first_connection_simps [simp]:
  "ic_ProviderID (first_connection now d) = ic_ProviderID d"
  "ic_UserID (first_connection now d) = ic_UserID d"
  "ic_Secret (first_connection now d) = ic_Secret d"
  "ic_Status (first_connection now d) = ic_Status d"
  "ic_Scope (first_connection now d) = ic_Scope d"
  by (simp_all add: first_connection_def)

definition GetIntegrationConnection ::
  "ctx \<Rightarrow> string \<Rightarrow> string \<Rightarrow> Memory \<Rightarrow> IntegrationConnection result" where
  "GetIntegrationConnection cx userID providerID m =
     find_or_not_found cx (\<lambda>c. ic_UserID c = userID \<and> ic_ProviderID c = providerID) (m_integrations m)"

text \<open>The \<open>seen\<close> set keeps the first occurrence of each provider id.\<close>

fun first_seen :: "string set \<Rightarrow> string list \<Rightarrow> string list" where
  "first_seen seen [] = []"
| "first_seen seen (p # ps) =
     (if p \<in> seen then first_seen seen ps else p # first_seen (insert p seen) ps)"

definition ListUserIntegrationProviderIDs :: "ctx \<Rightarrow> string \<Rightarrow> Memory \<Rightarrow> string list result" where
  "ListUserIntegrationProviderIDs cx userID m =
     (case cx of
        Some err \<Rightarrow> Inl err
      | None \<Rightarrow>
          Inr (first_seen {}
                (map ic_ProviderID
                  (filter (\<lambda>c. ic_UserID c = userID \<and> (ic_Scope c = [] \<or> ic_Scope c = ''user''))
                    (m_integrations m)))))"

definition DeleteIntegrationConnection ::
  "ctx \<Rightarrow> string \<Rightarrow> string \<Rightarrow> Memory \<Rightarrow> Memory \<times> unit result" where
  "DeleteIntegrationConnection cx userID providerID m =
     (case cx of
        Some err \<Rightarrow> (m, Inl err)
      | None \<Rightarrow>
          (case remove_first (\<lambda>c. ic_UserID c = userID \<and> ic_ProviderID c = providerID) (m_integrations m) of
             None \<Rightarrow> (m, Inl ErrNotFound)
           | Some cs \<Rightarrow>
               (m\<lparr>m_integrations := cs,
                  m_agentIntegrations :=
                    filter (\<lambda>ai. ai_ProviderID ai \<noteq> providerID) (m_agentIntegrations m)\<rparr>,
                Inr ())))"

definition UpsertAgentIntegration ::
  "ctx \<Rightarrow> time \<Rightarrow> string \<Rightarrow> string \<Rightarrow> bool \<Rightarrow> int \<Rightarrow> string \<Rightarrow> Memory \<Rightarrow> Memory \<times> AgentIntegration result" where
  "UpsertAgentIntegration cx now agentID providerID enabled revision status m =
     (case cx of
        Some err \<Rightarrow> (m, Inl err)
      | None \<Rightarrow>
          (case update_first (\<lambda>ai. ai_AgentID ai = agentID \<and> ai_ProviderID ai = providerID)
                  (\<lambda>ai. ai\<lparr>ai_Enabled := enabled,
                           ai_Revision := (let newRevision = inc64 (ai_Revision ai)
                                           in if revision > newRevision then revision else newRevision),
                           ai_Status := status,
                           ai_UpdatedAt := now\<rparr>)
                  (m_agentIntegrations m) of
             Some (ai, ais) \<Rightarrow> (m\<lparr>m_agentIntegrations := ais\<rparr>, Inr ai)
           | None \<Rightarrow>
               let ai = \<lparr>ai_AgentID = agentID, ai_ProviderID = providerID, ai_Enabled = enabled,
                         ai_Revision = 1, ai_Status = status, ai_UpdatedAt = now, ai_CreatedAt = now\<rparr>
               in (m\<lparr>m_agentIntegrations := m_agentIntegrations m @ [ai]\<rparr>, Inr ai)))"

definition ListAgentIntegrations :: "ctx \<Rightarrow> string \<Rightarrow> Memory \<Rightarrow> AgentIntegration list result" where
  "ListAgentIntegrations cx agentID m =
     (case cx of Some err \<Rightarrow> Inl err
      | None \<Rightarrow> Inr (filter (\<lambda>ai. ai_AgentID ai = agentID) (m_agentIntegrations m)))"

definition GetAgentIntegration :: "ctx \<Rightarrow> string \<Rightarrow> string \<Rightarrow> Memory \<Rightarrow> AgentIntegration result" where
  "GetAgentIntegration cx agentID providerID m =
     find_or_not_found cx (\<lambda>ai. ai_AgentID ai = agentID \<and> ai_ProviderID ai = providerID)
       (m_agentIntegrations m)"

section \<open>Plugin manifests\<close>

text \<open>\<open>ks\<close> is the order in which \<open>range\<close> visits the map (\<open>range_order\<close>).\<close>

definition ListPluginManifests ::
  "ctx \<Rightarrow> string list \<Rightarrow> bool \<Rightarrow> Memory \<Rightarrow> PluginManifest list result" where
  "ListPluginManifests cx ks enabledOnly m =
     (case cx of
        Some err \<Rightarrow> Inl err
      | None \<Rightarrow> Inr (filter (\<lambda>pm. \<not> (enabledOnly \<and> \<not> pm_Enabled pm))
                       (range_values (m_pluginManifests m) ks)))"

definition GetPluginManifest :: "ctx \<Rightarrow> string \<Rightarrow> Memory \<Rightarrow> PluginManifest result" where
  "GetPluginManifest cx ident m =
     (case cx of
        Some err \<Rightarrow> Inl err
      | None \<Rightarrow> (case m_pluginManifests m ident of None \<Rightarrow> Inl ErrNotFound | Some pm \<Rightarrow> Inr pm))"

definition UpsertPluginManifest ::
  "ctx \<Rightarrow> time \<Rightarrow> PluginManifest \<Rightarrow> Memory \<Rightarrow> Memory \<times> PluginManifest result" where
  "UpsertPluginManifest cx now manifest m =
     (case cx of
        Some err \<Rightarrow> (m, Inl err)
      | None \<Rightarrow>
          (case m_pluginManifests m (pm_ID manifest) of
             Some existing \<Rightarrow>
               let e1 = existing\<lparr>pm_YAML := pm_YAML manifest, pm_Enabled := pm_Enabled manifest,
                                 pm_Revision := inc64 (pm_Revision existing), pm_UpdatedAt := now\<rparr>
               in (m\<lparr>m_pluginManifests := (m_pluginManifests m)(pm_ID manifest \<mapsto> e1)\<rparr>, Inr e1)
           | None \<Rightarrow>
               let m1 = manifest\<lparr>pm_Revision := 1, pm_CreatedAt := now, pm_UpdatedAt := now\<rparr>
               in (m\<lparr>m_pluginManifests := (m_pluginManifests m)(pm_ID manifest \<mapsto> m1)\<rparr>, Inr m1)))"

definition DeletePluginManifest :: "ctx \<Rightarrow> string \<Rightarrow> Memory \<Rightarrow> Memory \<times> unit result" where
  "DeletePluginManifest cx ident m =
     (case cx of
        Some err \<Rightarrow> (m, Inl err)
      | None \<Rightarrow>
          (case m_pluginManifests m ident of
             None \<Rightarrow> (m, Inl ErrNotFound)
           | Some _ \<Rightarrow> (m\<lparr>m_pluginManifests := (m_pluginManifests m)(ident := None)\<rparr>, Inr ())))"

section \<open>Bootstrap\<close>

definition BootstrapAdmin :: "ctx \<Rightarrow> time \<Rightarrow> rnd \<Rightarrow> string \<Rightarrow> string \<Rightarrow> Memory \<Rightarrow> Memory \<times> unit result" where
  "BootstrapAdmin cx now r username passwordHash m =
     (case cx of
        Some err \<Rightarrow> (m, Inl err)
      | None \<Rightarrow>
          let set_hash = (\<lambda>m'. if passwordHash \<noteq> []
                           then m'\<lparr>m_passwordHashes := (m_passwordHashes m')(username \<mapsto> passwordHash)\<rparr>
                           else m')
          in
            (case update_first (\<lambda>u. u_Username u = username)
                    (\<lambda>u. u\<lparr>u_Disabled := False, u_Role := ''admin'', u_UpdatedAt := now\<rparr>) (m_users m) of
               Some (u, us) \<Rightarrow> (set_hash (m\<lparr>m_users := us\<rparr>), Inr ())
             | None \<Rightarrow>
                 (case newID r of
                    Inl err \<Rightarrow> (m, Inl err)
                  | Inr ident \<Rightarrow>
                      (set_hash (m\<lparr>m_users := m_users m @
                          [\<lparr>u_ID = ident, u_Username = username, u_Role = ''admin'',
                            u_Disabled = False, u_CreatedAt = now, u_UpdatedAt = now\<rparr>]\<rparr>),
                       Inr ()))))"

section \<open>User identities\<close>

definition is_identity :: "string \<Rightarrow> string \<Rightarrow> UserIdentity \<Rightarrow> bool" where
  "is_identity providerName subject i \<longleftrightarrow> ui_ProviderName i = providerName \<and> ui_Subject i = subject"

text \<open>\<open>("", false, nil)\<close> when there is no such identity is \<open>Inr None\<close>.\<close>

definition GetUserIDByIdentity :: "ctx \<Rightarrow> string \<Rightarrow> string \<Rightarrow> Memory \<Rightarrow> string option result" where
  "GetUserIDByIdentity cx providerName subject m =
     (case cx of
        Some err \<Rightarrow> Inl err
      | None \<Rightarrow> Inr (map_option ui_UserID (find (is_identity providerName subject) (m_userIdentities m))))"

definition TouchIdentityLogin :: "ctx \<Rightarrow> time \<Rightarrow> string \<Rightarrow> string \<Rightarrow> Memory \<Rightarrow> Memory \<times> unit result" where
  "TouchIdentityLogin cx now providerName subject m =
     (case cx of
        Some err \<Rightarrow> (m, Inl err)
      | None \<Rightarrow>
          (case update_first (is_identity providerName subject) (\<lambda>i. i\<lparr>ui_LastLoginAt := Some now\<rparr>)
                  (m_userIdentities m) of
             None \<Rightarrow> (m, Inl ErrNotFound)
           | Some (i, is) \<Rightarrow> (m\<lparr>m_userIdentities := is\<rparr>, Inr ())))"

record CreateUserAndIdentityArgs =
  cui_Username :: string
  cui_Role :: string
  cui_ProviderName :: string
  cui_Subject :: string
  cui_Email :: string
  cui_DisplayName :: string

definition CreateUserAndIdentity ::
  "ctx \<Rightarrow> time \<Rightarrow> rnd \<Rightarrow> CreateUserAndIdentityArgs \<Rightarrow> Memory \<Rightarrow> Memory \<times> User result" where
  "CreateUserAndIdentity cx now r args m =
     (case cx of
        Some err \<Rightarrow> (m, Inl err)
      | None \<Rightarrow>
          if \<exists>u\<in>set (m_users m). u_Username u = cui_Username args then (m, Inl ErrConflict)
          else if \<exists>i\<in>set (m_userIdentities m). is_identity (cui_ProviderName args) (cui_Subject args) i
          then (m, Inl ErrConflict)
          else
            (case newID r of
               Inl err \<Rightarrow> (m, Inl err)
             | Inr userID \<Rightarrow>
                 let user = \<lparr>u_ID = userID, u_Username = cui_Username args, u_Role = cui_Role args,
                             u_Disabled = False, u_CreatedAt = now, u_UpdatedAt = now\<rparr>;
                     ident = \<lparr>ui_ProviderName = cui_ProviderName args, ui_Subject = cui_Subject args,
                              ui_UserID = userID, ui_Email = cui_Email args,
                              ui_DisplayName = cui_DisplayName args, ui_LinkedAt = now,
                              ui_LastLoginAt = None\<rparr>
                 in (m\<lparr>m_users := m_users m @ [user],
                       m_userIdentities := m_userIdentities m @ [ident]\<rparr>, Inr user)))"

definition LinkIdentityToUser ::
  "ctx \<Rightarrow> time \<Rightarrow> string \<Rightarrow> string \<Rightarrow> string \<Rightarrow> string \<Rightarrow> string \<Rightarrow> Memory \<Rightarrow> Memory \<times> unit result" where
  "LinkIdentityToUser cx now userID providerName subject email displayName m =
     (case cx of
        Some err \<Rightarrow> (m, Inl err)
      | None \<Rightarrow>
          if \<not> (\<exists>u\<in>set (m_users m). u_ID u = userID) then (m, Inl ErrNotFound)
          else if \<exists>i\<in>set (m_userIdentities m). is_identity providerName subject i
          then (m, Inl ErrConflict)
          else (m\<lparr>m_userIdentities := m_userIdentities m @
                   [\<lparr>ui_ProviderName = providerName, ui_Subject = subject, ui_UserID = userID,
                     ui_Email = email, ui_DisplayName = displayName, ui_LinkedAt = now,
                     ui_LastLoginAt = None\<rparr>]\<rparr>, Inr ()))"

text \<open>The order of \<open>sort.Slice\<close>: by provider, then by subject.\<close>

definition identity_key :: "UserIdentity \<Rightarrow> string \<times> string" where
  "identity_key i = (ui_ProviderName i, ui_Subject i)"

definition identity_less :: "UserIdentity \<Rightarrow> UserIdentity \<Rightarrow> bool" where
  "identity_less a b =
     (if ui_ProviderName a \<noteq> ui_ProviderName b then ui_ProviderName a < ui_ProviderName b
      else ui_Subject a < ui_Subject b)"

definition ListUserIdentities :: "ctx \<Rightarrow> string \<Rightarrow> Memory \<Rightarrow> UserIdentity list result" where
  "ListUserIdentities cx userID m =
     (case cx of
        Some err \<Rightarrow> Inl err
      | None \<Rightarrow> Inr (sort_slice identity_less (filter (\<lambda>i. ui_UserID i = userID) (m_userIdentities m))))"

definition UnlinkIdentity :: "ctx \<Rightarrow> string \<Rightarrow> string \<Rightarrow> string \<Rightarrow> Memory \<Rightarrow> Memory \<times> unit result" where
  "UnlinkIdentity cx userID providerName subject m =
     (case cx of
        Some err \<Rightarrow> (m, Inl err)
      | None \<Rightarrow>
          (case remove_first (\<lambda>i. ui_UserID i = userID \<and> is_identity providerName subject i)
                  (m_userIdentities m) of
             None \<Rightarrow> (m, Inl ErrNotFound)
           | Some is \<Rightarrow> (m\<lparr>m_userIdentities := is\<rparr>, Inr ())))"

section \<open>Application settings\<close>

text \<open>A missing key reads as the empty string.\<close>

definition GetAppSetting :: "ctx \<Rightarrow> string \<Rightarrow> Memory \<Rightarrow> string result" where
  "GetAppSetting cx key m =
     (case cx of Some err \<Rightarrow> Inl err
      | None \<Rightarrow> Inr (case m_appSettings m key of None \<Rightarrow> [] | Some v \<Rightarrow> v))"

definition SetAppSetting :: "ctx \<Rightarrow> string \<Rightarrow> string \<Rightarrow> Memory \<Rightarrow> Memory \<times> unit result" where
  "SetAppSetting cx key value m =
     (case cx of Some err \<Rightarrow> (m, Inl err)
      | None \<Rightarrow> (m\<lparr>m_appSettings := (m_appSettings m)(key \<mapsto> value)\<rparr>, Inr ()))"

definition ListAppSettings :: "ctx \<Rightarrow> string \<Rightarrow> Memory \<Rightarrow> (string \<rightharpoonup> string) result" where
  "ListAppSettings cx pre m =
     (case cx of Some err \<Rightarrow> Inl err
      | None \<Rightarrow> Inr (\<lambda>k. if pre = [] \<or> HasPrefix k pre then m_appSettings m k else None))"

end
