(* ===== verification/StoreInv.thy ===== *)
theory StoreInv
  imports MemStore
begin

text \<open>
  What the in-memory store keeps true by itself. \<open>store_inv\<close> has the unique keys of its tables (names
  of users, identities, connections, bindings, manifests) and the one reference it keeps without the
  help of its callers, from an identity to its user; every operation preserves it, and failing
  operations change nothing. The references that depend on what the handlers pass to the store are
  \<open>refs_ok\<close> of theory \<open>ApiInv\<close>. The ids of users, agents and models are random draws that are not
  compared with those in use; that they differ is not part of it.
\<close>

section \<open>The invariant\<close>

definition conn_key :: "IntegrationConnection \<Rightarrow> string \<times> string" where
  "conn_key c = (ic_ProviderID c, ic_UserID c)"

definition binding_key :: "AgentIntegration \<Rightarrow> string \<times> string" where
  "binding_key ai = (ai_AgentID ai, ai_ProviderID ai)"

definition users_inv :: "Memory \<Rightarrow> bool" where
  "users_inv m \<longleftrightarrow> distinct (map u_Username (m_users m))"

definition identities_inv :: "Memory \<Rightarrow> bool" where
  "identities_inv m \<longleftrightarrow> distinct (map identity_key (m_userIdentities m)) \<and>
     ui_UserID ` set (m_userIdentities m) \<subseteq> u_ID ` set (m_users m)"

definition connections_inv :: "Memory \<Rightarrow> bool" where
  "connections_inv m \<longleftrightarrow> distinct (map conn_key (m_integrations m)) \<and>
     (\<forall>c\<in>set (m_integrations m). ic_Scope c \<noteq> [])"

definition bindings_inv :: "Memory \<Rightarrow> bool" where
  "bindings_inv m \<longleftrightarrow> distinct (map binding_key (m_agentIntegrations m))"

definition manifests_inv :: "Memory \<Rightarrow> bool" where
  "manifests_inv m \<longleftrightarrow> (\<forall>k pm. m_pluginManifests m k = Some pm \<longrightarrow> pm_ID pm = k)"

definition store_inv :: "Memory \<Rightarrow> bool" where
  "store_inv m \<longleftrightarrow> users_inv m \<and> identities_inv m \<and> connections_inv m \<and> bindings_inv m \<and> manifests_inv m"

lemmas store_inv_defs = store_inv_def users_inv_def identities_inv_def connections_inv_def
  bindings_inv_def manifests_inv_def

lemma store_inv_New: "store_inv NewMemory"
  by (simp add: store_inv_defs NewMemory_def)

section \<open>Every write of the store as one operation\<close>

datatype store_op =
    OpCreateUser rnd string string string
  | OpUpdateUser string "bool option" "string option"
  | OpSetPasswordHash string string
  | OpCreateAgent rnd string string string string string string
  | OpUpdateAgentState string string
  | OpUpdateAgentError string string
  | OpDeleteAgent string
  | OpCreateLLMModel rnd string string bool
  | OpUpdateLLMModel string "string option" "string option" "bool option"
  | OpUpsertLLMGatewaySettings bool string string string
  | OpUpsertIntegrationConnection IntegrationConnection
  | OpDeleteIntegrationConnection string string
  | OpUpsertAgentIntegration string string bool int string
  | OpUpsertPluginManifest PluginManifest
  | OpDeletePluginManifest string
  | OpBootstrapAdmin rnd string string
  | OpTouchIdentityLogin string string
  | OpCreateUserAndIdentity rnd CreateUserAndIdentityArgs
  | OpLinkIdentityToUser string string string string string
  | OpUnlinkIdentity string string string
  | OpSetAppSetting string string

definition err_of :: "'a result \<Rightarrow> go_error option" where
  "err_of r = (case r of Inl e \<Rightarrow> Some e | Inr _ \<Rightarrow> None)"

lemma err_of_simps [simp]: "err_of (Inl e) = Some e" "err_of (Inr x) = None"
  by (simp_all add: err_of_def)

abbreviation forget :: "Memory \<times> 'a result \<Rightarrow> Memory \<times> go_error option" where
  "forget p \<equiv> (fst p, err_of (snd p))"

fun store_step :: "ctx \<Rightarrow> time \<Rightarrow> store_op \<Rightarrow> Memory \<Rightarrow> Memory \<times> go_error option" where
  "store_step cx now (OpCreateUser r n h ro) m = forget (CreateUser cx now r n h ro m)"
| "store_step cx now (OpUpdateUser i d ro) m = forget (UpdateUser cx now i d ro m)"
| "store_step cx now (OpSetPasswordHash n h) m = (SetPasswordHash n h m, None)"
| "store_step cx now (OpCreateAgent r ow n d rt mo sp) m = forget (CreateAgent cx now r ow n d rt mo sp m)"
| "store_step cx now (OpUpdateAgentState i s) m = forget (UpdateAgentState cx now i s m)"
| "store_step cx now (OpUpdateAgentError i s) m = forget (UpdateAgentError cx now i s m)"
| "store_step cx now (OpDeleteAgent i) m = forget (DeleteAgent cx i m)"
| "store_step cx now (OpCreateLLMModel r d p e) m = forget (CreateLLMModel cx now r d p e m)"
| "store_step cx now (OpUpdateLLMModel i d p e) m = forget (UpdateLLMModel cx now i d p e m)"
| "store_step cx now (OpUpsertLLMGatewaySettings e b n k) m = forget (UpsertLLMGatewaySettings cx now e b n k m)"
| "store_step cx now (OpUpsertIntegrationConnection c) m = forget (UpsertIntegrationConnection cx now c m)"
| "store_step cx now (OpDeleteIntegrationConnection u p) m = forget (DeleteIntegrationConnection cx u p m)"
| "store_step cx now (OpUpsertAgentIntegration a p e v s) m = forget (UpsertAgentIntegration cx now a p e v s m)"
| "store_step cx now (OpUpsertPluginManifest pm) m = forget (UpsertPluginManifest cx now pm m)"
| "store_step cx now (OpDeletePluginManifest i) m = forget (DeletePluginManifest cx i m)"
| "store_step cx now (OpBootstrapAdmin r n h) m = forget (BootstrapAdmin cx now r n h m)"
| "store_step cx now (OpTouchIdentityLogin p s) m = forget (TouchIdentityLogin cx now p s m)"
| "store_step cx now (OpCreateUserAndIdentity r a) m = forget (CreateUserAndIdentity cx now r a m)"
| "store_step cx now (OpLinkIdentityToUser u p s e d) m = forget (LinkIdentityToUser cx now u p s e d m)"
| "store_step cx now (OpUnlinkIdentity u p s) m = forget (UnlinkIdentity cx u p s m)"
| "store_step cx now (OpSetAppSetting k v) m = forget (SetAppSetting cx k v m)"

inductive store_reachable :: "Memory \<Rightarrow> bool" where
  start: "store_reachable NewMemory"
| step: "store_reachable m \<Longrightarrow> store_reachable (fst (store_step cx now op m))"

lemmas write_defs = CreateUser_def UpdateUser_def SetPasswordHash_def CreateAgent_def
  UpdateAgentState_def UpdateAgentError_def DeleteAgent_def CreateLLMModel_def UpdateLLMModel_def
  UpsertLLMGatewaySettings_def UpsertIntegrationConnection_def DeleteIntegrationConnection_def
  UpsertAgentIntegration_def UpsertPluginManifest_def DeletePluginManifest_def BootstrapAdmin_def
  TouchIdentityLogin_def CreateUserAndIdentity_def LinkIdentityToUser_def UnlinkIdentity_def
  SetAppSetting_def

lemmas write_splits = option.splits sum.splits prod.splits if_splits

text \<open>A failing operation leaves the store as it was.\<close>

lemma store_step_error: "snd (store_step cx now op m) = Some e \<Longrightarrow> fst (store_step cx now op m) = m"
  by (cases op) (auto simp: write_defs Let_def split: write_splits)

text \<open>A cancelled context stops every operation but \<open>SetPasswordHash\<close>, which ignores it.\<close>

fun takes_ctx :: "store_op \<Rightarrow> bool" where
  "takes_ctx (OpSetPasswordHash n h) = False"
| "takes_ctx op = True"

lemma store_step_ctx: "takes_ctx op \<Longrightarrow> store_step (Some e) now op m = (m, Some e)"
  by (cases op) (simp_all add: write_defs)

section \<open>Preservation\<close>

text \<open>Users are never removed and keep their ids and names.\<close>

abbreviation user_names :: "Memory \<Rightarrow> (string \<times> string) list" where
  "user_names m \<equiv> map (\<lambda>u. (u_ID u, u_Username u)) (m_users m)"

lemma users_grow: "prefix (user_names m) (user_names (fst (store_step cx now op m)))"
  by (cases op) (auto simp: write_defs loop_defs Let_def split: write_splits)

lemma user_ids_grow: "u_ID ` set (m_users m) \<subseteq> u_ID ` set (m_users (fst (store_step cx now op m)))"
proof -
  have "fst ` set (user_names m) \<subseteq> fst ` set (user_names (fst (store_step cx now op m)))"
    by (rule image_mono [OF set_mono_prefix [OF users_grow]])
  then show ?thesis by (simp add: image_image)
qed

lemma users_step: "users_inv m \<Longrightarrow> users_inv (fst (store_step cx now op m))"
  by (cases op)
     (auto simp: users_inv_def write_defs loop_defs Let_def image_iff find_None_iff split: write_splits)

text \<open>Only the operations on identities change them; a new one names a user of the new state.\<close>

lemma identity_users:
  "ui_UserID ` set (m_userIdentities (fst (store_step cx now op m)))
     \<subseteq> ui_UserID ` set (m_userIdentities m) \<union> u_ID ` set (m_users (fst (store_step cx now op m)))"
proof (cases "m_userIdentities (fst (store_step cx now op m)) = m_userIdentities m")
  case True
  then show ?thesis by simp
next
  case False
  then show ?thesis
    by (cases op; simp add: write_defs loop_defs Let_def image_mono le_supI1 set_delete1 split: write_splits; blast)
qed

lemma identity_keys_append:
  "\<lbrakk>distinct (map identity_key is); \<not> (\<exists>i\<in>set is. is_identity p s i)\<rbrakk>
     \<Longrightarrow> distinct (map identity_key (is @ [\<lparr>ui_ProviderName = p, ui_Subject = s, ui_UserID = u,
           ui_Email = e, ui_DisplayName = d, ui_LinkedAt = l, ui_LastLoginAt = t\<rparr>]))"
  by (auto simp: identity_key_def is_identity_def)

lemma identity_key_login [simp]: "identity_key (i\<lparr>ui_LastLoginAt := t\<rparr>) = identity_key i"
  by (simp add: identity_key_def)

lemma identities_distinct:
  assumes inv: "distinct (map identity_key (m_userIdentities m))"
  shows "distinct (map identity_key (m_userIdentities (fst (store_step cx now op m))))"
proof (cases "m_userIdentities (fst (store_step cx now op m)) = m_userIdentities m")
  case True
  with inv show ?thesis by simp
next
  case False
  note app = identity_keys_append [OF inv]
  from False inv show ?thesis
  proof (cases op)
    case (OpCreateUserAndIdentity r a)
    then show ?thesis using inv app
      by (simp add: CreateUserAndIdentity_def Let_def split: option.splits sum.splits)
  next
    case (OpLinkIdentityToUser u p s e d)
    then show ?thesis using inv app
      by (simp add: LinkIdentityToUser_def split: option.splits)
  qed (simp_all add: write_defs loop_defs Let_def split: write_splits)
qed

lemma identities_step:
  assumes inv: "identities_inv m"
  shows "identities_inv (fst (store_step cx now op m))"
proof -
  from inv have "distinct (map identity_key (m_userIdentities m))"
    and refs: "ui_UserID ` set (m_userIdentities m) \<subseteq> u_ID ` set (m_users m)"
    by (simp_all add: identities_inv_def)
  moreover from subset_trans [OF refs user_ids_grow [of m cx now op]]
  have "ui_UserID ` set (m_userIdentities (fst (store_step cx now op m)))
      \<subseteq> u_ID ` set (m_users (fst (store_step cx now op m)))"
    by (rule subset_trans [OF identity_users Un_least]) (rule subset_refl)
  ultimately show ?thesis by (simp add: identities_inv_def identities_distinct)
qed

lemma distinct_key_append:
  "\<lbrakk>distinct (map g xs); find P xs = None; \<And>y. g y = g x \<Longrightarrow> P y\<rbrakk> \<Longrightarrow> distinct (map g (xs @ [x]))"
  by (auto simp: find_None_iff)

lemma connections_step:
  assumes inv: "connections_inv m"
  shows "connections_inv (fst (store_step cx now op m))"
proof (cases "m_integrations (fst (store_step cx now op m)) = m_integrations m")
  case True
  with inv show ?thesis by (simp add: connections_inv_def)
next
  case changed: False
  from inv have keys: "distinct (map conn_key (m_integrations m))"
    and scopes: "\<forall>c\<in>set (m_integrations m). ic_Scope c \<noteq> []"
    by (simp_all add: connections_inv_def)
  from changed show ?thesis
  proof (cases op)
    case (OpUpsertIntegrationConnection c)
    show ?thesis
    proof (cases "find (\<lambda>d. ic_ProviderID d = ic_ProviderID c \<and> ic_UserID d = ic_UserID c) (m_integrations m)")
      case None
      have "distinct (map conn_key (m_integrations m @ [first_connection now (default_scope c)]))"
        by (rule distinct_key_append [OF keys None]) (simp add: conn_key_def)
      with None OpUpsertIntegrationConnection scopes changed show ?thesis
        by (simp add: connections_inv_def UpsertIntegrationConnection_def loop_defs Let_def split: option.splits)
    next
      case (Some d)
      with OpUpsertIntegrationConnection keys scopes changed show ?thesis
        by (auto simp: connections_inv_def UpsertIntegrationConnection_def loop_defs Let_def conn_key_def
            split: option.splits dest!: in_update1)
    qed
  next
    case (OpDeleteIntegrationConnection u p)
    with keys scopes changed show ?thesis
      by (auto simp: connections_inv_def DeleteIntegrationConnection_def loop_defs split: option.splits)
  qed (simp_all add: write_defs loop_defs Let_def split: write_splits)
qed

lemma bindings_step:
  assumes inv: "bindings_inv m"
  shows "bindings_inv (fst (store_step cx now op m))"
proof (cases "m_agentIntegrations (fst (store_step cx now op m)) = m_agentIntegrations m")
  case True
  with inv show ?thesis by (simp add: bindings_inv_def)
next
  case changed: False
  from inv have keys: "distinct (map binding_key (m_agentIntegrations m))"
    by (simp add: bindings_inv_def)
  from changed show ?thesis
  proof (cases op)
    case (OpUpsertAgentIntegration a p e v s)
    show ?thesis
    proof (cases "find (\<lambda>ai. ai_AgentID ai = a \<and> ai_ProviderID ai = p) (m_agentIntegrations m)")
      case None
      have "distinct (map binding_key (m_agentIntegrations m @
          [\<lparr>ai_AgentID = a, ai_ProviderID = p, ai_Enabled = e, ai_Revision = 1, ai_Status = s,
            ai_UpdatedAt = now, ai_CreatedAt = now\<rparr>]))"
        by (rule distinct_key_append [OF keys None]) (simp add: binding_key_def)
      with None OpUpsertAgentIntegration changed show ?thesis
        by (simp add: bindings_inv_def UpsertAgentIntegration_def loop_defs Let_def split: option.splits)
    next
      case (Some d)
      with OpUpsertAgentIntegration keys changed show ?thesis
        by (simp add: bindings_inv_def UpsertAgentIntegration_def loop_defs Let_def binding_key_def
            split: option.splits)
    qed
  qed (use keys in \<open>simp_all add: bindings_inv_def write_defs loop_defs Let_def distinct_map_filter
         split: write_splits\<close>)
qed

lemma manifests_step: "manifests_inv m \<Longrightarrow> manifests_inv (fst (store_step cx now op m))"
  by (cases op) (auto simp: manifests_inv_def write_defs Let_def split: write_splits)

lemma store_inv_step: "store_inv m \<Longrightarrow> store_inv (fst (store_step cx now op m))"
  by (simp add: store_inv_def users_step identities_step connections_step bindings_step manifests_step)

lemma reachable_store_inv: "store_reachable m \<Longrightarrow> store_inv m"
  by (induction rule: store_reachable.induct) (simp_all add: store_inv_New store_inv_step)

end
