(* ===== verification/Postgres.thy ===== *)
theory Postgres
  imports Sql StoreInv
begin

text \<open>
  \<open>internal/store/postgres.go\<close>: the store over a database, one definition per method. A method takes the
  outcome of each statement's transport (\<open>cx\<close>, numbered where a method sends several; for a query only its
  error matters), then the
  arguments of the code and the database. Opening the connection pool and running the migrations are
  not modelled; \<open>NewDb\<close> is what the migrations leave.
\<close>

record UserRow = User +
  ur_PasswordHash :: string

record Db =
  db_users :: "UserRow list"
  db_agents :: "Agent list"
  db_models :: "LLMModel list"
  db_gateway :: "LLMGatewaySettings option"
  db_connections :: "IntegrationConnection list"
  db_bindings :: "AgentIntegration list"
  db_manifests :: "PluginManifest list"
  db_identities :: "UserIdentity list"
  db_settings :: "(string \<times> string) list"

definition NewDb :: Db where
  "NewDb = \<lparr>db_users = [], db_agents = [], db_models = [], db_gateway = None, db_connections = [],
     db_bindings = [], db_manifests = [], db_identities = [], db_settings = [(''auth.mode'', ''local'')]\<rparr>"

text \<open>The columns of a user the queries return.\<close>

definition user_of :: "UserRow \<Rightarrow> User" where
  "user_of row = \<lparr>u_ID = u_ID row, u_Username = u_Username row, u_Role = u_Role row,
     u_Disabled = u_Disabled row, u_CreatedAt = u_CreatedAt row, u_UpdatedAt = u_UpdatedAt row\<rparr>"

text \<open>\<open>if err == sql.ErrNoRows { return ErrNotFound }; if err != nil { return err }\<close>\<close>

definition or_not_found :: "'a result \<Rightarrow> 'a result" where
  "or_not_found r = (case r of Inl err \<Rightarrow> Inl (if err = ErrNoRows then ErrNotFound else err) | Inr x \<Rightarrow> Inr x)"

text \<open>The errors of an insertion: a duplicate key is \<open>ErrConflict\<close>.\<close>

definition conflict_or :: "string \<Rightarrow> 'a result \<Rightarrow> 'a result" where
  "conflict_or pre r =
     (case r of Inl err \<Rightarrow> Inl (if is_duplicate err then ErrConflict else ErrWrap pre err []) | Inr x \<Rightarrow> Inr x)"

definition by_created :: "(string \<Rightarrow> string \<Rightarrow> bool) \<Rightarrow> ('r \<Rightarrow> time) \<Rightarrow> ('r \<Rightarrow> string) \<Rightarrow> 'r \<Rightarrow> 'r \<Rightarrow> bool" where
  "by_created coll at ident a b \<longleftrightarrow> at a < at b \<or> at a = at b \<and> coll (ident a) (ident b)"

section \<open>Users\<close>

definition user_keys :: "(string \<times> (UserRow \<Rightarrow> UserRow \<Rightarrow> bool)) list" where
  "user_keys = [(''users_pkey'', \<lambda>a b. u_ID a = u_ID b), (''users_username_key'', \<lambda>a b. u_Username a = u_Username b)]"

definition insert_user :: "UserRow \<Rightarrow> Db \<Rightarrow> Db \<times> UserRow result" where
  "insert_user row db = (case insert_row user_keys [] row (db_users db) of (t, r) \<Rightarrow> (db\<lparr>db_users := t\<rparr>, r))"

definition new_user :: "string \<Rightarrow> string \<Rightarrow> string \<Rightarrow> string \<Rightarrow> time \<Rightarrow> UserRow" where
  "new_user ident username hash role now =
     \<lparr>u_ID = ident, u_Username = username, u_Role = role, u_Disabled = False, u_CreatedAt = now, u_UpdatedAt = now,
      ur_PasswordHash = hash\<rparr>"

definition pg_CreateUser ::
  "wire \<Rightarrow> time \<Rightarrow> rnd \<Rightarrow> string \<Rightarrow> string \<Rightarrow> string \<Rightarrow> Db \<Rightarrow> Db \<times> User result" where
  "pg_CreateUser cx now r username passwordHash role db =
     (case newID r of
        Inl err \<Rightarrow> (db, Inl err)
      | Inr ident \<Rightarrow>
          (case sent cx db (insert_user (new_user ident username passwordHash role now)) of
             (db', u) \<Rightarrow> (db', conflict_or ''create user: '' (map_sum id user_of u))))"

definition pg_GetUser :: "ctx \<Rightarrow> string \<Rightarrow> Db \<Rightarrow> User result" where
  "pg_GetUser cx userID db =
     or_not_found (asked cx (one_row (map user_of (filter (\<lambda>row. u_ID row = userID) (db_users db)))))"

definition pg_GetUserByUsername :: "ctx \<Rightarrow> string \<Rightarrow> Db \<Rightarrow> User result" where
  "pg_GetUserByUsername cx username db =
     or_not_found (asked cx (one_row (map user_of (filter (\<lambda>row. u_Username row = username) (db_users db)))))"

definition pg_ListUsers :: "ctx \<Rightarrow> (string \<Rightarrow> string \<Rightarrow> bool) \<Rightarrow> Db \<Rightarrow> User list result" where
  "pg_ListUsers cx coll db = asked cx (Inr (sort_slice (by_created coll u_CreatedAt u_ID) (map user_of (db_users db))))"

definition pg_UpdateUser ::
  "wire \<Rightarrow> time \<Rightarrow> string \<Rightarrow> bool option \<Rightarrow> string option \<Rightarrow> Db \<Rightarrow> Db \<times> User result" where
  "pg_UpdateUser cx now userID disabled role db =
     (case sent cx db (\<lambda>db. case update_rows (\<lambda>row. u_ID row = userID)
              (\<lambda>row. row\<lparr>u_Disabled := (case disabled of Some d \<Rightarrow> d | None \<Rightarrow> u_Disabled row),
                          u_Role := (case role of Some x \<Rightarrow> x | None \<Rightarrow> u_Role row), u_UpdatedAt := now\<rparr>) (db_users db) of
            (t, rows) \<Rightarrow> (db\<lparr>db_users := t\<rparr>, one_row (map user_of rows))) of
        (db', r) \<Rightarrow> (db', or_not_found r))"

definition pg_GetPasswordHash :: "ctx \<Rightarrow> string \<Rightarrow> Db \<Rightarrow> string result" where
  "pg_GetPasswordHash cx username db =
     or_not_found (asked cx (one_row (map ur_PasswordHash (filter (\<lambda>row. u_Username row = username) (db_users db)))))"

definition pg_SetPasswordHash :: "wire \<Rightarrow> time \<Rightarrow> string \<Rightarrow> string \<Rightarrow> Db \<Rightarrow> Db \<times> unit result" where
  "pg_SetPasswordHash cx now username hash db =
     sent cx db (\<lambda>db. (db\<lparr>db_users := fst (update_rows (\<lambda>row. u_Username row = username)
        (\<lambda>row. row\<lparr>ur_PasswordHash := hash, u_UpdatedAt := now\<rparr>) (db_users db))\<rparr>, Inr ()))"

section \<open>Agents\<close>

definition user_exists :: "string \<Rightarrow> Db \<Rightarrow> bool" where
  "user_exists userID db = list_ex (\<lambda>row. u_ID row = userID) (db_users db)"

definition pg_CreateAgent ::
  "wire \<Rightarrow> time \<Rightarrow> rnd \<Rightarrow> string \<Rightarrow> string \<Rightarrow> string \<Rightarrow> string \<Rightarrow> string \<Rightarrow> string \<Rightarrow> Db \<Rightarrow> Db \<times> Agent result" where
  "pg_CreateAgent cx now r ownerUserID name description runtime model systemPrompt db =
     (case newID r of
        Inl err \<Rightarrow> (db, Inl err)
      | Inr ident \<Rightarrow>
          (case sent cx db (\<lambda>db. case insert_row [(''agents_pkey'', \<lambda>a b. a_ID a = a_ID b)]
                   [(user_exists ownerUserID db, ''agents'', ''agents_owner_user_id_fkey'')]
                   \<lparr>a_ID = ident, a_OwnerUserID = ownerUserID, a_Name = name, a_Description = description,
                    a_Runtime = runtime, a_Model = model, a_SystemPrompt = systemPrompt, a_State = ''idle'',
                    a_LastError = [], a_CreatedAt = now, a_UpdatedAt = now\<rparr> (db_agents db) of
                 (t, r) \<Rightarrow> (db\<lparr>db_agents := t\<rparr>, r)) of
             (db', r) \<Rightarrow> (db', wrap ''create agent: '' r)))"

definition pg_GetAgent :: "ctx \<Rightarrow> string \<Rightarrow> Db \<Rightarrow> Agent result" where
  "pg_GetAgent cx agentID db = or_not_found (asked cx (one_row (filter (\<lambda>a. a_ID a = agentID) (db_agents db))))"

definition pg_ListAgents :: "ctx \<Rightarrow> (string \<Rightarrow> string \<Rightarrow> bool) \<Rightarrow> string \<Rightarrow> Db \<Rightarrow> Agent list result" where
  "pg_ListAgents cx coll ownerUserID db =
     asked cx (Inr (sort_slice (by_created coll a_CreatedAt a_ID) (filter (\<lambda>a. a_OwnerUserID a = ownerUserID) (db_agents db))))"

definition update_agent :: "wire \<Rightarrow> string \<Rightarrow> (Agent \<Rightarrow> Agent) \<Rightarrow> Db \<Rightarrow> Db \<times> Agent result" where
  "update_agent cx agentID f db =
     (case sent cx db (\<lambda>db. case update_rows (\<lambda>a. a_ID a = agentID) f (db_agents db) of
            (t, rows) \<Rightarrow> (db\<lparr>db_agents := t\<rparr>, one_row rows)) of
        (db', r) \<Rightarrow> (db', or_not_found r))"

definition pg_UpdateAgentState :: "wire \<Rightarrow> time \<Rightarrow> string \<Rightarrow> string \<Rightarrow> Db \<Rightarrow> Db \<times> Agent result" where
  "pg_UpdateAgentState cx now agentID state db =
     update_agent cx agentID (\<lambda>a. a\<lparr>a_State := state, a_UpdatedAt := now\<rparr>) db"

definition pg_UpdateAgentError :: "wire \<Rightarrow> time \<Rightarrow> string \<Rightarrow> string \<Rightarrow> Db \<Rightarrow> Db \<times> Agent result" where
  "pg_UpdateAgentError cx now agentID lastError db =
     update_agent cx agentID (\<lambda>a. a\<lparr>a_LastError := lastError, a_UpdatedAt := now\<rparr>) db"

text \<open>Two statements, not one transaction; the second one's cascade removes what refers to the agent.\<close>

definition delete_bindings :: "(AgentIntegration \<Rightarrow> bool) \<Rightarrow> Db \<Rightarrow> Db \<times> unit result" where
  "delete_bindings P db = (db\<lparr>db_bindings := fst (delete_rows P (db_bindings db))\<rparr>, Inr ())"

definition pg_DeleteAgent :: "(nat \<Rightarrow> wire) \<Rightarrow> string \<Rightarrow> Db \<Rightarrow> Db \<times> unit result" where
  "pg_DeleteAgent cx agentID db =
     (case sent (cx 0) db (delete_bindings (\<lambda>ai. ai_AgentID ai = agentID)) of
        (db1, Inl err) \<Rightarrow> (db1, Inl (ErrWrap ''delete agent integrations: '' err []))
      | (db1, Inr _) \<Rightarrow>
          (case sent (cx 1) db1 (\<lambda>db. case delete_rows (\<lambda>a. a_ID a = agentID) (db_agents db) of
                 (t, n) \<Rightarrow> (fst (delete_bindings (\<lambda>ai. n > 0 \<and> ai_AgentID ai = agentID) (db\<lparr>db_agents := t\<rparr>)), Inr n)) of
             (db2, Inl err) \<Rightarrow> (db2, Inl (ErrWrap ''delete agent: '' err []))
           | (db2, Inr n) \<Rightarrow> (db2, if n = 0 then Inl ErrNotFound else Inr ())))"

section \<open>Models and the gateway\<close>

definition pg_CreateLLMModel ::
  "wire \<Rightarrow> time \<Rightarrow> rnd \<Rightarrow> string \<Rightarrow> string \<Rightarrow> bool \<Rightarrow> Db \<Rightarrow> Db \<times> LLMModel result" where
  "pg_CreateLLMModel cx now r displayName providerModel enabled db =
     (case newID r of
        Inl err \<Rightarrow> (db, Inl err)
      | Inr ident \<Rightarrow>
          (case sent cx db (\<lambda>db. case insert_row [(''llm_models_pkey'', \<lambda>a b. lm_ID a = lm_ID b)] []
                   \<lparr>lm_ID = ident, lm_DisplayName = displayName, lm_ProviderModel = providerModel, lm_Enabled = enabled,
                    lm_CreatedAt = now, lm_UpdatedAt = now\<rparr> (db_models db) of (t, r) \<Rightarrow> (db\<lparr>db_models := t\<rparr>, r)) of
             (db', r) \<Rightarrow> (db', wrap ''create llm model: '' r)))"

definition pg_GetLLMModel :: "ctx \<Rightarrow> string \<Rightarrow> Db \<Rightarrow> LLMModel result" where
  "pg_GetLLMModel cx modelID db = or_not_found (asked cx (one_row (filter (\<lambda>x. lm_ID x = modelID) (db_models db))))"

definition pg_ListLLMModels :: "ctx \<Rightarrow> (string \<Rightarrow> string \<Rightarrow> bool) \<Rightarrow> Db \<Rightarrow> LLMModel list result" where
  "pg_ListLLMModels cx coll db = asked cx (Inr (sort_slice (by_created coll lm_CreatedAt lm_ID) (db_models db)))"

definition pg_UpdateLLMModel ::
  "wire \<Rightarrow> time \<Rightarrow> string \<Rightarrow> string option \<Rightarrow> string option \<Rightarrow> bool option \<Rightarrow> Db \<Rightarrow> Db \<times> LLMModel result" where
  "pg_UpdateLLMModel cx now modelID displayName providerModel enabled db =
     (case sent cx db (\<lambda>db. case update_rows (\<lambda>x. lm_ID x = modelID)
              (\<lambda>x. x\<lparr>lm_DisplayName := (case displayName of Some d \<Rightarrow> d | None \<Rightarrow> lm_DisplayName x),
                      lm_ProviderModel := (case providerModel of Some p \<Rightarrow> p | None \<Rightarrow> lm_ProviderModel x),
                      lm_Enabled := (case enabled of Some e \<Rightarrow> e | None \<Rightarrow> lm_Enabled x), lm_UpdatedAt := now\<rparr>) (db_models db) of
            (t, rows) \<Rightarrow> (db\<lparr>db_models := t\<rparr>, one_row rows)) of
        (db', r) \<Rightarrow> (db', or_not_found r))"

definition no_gateway :: LLMGatewaySettings where
  "no_gateway = \<lparr>gs_Enabled = False, gs_BaseURL = [], gs_SecretName = [], gs_SecretKey = [], gs_UpdatedAt = 0\<rparr>"

definition pg_GetLLMGatewaySettings :: "ctx \<Rightarrow> Db \<Rightarrow> LLMGatewaySettings result" where
  "pg_GetLLMGatewaySettings cx db =
     asked cx (Inr (case db_gateway db of None \<Rightarrow> no_gateway | Some s \<Rightarrow> s))"

definition pg_UpsertLLMGatewaySettings ::
  "wire \<Rightarrow> time \<Rightarrow> bool \<Rightarrow> string \<Rightarrow> string \<Rightarrow> string \<Rightarrow> Db \<Rightarrow> Db \<times> LLMGatewaySettings result" where
  "pg_UpsertLLMGatewaySettings cx now enabled baseURL secretName secretKey db =
     (case sent cx db (\<lambda>db. let s = \<lparr>gs_Enabled = enabled, gs_BaseURL = baseURL, gs_SecretName = secretName,
                                   gs_SecretKey = secretKey, gs_UpdatedAt = now\<rparr>
            in (db\<lparr>db_gateway := Some s\<rparr>, Inr s)) of
        (db', r) \<Rightarrow> (db', wrap ''upsert llm gateway: '' r))"

section \<open>Integrations\<close>

definition same_connection :: "IntegrationConnection \<Rightarrow> IntegrationConnection \<Rightarrow> bool" where
  "same_connection a b \<longleftrightarrow> ic_ProviderID a = ic_ProviderID b \<and> ic_Scope a = ic_Scope b \<and> ic_ScopeID a = ic_ScopeID b"

definition overwrite_connection :: "time \<Rightarrow> IntegrationConnection \<Rightarrow> IntegrationConnection \<Rightarrow> IntegrationConnection result" where
  "overwrite_connection now conn old =
     rbind (bigint_succ (ic_Revision old)) (\<lambda>revision. Inr
       (old\<lparr>ic_ExternalAccountID := ic_ExternalAccountID conn, ic_ExternalLogin := ic_ExternalLogin conn,
            ic_AccountType := ic_AccountType conn, ic_Status := ic_Status conn, ic_Secret := ic_Secret conn,
            ic_Revision := revision, ic_UpdatedAt := now\<rparr>))"

definition pg_UpsertIntegrationConnection ::
  "wire \<Rightarrow> time \<Rightarrow> IntegrationConnection \<Rightarrow> Db \<Rightarrow> Db \<times> IntegrationConnection result" where
  "pg_UpsertIntegrationConnection cx now connection db =
     (let conn = default_scope connection in
      case sent cx db (\<lambda>db. case upsert_row same_connection (overwrite_connection now conn) []
                [(user_exists (ic_UserID conn) db, ''integration_connections'', ''integration_connections_user_id_fkey'')]
                (conn\<lparr>ic_Revision := or_one (ic_Revision conn), ic_CreatedAt := now, ic_UpdatedAt := now\<rparr>) (db_connections db) of
              (t, r) \<Rightarrow> (db\<lparr>db_connections := t\<rparr>, r)) of
        (db', r) \<Rightarrow> (db', wrap ''upsert integration connection: '' r))"

definition of_user :: "string \<Rightarrow> string \<Rightarrow> IntegrationConnection \<Rightarrow> bool" where
  "of_user userID providerID c \<longleftrightarrow> ic_ProviderID c = providerID \<and> ic_Scope c = ''user'' \<and> ic_ScopeID c = userID"

definition pg_GetIntegrationConnection :: "ctx \<Rightarrow> string \<Rightarrow> string \<Rightarrow> Db \<Rightarrow> IntegrationConnection result" where
  "pg_GetIntegrationConnection cx userID providerID db =
     or_not_found (asked cx (one_row (filter (of_user userID providerID) (db_connections db))))"

definition pg_ListUserIntegrationProviderIDs ::
  "ctx \<Rightarrow> (string \<Rightarrow> string \<Rightarrow> bool) \<Rightarrow> string \<Rightarrow> Db \<Rightarrow> string list result" where
  "pg_ListUserIntegrationProviderIDs cx coll userID db =
     wrap ''list user integration provider ids: ''
       (asked cx (Inr (sort_slice coll (remdups (map ic_ProviderID
          (filter (\<lambda>c. ic_Scope c = ''user'' \<and> ic_ScopeID c = userID) (db_connections db)))))))"

text \<open>The error of the second statement is dropped.\<close>

definition pg_DeleteIntegrationConnection :: "(nat \<Rightarrow> wire) \<Rightarrow> string \<Rightarrow> string \<Rightarrow> Db \<Rightarrow> Db \<times> unit result" where
  "pg_DeleteIntegrationConnection cx userID providerID db =
     (case sent (cx 0) db (\<lambda>db. (db\<lparr>db_connections := fst (delete_rows (of_user userID providerID) (db_connections db))\<rparr>, Inr ())) of
        (db1, Inl err) \<Rightarrow> (db1, Inl (ErrWrap ''delete integration connection: '' err []))
      | (db1, Inr _) \<Rightarrow>
          (fst (sent (cx 1) db1 (\<lambda>db. delete_bindings
             (\<lambda>ai. ai_ProviderID ai = providerID \<and> ai_AgentID ai \<in> a_ID ` set (filter (\<lambda>a. a_OwnerUserID a = userID) (db_agents db))) db)),
           Inr ()))"

definition same_binding :: "AgentIntegration \<Rightarrow> AgentIntegration \<Rightarrow> bool" where
  "same_binding a b \<longleftrightarrow> ai_AgentID a = ai_AgentID b \<and> ai_ProviderID a = ai_ProviderID b"

definition overwrite_binding :: "time \<Rightarrow> bool \<Rightarrow> string \<Rightarrow> AgentIntegration \<Rightarrow> AgentIntegration result" where
  "overwrite_binding now enabled status old =
     rbind (bigint_succ (ai_Revision old)) (\<lambda>revision. Inr
       (old\<lparr>ai_Enabled := enabled, ai_Revision := revision, ai_Status := status, ai_UpdatedAt := now\<rparr>))"

definition agent_exists :: "string \<Rightarrow> Db \<Rightarrow> bool" where
  "agent_exists agentID db = list_ex (\<lambda>a. a_ID a = agentID) (db_agents db)"

definition pg_UpsertAgentIntegration ::
  "wire \<Rightarrow> time \<Rightarrow> string \<Rightarrow> string \<Rightarrow> bool \<Rightarrow> int \<Rightarrow> string \<Rightarrow> Db \<Rightarrow> Db \<times> AgentIntegration result" where
  "pg_UpsertAgentIntegration cx now agentID providerID enabled revision status db =
     (case sent cx db (\<lambda>db. case upsert_row same_binding (overwrite_binding now enabled status) []
              [(agent_exists agentID db, ''agent_integrations'', ''agent_integrations_agent_id_fkey'')]
              \<lparr>ai_AgentID = agentID, ai_ProviderID = providerID, ai_Enabled = enabled, ai_Revision = or_one revision,
               ai_Status = status, ai_UpdatedAt = now, ai_CreatedAt = now\<rparr> (db_bindings db) of
              (t, r) \<Rightarrow> (db\<lparr>db_bindings := t\<rparr>, r)) of
        (db', r) \<Rightarrow> (db', wrap ''upsert agent integration: '' r))"

definition pg_ListAgentIntegrations ::
  "ctx \<Rightarrow> (string \<Rightarrow> string \<Rightarrow> bool) \<Rightarrow> string \<Rightarrow> Db \<Rightarrow> AgentIntegration list result" where
  "pg_ListAgentIntegrations cx coll agentID db =
     asked cx (Inr (sort_slice (\<lambda>a b. coll (ai_ProviderID a) (ai_ProviderID b)) (filter (\<lambda>ai. ai_AgentID ai = agentID) (db_bindings db))))"

definition pg_GetAgentIntegration :: "ctx \<Rightarrow> string \<Rightarrow> string \<Rightarrow> Db \<Rightarrow> AgentIntegration result" where
  "pg_GetAgentIntegration cx agentID providerID db =
     or_not_found (asked cx (one_row (filter (\<lambda>ai. ai_AgentID ai = agentID \<and> ai_ProviderID ai = providerID) (db_bindings db))))"

section \<open>Plugin manifests\<close>

definition pg_ListPluginManifests ::
  "ctx \<Rightarrow> (string \<Rightarrow> string \<Rightarrow> bool) \<Rightarrow> bool \<Rightarrow> Db \<Rightarrow> PluginManifest list result" where
  "pg_ListPluginManifests cx coll enabledOnly db =
     asked cx (Inr (sort_slice (by_created coll pm_UpdatedAt pm_ID)
       (if enabledOnly then filter pm_Enabled (db_manifests db) else db_manifests db)))"

definition pg_GetPluginManifest :: "ctx \<Rightarrow> string \<Rightarrow> Db \<Rightarrow> PluginManifest result" where
  "pg_GetPluginManifest cx ident db = or_not_found (asked cx (one_row (filter (\<lambda>pm. pm_ID pm = ident) (db_manifests db))))"

text \<open>\<open>now\<close> is the clock of the database here.\<close>

definition overwrite_manifest :: "time \<Rightarrow> PluginManifest \<Rightarrow> PluginManifest \<Rightarrow> PluginManifest result" where
  "overwrite_manifest now m old =
     rbind (bigint_succ (pm_Revision old)) (\<lambda>revision. Inr
       (old\<lparr>pm_YAML := pm_YAML m, pm_Enabled := pm_Enabled m, pm_Revision := revision, pm_UpdatedAt := now\<rparr>))"

definition pg_UpsertPluginManifest :: "wire \<Rightarrow> time \<Rightarrow> PluginManifest \<Rightarrow> Db \<Rightarrow> Db \<times> PluginManifest result" where
  "pg_UpsertPluginManifest cx now m db =
     (case sent cx db (\<lambda>db. case upsert_row (\<lambda>a b. pm_ID a = pm_ID b) (overwrite_manifest now m) [] []
              \<lparr>pm_ID = pm_ID m, pm_YAML = pm_YAML m, pm_Enabled = pm_Enabled m, pm_Revision = 1,
               pm_CreatedAt = now, pm_UpdatedAt = now\<rparr> (db_manifests db) of
              (t, r) \<Rightarrow> (db\<lparr>db_manifests := t\<rparr>, r)) of
        (db', r) \<Rightarrow> (db', wrap ''upsert plugin manifest: '' r))"

definition pg_DeletePluginManifest :: "wire \<Rightarrow> string \<Rightarrow> Db \<Rightarrow> Db \<times> unit result" where
  "pg_DeletePluginManifest cx ident db =
     (case sent cx db (\<lambda>db. case delete_rows (\<lambda>pm. pm_ID pm = ident) (db_manifests db) of
            (t, n) \<Rightarrow> (db\<lparr>db_manifests := t\<rparr>, Inr n)) of
        (db', Inl err) \<Rightarrow> (db', Inl (ErrWrap ''delete plugin manifest: '' err []))
      | (db', Inr n) \<Rightarrow> (db', if n = 0 then Inl ErrNotFound else Inr ()))"

section \<open>Identities\<close>

definition pg_GetUserIDByIdentity :: "ctx \<Rightarrow> string \<Rightarrow> string \<Rightarrow> Db \<Rightarrow> string option result" where
  "pg_GetUserIDByIdentity cx providerName subject db =
     (case asked cx (one_row (map ui_UserID (filter (is_identity providerName subject) (db_identities db)))) of
        Inl err \<Rightarrow> if err = ErrNoRows then Inr None else Inl err
      | Inr userID \<Rightarrow> Inr (Some userID))"

definition pg_TouchIdentityLogin :: "wire \<Rightarrow> time \<Rightarrow> string \<Rightarrow> string \<Rightarrow> Db \<Rightarrow> Db \<times> unit result" where
  "pg_TouchIdentityLogin cx now providerName subject db =
     (case sent cx db (\<lambda>db. case update_rows (is_identity providerName subject) (\<lambda>i. i\<lparr>ui_LastLoginAt := Some now\<rparr>) (db_identities db) of
            (t, rows) \<Rightarrow> (db\<lparr>db_identities := t\<rparr>, Inr (length rows))) of
        (db', Inl err) \<Rightarrow> (db', Inl (ErrWrap ''touch identity login: '' err []))
      | (db', Inr n) \<Rightarrow> (db', if n = 0 then Inl ErrNotFound else Inr ()))"

definition insert_identity :: "UserIdentity \<Rightarrow> Db \<Rightarrow> Db \<times> UserIdentity result" where
  "insert_identity i db =
     (case insert_row [(''user_identities_pkey'', \<lambda>a b. identity_key a = identity_key b)]
             [(user_exists (ui_UserID i) db, ''user_identities'', ''user_identities_user_id_fkey'')] i (db_identities db) of
        (t, r) \<Rightarrow> (db\<lparr>db_identities := t\<rparr>, r))"

definition new_identity :: "string \<Rightarrow> string \<Rightarrow> string \<Rightarrow> string \<Rightarrow> string \<Rightarrow> time \<Rightarrow> UserIdentity" where
  "new_identity providerName subject userID email displayName now =
     \<lparr>ui_ProviderName = providerName, ui_Subject = subject, ui_UserID = userID, ui_Email = email,
      ui_DisplayName = displayName, ui_LinkedAt = now, ui_LastLoginAt = None\<rparr>"

text \<open>A transaction: begin, two insertions, commit. Every return before the commit rolls back to \<open>db\<close>; a commit
  whose answer is lost is one.\<close>

definition pg_CreateUserAndIdentity ::
  "(nat \<Rightarrow> wire) \<Rightarrow> time \<Rightarrow> rnd \<Rightarrow> CreateUserAndIdentityArgs \<Rightarrow> Db \<Rightarrow> Db \<times> User result" where
  "pg_CreateUserAndIdentity cx now r args db =
     (case newID r of
        Inl err \<Rightarrow> (db, Inl err)
      | Inr userID \<Rightarrow>
          (case lost (cx 0) of
             Some err \<Rightarrow> (db, Inl (ErrWrap ''begin tx: '' err []))
           | None \<Rightarrow>
               (case sent (cx 1) db (insert_user (new_user userID (cui_Username args) [] (cui_Role args) now)) of
                  (db1, Inl err) \<Rightarrow> (db, conflict_or ''create user in tx: '' (Inl err))
                | (db1, Inr u) \<Rightarrow>
                    (case sent (cx 2) db1 (insert_identity (new_identity (cui_ProviderName args) (cui_Subject args) userID
                              (cui_Email args) (cui_DisplayName args) now)) of
                       (db2, Inl err) \<Rightarrow> (db, conflict_or ''insert identity in tx: '' (Inl err))
                     | (db2, Inr _) \<Rightarrow>
                         (case cx 3 of
                            NotSent err \<Rightarrow> (db, Inl (ErrWrap ''commit tx: '' err []))
                          | Unanswered err \<Rightarrow> (db2, Inl (ErrWrap ''commit tx: '' err []))
                          | Delivered \<Rightarrow> (db2, Inr (user_of u)))))))"

definition pg_LinkIdentityToUser ::
  "(nat \<Rightarrow> wire) \<Rightarrow> time \<Rightarrow> string \<Rightarrow> string \<Rightarrow> string \<Rightarrow> string \<Rightarrow> string \<Rightarrow> Db \<Rightarrow> Db \<times> unit result" where
  "pg_LinkIdentityToUser cx now userID providerName subject email displayName db =
     (case asked (lost (cx 0)) (Inr (user_exists userID db)) of
        Inl err \<Rightarrow> (db, Inl (ErrWrap ''check user exists: '' err []))
      | Inr found \<Rightarrow>
          if \<not> found then (db, Inl ErrNotFound)
          else
            (case sent (cx 1) db (insert_identity (new_identity providerName subject userID email displayName now)) of
               (db', r) \<Rightarrow> (db', conflict_or ''link identity: '' (map_sum id (\<lambda>i. ()) r))))"

definition pg_ListUserIdentities ::
  "ctx \<Rightarrow> (string \<Rightarrow> string \<Rightarrow> bool) \<Rightarrow> string \<Rightarrow> Db \<Rightarrow> UserIdentity list result" where
  "pg_ListUserIdentities cx coll userID db =
     asked cx (Inr (sort_slice (\<lambda>a b. coll (ui_ProviderName a) (ui_ProviderName b) \<or>
          ui_ProviderName a = ui_ProviderName b \<and> coll (ui_Subject a) (ui_Subject b))
       (filter (\<lambda>i. ui_UserID i = userID) (db_identities db))))"

definition pg_UnlinkIdentity :: "wire \<Rightarrow> string \<Rightarrow> string \<Rightarrow> string \<Rightarrow> Db \<Rightarrow> Db \<times> unit result" where
  "pg_UnlinkIdentity cx userID providerName subject db =
     (case sent cx db (\<lambda>db. case delete_rows (\<lambda>i. ui_UserID i = userID \<and> is_identity providerName subject i) (db_identities db) of
            (t, n) \<Rightarrow> (db\<lparr>db_identities := t\<rparr>, Inr n)) of
        (db', Inl err) \<Rightarrow> (db', Inl (ErrWrap ''unlink identity: '' err []))
      | (db', Inr n) \<Rightarrow> (db', if n = 0 then Inl ErrNotFound else Inr ()))"

section \<open>Settings and the bootstrap\<close>

definition pg_GetAppSetting :: "ctx \<Rightarrow> string \<Rightarrow> Db \<Rightarrow> string result" where
  "pg_GetAppSetting cx key db =
     (case asked cx (one_row (map snd (filter (\<lambda>row. fst row = key) (db_settings db)))) of
        Inl err \<Rightarrow> if err = ErrNoRows then Inr [] else Inl (ErrWrap ''get app setting: '' err [])
      | Inr v \<Rightarrow> Inr v)"

definition pg_SetAppSetting :: "wire \<Rightarrow> string \<Rightarrow> string \<Rightarrow> Db \<Rightarrow> Db \<times> unit result" where
  "pg_SetAppSetting cx key val db =
     (case sent cx db (\<lambda>db. case upsert_row (\<lambda>a b. fst a = fst b) (\<lambda>old. Inr (fst old, val)) [] [] (key, val) (db_settings db) of
            (t, r) \<Rightarrow> (db\<lparr>db_settings := t\<rparr>, r)) of
        (db', r) \<Rightarrow> (db', wrap ''set app setting: '' (map_sum id (\<lambda>row. ()) r)))"

definition pg_ListAppSettings :: "ctx \<Rightarrow> string \<Rightarrow> Db \<Rightarrow> (string \<rightharpoonup> string) result" where
  "pg_ListAppSettings cx pre db =
     wrap ''list app settings: '' (asked cx (Inr (map_of
       (if pre = [] then db_settings db else filter (\<lambda>row. like (pre @ ''%'') (fst row)) (db_settings db)))))"

definition overwrite_admin :: "time \<Rightarrow> string \<Rightarrow> UserRow \<Rightarrow> UserRow result" where
  "overwrite_admin now passwordHash old =
     Inr (old\<lparr>ur_PasswordHash := (if passwordHash \<noteq> [] then passwordHash else ur_PasswordHash old),
              u_Role := ''admin'', u_Disabled := False, u_UpdatedAt := now\<rparr>)"

definition pg_BootstrapAdmin :: "wire \<Rightarrow> time \<Rightarrow> rnd \<Rightarrow> string \<Rightarrow> string \<Rightarrow> Db \<Rightarrow> Db \<times> unit result" where
  "pg_BootstrapAdmin cx now r username passwordHash db =
     (case newID r of
        Inl err \<Rightarrow> (db, Inl err)
      | Inr ident \<Rightarrow>
          (case sent cx db (\<lambda>db. case upsert_row (\<lambda>a b. u_Username a = u_Username b) (overwrite_admin now passwordHash)
                   user_keys [] (new_user ident username passwordHash ''admin'' now) (db_users db) of
                 (t, row) \<Rightarrow> (db\<lparr>db_users := t\<rparr>, row)) of
             (db', row) \<Rightarrow> (db', wrap ''bootstrap admin: '' (map_sum id (\<lambda>row. ()) row))))"

section \<open>Opening the store\<close>

text \<open>\<open>runMigrations\<close>: the scripts of \<open>migrations.FS\<close> in the order of their names, up to the first that
  fails. \<open>exec\<close> runs a script on the database.\<close>

definition migration_files :: "(string \<times> bool) list \<Rightarrow> string list" where
  "migration_files entries = sort_slice (<) (map fst (filter (\<lambda>(name, dir). \<not> dir \<and> HasSuffix name ''.sql'') entries))"

fun apply_migrations ::
  "(string \<Rightarrow> string result) \<Rightarrow> (string \<Rightarrow> 'd \<Rightarrow> 'd \<times> unit result) \<Rightarrow> string list \<Rightarrow> 'd \<Rightarrow> 'd \<times> unit result" where
  "apply_migrations readFile exec [] db = (db, Inr ())"
| "apply_migrations readFile exec (name # names) db =
     (case readFile name of
        Inl err \<Rightarrow> (db, Inl (ErrWrap (''read migration '' @ name @ '': '') err []))
      | Inr script \<Rightarrow>
          (case exec script db of
             (db', Inl err) \<Rightarrow> (db', Inl (ErrWrap (''apply migration '' @ name @ '': '') err []))
           | (db', Inr _) \<Rightarrow> apply_migrations readFile exec names db'))"

definition runMigrations ::
  "(string \<times> bool) list result \<Rightarrow> (string \<Rightarrow> string result) \<Rightarrow> (string \<Rightarrow> 'd \<Rightarrow> 'd \<times> unit result) \<Rightarrow> 'd \<Rightarrow> 'd \<times> unit result" where
  "runMigrations readDir readFile exec db =
     (case readDir of Inl err \<Rightarrow> (db, Inl err) | Inr entries \<Rightarrow> apply_migrations readFile exec (migration_files entries) db)"

text \<open>\<open>NewPostgres\<close>: \<open>opened\<close> and \<open>ping\<close> are the outcomes of \<open>sql.Open\<close> and the ping.\<close>

definition NewPostgres ::
  "unit result \<Rightarrow> unit result \<Rightarrow> ('d \<Rightarrow> 'd \<times> unit result) \<Rightarrow> 'd \<Rightarrow> 'd \<times> unit result" where
  "NewPostgres opened ping migrate db =
     (case opened of
        Inl err \<Rightarrow> (db, Inl err)
      | Inr _ \<Rightarrow>
          (case wrap ''connect postgres: '' ping of
             Inl err \<Rightarrow> (db, Inl err)
           | Inr _ \<Rightarrow> (case migrate db of (db', r) \<Rightarrow> (db', wrap ''run migrations: '' r))))"

text \<open>A store that opens has run every script, in the order of the names.\<close>

lemma apply_migrations_all:
  "apply_migrations readFile exec names db = (db', Inr ()) \<Longrightarrow>
     list_all (\<lambda>name. \<not> isl (readFile name)) names \<and> db' = fold (\<lambda>name db. fst (exec (projr (readFile name)) db)) names db"
proof (induction names arbitrary: db)
  case (Cons name names)
  from Cons.prems obtain script where s: "readFile name = Inr script" by (auto split: sum.splits)
  with Cons.prems obtain db1 u where e: "exec script db = (db1, Inr u)" by (auto split: prod.splits sum.splits)
  with s Cons show ?case by simp
qed simp

lemma opened_store_is_migrated:
  assumes "NewPostgres opened ping (runMigrations (Inr entries) readFile exec) db = (db', Inr ())"
  shows "sorted (migration_files entries) \<and>
    db' = fold (\<lambda>name db. fst (exec (projr (readFile name)) db)) (migration_files entries) db"
proof -
  from assms have "apply_migrations readFile exec (migration_files entries) db = (db', Inr ())"
    by (auto simp: NewPostgres_def runMigrations_def split: sum.splits prod.splits)
  from apply_migrations_all [OF this] have
    "db' = fold (\<lambda>name db. fst (exec (projr (readFile name)) db)) (migration_files entries) db" ..
  moreover have "sorted (migration_files entries)"
    unfolding migration_files_def using sort_slice_key_sorted [of "id :: string \<Rightarrow> string"] by simp
  ultimately show ?thesis by blast
qed

end
