(* ===== verification/PostgresInv.thy ===== *)
theory PostgresInv
  imports Postgres
begin

text \<open>
  What the schema keeps true whatever statements fail: the keys are unique and every reference has its
  row, \<open>schema_ok\<close>, through every write of the store, \<open>pg_step\<close>.
\<close>

section \<open>The schema\<close>

definition connection_pkey :: "IntegrationConnection \<Rightarrow> string \<times> string \<times> string" where
  "connection_pkey c = (ic_ProviderID c, ic_Scope c, ic_ScopeID c)"

definition keys_ok :: "Db \<Rightarrow> bool" where
  "keys_ok db \<longleftrightarrow> distinct (map u_ID (db_users db)) \<and> distinct (map u_Username (db_users db)) \<and>
     distinct (map a_ID (db_agents db)) \<and> distinct (map lm_ID (db_models db)) \<and>
     distinct (map connection_pkey (db_connections db)) \<and> distinct (map binding_key (db_bindings db)) \<and>
     distinct (map pm_ID (db_manifests db)) \<and> distinct (map identity_key (db_identities db)) \<and>
     distinct (map fst (db_settings db))"

definition references_ok :: "Db \<Rightarrow> bool" where
  "references_ok db \<longleftrightarrow> a_OwnerUserID ` set (db_agents db) \<subseteq> u_ID ` set (db_users db) \<and>
     ic_UserID ` set (db_connections db) \<subseteq> u_ID ` set (db_users db) \<and>
     ui_UserID ` set (db_identities db) \<subseteq> u_ID ` set (db_users db) \<and>
     ai_AgentID ` set (db_bindings db) \<subseteq> a_ID ` set (db_agents db)"

definition schema_ok :: "Db \<Rightarrow> bool" where
  "schema_ok db \<longleftrightarrow> keys_ok db \<and> references_ok db"

lemma schema_ok_New: "schema_ok NewDb"
  by (simp add: schema_ok_def keys_ok_def references_ok_def NewDb_def)

section \<open>Every write as one operation\<close>

abbreviation pg_forget :: "Db \<times> 'a result \<Rightarrow> Db \<times> go_error option" where
  "pg_forget p \<equiv> (fst p, err_of (snd p))"

fun pg_step :: "(nat \<Rightarrow> wire) \<Rightarrow> time \<Rightarrow> store_op \<Rightarrow> Db \<Rightarrow> Db \<times> go_error option" where
  "pg_step cx now (OpCreateUser r n h ro) db = pg_forget (pg_CreateUser (cx 0) now r n h ro db)"
| "pg_step cx now (OpUpdateUser i d ro) db = pg_forget (pg_UpdateUser (cx 0) now i d ro db)"
| "pg_step cx now (OpSetPasswordHash n h) db = pg_forget (pg_SetPasswordHash (cx 0) now n h db)"
| "pg_step cx now (OpCreateAgent r ow n d rt mo sp) db = pg_forget (pg_CreateAgent (cx 0) now r ow n d rt mo sp db)"
| "pg_step cx now (OpUpdateAgentState i s) db = pg_forget (pg_UpdateAgentState (cx 0) now i s db)"
| "pg_step cx now (OpUpdateAgentError i s) db = pg_forget (pg_UpdateAgentError (cx 0) now i s db)"
| "pg_step cx now (OpDeleteAgent i) db = pg_forget (pg_DeleteAgent cx i db)"
| "pg_step cx now (OpCreateLLMModel r d p e) db = pg_forget (pg_CreateLLMModel (cx 0) now r d p e db)"
| "pg_step cx now (OpUpdateLLMModel i d p e) db = pg_forget (pg_UpdateLLMModel (cx 0) now i d p e db)"
| "pg_step cx now (OpUpsertLLMGatewaySettings e b n k) db = pg_forget (pg_UpsertLLMGatewaySettings (cx 0) now e b n k db)"
| "pg_step cx now (OpUpsertIntegrationConnection c) db = pg_forget (pg_UpsertIntegrationConnection (cx 0) now c db)"
| "pg_step cx now (OpDeleteIntegrationConnection u p) db = pg_forget (pg_DeleteIntegrationConnection cx u p db)"
| "pg_step cx now (OpUpsertAgentIntegration a p e v s) db = pg_forget (pg_UpsertAgentIntegration (cx 0) now a p e v s db)"
| "pg_step cx now (OpUpsertPluginManifest pm) db = pg_forget (pg_UpsertPluginManifest (cx 0) now pm db)"
| "pg_step cx now (OpDeletePluginManifest i) db = pg_forget (pg_DeletePluginManifest (cx 0) i db)"
| "pg_step cx now (OpBootstrapAdmin r n h) db = pg_forget (pg_BootstrapAdmin (cx 0) now r n h db)"
| "pg_step cx now (OpTouchIdentityLogin p s) db = pg_forget (pg_TouchIdentityLogin (cx 0) now p s db)"
| "pg_step cx now (OpCreateUserAndIdentity r a) db = pg_forget (pg_CreateUserAndIdentity cx now r a db)"
| "pg_step cx now (OpLinkIdentityToUser u p s e d) db = pg_forget (pg_LinkIdentityToUser cx now u p s e d db)"
| "pg_step cx now (OpUnlinkIdentity u p s) db = pg_forget (pg_UnlinkIdentity (cx 0) u p s db)"
| "pg_step cx now (OpSetAppSetting k v) db = pg_forget (pg_SetAppSetting (cx 0) k v db)"

inductive pg_reachable :: "Db \<Rightarrow> bool" where
  start: "pg_reachable NewDb"
| step: "pg_reachable db \<Longrightarrow> pg_reachable (fst (pg_step cx now op db))"

lemmas pg_single_defs = pg_CreateUser_def pg_UpdateUser_def pg_SetPasswordHash_def pg_CreateAgent_def
  pg_UpdateAgentState_def pg_UpdateAgentError_def update_agent_def pg_CreateLLMModel_def
  pg_UpdateLLMModel_def pg_UpsertLLMGatewaySettings_def pg_UpsertIntegrationConnection_def
  pg_DeleteIntegrationConnection_def pg_UpsertAgentIntegration_def pg_UpsertPluginManifest_def
  pg_DeletePluginManifest_def pg_BootstrapAdmin_def pg_TouchIdentityLogin_def
  pg_LinkIdentityToUser_def pg_UnlinkIdentity_def pg_SetAppSetting_def

lemmas pg_defs = pg_single_defs pg_DeleteAgent_def pg_CreateUserAndIdentity_def

lemmas row_defs = insert_user_def insert_identity_def insert_row_def user_keys_def update_rows_def
  delete_rows_def delete_bindings_def new_user_def new_identity_def user_exists_def

section \<open>Rows\<close>

lemma list_ex_key [simp]:
  "list_ex (\<lambda>b. x = k b) t \<longleftrightarrow> x \<in> k ` set t" "list_ex (\<lambda>b. k b = x) t \<longleftrightarrow> x \<in> k ` set t"
  by (auto simp: list_ex_iff)

lemma map_change_rows [simp]:
  "(\<And>row. P row \<Longrightarrow> k (f row) = k row) \<Longrightarrow> map k (change_rows P f t) = map k t"
  by (simp add: change_rows_def)

lemma image_change_rows [simp]:
  "(\<And>row. P row \<Longrightarrow> k (f row) = k row) \<Longrightarrow> k ` set (change_rows P f t) = k ` set t"
  by (simp only: map_change_rows flip: set_map)

text \<open>A row that went in met every constraint; a row updated on conflict keeps its keys.\<close>

lemma broken_unique_None: "broken_unique uniques row t = None \<longleftrightarrow> (\<forall>(name, key)\<in>set uniques. \<not> list_ex (key row) t)"
  by (induction uniques row t rule: broken_unique.induct) auto

lemma broken_reference_None: "broken_reference references = None \<longleftrightarrow> list_all fst references"
  by (induction references rule: broken_reference.induct) auto

lemma insert_row_cases:
  assumes "insert_row uniques references row t = (t', r)"
  obtains (kept) e where "t' = t" "r = Inl e"
  | (inserted) "t' = t @ [row]" "r = Inr row" "list_all fst references"
      "\<And>name key. (name, key) \<in> set uniques \<Longrightarrow> \<not> list_ex (key row) t"
  using assms by (auto simp: insert_row_def broken_unique_None broken_reference_None split: option.splits)

lemma upsert_row_cases:
  assumes u: "upsert_row same change uniques references row t = (t', r)"
  obtains (kept) e where "t' = t" "r = Inl e"
  | (changed) old new where "find (same row) t = Some old" "change old = Inr new"
      "t' = change_rows (same row) (\<lambda>x. new) t" "r = Inr new"
  | (inserted) "find (same row) t = None" "t' = t @ [row]" "r = Inr row" "list_all fst references"
      "\<And>name key. (name, key) \<in> set uniques \<Longrightarrow> \<not> list_ex (key row) t"
proof (cases "find (same row) t")
  case None
  with u have "insert_row uniques references row t = (t', r)" by (simp add: upsert_row_def)
  then show ?thesis by (rule insert_row_cases) (use None kept inserted in blast)+
next
  case (Some old)
  show ?thesis
  proof (cases "change old")
    case (Inl e)
    with u Some show ?thesis by (intro kept [of e]) (auto simp: upsert_row_def)
  next
    case (Inr new)
    with u Some show ?thesis by (intro changed [OF Some Inr]) (simp_all add: upsert_row_def)
  qed
qed

section \<open>Preservation\<close>

text \<open>The operations but the upserts and the removal of an agent.\<close>

fun upserts :: "store_op \<Rightarrow> bool" where
  "upserts (OpUpsertIntegrationConnection c) = True"
| "upserts (OpUpsertAgentIntegration a p e v s) = True"
| "upserts (OpUpsertPluginManifest pm) = True"
| "upserts (OpBootstrapAdmin r n h) = True"
| "upserts (OpSetAppSetting k v) = True"
| "upserts (OpDeleteAgent i) = True"
| "upserts op = False"

lemma simple_keys:
  assumes "keys_ok db" "\<not> upserts op"
  shows "keys_ok (fst (pg_step cx now op db))"
  using assms
  by (cases op; simp add: pg_defs row_defs sent_def asked_def Let_def split: write_splits wire.splits;
      simp add: keys_ok_def distinct_map_filter)

lemma image_filter_subset: "k ` set t \<subseteq> K \<Longrightarrow> k ` {x \<in> set t. P x} \<subseteq> K"
  by auto

lemma delete_agent_references:
  "ai_AgentID ` set (db_bindings db) \<subseteq> a_ID ` set (db_agents db)
     \<Longrightarrow> ai_AgentID ` {b \<in> set (db_bindings db). ai_AgentID b \<noteq> i \<and> Q b} \<subseteq> a_ID ` {a \<in> set (db_agents db). a_ID a \<noteq> i}"
  by (simp add: image_iff subset_iff) (metis (full_types))

lemma simple_references:
  assumes "references_ok db" "\<not> upserts op"
  shows "references_ok (fst (pg_step cx now op db))"
  using assms
  by (cases op; simp add: pg_defs row_defs sent_def asked_def Let_def split: write_splits wire.splits;
      simp add: references_ok_def image_filter_subset subset_insertI2 delete_agent_references)

text \<open>The upserts: \<open>k\<close> is a key, or a reference into \<open>K\<close>.\<close>

lemma upsert_changed_keys:
  assumes "find (same row) t = Some old" "change old = Inr new"
    and "\<And>old new x. old \<in> set t \<Longrightarrow> x \<in> set t \<Longrightarrow> same row old \<Longrightarrow> change old = Inr new \<Longrightarrow> same row x \<Longrightarrow> k new = k x"
  shows "map k (change_rows (same row) (\<lambda>x. new) t) = map k t"
proof -
  from assms(1) have "same row old" "old \<in> set t" by (auto simp: find_Some_iff)
  with assms(2,3) show ?thesis by (simp add: change_rows_def)
qed

lemma upsert_distinct:
  assumes u: "upsert_row same change uniques references row t = (t', r)" and keys: "distinct (map k t)"
    and new: "\<And>old new x. old \<in> set t \<Longrightarrow> x \<in> set t \<Longrightarrow> same row old \<Longrightarrow> change old = Inr new \<Longrightarrow> same row x \<Longrightarrow> k new = k x"
    and fresh: "\<And>x. \<not> same row x \<Longrightarrow> (\<And>name key. (name, key) \<in> set uniques \<Longrightarrow> \<not> key row x) \<Longrightarrow> k row \<noteq> k x"
  shows "distinct (map k t')"
  using u
proof (cases rule: upsert_row_cases)
  case (changed old new)
  have "map k t' = map k t" unfolding changed(3)
    by (rule upsert_changed_keys [where change = change]) (use changed new in blast)+
  with keys show ?thesis by simp
next
  case inserted
  have "k row \<noteq> k x" if "x \<in> set t" for x
    by (rule fresh) (use inserted that in \<open>auto simp: find_None_iff list_ex_iff\<close>)
  with inserted keys show ?thesis by auto
qed (use keys in simp)

lemma upsert_image:
  assumes u: "upsert_row same change uniques references row t = (t', r)"
    and new: "\<And>old new. old \<in> set t \<Longrightarrow> same row old \<Longrightarrow> change old = Inr new \<Longrightarrow> k new \<in> K"
    and row: "list_all fst references \<Longrightarrow> k row \<in> K" and old: "k ` set t \<subseteq> K"
  shows "k ` set t' \<subseteq> K"
  using u
proof (cases rule: upsert_row_cases)
  case (changed old' new')
  then have "same row old'" "old' \<in> set t" by (auto simp: find_Some_iff)
  with changed new have "k new' \<in> K" by blast
  with changed old show ?thesis by (auto simp: change_rows_def)
next
  case inserted
  with row old show ?thesis by simp
qed (use old in simp)

lemma upsert_covers:
  assumes u: "upsert_row same change uniques references row t = (t', r)"
    and new: "\<And>old new x. old \<in> set t \<Longrightarrow> x \<in> set t \<Longrightarrow> same row old \<Longrightarrow> change old = Inr new \<Longrightarrow> same row x \<Longrightarrow> k new = k x"
  shows "k ` set t \<subseteq> k ` set t'"
  using u
proof (cases rule: upsert_row_cases)
  case (changed old new)
  have "map k t' = map k t" unfolding changed(3)
    by (rule upsert_changed_keys [where change = change]) (use changed new in blast)+
  then show ?thesis by (metis set_map order_refl)
qed auto

lemma same_connection_pkey: "same_connection a b \<longleftrightarrow> connection_pkey a = connection_pkey b"
  by (simp add: same_connection_def connection_pkey_def)

lemma same_binding_key: "same_binding a b \<longleftrightarrow> binding_key a = binding_key b"
  by (simp add: same_binding_def binding_key_def)

lemma overwrite_connection_keys:
  "overwrite_connection now conn old = Inr new \<Longrightarrow>
     connection_pkey new = connection_pkey old \<and> ic_UserID new = ic_UserID old"
  by (auto simp: overwrite_connection_def connection_pkey_def)

lemma overwrite_binding_keys:
  "overwrite_binding now e s old = Inr new \<Longrightarrow> binding_key new = binding_key old \<and> ai_AgentID new = ai_AgentID old"
  by (auto simp: overwrite_binding_def binding_key_def)

lemma overwrite_manifest_keys: "overwrite_manifest now m old = Inr new \<Longrightarrow> pm_ID new = pm_ID old"
  by (auto simp: overwrite_manifest_def)

lemma overwrite_admin_keys:
  "overwrite_admin now h old = Inr new \<Longrightarrow> u_ID new = u_ID old \<and> u_Username new = u_Username old"
  by (auto simp: overwrite_admin_def)

lemmas schema_defs = schema_ok_def keys_ok_def references_ok_def

lemma connection_upsert_schema:
  assumes "schema_ok db"
    and u: "upsert_row same_connection (overwrite_connection now conn) [] [(user_exists i db, tbl, name)] row (db_connections db) = (t, r)"
    and i: "ic_UserID row = i"
  shows "schema_ok (db\<lparr>db_connections := t\<rparr>)"
proof -
  have "distinct (map connection_pkey t)"
    by (rule upsert_distinct [OF u])
      (use assms(1) in \<open>auto simp: schema_defs same_connection_pkey dest: overwrite_connection_keys\<close>)
  moreover have "ic_UserID ` set t \<subseteq> u_ID ` set (db_users db)"
    by (rule upsert_image [OF u])
      (use assms(1) i in \<open>auto simp: schema_defs user_exists_def dest!: overwrite_connection_keys\<close>)
  ultimately show ?thesis using assms(1) by (simp add: schema_defs)
qed

lemma binding_upsert_schema:
  assumes "schema_ok db"
    and u: "upsert_row same_binding (overwrite_binding now e s) [] [(agent_exists i db, tbl, name)] row (db_bindings db) = (t, r)"
    and i: "ai_AgentID row = i"
  shows "schema_ok (db\<lparr>db_bindings := t\<rparr>)"
proof -
  have "distinct (map binding_key t)"
    by (rule upsert_distinct [OF u])
      (use assms(1) in \<open>auto simp: schema_defs same_binding_key dest: overwrite_binding_keys\<close>)
  moreover have "ai_AgentID ` set t \<subseteq> a_ID ` set (db_agents db)"
    by (rule upsert_image [OF u])
      (use assms(1) i in \<open>auto simp: schema_defs agent_exists_def dest!: overwrite_binding_keys\<close>)
  ultimately show ?thesis using assms(1) by (simp add: schema_defs)
qed

lemma manifest_upsert_schema:
  assumes "schema_ok db" and u: "upsert_row (\<lambda>a b. pm_ID a = pm_ID b) (overwrite_manifest now m) [] [] row (db_manifests db) = (t, r)"
  shows "schema_ok (db\<lparr>db_manifests := t\<rparr>)"
proof -
  have "distinct (map pm_ID t)"
    by (rule upsert_distinct [OF u]) (use assms(1) in \<open>auto simp: schema_defs dest: overwrite_manifest_keys\<close>)
  with assms(1) show ?thesis by (simp add: schema_defs)
qed

lemma setting_upsert_schema:
  assumes "schema_ok db" and u: "upsert_row (\<lambda>a b. fst a = fst b) (\<lambda>old. Inr (fst old, v)) [] [] row (db_settings db) = (t, r)"
  shows "schema_ok (db\<lparr>db_settings := t\<rparr>)"
proof -
  have "distinct (map fst t)"
    by (rule upsert_distinct [OF u]) (use assms(1) in \<open>auto simp: schema_defs\<close>)
  with assms(1) show ?thesis by (simp add: schema_defs)
qed

lemma admin_upsert_schema:
  assumes "schema_ok db"
    and u: "upsert_row (\<lambda>a b. u_Username a = u_Username b) (overwrite_admin now h) user_keys [] row (db_users db) = (t, r)"
  shows "schema_ok (db\<lparr>db_users := t\<rparr>)"
proof -
  from assms(1) have names: "distinct (map u_Username (db_users db))" by (simp add: schema_defs)
  have same: "u_ID new = u_ID x" if "old \<in> set (db_users db)" "x \<in> set (db_users db)" "u_Username row = u_Username old"
      "overwrite_admin now h old = Inr new" "u_Username row = u_Username x" for old new x
    using that names overwrite_admin_keys [OF that(4)] by (metis distinct_map inj_on_eq_iff)
  have "distinct (map u_Username t)"
    by (rule upsert_distinct [OF u names]) (auto dest: overwrite_admin_keys)
  moreover have "distinct (map u_ID t)"
  proof (rule upsert_distinct [OF u])
    show "distinct (map u_ID (db_users db))" using assms(1) by (simp add: schema_defs)
    show "u_ID row \<noteq> u_ID x" if "\<And>name key. (name, key) \<in> set user_keys \<Longrightarrow> \<not> key row x" for x
      using that [of "''users_pkey''"] by (simp add: user_keys_def)
  qed (rule same)
  moreover have "u_ID ` set (db_users db) \<subseteq> u_ID ` set t"
    by (rule upsert_covers [OF u]) (rule same)
  ultimately show ?thesis using assms(1) by (simp add: schema_defs) (meson subset_trans)
qed

text \<open>The removal of an agent.\<close>

definition without_bindings :: "string \<Rightarrow> Db \<Rightarrow> Db" where
  "without_bindings i db = db\<lparr>db_bindings := filter (\<lambda>ai. ai_AgentID ai \<noteq> i) (db_bindings db)\<rparr>"

definition without_agent :: "string \<Rightarrow> Db \<Rightarrow> Db" where
  "without_agent i db = (without_bindings i db)\<lparr>db_agents := filter (\<lambda>a. a_ID a \<noteq> i) (db_agents db)\<rparr>"

lemma delete_agent_outcomes:
  "pg_DeleteAgent cx i db =
     (case cx 0 of
        NotSent e \<Rightarrow> (db, Inl (ErrWrap ''delete agent integrations: '' e []))
      | Unanswered e \<Rightarrow> (without_bindings i db, Inl (ErrWrap ''delete agent integrations: '' e []))
      | Delivered \<Rightarrow>
          (case cx 1 of
             NotSent e \<Rightarrow> (without_bindings i db, Inl (ErrWrap ''delete agent: '' e []))
           | Unanswered e \<Rightarrow> (without_agent i db, Inl (ErrWrap ''delete agent: '' e []))
           | Delivered \<Rightarrow> (without_agent i db, if filter (\<lambda>a. a_ID a = i) (db_agents db) = [] then Inl ErrNotFound else Inr ())))"
  by (simp add: pg_DeleteAgent_def delete_bindings_def delete_rows_def without_bindings_def without_agent_def
      split: wire.split cong: filter_cong)

lemma schema_without:
  assumes "schema_ok db"
  shows "schema_ok (without_bindings i db)" "schema_ok (without_agent i db)"
proof -
  have "ai_AgentID ` {b \<in> set (db_bindings db). ai_AgentID b \<noteq> i \<and> True} \<subseteq> a_ID ` {a \<in> set (db_agents db). a_ID a \<noteq> i}"
    using assms by (intro delete_agent_references) (simp add: schema_ok_def references_ok_def)
  with assms show "schema_ok (without_bindings i db)" "schema_ok (without_agent i db)"
    by (simp_all add: schema_ok_def keys_ok_def references_ok_def without_bindings_def without_agent_def
        distinct_map_filter image_filter_subset)
qed

lemma schema_ok_step:
  assumes "schema_ok db"
  shows "schema_ok (fst (pg_step cx now op db))"
proof (cases "upserts op")
  case False
  with assms show ?thesis by (simp add: schema_ok_def simple_keys simple_references)
next
  case True
  show ?thesis
  proof (cases "\<exists>i. op = OpDeleteAgent i")
    case True
    with assms show ?thesis by (auto simp: delete_agent_outcomes schema_without split: wire.split)
  next
    case False
    with assms \<open>upserts op\<close> show ?thesis
      by (cases op rule: upserts.cases)
        (auto simp: pg_UpsertIntegrationConnection_def pg_UpsertAgentIntegration_def pg_UpsertPluginManifest_def
           pg_SetAppSetting_def pg_BootstrapAdmin_def sent_def Let_def split: write_splits wire.splits
           intro: connection_upsert_schema binding_upsert_schema manifest_upsert_schema setting_upsert_schema admin_upsert_schema)
  qed
qed

text \<open>
  After any sequence of writes, with any of their statements failing, the database has unique keys and
  no dangling reference: users by id and by name, agents, models, connections, integrations of agents,
  manifests, identities and settings; owners and linked users exist, and so do the agents integrations
  are of.
\<close>

lemma reachable_schema: "pg_reachable db \<Longrightarrow> schema_ok db"
  by (induction rule: pg_reachable.induct) (simp_all add: schema_ok_New schema_ok_step)

lemma upsert_row_Inl: "upsert_row same change uniques references row t = (t', Inl e) \<Longrightarrow> t' = t"
  by (erule upsert_row_cases) simp_all

lemma insert_row_Inl: "insert_row uniques references row t = (t', Inl e) \<Longrightarrow> t' = t"
  by (erule insert_row_cases) simp_all

lemma one_row_Inl: "one_row rows = Inl e \<longleftrightarrow> rows = [] \<and> e = ErrNoRows"
  by (cases rows) auto

lemma change_rows_none [simp]: "filter P t = [] \<Longrightarrow> change_rows P f t = t"
  by (auto simp: change_rows_def filter_empty_conv intro: map_idI)

lemma delete_rows_0: "delete_rows P t = (t', 0) \<Longrightarrow> t' = t"
  by (auto simp: delete_rows_def filter_empty_conv intro: filter_True)

text \<open>What the methods do to an error.\<close>

lemma Inl_results [simp]:
  "conflict_or pre r = Inl e \<longleftrightarrow> (\<exists>err. r = Inl err \<and> e = (if is_duplicate err then ErrConflict else ErrWrap pre err []))"
  "or_not_found r = Inl e \<longleftrightarrow> (\<exists>err. r = Inl err \<and> e = (if err = ErrNoRows then ErrNotFound else err))"
  "wrap pre r = Inl e \<longleftrightarrow> (\<exists>err. r = Inl err \<and> e = ErrWrap pre err [])"
  "map_sum id f s = Inl e \<longleftrightarrow> s = Inl e"
  "err_of r = Some e \<longleftrightarrow> r = Inl e"
  by (cases r; cases s; auto simp: conflict_or_def or_not_found_def)+

section \<open>All or nothing\<close>

text \<open>What the database holds after the first of two statements that are not in a transaction.\<close>

fun first_half :: "store_op \<Rightarrow> Db \<Rightarrow> Db" where
  "first_half (OpDeleteAgent i) db = db\<lparr>db_bindings := filter (\<lambda>ai. ai_AgentID ai \<noteq> i) (db_bindings db)\<rparr>"
| "first_half (OpDeleteIntegrationConnection u p) db =
     db\<lparr>db_connections := filter (\<lambda>c. \<not> of_user u p c) (db_connections db)\<rparr>"
| "first_half op db = db"

abbreviation whole :: "store_op \<Rightarrow> time \<Rightarrow> Db \<Rightarrow> Db" where
  "whole op now db \<equiv> fst (pg_step (\<lambda>_. Delivered) now op db)"

fun two_halves :: "store_op \<Rightarrow> bool" where
  "two_halves (OpDeleteAgent i) = True"
| "two_halves (OpDeleteIntegrationConnection u p) = True"
| "two_halves (OpCreateUserAndIdentity r a) = True"
| "two_halves (OpLinkIdentityToUser u p s e d) = True"
| "two_halves op = False"

lemma one_statement:
  assumes "\<not> two_halves op"
  shows "fst (pg_step cx now op db) =
    (case cx 0 of Delivered \<Rightarrow> whole op now db | NotSent e \<Rightarrow> db | Unanswered e \<Rightarrow> whole op now db)"
  using assms
  by (cases op; cases "cx 0"; simp add: pg_single_defs Let_def case_prod_beta split: sum.splits)

lemma one_statement_error:
  assumes "\<not> two_halves op" "cx 0 \<noteq> Delivered"
  shows "snd (pg_step cx now op db) \<noteq> None"
  using assms
  by (cases op; cases "cx 0"; simp add: pg_single_defs conflict_or_def or_not_found_def Let_def case_prod_beta split: sum.splits)

text \<open>The methods with several statements.\<close>

lemma delete_agent_halves:
  "if snd (pg_step cx now (OpDeleteAgent i) db) = None
   then fst (pg_step cx now (OpDeleteAgent i) db) = whole (OpDeleteAgent i) now db
   else fst (pg_step cx now (OpDeleteAgent i) db) \<in> {db, whole (OpDeleteAgent i) now db, first_half (OpDeleteAgent i) db}"
  by (auto simp: delete_agent_outcomes without_bindings_def split: wire.split)

lemma disconnect_halves:
  "if snd (pg_step cx now (OpDeleteIntegrationConnection u p) db) = None
   then fst (pg_step cx now (OpDeleteIntegrationConnection u p) db)
     \<in> {whole (OpDeleteIntegrationConnection u p) now db, first_half (OpDeleteIntegrationConnection u p) db}
   else fst (pg_step cx now (OpDeleteIntegrationConnection u p) db) \<in> {db, first_half (OpDeleteIntegrationConnection u p) db}"
  by (cases "cx 0"; cases "cx 1"; simp add: pg_DeleteIntegrationConnection_def delete_rows_def)

lemma sign_in_whole:
  "if snd (pg_step cx now (OpCreateUserAndIdentity r a) db) = None
   then fst (pg_step cx now (OpCreateUserAndIdentity r a) db) = whole (OpCreateUserAndIdentity r a) now db
   else fst (pg_step cx now (OpCreateUserAndIdentity r a) db) \<in> {db, whole (OpCreateUserAndIdentity r a) now db}"
  by (cases "cx 0"; cases "cx 1"; cases "cx 2"; cases "cx 3";
      simp add: pg_CreateUserAndIdentity_def conflict_or_def case_prod_beta split: sum.split)

lemma link_whole:
  "if snd (pg_step cx now (OpLinkIdentityToUser u p s e d) db) = None
   then fst (pg_step cx now (OpLinkIdentityToUser u p s e d) db) = whole (OpLinkIdentityToUser u p s e d) now db
   else fst (pg_step cx now (OpLinkIdentityToUser u p s e d) db) \<in> {db, whole (OpLinkIdentityToUser u p s e d) now db}"
  by (cases "cx 0"; cases "cx 1"; simp add: pg_LinkIdentityToUser_def conflict_or_def case_prod_beta)

end
