(* ===== verification/PostgresRefine.thy ===== *)
theory PostgresRefine
  imports PostgresInv
begin

text \<open>
  The database keeps the data of the in-memory store: \<open>same_data\<close> relates the two states, and a write
  other than a disconnection whose operands are in order (\<open>fits\<close>: new ids are new, a referenced user or
  agent exists, a connection has the default scope, a password hash is not empty and is set for a user
  that exists, a binding is saved with revision 0 or 1, no revision overflows) keeps them related and reports the same error. The reads
  then agree, up to the order of lists. The rest of the theory states where the two stores part, first
  of all on disconnections, and what a write leaves in the database when its statements fail.
\<close>

section \<open>Tables and slices\<close>

lemma one_row_find: "one_row (map g (filter P t)) = (case find P t of None \<Rightarrow> Inl ErrNoRows | Some x \<Rightarrow> Inr (g x))"
  by (induction t) simp_all

lemma one_row_filter: "one_row (filter P t) = (case find P t of None \<Rightarrow> Inl ErrNoRows | Some x \<Rightarrow> Inr x)"
  by (induction t) simp_all

text \<open>A condition on a key holds for one row at most; then the loop's first match is the whole of the
  rows the statement changes.\<close>

definition at_most_one :: "('r \<Rightarrow> bool) \<Rightarrow> 'r list \<Rightarrow> bool" where
  "at_most_one P t \<longleftrightarrow> length (filter P t) \<le> 1"

lemma key_at_most_one: "distinct (map k t) \<Longrightarrow> at_most_one (\<lambda>x. k x = v) t"
proof (induction t)
  case (Cons x t)
  then have "filter (\<lambda>x. k x = v) t = []" if "k x = v"
    using that by (auto simp: filter_empty_conv image_iff)
  with Cons show ?case by (auto simp: at_most_one_def)
qed (simp add: at_most_one_def)

lemma at_most_one_imp: "at_most_one P t \<Longrightarrow> (\<And>x. Q x \<Longrightarrow> P x) \<Longrightarrow> at_most_one Q t"
proof -
  assume "\<And>x. Q x \<Longrightarrow> P x"
  then have "length (filter Q t) \<le> length (filter P t)" by (induction t) auto
  then show "at_most_one P t \<Longrightarrow> at_most_one Q t" by (simp add: at_most_one_def)
qed

lemma change_is_update1: "at_most_one P t \<Longrightarrow> change_rows P f t = update1 P f t"
proof (induction t)
  case (Cons x t)
  then show ?case
    by (cases "P x") (simp_all add: at_most_one_def change_rows_def map_idI filter_empty_conv)
qed (simp add: change_rows_def)

lemma filter_is_delete1: "at_most_one P t \<Longrightarrow> filter (\<lambda>x. \<not> P x) t = delete1 P t"
proof (induction t)
  case (Cons x t)
  then show ?case by (cases "P x") (simp_all add: at_most_one_def filter_empty_conv filter_id_conv)
qed simp

lemma filter_none_iff: "filter P t = [] \<longleftrightarrow> find P t = None"
  by (auto simp: filter_empty_conv find_None_iff)

text \<open>Loops over related lists.\<close>

lemma find_related:
  assumes "list_all2 R xs ys" "\<And>x y. R x y \<Longrightarrow> P x = Q y"
  shows "rel_option R (find P xs) (find Q ys)"
  using assms by (induction rule: list_all2_induct) auto

lemma update1_related:
  assumes "list_all2 R xs ys" "\<And>x y. R x y \<Longrightarrow> P x = Q y" "\<And>x y. R x y \<Longrightarrow> P x \<Longrightarrow> R (f x) (g y)"
  shows "list_all2 R (update1 P f xs) (update1 Q g ys)"
  using assms by (induction rule: list_all2_induct) auto

section \<open>The relation\<close>

definition same_user :: "UserRow \<Rightarrow> User \<Rightarrow> bool" where
  "same_user row u \<longleftrightarrow> u_ID row = u_ID u \<and> u_Username row = u_Username u \<and> u_Role row = u_Role u \<and>
     u_Disabled row = u_Disabled u \<and> u_CreatedAt row = u_CreatedAt u"

text \<open>An empty column stands for no password.\<close>

definition hashes :: "UserRow list \<Rightarrow> string \<rightharpoonup> string" where
  "hashes t n = (case find (\<lambda>row. u_Username row = n) t of
     None \<Rightarrow> None | Some row \<Rightarrow> if ur_PasswordHash row = [] then None else Some (ur_PasswordHash row))"

definition own_scope :: "IntegrationConnection \<Rightarrow> bool" where
  "own_scope c \<longleftrightarrow> ic_Scope c = ''user'' \<and> ic_ScopeID c = ic_UserID c"

definition gateway_of :: "Memory \<Rightarrow> LLMGatewaySettings" where
  "gateway_of m = \<lparr>gs_Enabled = m_gatewayEnabled m, gs_BaseURL = m_gatewayBaseURL m,
     gs_SecretName = m_gatewaySecret m, gs_SecretKey = m_gatewayKey m, gs_UpdatedAt = m_gatewayUpdated m\<rparr>"

definition same_data :: "Db \<Rightarrow> Memory \<Rightarrow> bool" where
  "same_data db m \<longleftrightarrow>
     list_all2 same_user (db_users db) (m_users m) \<and> m_passwordHashes m = hashes (db_users db) \<and>
     m_agents m = db_agents db \<and> m_llmModels m = db_models db \<and>
     gateway_of m = (case db_gateway db of None \<Rightarrow> no_gateway | Some s \<Rightarrow> s) \<and>
     m_integrations m = db_connections db \<and> list_all own_scope (db_connections db) \<and>
     m_agentIntegrations m = db_bindings db \<and>
     m_pluginManifests m = (\<lambda>i. find (\<lambda>pm. pm_ID pm = i) (db_manifests db)) \<and>
     m_userIdentities m = db_identities db \<and> m_appSettings m = map_of (db_settings db)"

lemma same_data_New: "same_data NewDb NewMemory"
  by (auto simp: same_data_def NewDb_def NewMemory_def hashes_def gateway_of_def no_gateway_def)

section \<open>Writes in order\<close>

text \<open>The handlers and services of the program send writes with these operands: ids are random, users and
  agents are looked up first (\<open>refs_ok\<close> of theory \<open>ApiInv\<close>), hashes come from bcrypt, connections carry no
  scope, and a revision that overflows would take \<open>2 ^ 63\<close> writes. A disconnection is left out: the stores
  part on it (\<open>stores_part_on_disconnect\<close>).\<close>

definition fresh_id :: "rnd \<Rightarrow> string list \<Rightarrow> bool" where
  "fresh_id r ids = (case newID r of Inl e \<Rightarrow> False | Inr i \<Rightarrow> i \<notin> set ids)"

definition can_follow :: "int \<Rightarrow> int option \<Rightarrow> bool" where
  "can_follow given stored = (case stored of None \<Rightarrow> True | Some n \<Rightarrow> 0 \<le> n \<and> n < 2 ^ 63 - 1 \<and> given \<le> n + 1)"

fun fits :: "store_op \<Rightarrow> Db \<Rightarrow> bool" where
  "fits (OpCreateUser r n h ro) db = fresh_id r (map u_ID (db_users db))"
| "fits (OpSetPasswordHash n h) db = (n \<in> set (map u_Username (db_users db)) \<and> h \<noteq> [])"
| "fits (OpCreateAgent r ow n d rt mo sp) db = (fresh_id r (map a_ID (db_agents db)) \<and> user_exists ow db)"
| "fits (OpCreateLLMModel r d p e) db = fresh_id r (map lm_ID (db_models db))"
| "fits (OpUpsertIntegrationConnection c) db =
     (ic_Scope c = [] \<and> ic_ScopeID c = [] \<and> user_exists (ic_UserID c) db \<and>
      can_follow (ic_Revision c) (map_option ic_Revision (find (of_user (ic_UserID c) (ic_ProviderID c)) (db_connections db))))"
| "fits (OpDeleteIntegrationConnection u p) db = False"
| "fits (OpUpsertAgentIntegration a p e v s) db =
     (agent_exists a db \<and> v \<in> {0, 1} \<and>
      can_follow v (map_option ai_Revision (find (\<lambda>ai. ai_AgentID ai = a \<and> ai_ProviderID ai = p) (db_bindings db))))"
| "fits (OpUpsertPluginManifest pm) db =
     can_follow 0 (map_option pm_Revision (find (\<lambda>x. pm_ID x = pm_ID pm) (db_manifests db)))"
| "fits (OpBootstrapAdmin r n h) db = fresh_id r (map u_ID (db_users db))"
| "fits (OpCreateUserAndIdentity r a) db = fresh_id r (map u_ID (db_users db))"
| "fits op db = True"

section \<open>One write\<close>

lemma same_data_users:
  assumes "same_data db m"
  shows "rel_option same_user (find (\<lambda>row. u_ID row = i) (db_users db)) (find (\<lambda>u. u_ID u = i) (m_users m))"
    and "rel_option same_user (find (\<lambda>row. u_Username row = n) (db_users db)) (find (\<lambda>u. u_Username u = n) (m_users m))"
  using assms by (auto simp: same_data_def same_user_def intro!: find_related)

lemma same_user_set:
  assumes "list_all2 same_user rows us"
  shows "u_ID ` set us = u_ID ` set rows" "u_Username ` set us = u_Username ` set rows"
  using assms by (induction rule: list_all2_induct) (auto simp: same_user_def)

text \<open>The two sides of a write. Only \<open>name\<close>s of tables the write touches matter.\<close>

definition agree :: "store_op \<Rightarrow> Db \<Rightarrow> Memory \<Rightarrow> bool" where
  "agree op db m \<longleftrightarrow> (\<forall>now. same_data (fst (pg_step (\<lambda>_. Delivered) now op db)) (fst (store_step None now op m)) \<and>
     snd (pg_step (\<lambda>_. Delivered) now op db) = snd (store_step None now op m))"

lemma gateway_of_simps [simp]:
  "gateway_of (m\<lparr>m_users := us\<rparr>) = gateway_of m" "gateway_of (m\<lparr>m_passwordHashes := hs\<rparr>) = gateway_of m"
  "gateway_of (m\<lparr>m_agents := as\<rparr>) = gateway_of m" "gateway_of (m\<lparr>m_llmModels := xs\<rparr>) = gateway_of m"
  "gateway_of (m\<lparr>m_integrations := cs\<rparr>) = gateway_of m" "gateway_of (m\<lparr>m_agentIntegrations := bs\<rparr>) = gateway_of m"
  "gateway_of (m\<lparr>m_pluginManifests := ps\<rparr>) = gateway_of m" "gateway_of (m\<lparr>m_userIdentities := is\<rparr>) = gateway_of m"
  "gateway_of (m\<lparr>m_appSettings := ss\<rparr>) = gateway_of m"
  by (simp_all add: gateway_of_def)

lemma schema_at_most_one:
  assumes "schema_ok db"
  shows "at_most_one (\<lambda>row. u_ID row = i) (db_users db)" "at_most_one (\<lambda>row. u_Username row = i) (db_users db)"
    "at_most_one (\<lambda>a. a_ID a = i) (db_agents db)" "at_most_one (\<lambda>x. lm_ID x = i) (db_models db)"
    "at_most_one (\<lambda>pm. pm_ID pm = i) (db_manifests db)" "at_most_one (is_identity p i) (db_identities db)"
    "at_most_one (\<lambda>x. ui_UserID x = u \<and> is_identity p i x) (db_identities db)"
proof -
  have "at_most_one (\<lambda>x. identity_key x = (p, i)) (db_identities db)"
    using assms by (intro key_at_most_one) (simp add: schema_defs)
  then show "at_most_one (is_identity p i) (db_identities db)"
    "at_most_one (\<lambda>x. ui_UserID x = u \<and> is_identity p i x) (db_identities db)"
    by (rule at_most_one_imp; simp add: identity_key_def is_identity_def)+
qed (use assms in \<open>simp_all add: schema_defs key_at_most_one\<close>)

lemmas find_simps = one_row_find one_row_filter update_first_def remove_first_def or_not_found_def update1_id
  change_is_update1 update_rows_def

lemma agree_updates:
  assumes "same_data db m" "schema_ok db"
  shows "agree (OpUpdateAgentState i s) db m" "agree (OpUpdateAgentError i s) db m"
    "agree (OpUpdateLLMModel i dn pr en) db m" "agree (OpTouchIdentityLogin p i) db m"
  using assms(1) schema_at_most_one [OF assms(2)]
  by (simp_all add: agree_def pg_defs write_defs find_simps same_data_def filter_none_iff split: option.splits)

lemma agree_gateway:
  "same_data db m \<Longrightarrow> agree (OpUpsertLLMGatewaySettings on bu sn sk) db m"
  by (simp add: agree_def pg_defs write_defs same_data_def gateway_of_def Let_def)

lemma agree_creations:
  assumes "same_data db m" "schema_ok db"
  shows "fresh_id r (map a_ID (db_agents db)) \<Longrightarrow> user_exists ow db \<Longrightarrow> agree (OpCreateAgent r ow n d rt mo sp) db m"
    "fresh_id r (map lm_ID (db_models db)) \<Longrightarrow> agree (OpCreateLLMModel r dn pr en) db m"
  using assms(1)
  by (auto simp: agree_def pg_defs write_defs same_data_def row_defs fresh_id_def Let_def split: sum.splits)

lemma find_filter_key: "find (\<lambda>x. k x = j) (filter (\<lambda>x. k x \<noteq> i) t) = (if j = i then None else find (\<lambda>x. k x = j) t)"
  by (induction t) auto

lemma delete1_none [simp]: "find P t = None \<Longrightarrow> delete1 P t = t"
  by (induction t) (auto split: if_splits)

lemma agree_delete_manifest:
  assumes "same_data db m"
  shows "agree (OpDeletePluginManifest i) db m"
  using assms
  by (simp add: agree_def pg_defs write_defs find_simps same_data_def filter_none_iff delete_rows_def find_filter_key
      fun_eq_iff split: option.splits)

lemma agree_unlink:
  assumes "same_data db m" "schema_ok db"
  shows "agree (OpUnlinkIdentity u p s) db m"
  using assms(1) filter_is_delete1 [OF schema_at_most_one(7) [OF assms(2), of u p s], simplified]
  by (simp add: agree_def pg_defs write_defs find_simps same_data_def filter_none_iff delete_rows_def split: option.splits)

lemma agree_delete_agent:
  assumes "same_data db m" "schema_ok db"
  shows "agree (OpDeleteAgent i) db m"
proof -
  from assms(2) have refs: "ai_AgentID ` set (db_bindings db) \<subseteq> a_ID ` set (db_agents db)" by (simp add: schema_defs)
  have "filter (\<lambda>ai. ai_AgentID ai \<noteq> i) (db_bindings db) = db_bindings db" if "find (\<lambda>a. a_ID a = i) (db_agents db) = None"
    using that subsetD [OF refs, of i] by (force simp: find_None_iff filter_id_conv)
  with assms(1) filter_is_delete1 [OF schema_at_most_one(3) [OF assms(2), of i]]
  show ?thesis
    by (cases "find (\<lambda>a. a_ID a = i) (db_agents db)")
      (simp_all add: agree_def pg_defs write_defs find_simps same_data_def filter_none_iff delete_rows_def delete_bindings_def)
qed

section \<open>The upserts\<close>

lemma update1_first: "find P t = Some old \<Longrightarrow> update1 P (\<lambda>x. f old) t = update1 P f t"
  by (induction t) (auto split: if_splits)

text \<open>What an upsert does when the row meets the constraints: the loop of the in-memory store.\<close>

lemma upsert_refines:
  assumes one: "at_most_one (same row) t" and same: "\<And>x. x \<in> set t \<Longrightarrow> same row x = P x"
    and old: "\<And>old. find P t = Some old \<Longrightarrow> change old = Inr (f old)"
    and new: "find P t = None \<Longrightarrow> insert_row uniques references row t = (t @ [row], Inr row)"
  shows "upsert_row same change uniques references row t =
    (case find P t of Some old \<Rightarrow> (update1 P f t, Inr (f old)) | None \<Rightarrow> (t @ [row], Inr row))"
proof -
  have "find (same row) t = find P t" by (rule find_cong) (simp_all add: same)
  moreover have "change_rows (same row) (\<lambda>x. f old) t = update1 P f t" if "find P t = Some old" for old
  proof -
    from one have "at_most_one P t" by (simp add: at_most_one_def same cong: filter_cong)
    moreover have "change_rows (same row) (\<lambda>x. f old) t = change_rows P (\<lambda>x. f old) t"
      by (simp add: change_rows_def same)
    ultimately show ?thesis using that by (simp add: change_is_update1 update1_first)
  qed
  ultimately show ?thesis using old new by (auto simp: upsert_row_def split: option.splits)
qed

lemma can_follow_succ:
  "can_follow given (Some n) \<Longrightarrow> bigint_succ n = Inr (n + 1) \<and> inc64 n = n + 1 \<and> given \<le> n + 1"
  by (auto simp: can_follow_def bigint_succ_def inc64_eq)

lemma overwrite_is_refresh:
  assumes "own_scope old" "ic_Scope conn = ''user''" "ic_ScopeID conn = ic_UserID old"
    "can_follow (ic_Revision conn) (Some (ic_Revision old))"
  shows "overwrite_connection now conn old = Inr (refresh_connection now conn old)"
  using assms can_follow_succ [OF assms(4)]
  by (cases old) (simp add: overwrite_connection_def refresh_connection_def own_scope_def Let_def)

lemma default_scope_own:
  assumes "ic_Scope c = []" "ic_ScopeID c = []"
  shows "default_scope c = c\<lparr>ic_Scope := ''user'', ic_ScopeID := ic_UserID c\<rparr>"
  using assms by (simp add: default_scope_def)

definition own_key :: "IntegrationConnection \<Rightarrow> IntegrationConnection \<Rightarrow> bool" where
  "own_key conn d \<longleftrightarrow> ic_ProviderID d = ic_ProviderID conn \<and> ic_UserID d = ic_UserID conn"

lemma connection_upsert_refines:
  assumes own: "list_all own_scope t" and keys: "distinct (map connection_pkey t)" and scope: "own_scope conn"
    and fit: "can_follow (ic_Revision conn) (map_option ic_Revision (find (own_key conn) t))"
  shows "upsert_row same_connection (overwrite_connection now conn) [] [(True, tbl, name)] (first_connection now conn) t =
    (case find (own_key conn) t of Some old \<Rightarrow> (update1 (own_key conn) (refresh_connection now conn) t, Inr (refresh_connection now conn old))
     | None \<Rightarrow> (t @ [first_connection now conn], Inr (first_connection now conn)))"
proof (rule upsert_refines)
  have "at_most_one (\<lambda>d. connection_pkey d = connection_pkey (first_connection now conn)) t"
    by (rule key_at_most_one [OF keys])
  then show "at_most_one (same_connection (first_connection now conn)) t"
    by (rule at_most_one_imp) (simp add: same_connection_pkey)
  show "same_connection (first_connection now conn) d = own_key conn d" if "d \<in> set t" for d
    using own that scope by (auto simp: own_key_def same_connection_def own_scope_def first_connection_def list_all_iff)
  show "overwrite_connection now conn old = Inr (refresh_connection now conn old)" if f: "find (own_key conn) t = Some old" for old
  proof -
    from f have "old \<in> set t" "own_key conn old" by (auto simp: find_Some_iff)
    with own scope fit f show ?thesis
      by (intro overwrite_is_refresh) (simp_all add: own_key_def own_scope_def list_all_iff)
  qed
qed (simp add: insert_row_def)

lemma find_own:
  assumes "list_all own_scope t" "ic_UserID conn = u" "ic_ProviderID conn = p"
  shows "find (of_user u p) t = find (own_key conn) t"
  using assms by (intro find_cong) (auto simp: of_user_def own_key_def own_scope_def list_all_iff)

lemma refresh_own: "own_scope conn \<Longrightarrow> own_key conn d \<Longrightarrow> own_scope (refresh_connection now conn d)"
  by (simp add: own_scope_def own_key_def refresh_connection_def)

lemma list_all_update1: "list_all Q t \<Longrightarrow> (\<And>x. P x \<Longrightarrow> Q (f x)) \<Longrightarrow> list_all Q (update1 P f t)"
  by (induction t) auto

lemma agree_connection:
  assumes data: "same_data db m" and "schema_ok db" and fits: "fits (OpUpsertIntegrationConnection c) db"
  shows "agree (OpUpsertIntegrationConnection c) db m"
proof -
  define conn where "conn = default_scope c"
  let ?t = "db_connections db"
  from fits have conn: "own_scope conn" "ic_UserID conn = ic_UserID c" "ic_ProviderID conn = ic_ProviderID c"
    "ic_Revision conn = ic_Revision c"
    by (simp_all add: conn_def default_scope_own own_scope_def)
  from data have own: "list_all own_scope ?t" by (simp add: same_data_def)
  from assms(2) have keys: "distinct (map connection_pkey ?t)" by (simp add: schema_defs)
  note up = connection_upsert_refines [OF own keys conn(1)]
  have fit: "can_follow (ic_Revision conn) (map_option ic_Revision (find (own_key conn) ?t))"
    using fits find_own [OF own conn(2,3)] by (simp add: conn)
  have first: "first_connection now conn = conn\<lparr>ic_Revision := or_one (ic_Revision conn), ic_CreatedAt := now, ic_UpdatedAt := now\<rparr>" for now
    by (simp add: first_connection_def or_one_def)
  have key: "(\<lambda>d. ic_ProviderID d = ic_ProviderID conn \<and> ic_UserID d = ic_UserID conn) = own_key conn"
    by (simp add: own_key_def fun_eq_iff)
  have exists: "user_exists (ic_UserID conn) db = True" using fits conn by simp
  have own': "list_all own_scope (update1 (own_key conn) (refresh_connection now conn) ?t)" for now
    by (rule list_all_update1 [OF own refresh_own [OF conn(1)]])
  have "own_scope (first_connection now conn)" for now
    using conn(1) by (simp add: own_scope_def first_connection_def)
  note own' = own' this
  show ?thesis
    using data up [OF fit] own'
    by (simp add: agree_def pg_UpsertIntegrationConnection_def UpsertIntegrationConnection_def Let_def update_first_def
        key exists same_data_def flip: conn_def first split: option.splits)
qed

lemma agree_binding:
  assumes data: "same_data db m" and "schema_ok db" and fits: "fits (OpUpsertAgentIntegration a p e v s) db"
  shows "agree (OpUpsertAgentIntegration a p e v s) db m"
proof -
  let ?t = "db_bindings db" and ?P = "\<lambda>ai. ai_AgentID ai = a \<and> ai_ProviderID ai = p"
  let ?new = "\<lambda>now. \<lparr>ai_AgentID = a, ai_ProviderID = p, ai_Enabled = e, ai_Revision = 1, ai_Status = s, ai_UpdatedAt = now, ai_CreatedAt = now\<rparr>"
  let ?f = "\<lambda>now ai. ai\<lparr>ai_Enabled := e, ai_Revision := (let newRevision = inc64 (ai_Revision ai)
               in if v > newRevision then v else newRevision), ai_Status := s, ai_UpdatedAt := now\<rparr>"
  have "upsert_row same_binding (overwrite_binding now e s) [] [(True, tbl, name)] (?new now) ?t =
    (case find ?P ?t of Some old \<Rightarrow> (update1 ?P (?f now) ?t, Inr (?f now old)) | None \<Rightarrow> (?t @ [?new now], Inr (?new now)))" for now tbl name
  proof (rule upsert_refines)
    have "at_most_one (\<lambda>d. binding_key d = binding_key (?new now)) ?t"
      using assms(2) by (intro key_at_most_one) (simp add: schema_defs)
    then show "at_most_one (same_binding (?new now)) ?t"
      by (rule at_most_one_imp) (simp add: same_binding_key)
    show "overwrite_binding now e s old = Inr (?f now old)" if "find ?P ?t = Some old" for old
      using fits can_follow_succ [of v "ai_Revision old"] that by (simp add: overwrite_binding_def)
  qed (auto simp: insert_row_def same_binding_def)
  moreover from fits have "or_one v = 1" "agent_exists a db" by (auto simp: or_one_def)
  ultimately show ?thesis
    using data by (simp add: agree_def pg_UpsertAgentIntegration_def UpsertAgentIntegration_def update_first_def same_data_def Let_def
        split: option.splits)
qed

lemma find_update1_key:
  "(\<And>x. k (f x) = k x) \<Longrightarrow> find (\<lambda>x. k x = j) (update1 (\<lambda>x. k x = i) f t) =
     (if j = i then map_option f (find (\<lambda>x. k x = i) t) else find (\<lambda>x. k x = j) t)"
  by (induction t) auto

lemma agree_manifest:
  assumes data: "same_data db m" and "schema_ok db" and fits: "fits (OpUpsertPluginManifest pm) db"
  shows "agree (OpUpsertPluginManifest pm) db m"
proof -
  let ?t = "db_manifests db" and ?P = "\<lambda>x. pm_ID x = pm_ID pm"
  let ?new = "\<lambda>now. pm\<lparr>pm_Revision := 1, pm_CreatedAt := now, pm_UpdatedAt := now\<rparr>"
  let ?f = "\<lambda>now x. x\<lparr>pm_YAML := pm_YAML pm, pm_Enabled := pm_Enabled pm, pm_Revision := inc64 (pm_Revision x), pm_UpdatedAt := now\<rparr>"
  have up: "upsert_row (\<lambda>a b. pm_ID a = pm_ID b) (overwrite_manifest now pm) [] [] (?new now) ?t =
    (case find ?P ?t of Some old \<Rightarrow> (update1 ?P (?f now) ?t, Inr (?f now old)) | None \<Rightarrow> (?t @ [?new now], Inr (?new now)))" for now
  proof (rule upsert_refines)
    show "at_most_one ((\<lambda>a b. pm_ID a = pm_ID b) (?new now)) ?t"
      using schema_at_most_one(5) [OF assms(2), of "pm_ID pm"] by (simp add: eq_commute)
    show "overwrite_manifest now pm old = Inr (?f now old)" if "find ?P ?t = Some old" for old
      using fits can_follow_succ [of 0 "pm_Revision old"] that by (simp add: overwrite_manifest_def)
  qed (auto simp: insert_row_def)
  have new: "\<lparr>pm_ID = pm_ID pm, pm_YAML = pm_YAML pm, pm_Enabled = pm_Enabled pm, pm_Revision = 1,
      pm_CreatedAt = now, pm_UpdatedAt = now\<rparr> = ?new now" for now
    by simp
  show ?thesis
  proof (cases "find ?P ?t")
    case None
    with data show ?thesis
      by (auto simp: agree_def pg_UpsertPluginManifest_def UpsertPluginManifest_def same_data_def Let_def new up find_append fun_eq_iff
          split: option.splits)
  next
    case (Some old)
    with data show ?thesis
      by (simp add: agree_def pg_UpsertPluginManifest_def UpsertPluginManifest_def same_data_def Let_def new up find_update1_key fun_eq_iff)
  qed
qed

lemma agree_setting:
  assumes data: "same_data db m" and "schema_ok db"
  shows "agree (OpSetAppSetting k v) db m"
proof -
  let ?t = "db_settings db"
  have "upsert_row (\<lambda>a b. fst a = fst b) (\<lambda>old. Inr (fst old, v)) [] [] (k, v) ?t =
    (case find (\<lambda>x. fst x = k) ?t of Some old \<Rightarrow> (update1 (\<lambda>x. fst x = k) (\<lambda>old. (fst old, v)) ?t, Inr (fst old, v))
     | None \<Rightarrow> (?t @ [(k, v)], Inr (k, v)))"
  proof (rule upsert_refines)
    have "at_most_one (\<lambda>x. fst x = k) ?t"
      using assms(2) by (intro key_at_most_one) (simp add: schema_defs)
    then show "at_most_one ((\<lambda>a b. fst a = fst b) (k, v)) ?t" by (simp add: eq_commute)
  qed (auto simp: insert_row_def)
  moreover have "map_of (update1 (\<lambda>x. fst x = k) (\<lambda>old. (fst old, v)) t) = (map_of t)(k \<mapsto> v)"
    if "find (\<lambda>x. fst x = k) t = Some old" for t :: "(string \<times> string) list" and old
    using that by (induction t) (auto split: if_splits)
  moreover have "map_of (t @ [(k, v)]) = (map_of t)(k \<mapsto> v)" if "find (\<lambda>x. fst x = k) t = None" for t :: "(string \<times> string) list"
    using that by (induction t) (auto split: if_splits)
  ultimately show ?thesis
    using data by (auto simp: agree_def pg_SetAppSetting_def SetAppSetting_def same_data_def split: option.splits)
qed

section \<open>Users\<close>

lemma hashes_simps [simp]:
  "hashes [] = Map.empty"
  "hashes (row # t) n = (if u_Username row = n then if ur_PasswordHash row = [] then None else Some (ur_PasswordHash row)
     else hashes t n)"
  by (simp_all add: hashes_def fun_eq_iff)

lemma hashes_append:
  "u_Username row \<notin> u_Username ` set t \<Longrightarrow> hashes (t @ [row]) =
     (if ur_PasswordHash row = [] then hashes t else (hashes t)(u_Username row \<mapsto> ur_PasswordHash row))"
  by (induction t) (auto simp: fun_eq_iff)

lemma hashes_update1:
  "(\<And>x. u_Username (f x) = u_Username x \<and> ur_PasswordHash (f x) = ur_PasswordHash x) \<Longrightarrow> hashes (update1 P f t) = hashes t"
  by (induction t) (auto simp: fun_eq_iff)

lemma hashes_set:
  assumes "n \<in> u_Username ` set t" "h \<noteq> []" "\<And>x. u_Username (f x) = u_Username x \<and> ur_PasswordHash (f x) = h"
  shows "hashes (update1 (\<lambda>row. u_Username row = n) f t) = (hashes t)(n \<mapsto> h)"
  using assms by (induction t) (auto simp: fun_eq_iff)

lemma update1_left:
  assumes "list_all2 R xs ys" "\<And>x y. R x y \<Longrightarrow> R (f x) y"
  shows "list_all2 R (update1 P f xs) ys"
  using assms by (induction rule: list_all2_induct) auto

lemma same_user_new: "same_user (new_user i n h ro now)
    \<lparr>u_ID = i, u_Username = n, u_Role = ro, u_Disabled = False, u_CreatedAt = now, u_UpdatedAt = now\<rparr>"
  by (simp add: same_user_def new_user_def)

lemma new_user_simps [simp]:
  "u_ID (new_user i n h ro now) = i" "u_Username (new_user i n h ro now) = n" "ur_PasswordHash (new_user i n h ro now) = h"
  by (simp_all add: new_user_def)

lemma username_taken:
  assumes "list_all2 same_user rows us"
  shows "(\<exists>u\<in>set us. u_Username u = n) \<longleftrightarrow> n \<in> u_Username ` set rows" "(\<exists>u\<in>set us. u_ID u = i) \<longleftrightarrow> i \<in> u_ID ` set rows"
  using same_user_set [OF assms] by (metis (mono_tags, lifting) imageE image_eqI)+

lemma agree_create_user:
  assumes data: "same_data db m" and "fresh_id r (map u_ID (db_users db))"
  shows "agree (OpCreateUser r n h ro) db m"
proof -
  from assms(2) obtain i where i: "newID r = Inr i" "i \<notin> u_ID ` set (db_users db)"
    by (auto simp: fresh_id_def split: sum.splits)
  from data have users: "list_all2 same_user (db_users db) (m_users m)" by (simp add: same_data_def)
  show ?thesis
    by (cases "n \<in> u_Username ` set (db_users db)")
      (use data in \<open>simp_all add: agree_def pg_CreateUser_def CreateUser_def same_data_def insert_user_def insert_row_def user_keys_def
        username_taken [OF users] i Let_def conflict_or_def hashes_append list_all2_appendI [OF users] same_user_new\<close>)
qed

lemma agree_update_user:
  assumes "same_data db m" "schema_ok db"
  shows "agree (OpUpdateUser i d ro) db m"
proof -
  have users: "list_all2 same_user (db_users db) (m_users m)" using assms(1) by (simp add: same_data_def)
  have upd: "list_all2 same_user (update1 (\<lambda>row. u_ID row = i)
        (\<lambda>row. row\<lparr>u_Disabled := (case d of Some x \<Rightarrow> x | None \<Rightarrow> u_Disabled row),
                    u_Role := (case ro of Some x \<Rightarrow> x | None \<Rightarrow> u_Role row), u_UpdatedAt := now\<rparr>) (db_users db))
      (update1 (\<lambda>row. u_ID row = i)
        (\<lambda>row. row\<lparr>u_Disabled := (case d of Some x \<Rightarrow> x | None \<Rightarrow> u_Disabled row),
                    u_Role := (case ro of Some x \<Rightarrow> x | None \<Rightarrow> u_Role row), u_UpdatedAt := now\<rparr>) (m_users m))" for now
    by (rule update1_related [OF users]) (auto simp: same_user_def split: option.splits)
  show ?thesis
    using assms(1) same_data_users(1) [OF assms(1), of i] schema_at_most_one(1) [OF assms(2), of i] upd
    by (cases "find (\<lambda>row. u_ID row = i) (db_users db)"; cases "find (\<lambda>u. u_ID u = i) (m_users m)")
      (simp_all add: agree_def pg_UpdateUser_def UpdateUser_def same_data_def find_simps hashes_update1)
qed

lemma agree_set_password:
  assumes "same_data db m" "schema_ok db" "fits (OpSetPasswordHash n h) db"
  shows "agree (OpSetPasswordHash n h) db m"
proof -
  have users: "list_all2 same_user (db_users db) (m_users m)" using assms(1) by (simp add: same_data_def)
  have upd: "list_all2 same_user (update1 (\<lambda>row. u_Username row = n) (\<lambda>row. row\<lparr>ur_PasswordHash := h, u_UpdatedAt := now\<rparr>) (db_users db))
      (m_users m)" for now
    by (rule update1_left [OF users]) (simp add: same_user_def)
  from assms(3) have "hashes (update1 (\<lambda>row. u_Username row = n) (\<lambda>row. row\<lparr>ur_PasswordHash := h, u_UpdatedAt := now\<rparr>) (db_users db)) =
      (hashes (db_users db))(n \<mapsto> h)" for now
    by (intro hashes_set) simp_all
  with assms(1) schema_at_most_one(2) [OF assms(2), of n] upd show ?thesis
    by (simp add: agree_def pg_SetPasswordHash_def SetPasswordHash_def same_data_def find_simps)
qed

lemma agree_bootstrap:
  assumes data: "same_data db m" and schema: "schema_ok db" and "fresh_id r (map u_ID (db_users db))"
  shows "agree (OpBootstrapAdmin r n h) db m"
proof -
  let ?t = "db_users db" and ?P = "\<lambda>row. u_Username row = n"
  let ?f = "\<lambda>now row. row\<lparr>ur_PasswordHash := (if h \<noteq> [] then h else ur_PasswordHash row),
              u_Role := ''admin'', u_Disabled := False, u_UpdatedAt := now\<rparr>"
  from assms(3) obtain i where i: "newID r = Inr i" "i \<notin> u_ID ` set ?t"
    by (auto simp: fresh_id_def split: sum.splits)
  from data have users: "list_all2 same_user ?t (m_users m)" by (simp add: same_data_def)
  have up: "upsert_row (\<lambda>a b. u_Username a = u_Username b) (overwrite_admin now h) user_keys [] (new_user i n h ''admin'' now) ?t =
    (case find ?P ?t of Some old \<Rightarrow> (update1 ?P (?f now) ?t, Inr (?f now old))
     | None \<Rightarrow> (?t @ [new_user i n h ''admin'' now], Inr (new_user i n h ''admin'' now)))" for now
  proof (rule upsert_refines)
    show "at_most_one ((\<lambda>a b. u_Username a = u_Username b) (new_user i n h ''admin'' now)) ?t"
      using schema_at_most_one(2) [OF schema, of n] by (simp add: eq_commute)
  qed (use i in \<open>auto simp: insert_row_def user_keys_def overwrite_admin_def find_None_iff\<close>)
  show ?thesis
  proof (cases "find ?P ?t")
    case None
    then have "find (\<lambda>u. u_Username u = n) (m_users m) = None"
      using same_data_users(2) [OF data, of n] by simp
    moreover from None have "n \<notin> u_Username ` set ?t" by (auto simp: find_None_iff)
    ultimately show ?thesis
      using data None by (simp add: agree_def pg_BootstrapAdmin_def BootstrapAdmin_def i up same_data_def Let_def update_first_def
          hashes_append list_all2_appendI [OF users] same_user_new)
  next
    case (Some row)
    with same_data_users(2) [OF data, of n] obtain u where u: "find (\<lambda>u. u_Username u = n) (m_users m) = Some u"
      by (auto elim: option.rel_cases)
    have n: "n \<in> u_Username ` set ?t" using Some by (auto simp: find_Some_iff)
    have upd: "list_all2 same_user (update1 ?P (?f now) ?t)
        (update1 (\<lambda>u. u_Username u = n) (\<lambda>u. u\<lparr>u_Disabled := False, u_Role := ''admin'', u_UpdatedAt := now\<rparr>) (m_users m))" for now
      by (rule update1_related [OF users]) (auto simp: same_user_def)
    have "hashes (update1 ?P (?f now) ?t) = (if h = [] then hashes ?t else (hashes ?t)(n \<mapsto> h))" for now
      using n by (cases "h = []") (auto intro: hashes_update1 hashes_set)
    with data Some u upd up show ?thesis
      by (cases "h = []")
        (simp_all add: agree_def pg_BootstrapAdmin_def BootstrapAdmin_def i same_data_def Let_def update_first_def)
  qed
qed

lemma identity_taken:
  "(p, s) \<in> identity_key ` set is \<longleftrightarrow> (\<exists>i\<in>set is. is_identity p s i)"
  by (auto simp: identity_key_def is_identity_def)

lemma new_identity_simps [simp]:
  "identity_key (new_identity p s u e d now) = (p, s)" "ui_UserID (new_identity p s u e d now) = u"
  by (simp_all add: new_identity_def identity_key_def)

lemma agree_identities:
  assumes data: "same_data db m"
  shows "agree (OpLinkIdentityToUser u p s e d) db m"
    "fresh_id r (map u_ID (db_users db)) \<Longrightarrow> agree (OpCreateUserAndIdentity r a) db m"
proof -
  from data have users: "list_all2 same_user (db_users db) (m_users m)" by (simp add: same_data_def)
  show "agree (OpLinkIdentityToUser u p s e d) db m"
    using data
    by (simp add: agree_def pg_LinkIdentityToUser_def LinkIdentityToUser_def same_data_def insert_identity_def insert_row_def
        username_taken [OF users] user_exists_def identity_taken conflict_or_def) (simp add: new_identity_def)
  assume "fresh_id r (map u_ID (db_users db))"
  then obtain i where i: "newID r = Inr i" "i \<notin> u_ID ` set (db_users db)"
    by (auto simp: fresh_id_def split: sum.splits)
  show "agree (OpCreateUserAndIdentity r a) db m"
    by (cases "cui_Username a \<in> u_Username ` set (db_users db)"; cases "\<exists>i\<in>set (db_identities db). is_identity (cui_ProviderName a) (cui_Subject a) i";
      use data in \<open>simp_all add: agree_def pg_CreateUserAndIdentity_def CreateUserAndIdentity_def same_data_def insert_user_def insert_identity_def
        insert_row_def user_keys_def username_taken [OF users] user_exists_def identity_taken conflict_or_def i Let_def
        hashes_append list_all2_appendI [OF users] same_user_new\<close>;
      simp add: new_identity_def)
qed

section \<open>The refinement\<close>

lemma agree_step: "same_data db m \<Longrightarrow> schema_ok db \<Longrightarrow> fits op db \<Longrightarrow> agree op db m"
  by (cases op)
    (simp_all add: agree_updates agree_gateway agree_creations agree_delete_manifest agree_unlink agree_delete_agent
      agree_connection agree_binding agree_manifest agree_setting agree_create_user agree_update_user agree_set_password
      agree_bootstrap agree_identities)

text \<open>Runs of writes with no statement failing, with the errors they report.\<close>

fun pg_run :: "(time \<times> store_op) list \<Rightarrow> Db \<Rightarrow> Db \<times> go_error option list" where
  "pg_run [] db = (db, [])"
| "pg_run ((now, op) # ops) db =
     (case pg_step (\<lambda>_. Delivered) now op db of (db', e) \<Rightarrow> (case pg_run ops db' of (db'', es) \<Rightarrow> (db'', e # es)))"

fun mem_run :: "(time \<times> store_op) list \<Rightarrow> Memory \<Rightarrow> Memory \<times> go_error option list" where
  "mem_run [] m = (m, [])"
| "mem_run ((now, op) # ops) m =
     (case store_step None now op m of (m', e) \<Rightarrow> (case mem_run ops m' of (m'', es) \<Rightarrow> (m'', e # es)))"

fun fits_run :: "(time \<times> store_op) list \<Rightarrow> Db \<Rightarrow> bool" where
  "fits_run [] db = True"
| "fits_run ((now, op) # ops) db \<longleftrightarrow> fits op db \<and> fits_run ops (fst (pg_step (\<lambda>_. Delivered) now op db))"

lemma runs_agree:
  "same_data db m \<Longrightarrow> schema_ok db \<Longrightarrow> fits_run ops db \<Longrightarrow>
     same_data (fst (pg_run ops db)) (fst (mem_run ops m)) \<and> schema_ok (fst (pg_run ops db)) \<and>
     snd (pg_run ops db) = snd (mem_run ops m)"
proof (induction ops arbitrary: db m)
  case (Cons x ops)
  obtain now op where x: "x = (now, op)" by (rule prod.exhaust)
  with Cons.prems have "agree op db m" by (simp add: agree_step)
  then have step: "same_data (fst (pg_step (\<lambda>_. Delivered) now op db)) (fst (store_step None now op m))"
    "snd (pg_step (\<lambda>_. Delivered) now op db) = snd (store_step None now op m)"
    by (simp_all add: agree_def)
  from Cons.IH [OF step(1) schema_ok_step [OF Cons.prems(2)]] Cons.prems(3) x step(2) show ?case
    by (simp add: case_prod_beta)
qed simp

section \<open>The reads\<close>

text \<open>A user without the instant of its last update, which only the database moves with a new password.\<close>

definition user_data :: "User \<Rightarrow> User" where
  "user_data u = u\<lparr>u_UpdatedAt := 0\<rparr>"

definition list_data :: "('a list) result \<Rightarrow> ('a multiset) result" where
  "list_data r = map_sum id mset r"

lemma user_data_of: "same_user row u \<Longrightarrow> user_data (user_of row) = user_data u"
  by (cases u) (simp add: same_user_def user_data_def user_of_def)

lemma users_data: "list_all2 same_user rows us \<Longrightarrow> map user_data (map user_of rows) = map user_data us"
  by (induction rule: list_all2_induct) (simp_all add: user_data_of)

lemma user_read:
  assumes "rel_option same_user (find P rows) (find Q us)"
  shows "map_sum id user_data (or_not_found (one_row (map user_of (filter P rows)))) =
    map_sum id user_data (find_or_not_found None Q us)"
  using assms by (cases "find P rows"; cases "find Q us")
    (simp_all add: one_row_find or_not_found_def find_or_not_found_def user_data_of)

lemma row_read: "or_not_found (one_row (filter P t)) = find_or_not_found None P t"
  by (simp add: one_row_filter or_not_found_def find_or_not_found_def split: option.splits)

definition users_agree :: "(string \<Rightarrow> string \<Rightarrow> bool) \<Rightarrow> Db \<Rightarrow> Memory \<Rightarrow> bool" where
  "users_agree coll db m \<longleftrightarrow>
     (\<forall>i. map_sum id user_data (pg_GetUser None i db) = map_sum id user_data (GetUser None i m)) \<and>
     (\<forall>n. map_sum id user_data (pg_GetUserByUsername None n db) = map_sum id user_data (GetUserByUsername None n m)) \<and>
     list_data (map_sum id (map user_data) (pg_ListUsers None coll db)) = list_data (map_sum id (map user_data) (ListUsers None m)) \<and>
     (\<forall>n. pg_GetPasswordHash None n db = GetPasswordHash n m \<or>
        pg_GetPasswordHash None n db = Inr [] \<and> GetPasswordHash n m = Inl ErrNotFound) \<and>
     (\<forall>p s. pg_GetUserIDByIdentity None p s db = GetUserIDByIdentity None p s m) \<and>
     (\<forall>u. list_data (pg_ListUserIdentities None coll u db) = list_data (ListUserIdentities None u m))"

definition agents_agree :: "(string \<Rightarrow> string \<Rightarrow> bool) \<Rightarrow> Db \<Rightarrow> Memory \<Rightarrow> bool" where
  "agents_agree coll db m \<longleftrightarrow>
     (\<forall>i. pg_GetAgent None i db = GetAgent None i m) \<and>
     (\<forall>u. list_data (pg_ListAgents None coll u db) = list_data (ListAgents None u m)) \<and>
     (\<forall>i. pg_GetLLMModel None i db = GetLLMModel None i m) \<and>
     list_data (pg_ListLLMModels None coll db) = list_data (ListLLMModels None m) \<and>
     pg_GetLLMGatewaySettings None db = GetLLMGatewaySettings None m \<and>
     (\<forall>u p. pg_GetIntegrationConnection None u p db = GetIntegrationConnection None u p m) \<and>
     (\<forall>u. map_sum id set (pg_ListUserIntegrationProviderIDs None coll u db) = map_sum id set (ListUserIntegrationProviderIDs None u m)) \<and>
     (\<forall>a p. pg_GetAgentIntegration None a p db = GetAgentIntegration None a p m) \<and>
     (\<forall>a. list_data (pg_ListAgentIntegrations None coll a db) = list_data (ListAgentIntegrations None a m))"

definition settings_agree :: "(string \<Rightarrow> string \<Rightarrow> bool) \<Rightarrow> Db \<Rightarrow> Memory \<Rightarrow> bool" where
  "settings_agree coll db m \<longleftrightarrow>
     (\<forall>ks e. range_order (m_pluginManifests m) ks \<longrightarrow>
       map_sum id set (pg_ListPluginManifests None coll e db) = map_sum id set (ListPluginManifests None ks e m)) \<and>
     (\<forall>i. pg_GetPluginManifest None i db = GetPluginManifest None i m) \<and>
     (\<forall>k. pg_GetAppSetting None k db = GetAppSetting None k m) \<and>
     (\<forall>pre. list_all literal pre \<longrightarrow> pg_ListAppSettings None pre db = ListAppSettings None pre m)"

lemma find_key_in_set: "distinct (map k t) \<Longrightarrow> x \<in> set t \<Longrightarrow> find (\<lambda>y. k y = k x) t = Some x"
  by (induction t) (auto simp: image_iff)

lemma first_seen_set: "set (first_seen seen xs) = set xs - seen"
  by (induction seen xs rule: first_seen.induct) auto

lemma settings_reads:
  assumes "same_data db m" "schema_ok db"
  shows "settings_agree coll db m"
  unfolding settings_agree_def
proof (intro conjI allI impI)
  fix ks e
  assume ks: "range_order (m_pluginManifests m) ks"
  have "ran (\<lambda>i. find (\<lambda>pm. pm_ID pm = i) t) = set t" if "distinct (map pm_ID t)" for t :: "PluginManifest list"
    using that find_key_in_set [of pm_ID t] by (auto simp: ran_def find_Some_iff)
  with assms have "ran (m_pluginManifests m) = set (db_manifests db)" by (simp add: same_data_def schema_defs)
  with range_values_ran [OF ks]
  show "map_sum id set (pg_ListPluginManifests None coll e db) = map_sum id set (ListPluginManifests None ks e m)"
    by (auto simp: pg_ListPluginManifests_def ListPluginManifests_def)
next
  fix i show "pg_GetPluginManifest None i db = GetPluginManifest None i m"
    using assms by (simp add: pg_GetPluginManifest_def row_read GetPluginManifest_def same_data_def find_or_not_found_def)
  have "find (\<lambda>row. fst row = k) t = map_option (Pair k) (map_of t k)" for t :: "(string \<times> string) list" and k
    by (induction t) auto
  then show "pg_GetAppSetting None k db = GetAppSetting None k m" for k
    using assms by (simp add: pg_GetAppSetting_def GetAppSetting_def same_data_def one_row_find split: option.splits)
  fix pre :: string
  assume lit: "list_all literal pre"
  have "map_of (filter (\<lambda>row. prefix pre (fst row)) t) k = (if prefix pre k then map_of t k else None)" for t :: "(string \<times> string) list" and k
    by (induction t) auto
  then show "pg_ListAppSettings None pre db = ListAppSettings None pre m"
    using assms like_prefix [OF lit] by (auto simp: pg_ListAppSettings_def ListAppSettings_def same_data_def fun_eq_iff)
qed

lemma agents_reads:
  assumes "same_data db m"
  shows "agents_agree coll db m"
proof -
  from assms have own: "list_all own_scope (db_connections db)" by (simp add: same_data_def)
  have "find (of_user u p) (db_connections db) = find (\<lambda>c. ic_UserID c = u \<and> ic_ProviderID c = p) (db_connections db)" for u p
    using own by (intro find_cong) (auto simp: of_user_def own_scope_def list_all_iff)
  moreover have "filter (\<lambda>c. ic_Scope c = ''user'' \<and> ic_ScopeID c = u) (db_connections db) =
      filter (\<lambda>c. ic_UserID c = u \<and> (ic_Scope c = [] \<or> ic_Scope c = ''user'')) (db_connections db)" for u
    using own by (intro filter_cong) (auto simp: own_scope_def list_all_iff)
  ultimately show ?thesis
    using assms
    by (simp add: agents_agree_def list_data_def pg_GetAgent_def GetAgent_def pg_ListAgents_def ListAgents_def pg_GetLLMModel_def
        GetLLMModel_def pg_ListLLMModels_def ListLLMModels_def pg_GetLLMGatewaySettings_def GetLLMGatewaySettings_def
        pg_GetIntegrationConnection_def GetIntegrationConnection_def pg_ListUserIntegrationProviderIDs_def
        ListUserIntegrationProviderIDs_def pg_GetAgentIntegration_def GetAgentIntegration_def pg_ListAgentIntegrations_def
        ListAgentIntegrations_def row_read same_data_def gateway_of_def find_or_not_found_def first_seen_set split: option.splits)
qed

lemma users_reads:
  assumes "same_data db m"
  shows "users_agree coll db m"
  unfolding users_agree_def
proof (intro conjI allI impI)
  note users = same_data_users [OF assms]
  show "map_sum id user_data (pg_GetUser None i db) = map_sum id user_data (GetUser None i m)" for i
    using user_read [OF users(1)] by (simp add: pg_GetUser_def GetUser_def)
  show "map_sum id user_data (pg_GetUserByUsername None n db) = map_sum id user_data (GetUserByUsername None n m)" for n
    using user_read [OF users(2)] by (simp add: pg_GetUserByUsername_def GetUserByUsername_def)
  from assms have "map user_data (map user_of (db_users db)) = map user_data (m_users m)"
    by (simp only: same_data_def users_data)
  from arg_cong [OF this, of mset] show "list_data (map_sum id (map user_data) (pg_ListUsers None coll db)) = list_data (map_sum id (map user_data) (ListUsers None m))"
    by (simp add: list_data_def pg_ListUsers_def ListUsers_def multiset.map_comp)
  show "pg_GetPasswordHash None n db = GetPasswordHash n m \<or>
      pg_GetPasswordHash None n db = Inr [] \<and> GetPasswordHash n m = Inl ErrNotFound" for n
    using assms
    by (auto simp: pg_GetPasswordHash_def GetPasswordHash_def same_data_def hashes_def one_row_find or_not_found_def split: option.splits)
  show "pg_GetUserIDByIdentity None p s db = GetUserIDByIdentity None p s m" for p s
    using assms by (simp add: pg_GetUserIDByIdentity_def GetUserIDByIdentity_def same_data_def one_row_find split: option.splits)
  show "list_data (pg_ListUserIdentities None coll u db) = list_data (ListUserIdentities None u m)" for u
    using assms by (simp add: list_data_def pg_ListUserIdentities_def ListUserIdentities_def same_data_def)
qed

section \<open>The two stores side by side\<close>



text \<open>The removal of an agent whose second statement is not sent: the agent stays, its integrations are gone.
  A disconnection whose second statement is not sent: the caller is told that all is well.\<close>

theorem half_deleted_agent:
  assumes "cx 0 = Delivered" "cx 1 = NotSent e"
  shows "pg_DeleteAgent cx i db =
    (db\<lparr>db_bindings := filter (\<lambda>ai. ai_AgentID ai \<noteq> i) (db_bindings db)\<rparr>, Inl (ErrWrap ''delete agent: '' e []))"
  using assms by (simp add: pg_DeleteAgent_def delete_bindings_def delete_rows_def)

theorem half_disconnected:
  assumes "cx 0 = Delivered" "cx 1 = NotSent e"
  shows "pg_DeleteIntegrationConnection cx u p db =
    (db\<lparr>db_connections := filter (\<lambda>c. \<not> of_user u p c) (db_connections db)\<rparr>, Inr ())"
  using assms by (simp add: pg_DeleteIntegrationConnection_def delete_rows_def)

text \<open>C20: Disconnecting, twice. When a user disconnects a provider, the database keeps the integrations
  other users' agents have with it; the in-memory store on the same data removes them too.\<close>

theorem stores_part_on_disconnect:
  assumes "same_data db m" "schema_ok db" "list_ex (of_user u p) (db_connections db)"
    and "b \<in> set (db_bindings db)" "ai_ProviderID b = p" "a \<in> set (db_agents db)" "a_ID a = ai_AgentID b" "a_OwnerUserID a \<noteq> u"
  shows "b \<in> set (db_bindings (fst (pg_DeleteIntegrationConnection (\<lambda>_. Delivered) u p db))) \<and>
    b \<notin> set (m_agentIntegrations (fst (DeleteIntegrationConnection None u p m)))"
proof -
  have "ai_AgentID b \<notin> a_ID ` set (filter (\<lambda>a. a_OwnerUserID a = u) (db_agents db))"
  proof
    assume "ai_AgentID b \<in> a_ID ` set (filter (\<lambda>a. a_OwnerUserID a = u) (db_agents db))"
    then obtain a' where "a' \<in> set (db_agents db)" "a_ID a' = a_ID a" "a_OwnerUserID a' = u" using assms(7) by auto
    with assms(2,6,8) show False by (auto simp: schema_defs distinct_map dest: inj_onD)
  qed
  moreover obtain c where "find (\<lambda>c. ic_UserID c = u \<and> ic_ProviderID c = p) (m_integrations m) = Some c"
  proof (cases "find (\<lambda>c. ic_UserID c = u \<and> ic_ProviderID c = p) (m_integrations m)")
    case None
    with assms(1,3) have False by (auto simp: same_data_def find_None_iff list_ex_iff list_all_iff of_user_def own_scope_def)
    then show ?thesis ..
  qed
  ultimately show ?thesis
    using assms(4,5) by (auto simp: pg_DeleteIntegrationConnection_def DeleteIntegrationConnection_def delete_bindings_def
        delete_rows_def remove_first_def)
qed

section \<open>A run\<close>

text \<open>Two users and their agents, two connections to one provider, a conflicting name, a new password, a
  removed agent.\<close>

definition id_of :: "char \<Rightarrow> string" where
  "id_of c = (case newID (Some (replicate 16 c)) of Inl e \<Rightarrow> [] | Inr i \<Rightarrow> i)"

definition connect_op :: "string \<Rightarrow> store_op" where
  "connect_op u = OpUpsertIntegrationConnection \<lparr>ic_ProviderID = ''github'', ic_UserID = u, ic_Scope = [], ic_ScopeID = [],
     ic_ExternalAccountID = [], ic_ExternalLogin = ''x'', ic_AccountType = ''token'', ic_Status = ''connected'',
     ic_Secret = ''s'', ic_Revision = 0, ic_UpdatedAt = 0, ic_CreatedAt = 0\<rparr>"

definition sample_setup :: "(time \<times> store_op) list" where
  "sample_setup =
     [(1, OpCreateUser (Some (replicate 16 CHR ''a'')) ''amy'' ''h1'' ''user''),
      (2, OpCreateUser (Some (replicate 16 CHR ''b'')) ''bob'' ''h2'' ''user''),
      (3, OpCreateAgent (Some (replicate 16 CHR ''c'')) (id_of CHR ''a'') ''one'' [] ''mock'' ''m'' []),
      (4, OpCreateAgent (Some (replicate 16 CHR ''d'')) (id_of CHR ''b'') ''two'' [] ''mock'' ''m'' []),
      (5, connect_op (id_of CHR ''a'')), (6, connect_op (id_of CHR ''b'')), (7, connect_op (id_of CHR ''a'')),
      (8, OpUpsertAgentIntegration (id_of CHR ''c'') ''github'' True 0 ''enabled''),
      (9, OpSetAppSetting ''auth.mode'' ''both'')]"

definition sample_run :: "(time \<times> store_op) list" where
  "sample_run = sample_setup @
     [(10, OpCreateUser (Some (replicate 16 CHR ''e'')) ''amy'' ''h3'' ''user''),
      (11, OpSetPasswordHash ''amy'' ''h4''),
      (13, OpDeleteAgent (id_of CHR ''d'')), (14, OpDeleteAgent (id_of CHR ''d''))]"

lemma sample_run_fits: "fits_run sample_run NewDb"
  by code_simp

lemma sample_run_errors:
  "snd (mem_run sample_run NewMemory) = replicate 9 None @ [Some ErrConflict, None, None, Some ErrNotFound]"
  by code_simp


text \<open>The set-up is reachable, and its data is the same in both stores.\<close>

lemma run_reachable: "pg_reachable db \<Longrightarrow> pg_reachable (fst (pg_run ops db))"
proof (induction ops arbitrary: db)
  case (Cons x ops)
  obtain now op where x: "x = (now, op)" by (rule prod.exhaust)
  from Cons.IH [OF pg_reachable.step [OF Cons.prems, of "\<lambda>_. Delivered" now op]] x show ?case
    by (simp add: case_prod_beta)
qed simp

lemma sample_setup_fits: "fits_run sample_setup NewDb"
  by code_simp

theorem stores_part_on_disconnect_witness:
  "map ai_ProviderID (db_bindings (fst (pg_DeleteIntegrationConnection (\<lambda>_. Delivered) (id_of CHR ''b'') ''github'' (fst (pg_run sample_setup NewDb))))) = [''github''] \<and>
   hd (db_bindings (fst (pg_run sample_setup NewDb)))
     \<in> set (db_bindings (fst (pg_DeleteIntegrationConnection (\<lambda>_. Delivered) (id_of CHR ''b'') ''github'' (fst (pg_run sample_setup NewDb))))) \<and>
   hd (db_bindings (fst (pg_run sample_setup NewDb)))
     \<notin> set (m_agentIntegrations (fst (DeleteIntegrationConnection None (id_of CHR ''b'') ''github'' (fst (mem_run sample_setup NewMemory)))))"
proof -
  let ?db = "fst (pg_run sample_setup NewDb)"
  have r: "same_data ?db (fst (mem_run sample_setup NewMemory))" "schema_ok ?db"
    using runs_agree [OF same_data_New schema_ok_New sample_setup_fits] by simp_all
  have c: "list_ex (of_user (id_of CHR ''b'') ''github'') (db_connections ?db)" by code_simp
  have shape: "list_all (\<lambda>b. ai_ProviderID b = ''github'' \<and> list_ex (\<lambda>a. a_ID a = ai_AgentID b \<and> a_OwnerUserID a \<noteq> id_of CHR ''b'') (db_agents ?db))
      (db_bindings ?db) \<and> length (db_bindings ?db) = 1"
    by code_simp
  then have b: "hd (db_bindings ?db) \<in> set (db_bindings ?db)" by (cases "db_bindings ?db") simp_all
  with shape obtain a where a: "a \<in> set (db_agents ?db)" "a_ID a = ai_AgentID (hd (db_bindings ?db))" "a_OwnerUserID a \<noteq> id_of CHR ''b''"
    and p: "ai_ProviderID (hd (db_bindings ?db)) = ''github''"
    by (auto simp: list_all_iff list_ex_iff)
  have "map ai_ProviderID (db_bindings (fst (pg_DeleteIntegrationConnection (\<lambda>_. Delivered) (id_of CHR ''b'') ''github'' ?db))) = [''github'']"
    by code_simp
  with stores_part_on_disconnect [OF r c b p a] show ?thesis by simp
qed

end
