(* ===== verification/Crypto.thy ===== *)
theory Crypto
  imports Prelude
begin

text \<open>
  \<open>internal/crypto/aesgcm.go\<close> and \<open>internal/integrations/secretbox.go\<close>: the sealed box that
  protects provider credentials and the sign-in cookie. SHA-256 and the AES-GCM primitive are
  arguments (\<open>crypto_ops\<close>); \<open>aead_law\<close> states what their documentation promises. The base64
  alphabet of the cookie is defined here in full.
\<close>

section \<open>The primitives\<close>

text \<open>\<open>co_gcm_seal k n p\<close> is ciphertext and tag; \<open>co_gcm_open k n c\<close> is \<open>None\<close> when
  authentication fails.\<close>

record crypto_ops =
  co_sha256 :: "string \<Rightarrow> string"
  co_gcm_seal :: "string \<Rightarrow> string \<Rightarrow> string \<Rightarrow> string"
  co_gcm_open :: "string \<Rightarrow> string \<Rightarrow> string \<Rightarrow> string option"

definition aead_law :: "crypto_ops \<Rightarrow> bool" where
  "aead_law C \<longleftrightarrow> (\<forall>s. length (co_sha256 C s) = 32) \<and>
     (\<forall>k n p. length k = 32 \<longrightarrow> length n = 12 \<longrightarrow> co_gcm_open C k n (co_gcm_seal C k n p) = Some p)"

definition NonceSize :: nat where
  "NonceSize = 12"

section \<open>AESGCM\<close>

record AESGCM =
  aead_key :: string

definition NewAESGCM :: "crypto_ops \<Rightarrow> string \<Rightarrow> AESGCM result" where
  "NewAESGCM C rawKey =
     (if rawKey = [] then Inl (ErrNew ''crypto: key must not be empty'')
      else Inr \<lparr>aead_key = (if length rawKey = 32 then rawKey else co_sha256 C rawKey)\<rparr>)"

definition NewCipher :: "string \<Rightarrow> string result" where
  "NewCipher key =
     (if length key \<in> {16, 24, 32} then Inr key
      else Inl (ErrWrap ''aes new cipher: ''
                  (ErrNew (''crypto/aes: invalid key size '' @ Itoa (int (length key)))) []))"

text \<open>The nonce is the argument \<open>r\<close>: the bytes \<open>io.ReadFull(rand.Reader, nonce)\<close> reads.\<close>

definition Seal :: "crypto_ops \<Rightarrow> rnd \<Rightarrow> AESGCM \<Rightarrow> string \<Rightarrow> string result" where
  "Seal C r a plaintext =
     (case NewCipher (aead_key a) of
        Inl err \<Rightarrow> Inl err
      | Inr block \<Rightarrow>
          (case r of
             None \<Rightarrow> Inl (ErrWrap ''nonce: '' (ErrNew ''rand: read failed'') [])
           | Some nonce \<Rightarrow> Inr (nonce @ co_gcm_seal C block nonce plaintext)))"

definition Open :: "crypto_ops \<Rightarrow> AESGCM \<Rightarrow> string \<Rightarrow> string result" where
  "Open C a payload =
     (case NewCipher (aead_key a) of
        Inl err \<Rightarrow> Inl err
      | Inr block \<Rightarrow>
          if length payload < NonceSize then Inl (ErrNew ''crypto: ciphertext too short'')
          else
            (case co_gcm_open C block (take NonceSize payload) (drop NonceSize payload) of
               None \<Rightarrow> Inl (ErrWrap ''decrypt: '' (ErrNew ''cipher: message authentication failed'') [])
             | Some plaintext \<Rightarrow> Inr plaintext))"

text \<open>A key \<open>NewAESGCM\<close> accepts has 32 bytes, so the cipher never rejects it.\<close>

lemma NewAESGCM_key:
  "aead_law C \<Longrightarrow> NewAESGCM C rawKey = Inr a \<Longrightarrow> length (aead_key a) = 32"
  by (auto simp: NewAESGCM_def aead_law_def split: if_splits)

lemma Open_Seal:
  assumes "aead_law C" "length (aead_key a) = 32" "length nonce = NonceSize"
  shows "\<exists>ct. Seal C (Some nonce) a p = Inr ct \<and> Open C a ct = Inr p"
  using assms by (simp add: Seal_def Open_def NewCipher_def NonceSize_def aead_law_def)

section \<open>The secret box\<close>

record SecretBox =
  sb_aead :: AESGCM

definition dev_fallback_key :: string where
  "dev_fallback_key = ''shclop-dev-fallback-integration-encryption-key-2026''"

text \<open>The error of \<open>NewAESGCM\<close> is dropped; it cannot occur, the key is never empty.\<close>

definition NewSecretBox :: "crypto_ops \<Rightarrow> string \<Rightarrow> SecretBox" where
  "NewSecretBox C rawKey =
     (let key = (if rawKey = [] then co_sha256 C rawKey else rawKey)
      in case NewAESGCM C key of Inr a \<Rightarrow> \<lparr>sb_aead = a\<rparr> | Inl _ \<Rightarrow> \<lparr>sb_aead = \<lparr>aead_key = []\<rparr>\<rparr>)"

definition NewSecretBoxFromConfig :: "crypto_ops \<Rightarrow> string \<Rightarrow> SecretBox result" where
  "NewSecretBoxFromConfig C configKey =
     (if configKey = [] then Inr (NewSecretBox C dev_fallback_key) else Inr (NewSecretBox C configKey))"

definition Encrypt :: "crypto_ops \<Rightarrow> rnd \<Rightarrow> SecretBox \<Rightarrow> string \<Rightarrow> string result" where
  "Encrypt C r b plaintext = Seal C r (sb_aead b) plaintext"

definition Decrypt :: "crypto_ops \<Rightarrow> SecretBox \<Rightarrow> string \<Rightarrow> string result" where
  "Decrypt C b ciphertext = Open C (sb_aead b) ciphertext"

definition EncryptToString :: "crypto_ops \<Rightarrow> rnd \<Rightarrow> SecretBox \<Rightarrow> string \<Rightarrow> string result" where
  "EncryptToString C r b plaintext =
     (case Encrypt C r b plaintext of Inl err \<Rightarrow> Inl err | Inr d \<Rightarrow> Inr (hex_encode d))"

definition DecryptFromString :: "crypto_ops \<Rightarrow> SecretBox \<Rightarrow> string \<Rightarrow> string result" where
  "DecryptFromString C b encoded =
     (case hex_decode encoded of
        Inl err \<Rightarrow> Inl (ErrWrap ''hex decode: '' err [])
      | Inr d \<Rightarrow> Decrypt C b d)"

lemma NewSecretBox_key: "aead_law C \<Longrightarrow> length (aead_key (sb_aead (NewSecretBox C k))) = 32"
proof -
  assume law: "aead_law C"
  let ?key = "if k = [] then co_sha256 C k else k"
  from law have "length (co_sha256 C k) = 32" by (simp add: aead_law_def)
  then have "?key \<noteq> []" by auto
  then obtain a where a: "NewAESGCM C ?key = Inr a" by (simp add: NewAESGCM_def)
  from NewAESGCM_key [OF law a] a show ?thesis by (simp add: NewSecretBox_def Let_def)
qed

lemma DecryptFromString_Encrypt:
  assumes "aead_law C" "length (aead_key (sb_aead b)) = 32" "length nonce = NonceSize"
  shows "\<exists>s. EncryptToString C (Some nonce) b p = Inr s \<and> DecryptFromString C b s = Inr p"
  using Open_Seal [OF assms, of p]
  by (auto simp: EncryptToString_def DecryptFromString_def Encrypt_def Decrypt_def hex_roundtrip)

text \<open>A credential sealed with a configured box is read back by every box made from the same
  configuration, whatever the configured key, the plaintext and the nonce drawn.\<close>

theorem secretbox_roundtrip:
  assumes "aead_law C" "NewSecretBoxFromConfig C key = Inr b" "length nonce = NonceSize"
  shows "\<exists>s. EncryptToString C (Some nonce) b p = Inr s \<and> DecryptFromString C b s = Inr p"
proof -
  from assms(2) have "length (aead_key (sb_aead b)) = 32"
    using NewSecretBox_key [OF assms(1)] by (auto simp: NewSecretBoxFromConfig_def split: if_splits)
  from DecryptFromString_Encrypt [OF assms(1) this assms(3)] show ?thesis .
qed

text \<open>A toy cipher that meets the law.\<close>

definition sample_crypto :: crypto_ops where
  "sample_crypto = \<lparr>co_sha256 = (\<lambda>s. replicate 32 CHR ''k''),
     co_gcm_seal = (\<lambda>k n p. CHR ''t'' # p), co_gcm_open = (\<lambda>k n c. if c = [] then None else Some (tl c))\<rparr>"

lemma sample_crypto_law: "aead_law sample_crypto"
  by (simp add: aead_law_def sample_crypto_def)

theorem secretbox_roundtrip_witness:
  "\<exists>s. EncryptToString sample_crypto (Some ''0123456789ab'') (NewSecretBox sample_crypto ''k'') ''tok'' = Inr s \<and>
       DecryptFromString sample_crypto (NewSecretBox sample_crypto ''k'') s = Inr ''tok''"
  by (rule secretbox_roundtrip [OF sample_crypto_law, where key = "''k''"])
    (simp_all add: NewSecretBoxFromConfig_def NonceSize_def)

section \<open>base64.RawURLEncoding\<close>

text \<open>The URL-safe alphabet: \<open>A-Z\<close>, \<open>a-z\<close>, \<open>0-9\<close>, \<open>-\<close> and \<open>_\<close>.\<close>

definition b64_char :: "nat \<Rightarrow> char" where
  "b64_char n =
     char_of (if n < 26 then n + 65 else if n < 52 then n + 71 else if n < 62 then n - 4
              else if n = 62 then 45 else 95)"

definition b64_value :: "char \<Rightarrow> nat option" where
  "b64_value c =
     (let n = of_char c :: nat in
      if 65 \<le> n \<and> n \<le> 90 then Some (n - 65)
      else if 97 \<le> n \<and> n \<le> 122 then Some (n - 71)
      else if 48 \<le> n \<and> n \<le> 57 then Some (n + 4)
      else if n = 45 then Some 62 else if n = 95 then Some 63 else None)"

fun b64_encode :: "string \<Rightarrow> string" where
  "b64_encode [] = []"
| "b64_encode [a] = (let x = of_char a :: nat in [b64_char (x div 4), b64_char (x mod 4 * 16)])"
| "b64_encode [a, b] =
     (let x = of_char a :: nat; y = of_char b :: nat in
      [b64_char (x div 4), b64_char (x mod 4 * 16 + y div 16), b64_char (y mod 16 * 4)])"
| "b64_encode (a # b # c # s) =
     (let x = of_char a :: nat; y = of_char b :: nat; z = of_char c :: nat in
      b64_char (x div 4) # b64_char (x mod 4 * 16 + y div 16) #
      b64_char (y mod 16 * 4 + z div 64) # b64_char (z mod 64) # b64_encode s)"

text \<open>The values of four, three or two digits, joined; one digit alone is corrupt input, and the
  unused low bits of the last digit are ignored, as the non-strict decoder does.\<close>

fun b64_join :: "nat list \<Rightarrow> string option" where
  "b64_join [] = Some []"
| "b64_join [p] = None"
| "b64_join [p, q] = Some [char_of (p * 4 + q div 16)]"
| "b64_join [p, q, r] = Some [char_of (p * 4 + q div 16), char_of (q mod 16 * 16 + r div 4)]"
| "b64_join (p # q # r # t # ds) =
     map_option (\<lambda>s. char_of (p * 4 + q div 16) # char_of (q mod 16 * 16 + r div 4) #
                     char_of (r mod 4 * 64 + t) # s) (b64_join ds)"

text \<open>The decoder skips line breaks.\<close>

definition b64_digits :: "string \<Rightarrow> nat list option" where
  "b64_digits s = those (map b64_value (filter (\<lambda>c. c \<noteq> CHR 0x0A \<and> c \<noteq> CHR 0x0D) s))"

definition b64_decode :: "string \<Rightarrow> string result" where
  "b64_decode s =
     (case Option.bind (b64_digits s) b64_join of
        None \<Rightarrow> Inl (ErrNew ''illegal base64 data'')
      | Some b \<Rightarrow> Inr b)"

lemma b64_char_code:
  "n < 64 \<Longrightarrow> of_char (b64_char n) =
     (if n < 26 then n + 65 else if n < 52 then n + 71 else if n < 62 then n - 4
      else if n = 62 then 45 else (95 :: nat))"
  by (simp add: b64_char_def)

lemma b64_char_props:
  assumes "n < 64"
  shows "b64_value (b64_char n) = Some n" "b64_char n \<noteq> CHR 0x0A" "b64_char n \<noteq> CHR 0x0D"
proof -
  show "b64_value (b64_char n) = Some n"
  proof -
    consider "n < 26" | "26 \<le> n" "n < 52" | "52 \<le> n" "n < 62" | "n = 62" | "n = 63"
      using assms by linarith
    then show ?thesis by cases (auto simp: b64_value_def b64_char_code Let_def)
  qed
  have "(of_char (b64_char n) :: nat) \<noteq> 10" "(of_char (b64_char n) :: nat) \<noteq> 13"
    using assms by (auto simp: b64_char_code)
  moreover have "of_char (CHR 0x0A) = (10 :: nat)" "of_char (CHR 0x0D) = (13 :: nat)" by simp_all
  ultimately show "b64_char n \<noteq> CHR 0x0A" "b64_char n \<noteq> CHR 0x0D" by metis+
qed

lemma b64_digits_Cons:
  "n < 64 \<Longrightarrow> b64_digits (b64_char n # s) = map_option ((#) n) (b64_digits s)"
  by (simp add: b64_digits_def b64_char_props)

lemma b64_digits_Nil [simp]: "b64_digits [] = Some []"
  by (simp add: b64_digits_def)

text \<open>A byte is its digits, and the digits of \<open>b64_encode\<close> are below 64.\<close>

lemma byte_lt: "(of_char a :: nat) < 256"
  by simp

lemma six_bits:
  "x < 256 \<Longrightarrow> x div 4 < (64 :: nat)"
  "x mod 4 * 16 < (64 :: nat)"
  "y < 256 \<Longrightarrow> x mod 4 * 16 + y div 16 < (64 :: nat)"
  "y mod 16 * 4 < (64 :: nat)"
  "z < 256 \<Longrightarrow> y mod 16 * 4 + z div 64 < (64 :: nat)"
  "z mod 64 < (64 :: nat)"
proof -
  have m: "x mod 4 \<le> 3" "y mod 16 \<le> 15" by (simp_all add: less_Suc_eq_le [symmetric])
  then show "x mod 4 * 16 < (64 :: nat)" "y mod 16 * 4 < (64 :: nat)" by linarith+
  show "x < 256 \<Longrightarrow> x div 4 < (64 :: nat)" by (simp add: less_mult_imp_div_less)
  show "z mod 64 < (64 :: nat)" by simp
  show "x mod 4 * 16 + y div 16 < (64 :: nat)" if "y < 256"
  proof -
    from that have "y div 16 < 16" by (simp add: less_mult_imp_div_less)
    with m show ?thesis by linarith
  qed
  show "y mod 16 * 4 + z div 64 < (64 :: nat)" if "z < 256"
  proof -
    from that have "z div 64 < 4" by (simp add: less_mult_imp_div_less)
    with m show ?thesis by linarith
  qed
qed

lemma join_first: "y < 256 \<Longrightarrow> x div 4 * 4 + (x mod 4 * 16 + y div 16) div 16 = (x :: nat)"
proof -
  assume "y < 256"
  then have "y div 16 < 16" by (simp add: less_mult_imp_div_less)
  then have "(x mod 4 * 16 + y div 16) div 16 = x mod 4" by (simp add: div_add1_eq)
  then show ?thesis by simp
qed

lemma join_second:
  "z < 256 \<Longrightarrow> (p * 16 + y div 16) mod 16 * 16 + (y mod 16 * 4 + z div 64) div 4 = (y div 16 mod 16 * 16 + y mod 16 :: nat)"
proof -
  assume "z < 256"
  then have "z div 64 < 4" by (simp add: less_mult_imp_div_less)
  then have "(y mod 16 * 4 + z div 64) div 4 = y mod 16" by simp
  moreover have "(p * 16 + y div 16) mod 16 = y div 16 mod 16" by simp
  ultimately show ?thesis by simp
qed

lemma join_third: "(q * 4 + z div 64) mod 4 * 64 + z mod 64 = (z div 64 mod 4 * 64 + z mod 64 :: nat)"
  by simp

lemma byte_split: "x < 256 \<Longrightarrow> x div 16 mod 16 * 16 + x mod 16 = (x :: nat)"
  "x < 256 \<Longrightarrow> x div 64 mod 4 * 64 + x mod 64 = (x :: nat)"
proof -
  show "x div 16 mod 16 * 16 + x mod 16 = x" if "x < 256"
  proof -
    from that have "x div 16 < 16" by (simp add: less_mult_imp_div_less)
    then show ?thesis by simp
  qed
  show "x div 64 mod 4 * 64 + x mod 64 = x" if "x < 256"
  proof -
    from that have "x div 64 < 4" by (simp add: less_mult_imp_div_less)
    then show ?thesis by simp
  qed
qed

lemma b64_roundtrip: "b64_decode (b64_encode s) = Inr s"
proof -
  have "Option.bind (b64_digits (b64_encode s)) b64_join = Some s"
  proof (induction s rule: b64_encode.induct)
    case 1
    then show ?case by simp
  next
    case (2 a)
    have "of_char a div 4 * 4 + (of_char a mod 4 * 16) div 16 = (of_char a :: nat)" by simp
    then show ?case
      by (simp add: Let_def b64_digits_Cons six_bits byte_lt)
  next
    case (3 a b)
    have "(of_char a mod 4 * 16 + of_char b div 16) mod 16 * 16 + (of_char b mod 16 * 4) div 4 = (of_char b :: nat)"
      using byte_split(1) [OF byte_lt [of b]] by simp
    then show ?case
      by (simp only: b64_encode.simps Let_def b64_digits_Cons six_bits byte_lt b64_digits_Nil
          option.map bind.bind_lunit b64_join.simps join_first char_of_char)
  next
    case (4 a b c s)
    from 4 [OF refl refl refl] obtain ds where
      ds: "b64_digits (b64_encode s) = Some ds" "b64_join ds = Some s"
      by (cases "b64_digits (b64_encode s)") simp_all
    show ?case
      by (simp only: b64_encode.simps Let_def b64_digits_Cons six_bits byte_lt ds
          option.map bind.bind_lunit b64_join.simps join_first join_second join_third byte_split
          char_of_char)
  qed
  then show ?thesis by (simp add: b64_decode_def)
qed

end
