(* ===== verification/Auth.thy ===== *)
theory Auth
  imports StoreInv Crypto
begin

text \<open>
  \<open>internal/auth/auth.go\<close> and \<open>internal/auth/cookiecodec.go\<close>: the session table and the sign-in
  cookie. The store reaches the service through the interfaces \<open>UserStore\<close> and \<open>PasswordHasher\<close>:
  the two lookups \<open>Login\<close> makes are its arguments, the locale \<open>credential_source\<close> states what it
  relies on, and the in-memory store is shown to provide it. \<open>compare hash password\<close> is bcrypt's
  verdict. \<open>encoding/gob\<close> is a pair of arguments.
\<close>

section \<open>Sessions\<close>

record Service =
  sv_tokens :: "string \<rightharpoonup> User"

definition NewService :: Service where
  "NewService = \<lparr>sv_tokens = Map.empty\<rparr>"

definition tokenID :: "rnd \<Rightarrow> string result" where
  "tokenID r = random_hex r"

definition IssueToken :: "rnd \<Rightarrow> User \<Rightarrow> Service \<Rightarrow> Service \<times> string result" where
  "IssueToken r user s =
     (case tokenID r of
        Inl err \<Rightarrow> (s, Inl err)
      | Inr token \<Rightarrow> (s\<lparr>sv_tokens := (sv_tokens s)(token \<mapsto> user)\<rparr>, Inr token))"

definition Login ::
  "(string \<Rightarrow> User result) \<Rightarrow> (string \<Rightarrow> string result) \<Rightarrow> (string \<Rightarrow> string \<Rightarrow> bool) \<Rightarrow> rnd
     \<Rightarrow> string \<Rightarrow> string \<Rightarrow> Service \<Rightarrow> Service \<times> (User \<times> string) result" where
  "Login getUserByUsername getPasswordHash compare r username password s =
     (case getUserByUsername username of
        Inl err \<Rightarrow> (s, Inl (ErrNew ''invalid credentials''))
      | Inr user \<Rightarrow>
          if u_Disabled user then (s, Inl (ErrNew ''account disabled''))
          else
            (case getPasswordHash username of
               Inl err \<Rightarrow> (s, Inl (ErrNew ''invalid credentials''))
             | Inr hash \<Rightarrow>
                 if \<not> compare hash password then (s, Inl (ErrNew ''invalid credentials''))
                 else
                   (case tokenID r of
                      Inl err \<Rightarrow> (s, Inl err)
                    | Inr token \<Rightarrow>
                        (s\<lparr>sv_tokens := (sv_tokens s)(token \<mapsto> user)\<rparr>, Inr (user, token)))))"

definition Resolve :: "string \<Rightarrow> Service \<Rightarrow> User option" where
  "Resolve token s = sv_tokens s token"

definition Revoke :: "string \<Rightarrow> Service \<Rightarrow> Service \<times> bool" where
  "Revoke token s =
     (case sv_tokens s token of
        None \<Rightarrow> (s, False)
      | Some _ \<Rightarrow> (s\<lparr>sv_tokens := (sv_tokens s)(token := None)\<rparr>, True))"

lemma Resolve_New [simp]: "Resolve t NewService = None"
  by (simp add: Resolve_def NewService_def)

lemma Resolve_Revoke [simp]: "Resolve t (fst (Revoke token s)) = (if t = token then None else Resolve t s)"
  by (auto simp: Resolve_def Revoke_def split: option.splits)

lemma Resolve_IssueToken:
  "Resolve t (fst (IssueToken r user s)) =
     (case tokenID r of Inl _ \<Rightarrow> Resolve t s | Inr token \<Rightarrow> if t = token then Some user else Resolve t s)"
  by (simp add: Resolve_def IssueToken_def split: sum.splits)

lemma tokenID_fresh: "tokenID r = Inr token \<Longrightarrow> tokenID r' = Inr token' \<Longrightarrow> r \<noteq> r' \<Longrightarrow> token \<noteq> token'"
  by (auto simp: tokenID_def random_hex_Inr dest: hex_encode_inj)

section \<open>What Login relies on\<close>

locale credential_source =
  fixes by_name :: "string \<Rightarrow> User result"
    and hash_of :: "string \<Rightarrow> string result"
    and account :: "string \<Rightarrow> User option"
    and secret :: "string \<Rightarrow> string option"
  assumes by_name_Inr: "by_name n = Inr u \<Longrightarrow> account n = Some u \<and> u_Username u = n"
    and hash_of_Inr: "hash_of n = Inr h \<longleftrightarrow> secret n = Some h"
begin

text \<open>A login that succeeds is for the enabled account of that name, and its stored hash matched.\<close>

lemma Login_Inr:
  assumes "Login by_name hash_of compare r n p s = (s', Inr (u, t))"
  shows "account n = Some u" "u_Username u = n" "\<not> u_Disabled u"
    "\<exists>h. secret n = Some h \<and> compare h p" "tokenID r = Inr t"
    "s' = s\<lparr>sv_tokens := (sv_tokens s)(t \<mapsto> u)\<rparr>"
  using assms by_name_Inr hash_of_Inr
  by (auto simp: Login_def split: sum.splits if_splits)

text \<open>Any other outcome leaves the sessions alone.\<close>

lemma Login_Inl: "Login by_name hash_of compare r n p s = (s', Inl e) \<Longrightarrow> s' = s"
  by (auto simp: Login_def split: sum.splits if_splits)

text \<open>An account without a stored hash cannot log in with a password.\<close>

lemma Login_no_secret:
  "secret n = None \<Longrightarrow> \<exists>e. Login by_name hash_of compare r n p s = (s, Inl e)"
  using hash_of_Inr [of n] by (auto simp: Login_def split: sum.splits)

end

definition account_of :: "Memory \<Rightarrow> string \<Rightarrow> User option" where
  "account_of m n = find (\<lambda>u. u_Username u = n) (m_users m)"

interpretation mem_credentials: credential_source
  "\<lambda>n. GetUserByUsername cx n m" "\<lambda>n. GetPasswordHash n m" "account_of m" "m_passwordHashes m"
  for cx m
proof
  show "account_of m n = Some u \<and> u_Username u = n" if "GetUserByUsername cx n m = Inr u" for n u
    using that
    by (auto simp: GetUserByUsername_def find_or_not_found_def account_of_def
        split: option.splits dest: find_SomeD)
  show "GetPasswordHash n m = Inr h \<longleftrightarrow> m_passwordHashes m n = Some h" for n h
    by (simp add: GetPasswordHash_def split: option.splits)
qed

text \<open>With unique names (\<open>users_inv\<close>) the account of a name is the only user with it.\<close>

lemma account_of_unique:
  assumes "users_inv m" "u \<in> set (m_users m)"
  shows "account_of m (u_Username u) = Some u"
proof -
  obtain v where v: "account_of m (u_Username u) = Some v"
    using assms(2) by (cases "account_of m (u_Username u)") (auto simp: account_of_def find_None_iff)
  then have "v \<in> set (m_users m)" "u_Username v = u_Username u"
    by (auto simp: account_of_def dest: find_SomeD)
  with assms have "v = u" by (auto simp: users_inv_def distinct_map dest: inj_onD)
  with v show ?thesis by simp
qed

section \<open>Reachable sessions\<close>

text \<open>The session table under logins, issued tokens and revocations. A log of the users sessions
  were opened for is enough to say where a resolved user comes from.\<close>

datatype session_op =
    OpLogin rnd string string
  | OpIssue rnd User
  | OpRevoke string

fun session_step :: "(string \<Rightarrow> string \<Rightarrow> bool) \<Rightarrow> Memory \<Rightarrow> session_op \<Rightarrow> Service \<Rightarrow> Service" where
  "session_step cmp m (OpLogin r n p) s =
     fst (Login (\<lambda>n. GetUserByUsername None n m) (\<lambda>n. GetPasswordHash n m) cmp r n p s)"
| "session_step cmp m (OpIssue r u) s = fst (IssueToken r u s)"
| "session_step cmp m (OpRevoke t) s = fst (Revoke t s)"

fun session_run :: "(string \<Rightarrow> string \<Rightarrow> bool) \<Rightarrow> (Memory \<times> session_op) list \<Rightarrow> Service \<Rightarrow> Service" where
  "session_run cmp [] s = s"
| "session_run cmp ((m, op) # ops) s = session_run cmp ops (session_step cmp m op s)"

text \<open>The tokens an operation can create.\<close>

fun op_token :: "session_op \<Rightarrow> string option" where
  "op_token (OpLogin r n p) = (case tokenID r of Inl _ \<Rightarrow> None | Inr t \<Rightarrow> Some t)"
| "op_token (OpIssue r u) = (case tokenID r of Inl _ \<Rightarrow> None | Inr t \<Rightarrow> Some t)"
| "op_token (OpRevoke t) = None"

lemma session_step_other: "op_token op \<noteq> Some t \<Longrightarrow> Resolve t s = None \<Longrightarrow> Resolve t (session_step cmp m op s) = None"
  by (cases op) (auto simp: Login_def IssueToken_def Resolve_def Revoke_def split: sum.splits option.splits if_splits)

text \<open>A revoked session stays dead: however the service is used afterwards, the token of a
  revoked session resolves to nobody unless the random source repeats it.\<close>

theorem revoked_stays_dead:
  assumes "\<forall>(m, op)\<in>set ops. op_token op \<noteq> Some t"
  shows "Resolve t (session_run cmp ops (fst (Revoke t s))) = None"
proof -
  have "Resolve t s' = None \<Longrightarrow> \<forall>(m, op)\<in>set ops. op_token op \<noteq> Some t \<Longrightarrow>
      Resolve t (session_run cmp ops s') = None" for s'
    by (induction cmp ops s' rule: session_run.induct) (auto simp: session_step_other)
  with assms show ?thesis by simp
qed

definition sample_user :: User where
  "sample_user = \<lparr>u_ID = ''u1'', u_Username = ''ann'', u_Role = ''admin'', u_Disabled = False,
     u_CreatedAt = 1, u_UpdatedAt = 1\<rparr>"

theorem revoked_stays_dead_witness:
  "Resolve ''62'' (session_run (=) [(NewMemory, OpIssue (Some ''a'') sample_user)]
     (fst (Revoke ''62'' (fst (IssueToken (Some ''b'') sample_user NewService))))) = None"
  by (rule revoked_stays_dead) (simp add: tokenID_def random_hex_def hex_digit_def)

section \<open>The sign-in cookie\<close>

record OIDCStateCookie =
  sc_State :: string
  sc_Nonce :: string
  sc_CodeVerifier :: string
  sc_Provider :: string
  sc_ReturnTo :: string
  sc_ExpiresAt :: time

record gob_ops =
  gob_encode :: "OIDCStateCookie \<Rightarrow> string"
  gob_decode :: "string \<Rightarrow> OIDCStateCookie option"

definition gob_law :: "gob_ops \<Rightarrow> OIDCStateCookie \<Rightarrow> bool" where
  "gob_law G p \<longleftrightarrow> gob_decode G (gob_encode G p) = Some p"

record CookieCodec =
  cc_aead :: AESGCM

definition NewCookieCodec :: "crypto_ops \<Rightarrow> string \<Rightarrow> CookieCodec result" where
  "NewCookieCodec C rawKey =
     (case NewAESGCM C rawKey of
        Inl err \<Rightarrow> Inl (ErrNew ''cookiecodec: key must not be empty'')
      | Inr aead \<Rightarrow> Inr \<lparr>cc_aead = aead\<rparr>)"

definition NewCookieCodecFromConfig :: "crypto_ops \<Rightarrow> string \<Rightarrow> CookieCodec result" where
  "NewCookieCodecFromConfig C configKey =
     (if configKey = [] then Inl (ErrNew ''cookiecodec: config key must not be empty'')
      else NewCookieCodec C configKey)"

definition Encode :: "crypto_ops \<Rightarrow> gob_ops \<Rightarrow> rnd \<Rightarrow> CookieCodec \<Rightarrow> OIDCStateCookie \<Rightarrow> string result" where
  "Encode C G r c payload =
     (case Seal C r (cc_aead c) (gob_encode G payload) of
        Inl err \<Rightarrow> Inl (ErrWrap ''cookiecodec encode: '' err [])
      | Inr ciphertext \<Rightarrow> Inr (b64_encode ciphertext))"

text \<open>The cookie's clock is the argument \<open>now\<close>; \<open>ExpiresAt.IsZero()\<close> is \<open>sc_ExpiresAt = 0\<close>.\<close>

definition Decode :: "crypto_ops \<Rightarrow> gob_ops \<Rightarrow> time \<Rightarrow> CookieCodec \<Rightarrow> string \<Rightarrow> OIDCStateCookie result" where
  "Decode C G now c encoded =
     (case b64_decode encoded of
        Inl err \<Rightarrow> Inl (ErrWrap [] ErrInvalidCookie ('': base64: '' @ error_text err))
      | Inr raw \<Rightarrow>
          (case Open C (cc_aead c) raw of
             Inl err \<Rightarrow> Inl (ErrWrap [] ErrInvalidCookie ('': decrypt: '' @ error_text err))
           | Inr plaintext \<Rightarrow>
               (case gob_decode G plaintext of
                  None \<Rightarrow> Inl (ErrWrap [] ErrInvalidCookie '': gob: decode failed'')
                | Some payload \<Rightarrow>
                    if sc_ExpiresAt payload \<noteq> 0 \<and> now > sc_ExpiresAt payload then Inl ErrExpired
                    else Inr payload)))"

lemma Decode_Inr_fresh:
  "Decode C G now c e = Inr p \<Longrightarrow> sc_ExpiresAt p = 0 \<or> now \<le> sc_ExpiresAt p"
  by (auto simp: Decode_def split: sum.splits option.splits if_splits)

lemma Decode_error:
  "Decode C G now c e = Inl err \<Longrightarrow> err = ErrExpired \<or> errors_Is err ErrInvalidCookie"
  by (auto simp: Decode_def split: sum.splits option.splits if_splits)

text \<open>C38: the sign-in cookie round trip: what \<open>Encode\<close> writes, \<open>Decode\<close> of a codec made from the
  same key reads back until the expiry time, and rejects as expired afterwards.\<close>

theorem cookie_roundtrip:
  assumes "aead_law C" "gob_law G p" "NewCookieCodecFromConfig C k = Inr c" "length nonce = NonceSize"
    and "sc_ExpiresAt p \<noteq> 0"
  shows "\<exists>e. Encode C G (Some nonce) c p = Inr e \<and>
    (\<forall>now. Decode C G now c e = (if now \<le> sc_ExpiresAt p then Inr p else Inl ErrExpired))"
proof -
  from assms(3) have "length (aead_key (cc_aead c)) = 32"
    by (auto simp: NewCookieCodecFromConfig_def NewCookieCodec_def split: if_splits sum.splits
        dest: NewAESGCM_key [OF assms(1)])
  from Open_Seal [OF assms(1) this assms(4), of "gob_encode G p"] assms(2,5)
  show ?thesis
    by (auto simp: Encode_def Decode_def b64_roundtrip gob_law_def)
qed

definition sample_cookie :: OIDCStateCookie where
  "sample_cookie = \<lparr>sc_State = ''s'', sc_Nonce = ''n'', sc_CodeVerifier = ''v'', sc_Provider = ''p'',
     sc_ReturnTo = ''/'', sc_ExpiresAt = 600\<rparr>"

definition sample_gob :: gob_ops where
  "sample_gob = \<lparr>gob_encode = (\<lambda>p. sc_State p), gob_decode = (\<lambda>s. Some (sample_cookie\<lparr>sc_State := s\<rparr>))\<rparr>"

theorem cookie_roundtrip_witness:
  "\<exists>e. Encode sample_crypto sample_gob (Some ''0123456789ab'') \<lparr>cc_aead = \<lparr>aead_key = replicate 32 CHR ''k''\<rparr>\<rparr>
      sample_cookie = Inr e \<and>
    (\<forall>now. Decode sample_crypto sample_gob now \<lparr>cc_aead = \<lparr>aead_key = replicate 32 CHR ''k''\<rparr>\<rparr> e =
      (if now \<le> sc_ExpiresAt sample_cookie then Inr sample_cookie else Inl ErrExpired))"
  by (rule cookie_roundtrip [OF sample_crypto_law, where k = "''key''"])
    (simp_all add: gob_law_def sample_gob_def sample_cookie_def NewCookieCodecFromConfig_def
      NewCookieCodec_def NewAESGCM_def NonceSize_def sample_crypto_def)

end
