(* ===== verification/IdP.thy ===== *)
theory IdP
  imports Auth
begin

text \<open>
  \<open>internal/identity\<close>: OIDC providers and the claims of their ID tokens (\<open>oidc.go\<close>), the registry
  of materialised providers with the settings overlay and the retry of degraded ones
  (\<open>registry.go\<close>), and the file-backed demo provider (\<open>mockyaml.go\<close>, \<open>provider.go\<close>).

  Discovery (go-oidc) is an argument \<open>discover\<close> from an issuer to what it finds there, kept opaque.
  The registry reaches the store through \<open>SettingsReader\<close>: two lookups, arguments of the overlay,
  whose contract is the locale \<open>settings_source\<close>. Subscriber channels have one slot; a channel is
  its slot (\<open>True\<close>: a signal waits). The retry goroutine's tick is \<open>retryDegraded\<close>.
\<close>

section \<open>OIDC providers\<close>

record OIDCProviderConfig =
  oc_Name :: string
  oc_DisplayName :: string
  oc_Issuer :: string
  oc_ClientID :: string
  oc_ClientSecret :: string
  oc_RedirectURI :: string
  oc_Scopes :: "string list"
  oc_EmailClaim :: string
  oc_NameClaim :: string
  oc_GroupsClaim :: string

type_synonym discovered = string

record OAuth2Config =
  oa_ClientID :: string
  oa_ClientSecret :: string
  oa_RedirectURL :: string
  oa_Endpoint :: discovered
  oa_Scopes :: "string list"

record OIDCProvider =
  op_Config :: OIDCProviderConfig
  op_OIDC :: discovered
  op_OAuth2 :: OAuth2Config
  op_VerifierClientID :: string

record Identity =
  id_Subject :: string
  id_Email :: string
  id_Name :: string
  id_Groups :: "string list"
  id_Claims :: "string \<rightharpoonup> string"

definition NewOIDCProvider ::
  "(string \<Rightarrow> discovered result) \<Rightarrow> OIDCProviderConfig \<Rightarrow> OIDCProvider result" where
  "NewOIDCProvider discover cfg =
     (let scopes = (if oc_Scopes cfg = [] then [''openid'', ''email'', ''profile''] else oc_Scopes cfg);
          cfg1 = cfg\<lparr>oc_EmailClaim := (if oc_EmailClaim cfg = [] then ''email'' else oc_EmailClaim cfg),
                     oc_NameClaim := (if oc_NameClaim cfg = [] then ''name'' else oc_NameClaim cfg),
                     oc_GroupsClaim := (if oc_GroupsClaim cfg = [] then ''groups'' else oc_GroupsClaim cfg)\<rparr>
      in case discover (oc_Issuer cfg1) of
           Inl err \<Rightarrow> Inl (ErrWrap (''oidc discovery for '' @ Quote (oc_Issuer cfg1) @ '': '') err [])
         | Inr provider \<Rightarrow>
             Inr \<lparr>op_Config = cfg1, op_OIDC = provider,
                  op_OAuth2 = \<lparr>oa_ClientID = oc_ClientID cfg1, oa_ClientSecret = oc_ClientSecret cfg1,
                               oa_RedirectURL = oc_RedirectURI cfg1, oa_Endpoint = provider,
                               oa_Scopes = scopes\<rparr>,
                  op_VerifierClientID = oc_ClientID cfg1\<rparr>)"

lemma NewOIDCProvider_Inr:
  "NewOIDCProvider discover cfg = Inr p \<Longrightarrow>
     oc_Name (op_Config p) = oc_Name cfg \<and> op_VerifierClientID p = oc_ClientID cfg \<and>
     oc_EmailClaim (op_Config p) \<noteq> [] \<and> oa_Scopes (op_OAuth2 p) \<noteq> []"
  by (auto simp: NewOIDCProvider_def Let_def split: sum.splits if_splits)

text \<open>A verified token: its subject, its nonce and the claims it decodes to.\<close>

record IDToken =
  it_Subject :: string
  it_Nonce :: string
  it_Claims :: "(string \<rightharpoonup> any) result"

definition stringClaim :: "(string \<rightharpoonup> any) \<Rightarrow> string \<Rightarrow> string result" where
  "stringClaim raw key =
     (case raw key of
        None \<Rightarrow> Inr []
      | Some (AnyString s) \<Rightarrow> Inr s
      | Some _ \<Rightarrow> Inl (ErrNew (''claim '' @ Quote key @ '' is not a string'')))"

definition coerceGroups :: "any \<Rightarrow> string list" where
  "coerceGroups v =
     (case v of
        AnyNil \<Rightarrow> []
      | AnyString t \<Rightarrow> [t]
      | AnyStrings t \<Rightarrow> t
      | AnyList t \<Rightarrow> List.map_filter (\<lambda>item. case item of AnyString s \<Rightarrow> Some s | _ \<Rightarrow> None) t
      | _ \<Rightarrow> [])"

definition IdentityFromIDToken :: "OIDCProvider \<Rightarrow> IDToken \<Rightarrow> Identity result" where
  "IdentityFromIDToken p idToken =
     (if it_Subject idToken = [] then Inl (ErrNew ''id token missing required sub claim'')
      else
        (case it_Claims idToken of
           Inl err \<Rightarrow> Inl (ErrWrap ''extracting id token claims: '' err [])
         | Inr raw \<Rightarrow>
             (case stringClaim raw (oc_EmailClaim (op_Config p)) of
                Inl err \<Rightarrow> Inl err
              | Inr email \<Rightarrow>
                  if email = []
                  then Inl (ErrNew (''id token missing required '' @ Quote (oc_EmailClaim (op_Config p)) @ '' claim''))
                  else
                    Inr \<lparr>id_Subject = it_Subject idToken, id_Email = email,
                         id_Name = (case stringClaim raw (oc_NameClaim (op_Config p)) of Inl _ \<Rightarrow> [] | Inr n \<Rightarrow> n),
                         id_Groups = coerceGroups (case raw (oc_GroupsClaim (op_Config p)) of
                                                     None \<Rightarrow> AnyNil | Some v \<Rightarrow> v),
                         id_Claims = Map.empty\<rparr>)))"

text \<open>An identity made from a token carries the token's subject and a non-empty email claim, and
  only claims of string type are read.\<close>

lemma IdentityFromIDToken_Inr:
  "IdentityFromIDToken p tok = Inr i \<Longrightarrow>
     id_Subject i = it_Subject tok \<and> id_Subject i \<noteq> [] \<and> id_Email i \<noteq> [] \<and>
     (\<exists>raw. it_Claims tok = Inr raw \<and> raw (oc_EmailClaim (op_Config p)) = Some (AnyString (id_Email i)))"
  by (auto simp: IdentityFromIDToken_def stringClaim_def split: if_splits sum.splits option.splits any.splits)

section \<open>The registry\<close>

record MaterializedProvider =
  mp_Config :: OIDCProviderConfig
  mp_Provider :: "OIDCProvider option"
  mp_Status :: string
  mp_LastErr :: string
  mp_Enabled :: bool

abbreviation StatusReady :: string where "StatusReady \<equiv> ''ready''"
abbreviation StatusDegraded :: string where "StatusDegraded \<equiv> ''degraded''"

record idpRegistry =
  ir_configs :: "OIDCProviderConfig list"
  ir_snapshot :: "string \<rightharpoonup> MaterializedProvider"
  ir_mode :: AuthMode
  ir_subscribers :: "bool list"

definition auth_mode_of :: "string \<Rightarrow> AuthMode" where
  "auth_mode_of v = (if v \<in> {AuthModeSSO, AuthModeBoth, AuthModeLocal} then v else AuthModeLocal)"

definition enabled_key :: "string \<Rightarrow> string" where
  "enabled_key name = ''auth.idp.'' @ name @ ''.enabled''"

definition overlay_flags ::
  "(string \<rightharpoonup> string) \<Rightarrow> (string \<rightharpoonup> MaterializedProvider) \<Rightarrow> (string \<rightharpoonup> MaterializedProvider)" where
  "overlay_flags overlay snapshot name =
     map_option
       (\<lambda>entry. entry\<lparr>mp_Enabled := (case overlay (enabled_key name) of Some val \<Rightarrow> val = ''true'' | None \<Rightarrow> True)\<rparr>)
       (snapshot name)"

text \<open>At start-up the mode is set before the flags are read, so a failure of the second call leaves
  the mode behind.\<close>

definition applyOverlay ::
  "(string \<Rightarrow> string result) \<Rightarrow> (string \<Rightarrow> (string \<rightharpoonup> string) result) \<Rightarrow> idpRegistry
     \<Rightarrow> idpRegistry \<times> unit result" where
  "applyOverlay getAppSetting listAppSettings r =
     (case getAppSetting ''auth.mode'' of
        Inl err \<Rightarrow> (r, Inl err)
      | Inr modeVal \<Rightarrow>
          let r1 = r\<lparr>ir_mode := auth_mode_of modeVal\<rparr> in
            (case listAppSettings ''auth.idp.'' of
               Inl err \<Rightarrow> (r1, Inl err)
             | Inr overlay \<Rightarrow> (r1\<lparr>ir_snapshot := overlay_flags overlay (ir_snapshot r1)\<rparr>, Inr ())))"

definition materialize :: "(string \<Rightarrow> discovered result) \<Rightarrow> OIDCProviderConfig \<Rightarrow> MaterializedProvider" where
  "materialize discover cfg =
     (case NewOIDCProvider discover cfg of
        Inl err \<Rightarrow> \<lparr>mp_Config = cfg, mp_Provider = None, mp_Status = StatusDegraded,
                    mp_LastErr = error_text err, mp_Enabled = False\<rparr>
      | Inr p \<Rightarrow> \<lparr>mp_Config = cfg, mp_Provider = Some p, mp_Status = StatusReady,
                  mp_LastErr = [], mp_Enabled = False\<rparr>)"

text \<open>\<open>discover name\<close> is the discovery attempt made for the provider of that name.\<close>

definition NewIdPRegistry ::
  "(string \<Rightarrow> string \<Rightarrow> discovered result) \<Rightarrow> (string \<Rightarrow> string result)
     \<Rightarrow> (string \<Rightarrow> (string \<rightharpoonup> string) result) \<Rightarrow> OIDCProviderConfig list \<Rightarrow> idpRegistry" where
  "NewIdPRegistry discover getAppSetting listAppSettings configs =
     fst (applyOverlay getAppSetting listAppSettings
       \<lparr>ir_configs = configs,
        ir_snapshot = foldl (\<lambda>sn cfg. sn(oc_Name cfg \<mapsto> materialize (discover (oc_Name cfg)) cfg)) Map.empty configs,
        ir_mode = [], ir_subscribers = []\<rparr>)"

definition idp_Get :: "string \<Rightarrow> idpRegistry \<Rightarrow> MaterializedProvider option" where
  "idp_Get name r = ir_snapshot r name"

definition idp_List :: "string list \<Rightarrow> idpRegistry \<Rightarrow> MaterializedProvider list" where
  "idp_List ks r =
     sort_slice (\<lambda>a b. oc_Name (mp_Config a) < oc_Name (mp_Config b)) (range_values (ir_snapshot r) ks)"

definition Mode :: "idpRegistry \<Rightarrow> AuthMode" where
  "Mode r = ir_mode r"

definition Subscribe :: "idpRegistry \<Rightarrow> idpRegistry \<times> nat" where
  "Subscribe r = (r\<lparr>ir_subscribers := ir_subscribers r @ [False]\<rparr>, length (ir_subscribers r))"

text \<open>A send that finds the slot taken is dropped, so every slot is taken afterwards.\<close>

definition broadcast :: "idpRegistry \<Rightarrow> idpRegistry" where
  "broadcast r = r\<lparr>ir_subscribers := map (\<lambda>_. True) (ir_subscribers r)\<rparr>"

definition Reload ::
  "(string \<Rightarrow> string result) \<Rightarrow> (string \<Rightarrow> (string \<rightharpoonup> string) result) \<Rightarrow> idpRegistry
     \<Rightarrow> idpRegistry \<times> unit result" where
  "Reload getAppSetting listAppSettings r =
     (case getAppSetting ''auth.mode'' of
        Inl err \<Rightarrow> (r, Inl err)
      | Inr modeVal \<Rightarrow>
          (case listAppSettings ''auth.idp.'' of
             Inl err \<Rightarrow> (r, Inl err)
           | Inr overlay \<Rightarrow>
               (broadcast (r\<lparr>ir_mode := auth_mode_of modeVal,
                            ir_snapshot := overlay_flags overlay (ir_snapshot r)\<rparr>), Inr ())))"

definition retry_one ::
  "(string \<Rightarrow> string \<Rightarrow> discovered result) \<Rightarrow> (string \<rightharpoonup> MaterializedProvider) \<times> bool \<Rightarrow> string
     \<Rightarrow> (string \<rightharpoonup> MaterializedProvider) \<times> bool" where
  "retry_one discover = (\<lambda>(sn, changed) name.
     (case sn name of
        None \<Rightarrow> (sn, changed)
      | Some entry \<Rightarrow>
          (case NewOIDCProvider (discover name) (mp_Config entry) of
             Inl err \<Rightarrow> (sn, changed)
           | Inr p \<Rightarrow>
               if mp_Status entry = StatusDegraded
               then (sn(name \<mapsto> entry\<lparr>mp_Provider := Some p, mp_Status := StatusReady, mp_LastErr := []\<rparr>), True)
               else (sn, changed))))"

text \<open>\<open>ks\<close> is the order in which the first loop visits the snapshot.\<close>

definition retryDegraded ::
  "(string \<Rightarrow> string \<Rightarrow> discovered result) \<Rightarrow> string list \<Rightarrow> idpRegistry \<Rightarrow> idpRegistry" where
  "retryDegraded discover ks r =
     (let toRetry = filter (\<lambda>name. case ir_snapshot r name of
                               Some e \<Rightarrow> mp_Status e = StatusDegraded | None \<Rightarrow> False) ks
      in if toRetry = [] then r
         else
           (case foldl (retry_one discover) (ir_snapshot r, False) toRetry of
              (sn, changed) \<Rightarrow>
                if changed then broadcast (r\<lparr>ir_snapshot := sn\<rparr>) else r\<lparr>ir_snapshot := sn\<rparr>))"

section \<open>What the overlay relies on\<close>

locale settings_source =
  fixes get :: "string \<Rightarrow> string result"
    and list :: "string \<Rightarrow> (string \<rightharpoonup> string) result"
    and stored :: "string \<rightharpoonup> string"
  assumes get_Inr: "get k = Inr v \<Longrightarrow> v = (case stored k of None \<Rightarrow> [] | Some w \<Rightarrow> w)"
    and list_Inr: "list p = Inr f \<Longrightarrow> CHR 0x5C \<notin> set p \<Longrightarrow> prefix p k \<Longrightarrow> f k = stored k"
begin

definition stored_mode :: AuthMode where
  "stored_mode = auth_mode_of (case stored ''auth.mode'' of None \<Rightarrow> [] | Some w \<Rightarrow> w)"

definition stored_enabled :: "string \<Rightarrow> bool" where
  "stored_enabled name = (stored (enabled_key name) \<in> {None, Some ''true''})"

lemma overlay_flags_stored:
  "list ''auth.idp.'' = Inr f \<Longrightarrow>
     overlay_flags f sn name = map_option (\<lambda>e. e\<lparr>mp_Enabled := stored_enabled name\<rparr>) (sn name)"
proof -
  assume l: "list ''auth.idp.'' = Inr f"
  have "CHR 0x5C \<notin> set ''auth.idp.''" "prefix ''auth.idp.'' (enabled_key name)" by (simp_all add: enabled_key_def)
  from list_Inr [OF l this] show ?thesis
    by (cases "stored (enabled_key name)") (auto simp: overlay_flags_def stored_enabled_def)
qed

text \<open>A successful reload makes mode and flags those of the store, wakes every subscriber and
  leaves the providers themselves alone.\<close>

lemma Reload_Inr:
  assumes "Reload get list r = (r', Inr ())"
  shows "ir_mode r' = stored_mode"
    "ir_snapshot r' name = map_option (\<lambda>e. e\<lparr>mp_Enabled := stored_enabled name\<rparr>) (ir_snapshot r name)"
    "ir_subscribers r' = map (\<lambda>_. True) (ir_subscribers r)"
  using assms get_Inr
  by (auto simp: Reload_def broadcast_def stored_mode_def overlay_flags_stored split: sum.splits)

lemma Reload_Inl: "Reload get list r = (r', Inl e) \<Longrightarrow> r' = r"
  by (auto simp: Reload_def split: sum.splits)

end

interpretation mem_settings: settings_source
  "\<lambda>k. GetAppSetting cx k m" "\<lambda>p. ListAppSettings cx p m" "m_appSettings m" for cx m
  by unfold_locales (auto simp: GetAppSetting_def ListAppSettings_def split: option.splits)

section \<open>The registry's invariant\<close>

definition entry_ok :: "string \<Rightarrow> MaterializedProvider \<Rightarrow> bool" where
  "entry_ok name e \<longleftrightarrow> oc_Name (mp_Config e) = name \<and>
     (mp_Status e = StatusReady \<and> mp_Provider e \<noteq> None \<and> mp_LastErr e = [] \<or>
      mp_Status e = StatusDegraded \<and> mp_Provider e = None) \<and>
     (\<forall>p. mp_Provider e = Some p \<longrightarrow> oc_Name (op_Config p) = name \<and>
            op_VerifierClientID p = oc_ClientID (mp_Config e))"

definition snapshot_ok :: "(string \<rightharpoonup> MaterializedProvider) \<Rightarrow> bool" where
  "snapshot_ok sn \<longleftrightarrow> (\<forall>name e. sn name = Some e \<longrightarrow> entry_ok name e)"

definition idp_inv :: "idpRegistry \<Rightarrow> bool" where
  "idp_inv r \<longleftrightarrow> snapshot_ok (ir_snapshot r) \<and>
     ir_mode r \<in> {[], AuthModeLocal, AuthModeSSO, AuthModeBoth}"

datatype idp_op =
    OpReload "string \<Rightarrow> string result" "string \<Rightarrow> (string \<rightharpoonup> string) result"
  | OpRetry "string \<Rightarrow> string \<Rightarrow> discovered result" "string list"
  | OpSubscribe

fun idp_step :: "idp_op \<Rightarrow> idpRegistry \<Rightarrow> idpRegistry" where
  "idp_step (OpReload g l) r = fst (Reload g l r)"
| "idp_step (OpRetry d ks) r = retryDegraded d ks r"
| "idp_step OpSubscribe r = fst (Subscribe r)"

inductive idp_reachable :: "idpRegistry \<Rightarrow> bool" where
  start: "idp_reachable (NewIdPRegistry d g l cfgs)"
| step: "idp_reachable r \<Longrightarrow> idp_reachable (idp_step op r)"

lemma broadcast_simps [simp]:
  "ir_snapshot (broadcast r) = ir_snapshot r" "ir_mode (broadcast r) = ir_mode r"
  "length (ir_subscribers (broadcast r)) = length (ir_subscribers r)"
  by (simp_all add: broadcast_def)

lemma auth_mode_of_range: "auth_mode_of v \<in> {[], AuthModeLocal, AuthModeSSO, AuthModeBoth}"
  by (auto simp: auth_mode_of_def)

lemma snapshot_ok_upd: "snapshot_ok sn \<Longrightarrow> entry_ok n e \<Longrightarrow> snapshot_ok (sn(n \<mapsto> e))"
  by (simp add: snapshot_ok_def)

lemma entry_ok_materialize: "entry_ok (oc_Name cfg) (materialize d cfg)"
  by (auto simp: entry_ok_def materialize_def split: sum.splits dest: NewOIDCProvider_Inr)

lemma entry_ok_enabled [simp]: "entry_ok n (e\<lparr>mp_Enabled := b\<rparr>) = entry_ok n e"
  by (simp add: entry_ok_def)

lemma snapshot_ok_overlay: "snapshot_ok sn \<Longrightarrow> snapshot_ok (overlay_flags ov sn)"
  by (auto simp: snapshot_ok_def overlay_flags_def)

lemma snapshot_ok_retry_one:
  assumes "snapshot_ok (fst p)"
  shows "snapshot_ok (fst (retry_one d p name))"
proof -
  obtain sn ch where p: "p = (sn, ch)" by fastforce
  with assms have ok: "snapshot_ok sn" by simp
  show ?thesis
  proof (cases "sn name")
    case None
    with ok p show ?thesis by (simp add: retry_one_def)
  next
    case (Some e)
    with ok have e: "entry_ok name e" by (simp add: snapshot_ok_def)
    show ?thesis
    proof (cases "NewOIDCProvider (d name) (mp_Config e)")
      case (Inl err)
      with Some ok p show ?thesis by (simp add: retry_one_def)
    next
      case (Inr q)
      from NewOIDCProvider_Inr [OF Inr] e
      have "entry_ok name (e\<lparr>mp_Provider := Some q, mp_Status := StatusReady, mp_LastErr := []\<rparr>)"
        by (simp add: entry_ok_def)
      with Some Inr ok p show ?thesis by (simp add: retry_one_def snapshot_ok_upd)
    qed
  qed
qed

lemma snapshot_ok_retry: "snapshot_ok (fst p) \<Longrightarrow> snapshot_ok (fst (foldl (retry_one d) p ns))"
  by (induction ns arbitrary: p) (simp_all add: snapshot_ok_retry_one)

lemma snapshot_ok_start:
  "snapshot_ok sn \<Longrightarrow>
     snapshot_ok (foldl (\<lambda>sn cfg. sn(oc_Name cfg \<mapsto> materialize (d (oc_Name cfg)) cfg)) sn cfgs)"
  by (induction cfgs arbitrary: sn) (simp_all add: snapshot_ok_upd entry_ok_materialize)

lemma idp_inv_start: "idp_inv (NewIdPRegistry d g l cfgs)"
proof -
  have "snapshot_ok (foldl (\<lambda>sn cfg. sn(oc_Name cfg \<mapsto> materialize (d (oc_Name cfg)) cfg)) Map.empty cfgs)"
    by (rule snapshot_ok_start) (simp add: snapshot_ok_def)
  then show ?thesis
    using auth_mode_of_range
    by (simp add: NewIdPRegistry_def applyOverlay_def idp_inv_def Let_def snapshot_ok_overlay split: sum.splits)
qed

lemma idp_inv_step: "idp_inv r \<Longrightarrow> idp_inv (idp_step op r)"
proof (cases op)
  case (OpReload g l)
  then show "idp_inv r \<Longrightarrow> ?thesis"
    using auth_mode_of_range
    by (simp add: Reload_def idp_inv_def snapshot_ok_overlay split: sum.splits)
next
  case (OpRetry d ks)
  then show "idp_inv r \<Longrightarrow> ?thesis"
    using snapshot_ok_retry [of "(ir_snapshot r, False)" d]
    by (simp add: retryDegraded_def idp_inv_def Let_def case_prod_beta)
next
  case OpSubscribe
  then show "idp_inv r \<Longrightarrow> ?thesis" by (simp add: Subscribe_def idp_inv_def)
qed

lemma idp_reachable_inv: "idp_reachable r \<Longrightarrow> idp_inv r"
  by (induction rule: idp_reachable.induct) (simp_all add: idp_inv_start idp_inv_step)

text \<open>In every registry the program can reach, a provider is offered as ready exactly when
  discovery has succeeded for it, under its own name and client id, whatever reloads, retries and
  failures happened before.\<close>

theorem idp_ready_has_provider:
  assumes "idp_reachable r" "idp_Get name r = Some e"
  shows "oc_Name (mp_Config e) = name \<and> mp_Status e \<in> {StatusReady, StatusDegraded} \<and>
    (mp_Status e = StatusReady \<longleftrightarrow> mp_Provider e \<noteq> None) \<and>
    map_option op_VerifierClientID (mp_Provider e) \<in> {None, Some (oc_ClientID (mp_Config e))}"
proof -
  from idp_reachable_inv [OF assms(1)] assms(2) have "entry_ok name e"
    by (simp add: idp_inv_def snapshot_ok_def idp_Get_def)
  then show ?thesis by (auto simp: entry_ok_def)
qed

text \<open>\<open>List\<close> returns every provider once, in the order of their names.\<close>

lemma range_values_keys:
  assumes "snapshot_ok sn" "set ks \<subseteq> dom sn"
  shows "map (\<lambda>e. oc_Name (mp_Config e)) (range_values sn ks) = ks"
  using assms(2)
proof (induction ks)
  case Nil
  then show ?case by simp
next
  case (Cons k ks)
  then obtain e where "sn k = Some e" by auto
  with Cons assms(1) show ?case by (auto simp: snapshot_ok_def entry_ok_def)
qed

lemma idp_List_names:
  assumes "idp_inv r" "range_order (ir_snapshot r) ks"
  shows "sorted_wrt (\<lambda>a b. oc_Name (mp_Config a) < oc_Name (mp_Config b)) (idp_List ks r)"
    "set (idp_List ks r) = ran (ir_snapshot r)"
proof -
  from assms have "map (\<lambda>e. oc_Name (mp_Config e)) (range_values (ir_snapshot r) ks) = ks" "distinct ks"
    by (simp_all add: idp_inv_def range_order_def range_values_keys)
  then have "distinct (map (\<lambda>e. oc_Name (mp_Config e)) (range_values (ir_snapshot r) ks))" by simp
  from sort_slice_key_strict [OF this]
  show "sorted_wrt (\<lambda>a b. oc_Name (mp_Config a) < oc_Name (mp_Config b)) (idp_List ks r)"
    by (simp add: idp_List_def sorted_wrt_map)
  from assms(2) show "set (idp_List ks r) = ran (ir_snapshot r)"
    by (simp add: idp_List_def range_values_ran)
qed

section \<open>Overlay and retry do not interfere\<close>

text \<open>A retry only ever turns degraded providers into ready ones: it keeps the mode, every enabled
  flag and every provider that is ready.\<close>

definition entry_kept :: "MaterializedProvider \<Rightarrow> MaterializedProvider \<Rightarrow> bool" where
  "entry_kept e e' \<longleftrightarrow> mp_Enabled e' = mp_Enabled e \<and> mp_Config e' = mp_Config e \<and>
     (mp_Status e = StatusReady \<longrightarrow> e' = e)"

definition retry_related :: "(string \<rightharpoonup> MaterializedProvider) \<Rightarrow> (string \<rightharpoonup> MaterializedProvider) \<Rightarrow> bool" where
  "retry_related sn sn' \<longleftrightarrow> (\<forall>n. rel_option entry_kept (sn n) (sn' n))"

lemma entry_kept_refl [simp]: "entry_kept e e"
  by (simp add: entry_kept_def)

lemma retry_related_refl: "retry_related sn sn"
  by (simp add: retry_related_def option.rel_refl)

lemma retry_related_trans:
  assumes "retry_related a b" "retry_related b c"
  shows "retry_related a c"
  unfolding retry_related_def
proof
  fix n
  from assms have "rel_option entry_kept (a n) (b n)" "rel_option entry_kept (b n) (c n)"
    by (simp_all add: retry_related_def)
  then show "rel_option entry_kept (a n) (c n)"
    by (cases "a n"; cases "b n"; cases "c n") (auto simp: entry_kept_def)
qed

lemma retry_related_one: "retry_related (fst p) (fst (retry_one d p name))"
proof (cases "fst (retry_one d p name) = fst p")
  case True
  then show ?thesis by (simp add: retry_related_refl)
next
  case False
  then obtain e q where "fst p name = Some e" "mp_Status e = StatusDegraded"
    and upd: "fst (retry_one d p name)
      = (fst p)(name \<mapsto> e\<lparr>mp_Provider := Some q, mp_Status := StatusReady, mp_LastErr := []\<rparr>)"
    by (auto simp: retry_one_def case_prod_beta split: option.splits sum.splits if_splits)
  then show ?thesis by (simp add: retry_related_def upd entry_kept_def option.rel_refl)
qed

lemma retry_related_fold: "retry_related (fst p) (fst (foldl (retry_one d) p ns))"
proof (induction ns arbitrary: p)
  case Nil
  then show ?case by (simp add: retry_related_refl)
next
  case (Cons n ns)
  from retry_related_trans [OF retry_related_one Cons] show ?case by simp
qed

lemma retryDegraded_related:
  "retry_related (ir_snapshot r) (ir_snapshot (retryDegraded d ks r))"
  "ir_mode (retryDegraded d ks r) = ir_mode r"
  using retry_related_fold [of "(ir_snapshot r, False)" d]
  by (simp_all add: retryDegraded_def Let_def case_prod_beta retry_related_refl)

text \<open>Once an administrator's settings are in the store and \<open>Reload\<close> returns without an error,
  mode and flags are the stored ones, and they stay so across any later retry of degraded
  providers, which can only add providers that become ready.\<close>

theorem reload_then_retry:
  assumes "Reload (\<lambda>k. GetAppSetting cx k m) (\<lambda>p. ListAppSettings cx p m) r = (r1, Inr ())"
    and "idp_Get name r = Some e"
  shows "\<exists>e'. idp_Get name (retryDegraded d ks r1) = Some e' \<and>
    mp_Enabled e' = (m_appSettings m (enabled_key name) \<in> {None, Some ''true''}) \<and>
    Mode (retryDegraded d ks r1)
      = auth_mode_of (case m_appSettings m ''auth.mode'' of None \<Rightarrow> [] | Some v \<Rightarrow> v) \<and>
    (mp_Status e = StatusReady \<longrightarrow> mp_Provider e' = mp_Provider e)"
proof -
  note reload = mem_settings.Reload_Inr [OF assms(1)]
  let ?e1 = "e\<lparr>mp_Enabled := m_appSettings m (enabled_key name) \<in> {None, Some ''true''}\<rparr>"
  from reload(2) [of name] assms(2) have e1: "ir_snapshot r1 name = Some ?e1"
    by (simp add: idp_Get_def mem_settings.stored_enabled_def)
  moreover from retryDegraded_related(1) [of r1 d ks]
  have "rel_option entry_kept (ir_snapshot r1 name) (ir_snapshot (retryDegraded d ks r1) name)"
    by (simp add: retry_related_def)
  ultimately obtain e' where "ir_snapshot (retryDegraded d ks r1) name = Some e'" "entry_kept ?e1 e'"
    by (cases "ir_snapshot (retryDegraded d ks r1) name") auto
  with reload(1) retryDegraded_related(2) [of d ks r1] show ?thesis
    by (auto simp: idp_Get_def Mode_def mem_settings.stored_mode_def entry_kept_def)
qed

definition sample_entry :: MaterializedProvider where
  "sample_entry = materialize (\<lambda>issuer. Inr ''metadata'')
     \<lparr>oc_Name = ''okta'', oc_DisplayName = ''Okta'', oc_Issuer = ''https://idp'', oc_ClientID = ''c'',
      oc_ClientSecret = ''s'', oc_RedirectURI = ''https://app/cb'', oc_Scopes = [], oc_EmailClaim = [],
      oc_NameClaim = [], oc_GroupsClaim = []\<rparr>"

definition sample_registry :: idpRegistry where
  "sample_registry = \<lparr>ir_configs = [], ir_snapshot = [''okta'' \<mapsto> sample_entry], ir_mode = ''sso'',
     ir_subscribers = [False]\<rparr>"

theorem reload_then_retry_witness:
  "\<exists>e'. idp_Get ''okta'' (retryDegraded (\<lambda>n i. Inr ''metadata'') [''okta'']
       (fst (Reload (\<lambda>k. GetAppSetting None k NewMemory) (\<lambda>p. ListAppSettings None p NewMemory) sample_registry)))
       = Some e' \<and>
    mp_Enabled e' = (m_appSettings NewMemory (enabled_key ''okta'') \<in> {None, Some ''true''}) \<and>
    Mode (retryDegraded (\<lambda>n i. Inr ''metadata'') [''okta'']
       (fst (Reload (\<lambda>k. GetAppSetting None k NewMemory) (\<lambda>p. ListAppSettings None p NewMemory) sample_registry)))
      = auth_mode_of (case m_appSettings NewMemory ''auth.mode'' of None \<Rightarrow> [] | Some v \<Rightarrow> v) \<and>
    (mp_Status sample_entry = StatusReady \<longrightarrow> mp_Provider e' = mp_Provider sample_entry)"
  by (rule reload_then_retry [where r = sample_registry and cx = None])
    (simp_all add: Reload_def GetAppSetting_def ListAppSettings_def idp_Get_def sample_registry_def)

section \<open>The demo provider\<close>

record AuthRequest =
  ar_Username :: string
  ar_Password :: string
  ar_Headers :: "string \<rightharpoonup> string"
  ar_Claims :: "string \<rightharpoonup> string"

record MappedPrincipal =
  mpr_UserID :: string
  mpr_Email :: string
  mpr_DisplayName :: string
  mpr_TenantID :: string
  mpr_TeamIDs :: "string list"
  mpr_Roles :: "string list"

record mockYAMLUser =
  my_Password :: string
  my_Subject :: string
  my_Name :: string
  my_Tenant :: string
  my_Teams :: "string list"
  my_Roles :: "string list"
  my_Groups :: "string list"

record MockYAMLUserSummary =
  mys_Email :: string
  mys_Subject :: string
  mys_DisplayName :: string
  mys_TenantID :: string
  mys_TeamIDs :: "string list"
  mys_Roles :: "string list"
  mys_Groups :: "string list"

definition mock_subject :: "string \<Rightarrow> mockYAMLUser \<Rightarrow> string" where
  "mock_subject username user = (if my_Subject user = [] then ''mock-yaml|'' @ username else my_Subject user)"

fun check_mock_users :: "(string \<times> mockYAMLUser) list \<Rightarrow> unit result" where
  "check_mock_users [] = Inr ()"
| "check_mock_users ((username, user) # us) =
     (if TrimSpace username = [] then Inl (ErrNew ''mock identity config has empty username'')
      else if TrimSpace (my_Password user) = []
      then Inl (ErrNew (''mock identity user '' @ Quote username @ '' has no password''))
      else if TrimSpace (my_Tenant user) = []
      then Inl (ErrNew (''mock identity user '' @ Quote username @ '' has no tenant''))
      else check_mock_users us)"

text \<open>\<open>file\<close> is the outcome of reading the file and of \<open>yaml.Unmarshal\<close>; \<open>ks\<close> the order in which the
  users are visited.\<close>

definition NewMockYAMLProvider ::
  "string list \<Rightarrow> (string \<rightharpoonup> mockYAMLUser) result \<Rightarrow> (string \<rightharpoonup> mockYAMLUser) result" where
  "NewMockYAMLProvider ks file =
     (case file of
        Inl err \<Rightarrow> Inl err
      | Inr users \<Rightarrow>
          if ks = [] then Inl (ErrNew ''mock identity config has no users'')
          else
            (case check_mock_users (List.map_filter (\<lambda>k. map_option (Pair k) (users k)) ks) of
               Inl err \<Rightarrow> Inl err
             | Inr _ \<Rightarrow> Inr users))"

definition mock_Users :: "string list \<Rightarrow> (string \<rightharpoonup> mockYAMLUser) \<Rightarrow> MockYAMLUserSummary list" where
  "mock_Users ks users =
     List.map_filter (\<lambda>username. map_option (\<lambda>user.
       \<lparr>mys_Email = username, mys_Subject = mock_subject username user, mys_DisplayName = my_Name user,
        mys_TenantID = TrimSpace (my_Tenant user), mys_TeamIDs = my_Teams user, mys_Roles = my_Roles user,
        mys_Groups = my_Groups user\<rparr>) (users username)) ks"

definition mock_Authenticate ::
  "(string \<Rightarrow> string) \<Rightarrow> ctx \<Rightarrow> (string \<rightharpoonup> mockYAMLUser) \<Rightarrow> AuthRequest \<Rightarrow> Identity result" where
  "mock_Authenticate ul cx users request =
     (case cx of
        Some err \<Rightarrow> Inl err
      | None \<Rightarrow>
          let username = TrimSpace (ToLower ul (ar_Username request)) in
            (case users username of
               None \<Rightarrow> Inl ErrInvalidCredentials
             | Some user \<Rightarrow>
                 if my_Password user \<noteq> ar_Password request then Inl ErrInvalidCredentials
                 else Inr \<lparr>id_Subject = mock_subject username user, id_Email = username,
                           id_Name = my_Name user, id_Groups = my_Groups user,
                           id_Claims = [''tenant'' \<mapsto> TrimSpace (my_Tenant user),
                                        ''teams'' \<mapsto> Join (my_Teams user) '','',
                                        ''roles'' \<mapsto> Join (my_Roles user) '','']\<rparr>))"

definition splitClaim :: "string \<Rightarrow> string list" where
  "splitClaim value =
     (if TrimSpace value = [] then []
      else filter (\<lambda>p. p \<noteq> []) (map TrimSpace (split_on CHR '','' value)))"

definition claim :: "Identity \<Rightarrow> string \<Rightarrow> string" where
  "claim i k = (case id_Claims i k of None \<Rightarrow> [] | Some v \<Rightarrow> v)"

definition Map_identity :: "ctx \<Rightarrow> Identity \<Rightarrow> MappedPrincipal result" where
  "Map_identity cx i =
     (case cx of
        Some err \<Rightarrow> Inl err
      | None \<Rightarrow>
          if TrimSpace (id_Subject i) = [] then Inl (ErrNew ''identity has no subject'')
          else if TrimSpace (id_Email i) = []
          then Inl (ErrNew (''identity '' @ Quote (id_Subject i) @ '' has no email''))
          else
            let tenant = TrimSpace (claim i ''tenant'') in
            if tenant = [] then Inl (ErrNew (''identity '' @ Quote (id_Subject i) @ '' has no tenant claim''))
            else Inr \<lparr>mpr_UserID = id_Subject i, mpr_Email = id_Email i, mpr_DisplayName = id_Name i,
                      mpr_TenantID = tenant, mpr_TeamIDs = splitClaim (claim i ''teams''),
                      mpr_Roles = splitClaim (claim i ''roles'')\<rparr>)"

text \<open>A list of trimmed, non-empty, comma-free names survives the trip through the joined claim.\<close>

lemma splitClaim_Join:
  assumes "\<forall>t\<in>set ts. TrimSpace t = t \<and> t \<noteq> [] \<and> CHR '','' \<notin> set t" "TrimSpace (Join ts '','') \<noteq> []"
  shows "splitClaim (Join ts '','') = ts"
proof -
  from assms(2) have "ts \<noteq> []" by auto
  with assms(1) have "split_on CHR '','' (Join ts '','') = ts" by (simp add: split_on_Join)
  moreover have "map TrimSpace ts = ts" using assms(1) by (simp add: map_idI)
  moreover have "filter (\<lambda>p. p \<noteq> []) ts = ts" using assms(1) by (simp add: filter_id_conv)
  ultimately show ?thesis using assms(2) by (simp add: splitClaim_def)
qed

theorem idp_ready_has_provider_witness:
  "let r = NewIdPRegistry (\<lambda>n i. Inr ''metadata'') (\<lambda>k. Inl ErrNotFound) (\<lambda>p. Inr Map.empty) [mp_Config sample_entry]
   in \<exists>e. idp_Get ''okta'' r = Some e \<and> oc_Name (mp_Config e) = ''okta'' \<and> mp_Status e \<in> {StatusReady, StatusDegraded} \<and>
     (mp_Status e = StatusReady \<longleftrightarrow> mp_Provider e \<noteq> None) \<and>
     map_option op_VerifierClientID (mp_Provider e) \<in> {None, Some (oc_ClientID (mp_Config e))}"
proof -
  let ?r = "NewIdPRegistry (\<lambda>n i. Inr ''metadata'') (\<lambda>k. Inl ErrNotFound) (\<lambda>p. Inr Map.empty) [mp_Config sample_entry]"
  have "idp_Get ''okta'' ?r \<noteq> None" by code_simp
  then obtain e where "idp_Get ''okta'' ?r = Some e" by auto
  with idp_ready_has_provider [OF idp_reachable.start this] show ?thesis unfolding Let_def by blast
qed

end
