(* ===== verification/Manifest.thy ===== *)
theory Manifest
  imports Prelude
begin

text \<open>
  \<open>internal/plugins/manifest.go\<close>, \<open>template.go\<close>, \<open>sidecar.go\<close> and \<open>mcp_resolver.go\<close>: the plugin
  manifest, its validation, and what a valid manifest makes the server do: the HTTP probe that
  checks a user's credential, the environment and the MCP servers it contributes to an agent.

  A Go map inside a manifest is the list of its entries in the order \<open>range\<close> visits them. The YAML,
  JSON and duration parsers, text/template, the HTTP client and the informer cache are the
  fields of \<open>plugin_ops\<close>, an argument of every definition that uses them.
\<close>

section \<open>Manifests\<close>

record Metadata =
  md_Name :: string
  md_Source :: string

record FormField =
  ff_Name :: string
  ff_Label :: string
  ff_Secret :: bool
  ff_Placeholder :: string
  ff_HelpURL :: string

record AuthSpec =
  au_Type :: string
  au_Fields :: "FormField list"

record ExtractSpec =
  ex_ExternalAccountID :: string
  ex_ExternalLogin :: string
  ex_AccountType :: string

record HTTPValidate =
  hv_Method :: string
  hv_URL :: string
  hv_Headers :: "(string \<times> string) list"
  hv_SuccessStatus :: "int list"
  hv_Extract :: ExtractSpec
  hv_Timeout :: string

record SidecarSpec =
  ss_URL :: string
  ss_Timeout :: string

record ExternalMCP =
  xm_URL :: string
  xm_AuthHeader :: string

record MCPRef =
  mr_Name :: string
  mr_Ref :: string
  mr_External :: "ExternalMCP option"
  mr_EnvFrom :: "(string \<times> string) list"

record Contributions =
  cb_Env :: "(string \<times> string) list"
  cb_MCPServers :: "MCPRef list"

record ManifestSpec =
  sp_ID :: string
  sp_DisplayName :: string
  sp_Description :: string
  sp_PluginKind :: string
  sp_ScopesSupported :: "string list"
  sp_Auth :: AuthSpec
  sp_HTTP :: "HTTPValidate option"
  sp_Sidecar :: "SidecarSpec option"
  sp_Contributions :: Contributions

record Manifest =
  mf_APIVersion :: string
  mf_Kind :: string
  mf_Metadata :: Metadata
  mf_Spec :: ManifestSpec

section \<open>What the code calls\<close>

record TemplateContext =
  tc_Token :: string
  tc_Fields :: "(string \<times> string) list"

record http_request =
  rq_Method :: string
  rq_URL :: string
  rq_Headers :: "(string \<times> string) list"
  rq_Body :: string

text \<open>The body a response delivers, and the error the transport reports where the body ends.\<close>

record http_response =
  rs_StatusCode :: int
  rs_Body :: string
  rs_BodyErr :: "go_error option"

record MCPServerCR =
  mcr_Name :: string
  mcr_Port :: int
  mcr_ServiceURL :: string

datatype lookup_failure = LookupNotFound | LookupError go_error | LookupWrongType string | LookupBadObject go_error

record sidecar_reply =
  sr_ExternalAccountID :: string
  sr_ExternalLogin :: string
  sr_AccountType :: string
  sr_Status :: string

record plugin_ops =
  po_yaml :: "string \<Rightarrow> Manifest result"
  po_template_parse :: "string \<Rightarrow> unit result"
  po_template_exec :: "string \<Rightarrow> TemplateContext \<Rightarrow> string result"
  po_duration :: "string \<Rightarrow> int result"
  po_new_request :: "string \<Rightarrow> string \<Rightarrow> unit result"
  po_http :: "int \<Rightarrow> http_request \<Rightarrow> http_response result"
  po_json_object :: "string \<Rightarrow> (string \<times> any) list result"
  po_json_marshal :: "any \<Rightarrow> string"
  po_json_sidecar :: "string \<Rightarrow> sidecar_reply result"
  po_json_env :: "string \<Rightarrow> (string \<times> string) list option result"
  po_mcp_lookup :: "string \<Rightarrow> string \<Rightarrow> lookup_failure + MCPServerCR"

section \<open>Validation\<close>

text \<open>The regular expression \<open>^[a-z0-9][a-z0-9-]*$\<close>.\<close>

definition id_start :: "char \<Rightarrow> bool" where
  "id_start c = (let n = of_char c :: nat in 97 \<le> n \<and> n \<le> 122 \<or> 48 \<le> n \<and> n \<le> 57)"

fun idRegexp :: "string \<Rightarrow> bool" where
  "idRegexp [] = False"
| "idRegexp (c # cs) = (id_start c \<and> list_all (\<lambda>d. id_start d \<or> d = CHR ''-'') cs)"

text \<open>\<open>for i, x := range xs { if err := f(i, x); ... }\<close>\<close>

definition indexed :: "(int \<Rightarrow> 'a \<Rightarrow> 'b) \<Rightarrow> 'a list \<Rightarrow> 'b list" where
  "indexed f xs = map (\<lambda>(i, x). f (int i) x) (enumerate 0 xs)"

definition template_check :: "plugin_ops \<Rightarrow> string \<Rightarrow> string \<Rightarrow> unit result" where
  "template_check P field tmpl =
     (case po_template_parse P tmpl of Inl err \<Rightarrow> Inl (ErrWrap (field @ '': '') err []) | Inr _ \<Rightarrow> Inr ())"

definition validateTemplates :: "plugin_ops \<Rightarrow> Manifest \<Rightarrow> unit result" where
  "validateTemplates P m =
     (let spec = mf_Spec m; chk = template_check P in
      first_failure
        ((case sp_HTTP spec of
            None \<Rightarrow> []
          | Some h \<Rightarrow>
              chk ''spec.validate.http.url'' (hv_URL h) #
              map (\<lambda>(k, v). chk (''spec.validate.http.headers['' @ k @ '']'') v) (hv_Headers h)) @
         map (\<lambda>(k, v). chk (''spec.contributions.env['' @ k @ '']'') v) (cb_Env (sp_Contributions spec)) @
         concat (indexed (\<lambda>i ref.
           case mr_External ref of
             None \<Rightarrow> []
           | Some ext \<Rightarrow>
               [chk (''spec.contributions.mcp_servers['' @ Itoa i @ ''].external.url'') (xm_URL ext),
                chk (''spec.contributions.mcp_servers['' @ Itoa i @ ''].external.auth_header'')
                  (xm_AuthHeader ext)])
           (cb_MCPServers (sp_Contributions spec)))))"

definition kind_check :: "ManifestSpec \<Rightarrow> unit result" where
  "kind_check s =
     (if sp_PluginKind s = ''http_template'' then
        (case sp_HTTP s of
           None \<Rightarrow> Inl (ErrNew ''spec.validate.http is required for kind http_template'')
         | Some h \<Rightarrow>
             refuse
               [(hv_Method h \<notin> {''GET'', ''POST'', ''HEAD''},
                 ''spec.validate.http.method must be GET, POST, or HEAD, got '' @ Quote (hv_Method h)),
                (hv_URL h = [], ''spec.validate.http.url is required''),
                (hv_SuccessStatus h = [], ''spec.validate.http.success_status must not be empty'')])
      else if sp_PluginKind s = ''sidecar'' then
        (case sp_Sidecar s of
           None \<Rightarrow> Inl (ErrNew ''spec.sidecar is required for kind sidecar'')
         | Some sc \<Rightarrow> refuse [(ss_URL sc = [], ''spec.sidecar.url is required'')])
      else Inr ())"

definition mcp_ref_check :: "int \<Rightarrow> MCPRef \<Rightarrow> unit result" where
  "mcp_ref_check i ref =
     (let at = ''spec.contributions.mcp_servers['' @ Itoa i @ '']'';
          hasRef = (mr_Ref ref \<noteq> []); hasExt = (mr_External ref \<noteq> None)
      in refuse
           [(mr_Name ref = [], at @ ''.name is required''),
            (hasRef = hasExt \<and> hasRef, at @ '': ref and external are mutually exclusive''),
            (hasRef = hasExt, at @ '': one of ref or external must be set'')])"

text \<open>\<open>Validate\<close> fills in the default scope of the manifest it is called on, so it returns the
  manifest too.\<close>

definition default_scopes :: "ManifestSpec \<Rightarrow> ManifestSpec" where
  "default_scopes s = (if sp_ScopesSupported s = [] then s\<lparr>sp_ScopesSupported := [''user'']\<rparr> else s)"

definition head_checks :: "Manifest \<Rightarrow> unit result" where
  "head_checks m =
     (let s = mf_Spec m in
      refuse
        [(mf_APIVersion m \<noteq> ''shclop.io/v1alpha1'',
          ''apiVersion must be shclop.io/v1alpha1, got '' @ Quote (mf_APIVersion m)),
         (mf_Kind m \<noteq> ''IntegrationPlugin'', ''kind must be IntegrationPlugin, got '' @ Quote (mf_Kind m)),
         (sp_ID s = [], ''spec.id is required''),
         (\<not> idRegexp (sp_ID s), ''spec.id '' @ Quote (sp_ID s) @ '' must match ^[a-z0-9][a-z0-9-]*$''),
         (sp_PluginKind s \<noteq> ''http_template'' \<and> sp_PluginKind s \<noteq> ''sidecar'',
          ''spec.kind must be http_template or sidecar, got '' @ Quote (sp_PluginKind s))])"

definition body_checks :: "plugin_ops \<Rightarrow> Manifest \<Rightarrow> unit result" where
  "body_checks P m =
     (let s = mf_Spec m in
      first_failure
        ([refuse (map (\<lambda>sc. (sc \<noteq> ''user'' \<and> sc \<noteq> ''org'', ''spec.scopes_supported: unknown scope '' @ Quote sc))
                   (sp_ScopesSupported s)),
          refuse
            [(au_Type (sp_Auth s) \<noteq> ''pat_token'', ''spec.auth.type must be pat_token, got '' @ Quote (au_Type (sp_Auth s))),
             (au_Fields (sp_Auth s) = [], ''spec.auth.fields must not be empty'')],
          refuse (indexed (\<lambda>i f. (ff_Name f = [], ''spec.auth.fields['' @ Itoa i @ ''].name is required''))
                   (au_Fields (sp_Auth s))),
          kind_check s] @
         indexed mcp_ref_check (cb_MCPServers (sp_Contributions s)) @
         [validateTemplates P m]))"

definition Validate :: "plugin_ops \<Rightarrow> Manifest \<Rightarrow> Manifest \<times> unit result" where
  "Validate P m =
     (case head_checks m of
        Inl err \<Rightarrow> (m, Inl err)
      | Inr _ \<Rightarrow>
          let m1 = m\<lparr>mf_Spec := default_scopes (mf_Spec m)\<rparr> in (m1, body_checks P m1))"

definition ParseManifest :: "plugin_ops \<Rightarrow> string \<Rightarrow> Manifest result" where
  "ParseManifest P data =
     (case po_yaml P data of
        Inl err \<Rightarrow> Inl (ErrWrap ''yaml parse: '' err [])
      | Inr m \<Rightarrow> (case Validate P m of (m1, Inl err) \<Rightarrow> Inl err | (m1, Inr _) \<Rightarrow> Inr m1))"

definition ParseTimeout :: "plugin_ops \<Rightarrow> string \<Rightarrow> int result" where
  "ParseTimeout P s = (if s = [] then Inr 5000000000 else po_duration P s)"

text \<open>What validation promises the rest of the server.\<close>

definition mcp_ref_ok :: "MCPRef \<Rightarrow> bool" where
  "mcp_ref_ok ref \<longleftrightarrow> mr_Name ref \<noteq> [] \<and> (mr_Ref ref \<noteq> []) \<noteq> (mr_External ref \<noteq> None)"

definition kind_ok :: "ManifestSpec \<Rightarrow> bool" where
  "kind_ok s \<longleftrightarrow>
     sp_PluginKind s = ''http_template'' \<and>
       (\<exists>h. sp_HTTP s = Some h \<and> hv_Method h \<in> {''GET'', ''POST'', ''HEAD''} \<and> hv_URL h \<noteq> [] \<and> hv_SuccessStatus h \<noteq> []) \<or>
     sp_PluginKind s = ''sidecar'' \<and> (\<exists>sc. sp_Sidecar s = Some sc \<and> ss_URL sc \<noteq> [])"

definition manifest_ok :: "Manifest \<Rightarrow> bool" where
  "manifest_ok m \<longleftrightarrow>
     (let s = mf_Spec m in
      mf_APIVersion m = ''shclop.io/v1alpha1'' \<and> mf_Kind m = ''IntegrationPlugin'' \<and> idRegexp (sp_ID s) \<and>
      kind_ok s \<and> sp_ScopesSupported s \<noteq> [] \<and> set (sp_ScopesSupported s) \<subseteq> {''user'', ''org''} \<and>
      au_Type (sp_Auth s) = ''pat_token'' \<and> au_Fields (sp_Auth s) \<noteq> [] \<and>
      (\<forall>f\<in>set (au_Fields (sp_Auth s)). ff_Name f \<noteq> []) \<and>
      (\<forall>ref\<in>set (cb_MCPServers (sp_Contributions s)). mcp_ref_ok ref))"

text \<open>The templates of a manifest that \<open>validateTemplates\<close> parses.\<close>

definition manifest_templates :: "Manifest \<Rightarrow> string list" where
  "manifest_templates m =
     (let s = mf_Spec m in
      (case sp_HTTP s of None \<Rightarrow> [] | Some h \<Rightarrow> hv_URL h # map snd (hv_Headers h)) @
      map snd (cb_Env (sp_Contributions s)) @
      concat (map (\<lambda>ref. case mr_External ref of None \<Rightarrow> [] | Some x \<Rightarrow> [xm_URL x, xm_AuthHeader x])
               (cb_MCPServers (sp_Contributions s))))"

lemma indexed_all: "(\<forall>y\<in>set (indexed f xs). Q y) \<longleftrightarrow> (\<forall>i<length xs. Q (f (int i) (xs ! i)))"
  by (auto simp: indexed_def all_set_conv_all_nth nth_enumerate_eq)

lemma template_check_Inr [simp]: "template_check P f t = Inr () \<longleftrightarrow> po_template_parse P t = Inr ()"
  by (auto simp: template_check_def split: sum.splits)

lemma mcp_ref_check_Inr [simp]: "mcp_ref_check i ref = Inr () \<longleftrightarrow> mcp_ref_ok ref"
  by (auto simp: mcp_ref_check_def mcp_ref_ok_def Let_def)

lemma indexed_refs: "(\<forall>r\<in>set (indexed mcp_ref_check refs). r = Inr ()) \<longleftrightarrow> (\<forall>ref\<in>set refs. mcp_ref_ok ref)"
  by (simp only: indexed_all mcp_ref_check_Inr all_set_conv_all_nth [of refs])

lemma indexed_fields:
  "(\<forall>c\<in>set (indexed (\<lambda>i f. (ff_Name f = [], msg i)) fs). \<not> fst c) \<longleftrightarrow> (\<forall>f\<in>set fs. ff_Name f \<noteq> [])"
  by (simp only: indexed_all fst_conv all_set_conv_all_nth [of fs])

lemma kind_check_Inr:
  "sp_PluginKind s = ''http_template'' \<or> sp_PluginKind s = ''sidecar'' \<Longrightarrow> kind_check s = Inr () \<longleftrightarrow> kind_ok s"
  by (auto simp: kind_check_def kind_ok_def split: option.splits)

lemma all_concat_indexed:
  "(\<forall>r\<in>set (concat (indexed f xs)). Q r) \<longleftrightarrow> (\<forall>i<length xs. \<forall>r\<in>set (f (int i) (xs ! i)). Q r)"
  using indexed_all [of f xs "\<lambda>ys. \<forall>r\<in>set ys. Q r"] by auto

lemma validateTemplates_Inr:
  "validateTemplates P m = Inr () \<longleftrightarrow> (\<forall>t\<in>set (manifest_templates m). po_template_parse P t = Inr ())"
proof -
  let ?s = "mf_Spec m" and ?ok = "\<lambda>t. po_template_parse P t = Inr ()"
  have one: "(\<forall>r\<in>set (case e of None \<Rightarrow> [] | Some x \<Rightarrow>
        [template_check P a (xm_URL x), template_check P b (xm_AuthHeader x)]). r = Inr ())
     \<longleftrightarrow> (\<forall>t\<in>set (case e of None \<Rightarrow> [] | Some x \<Rightarrow> [xm_URL x, xm_AuthHeader x]). ?ok t)" for e a b
    by (cases e) simp_all
  have ext: "(\<forall>i<length xs. \<forall>r\<in>set (case mr_External (xs ! i) of None \<Rightarrow> [] | Some x \<Rightarrow>
        [template_check P (a i) (xm_URL x), template_check P (b i) (xm_AuthHeader x)]). r = Inr ())
     \<longleftrightarrow> (\<forall>ref\<in>set xs. \<forall>t\<in>set (case mr_External ref of None \<Rightarrow> [] | Some x \<Rightarrow> [xm_URL x, xm_AuthHeader x]). ?ok t)"
    for xs a b
    unfolding one all_set_conv_all_nth [of xs] ..
  have maps: "(\<forall>r\<in>set (map (\<lambda>(k, v). template_check P (f k) v) kvs). r = Inr ()) \<longleftrightarrow> (\<forall>t\<in>set (map snd kvs). ?ok t)"
    for f kvs by auto
  show ?thesis
    unfolding validateTemplates_def manifest_templates_def Let_def first_failure_Inr set_append ball_Un
      all_concat_indexed ext maps
    by (cases "sp_HTTP ?s") (simp_all add: case_prod_beta)
qed

lemma head_checks_Inr:
  "head_checks m = Inr () \<longleftrightarrow>
     mf_APIVersion m = ''shclop.io/v1alpha1'' \<and> mf_Kind m = ''IntegrationPlugin'' \<and>
     idRegexp (sp_ID (mf_Spec m)) \<and> sp_PluginKind (mf_Spec m) \<in> {''http_template'', ''sidecar''}"
  by (cases "sp_ID (mf_Spec m)") (auto simp: head_checks_def Let_def)

lemma default_scopes_simps [simp]:
  "sp_ID (default_scopes s) = sp_ID s" "sp_PluginKind (default_scopes s) = sp_PluginKind s"
  "sp_Auth (default_scopes s) = sp_Auth s" "sp_HTTP (default_scopes s) = sp_HTTP s"
  "sp_Sidecar (default_scopes s) = sp_Sidecar s" "sp_Contributions (default_scopes s) = sp_Contributions s"
  "sp_ScopesSupported (default_scopes s) \<noteq> []"
  by (simp_all add: default_scopes_def)

lemma kind_check_scopes [simp]: "kind_check (default_scopes s) = kind_check s"
  by (simp add: kind_check_def)

lemma body_checks_Inr:
  assumes "sp_PluginKind (mf_Spec m) \<in> {''http_template'', ''sidecar''}"
  shows "body_checks P m = Inr () \<longleftrightarrow>
    (let s = mf_Spec m in
     kind_ok s \<and> set (sp_ScopesSupported s) \<subseteq> {''user'', ''org''} \<and>
     au_Type (sp_Auth s) = ''pat_token'' \<and> au_Fields (sp_Auth s) \<noteq> [] \<and>
     (\<forall>f\<in>set (au_Fields (sp_Auth s)). ff_Name f \<noteq> []) \<and>
     (\<forall>ref\<in>set (cb_MCPServers (sp_Contributions s)). mcp_ref_ok ref) \<and>
     validateTemplates P m = Inr ())"
proof -
  let ?s = "mf_Spec m"
  have kind: "kind_check ?s = Inr () \<longleftrightarrow> kind_ok ?s"
    using assms by (intro kind_check_Inr) simp
  have scopes: "(\<forall>c\<in>set (map (\<lambda>sc. (sc \<noteq> ''user'' \<and> sc \<noteq> ''org'', msg sc)) scs). \<not> fst c)
      \<longleftrightarrow> set scs \<subseteq> {''user'', ''org''}" for scs and msg :: "string \<Rightarrow> string"
    by auto
  show ?thesis
    unfolding body_checks_def Let_def first_failure_Inr set_append ball_Un indexed_refs
    by (simp only: list.set ball_simps refuse_Inr scopes indexed_fields kind ball_empty fst_conv simp_thms)
      auto
qed

lemma ParseManifest_ok: "ParseManifest P data = Inr m \<Longrightarrow> manifest_ok m"
proof -
  assume "ParseManifest P data = Inr m"
  then obtain m0 where "m = m0\<lparr>mf_Spec := default_scopes (mf_Spec m0)\<rparr>"
    "head_checks m0 = Inr ()" "body_checks P m = Inr ()"
    by (auto simp: ParseManifest_def Validate_def Let_def split: sum.splits prod.splits)
  then show ?thesis by (simp add: head_checks_Inr body_checks_Inr Let_def manifest_ok_def)
qed

text \<open>C33: \<open>ParseManifest\<close> returns exactly the documents whose manifest, with the default scope
  filled in, has the required shape and only templates that parse; anything else is an error.\<close>

theorem ParseManifest_iff:
  "ParseManifest P data = Inr m \<longleftrightarrow>
     (\<exists>m0. po_yaml P data = Inr m0 \<and> m = m0\<lparr>mf_Spec := default_scopes (mf_Spec m0)\<rparr> \<and>
           manifest_ok m \<and> list_all (\<lambda>t. po_template_parse P t = Inr ()) (manifest_templates m))"
proof -
  have body: "body_checks P m' = Inr () \<longleftrightarrow>
      manifest_ok m' \<and> (\<forall>t\<in>set (manifest_templates m'). po_template_parse P t = Inr ())"
    if "head_checks m0 = Inr ()" "m' = m0\<lparr>mf_Spec := default_scopes (mf_Spec m0)\<rparr>" for m0 m'
    using that by (simp add: head_checks_Inr body_checks_Inr Let_def manifest_ok_def validateTemplates_Inr)
  have head: "head_checks m0 = Inr ()"
    if "manifest_ok (m0\<lparr>mf_Spec := default_scopes (mf_Spec m0)\<rparr>)" for m0
    using that by (auto simp: head_checks_Inr manifest_ok_def kind_ok_def Let_def)
  show ?thesis
  proof
    assume "ParseManifest P data = Inr m"
    then obtain m0 where "po_yaml P data = Inr m0" "m = m0\<lparr>mf_Spec := default_scopes (mf_Spec m0)\<rparr>"
      "head_checks m0 = Inr ()" "body_checks P m = Inr ()"
      by (auto simp: ParseManifest_def Validate_def Let_def split: sum.splits prod.splits)
    with body show "\<exists>m0. po_yaml P data = Inr m0 \<and> m = m0\<lparr>mf_Spec := default_scopes (mf_Spec m0)\<rparr> \<and>
        manifest_ok m \<and> list_all (\<lambda>t. po_template_parse P t = Inr ()) (manifest_templates m)"
      by (auto simp: list_all_iff)
  next
    assume "\<exists>m0. po_yaml P data = Inr m0 \<and> m = m0\<lparr>mf_Spec := default_scopes (mf_Spec m0)\<rparr> \<and>
        manifest_ok m \<and> list_all (\<lambda>t. po_template_parse P t = Inr ()) (manifest_templates m)"
    then obtain m0 where y: "po_yaml P data = Inr m0" "m = m0\<lparr>mf_Spec := default_scopes (mf_Spec m0)\<rparr>"
      and ok: "manifest_ok m" "\<forall>t\<in>set (manifest_templates m). po_template_parse P t = Inr ()"
      by (auto simp: list_all_iff)
    from head [of m0] ok(1) y(2) have h: "head_checks m0 = Inr ()" by simp
    with body [OF h y(2)] ok y show "ParseManifest P data = Inr m"
      by (simp add: ParseManifest_def Validate_def Let_def)
  qed
qed

section \<open>A concrete plugin\<close>

text \<open>A manifest with one probe, and a machinery that parses every template, answers every probe with
  status 200 and an empty object, and reads one YAML document.\<close>

definition sample_manifest :: "string \<Rightarrow> string \<Rightarrow> Manifest" where
  "sample_manifest ident meth =
     \<lparr>mf_APIVersion = ''shclop.io/v1alpha1'', mf_Kind = ''IntegrationPlugin'',
      mf_Metadata = \<lparr>md_Name = ident, md_Source = []\<rparr>,
      mf_Spec = \<lparr>sp_ID = ident, sp_DisplayName = ident, sp_Description = [],
        sp_PluginKind = ''http_template'', sp_ScopesSupported = [],
        sp_Auth = \<lparr>au_Type = ''pat_token'',
          au_Fields = [\<lparr>ff_Name = ''token'', ff_Label = [], ff_Secret = True, ff_Placeholder = [], ff_HelpURL = []\<rparr>]\<rparr>,
        sp_HTTP = Some \<lparr>hv_Method = meth, hv_URL = ''http://x'', hv_Headers = [], hv_SuccessStatus = [200],
          hv_Extract = \<lparr>ex_ExternalAccountID = [], ex_ExternalLogin = [], ex_AccountType = []\<rparr>,
          hv_Timeout = []\<rparr>,
        sp_Sidecar = None, sp_Contributions = \<lparr>cb_Env = [], cb_MCPServers = []\<rparr>\<rparr>\<rparr>"

definition sample_ops :: plugin_ops where
  "sample_ops =
     \<lparr>po_yaml = (\<lambda>s. if s = ''doc'' then Inr (sample_manifest ''gh'' ''GET'') else Inl (ErrNew ''bad yaml'')),
      po_template_parse = (\<lambda>t. Inr ()), po_template_exec = (\<lambda>t vars. Inr t),
      po_duration = (\<lambda>t. Inr 1), po_new_request = (\<lambda>m u. Inr ()),
      po_http = (\<lambda>t q. Inr \<lparr>rs_StatusCode = 200,
        rs_Body = (if rq_Method q = ''HEAD'' then [] else ''{}''), rs_BodyErr = None\<rparr>),
      po_json_object = (\<lambda>s. if s = ''{}'' then Inr [] else Inl (ErrNew ''unexpected end of JSON input'')),
      po_json_marshal = fmt_v,
      po_json_sidecar = (\<lambda>s. Inl (ErrNew ''no sidecar'')), po_json_env = (\<lambda>s. Inr None),
      po_mcp_lookup = (\<lambda>a b. Inl LookupNotFound)\<rparr>"

end
