(* ===== verification/PluginEval.thy ===== *)
theory PluginEval
  imports Manifest
begin

text \<open>
  What a manifest makes the server do. \<open>template.go\<close>: the HTTP probe of a credential and the
  environment of an \<open>http_template\<close> plugin. \<open>sidecar.go\<close>: the same two calls, delegated to a sidecar.
  \<open>mcp_resolver.go\<close>: the MCP servers an agent is given. \<open>lk\<close> in \<open>plugin_ops\<close> is the informer cache.
\<close>

record ValidationResult =
  vr_ExternalAccountID :: string
  vr_ExternalLogin :: string
  vr_AccountType :: string

definition renderTemplate :: "plugin_ops \<Rightarrow> string \<Rightarrow> TemplateContext \<Rightarrow> string result" where
  "renderTemplate P tmpl vars =
     (case po_template_parse P tmpl of Inl err \<Rightarrow> Inl err | Inr _ \<Rightarrow> po_template_exec P tmpl vars)"

section \<open>jsonPath\<close>

text \<open>A missing key or a step into something that is not an object gives the empty string.\<close>

fun json_walk :: "any \<Rightarrow> string list \<Rightarrow> any option" where
  "json_walk cur [] = Some cur"
| "json_walk (AnyMap m) (seg # segs) =
     (case map_of m seg of None \<Rightarrow> None | Some val \<Rightarrow> json_walk val segs)"
| "json_walk cur (seg # segs) = None"

definition jsonPath :: "any \<Rightarrow> string \<Rightarrow> string" where
  "jsonPath root path =
     (let p = TrimPrefix path ''.'' in
      if p = [] then fmt_v root
      else case json_walk root (split_on CHR ''.'' p) of None \<Rightarrow> [] | Some v \<Rightarrow> fmt_v v)"

section \<open>HTTP\<close>

text \<open>\<open>io.ReadAll(io.LimitReader(body, n))\<close>: the error at the end of a body is seen only when the
  limit does not cut the body first.\<close>

definition read_limited :: "nat \<Rightarrow> http_response \<Rightarrow> string result" where
  "read_limited n resp =
     (if n \<le> length (rs_Body resp) then Inr (take n (rs_Body resp))
      else case rs_BodyErr resp of None \<Rightarrow> Inr (rs_Body resp) | Some err \<Rightarrow> Inl err)"

definition extract_path :: "any \<Rightarrow> string \<Rightarrow> string" where
  "extract_path body path = (if path = [] then [] else jsonPath body path)"

definition http_Validate :: "plugin_ops \<Rightarrow> Manifest \<Rightarrow> TemplateContext \<Rightarrow> ValidationResult result" where
  "http_Validate P m vars =
     (case (if sp_PluginKind (mf_Spec m) = ''http_template'' then sp_HTTP (mf_Spec m) else None) of
        None \<Rightarrow> Inl (ErrNew ''manifest is not http_template kind or missing http spec'')
      | Some h \<Rightarrow>
          rbind (wrap ''parse timeout: '' (ParseTimeout P (hv_Timeout h))) (\<lambda>timeout.
          rbind (wrap ''render url: '' (renderTemplate P (hv_URL h) vars)) (\<lambda>rawURL.
          let meth = (if hv_Method h = [] then ''GET'' else hv_Method h) in
          rbind (wrap ''build request: '' (po_new_request P meth rawURL)) (\<lambda>_.
          rbind (map_entries (\<lambda>k v. wrap (''render header '' @ k @ '': '') (renderTemplate P v vars)) (hv_Headers h)) (\<lambda>headers.
          rbind (po_http P timeout \<lparr>rq_Method = meth, rq_URL = rawURL, rq_Headers = headers, rq_Body = []\<rparr>) (\<lambda>resp.
          rbind (wrap ''read body: '' (read_limited 1048576 resp)) (\<lambda>bodyBytes.
          if rs_StatusCode resp \<notin> set (hv_SuccessStatus h)
          then Inl (ErrNew (''validate failed: status='' @ Itoa (rs_StatusCode resp) @ '', body='' @
                            TrimSpace (take 1024 bodyBytes)))
          else
            rbind (wrap ''unmarshal response: '' (po_json_object P bodyBytes)) (\<lambda>body.
            Inr \<lparr>vr_ExternalAccountID = extract_path (AnyMap body) (ex_ExternalAccountID (hv_Extract h)),
                 vr_ExternalLogin = extract_path (AnyMap body) (ex_ExternalLogin (hv_Extract h)),
                 vr_AccountType = extract_path (AnyMap body) (ex_AccountType (hv_Extract h))\<rparr>))))))))"

definition http_BuildEnv :: "plugin_ops \<Rightarrow> Manifest \<Rightarrow> TemplateContext \<Rightarrow> (string \<times> string) list result" where
  "http_BuildEnv P m vars =
     map_entries (\<lambda>k v. wrap (''render env '' @ k @ '': '') (renderTemplate P v vars))
       (cb_Env (sp_Contributions (mf_Spec m)))"

section \<open>Sidecars\<close>

text \<open>The head both calls share: the kind, the sidecar block, its timeout.\<close>

definition sidecar_target :: "plugin_ops \<Rightarrow> Manifest \<Rightarrow> (SidecarSpec \<times> int) result" where
  "sidecar_target P m =
     (let s = mf_Spec m; plugin = ''plugin '' @ sp_ID s in
      if sp_PluginKind s \<noteq> ''sidecar''
      then Inl (ErrNew (plugin @ '': expected kind sidecar, got '' @ Quote (sp_PluginKind s)))
      else
        (case sp_Sidecar s of
           None \<Rightarrow> Inl (ErrNew (plugin @ '': sidecar spec is nil''))
         | Some sc \<Rightarrow>
             rbind (wrap (plugin @ '': invalid timeout: '') (ParseTimeout P (ss_Timeout sc))) (\<lambda>t. Inr (sc, t))))"

definition fields_json :: "TemplateContext \<Rightarrow> any" where
  "fields_json vars = AnyMap (map (\<lambda>(k, v). (k, AnyString v)) (tc_Fields vars))"

text \<open>One POST to the sidecar; a status outside 2xx is an error that quotes the body.\<close>

definition sidecar_post :: "plugin_ops \<Rightarrow> Manifest \<Rightarrow> SidecarSpec \<Rightarrow> int \<Rightarrow> string \<Rightarrow> string \<Rightarrow> any \<Rightarrow> string result" where
  "sidecar_post P m sc timeout path verb body =
     (let plugin = ''plugin '' @ sp_ID (mf_Spec m) in
      rbind (wrap (plugin @ '': build request: '') (po_new_request P ''POST'' (ss_URL sc @ path))) (\<lambda>_.
      rbind (wrap (plugin @ '' unreachable: '')
             (po_http P timeout \<lparr>rq_Method = ''POST'', rq_URL = ss_URL sc @ path,
                rq_Headers = [(''Content-Type'', ''application/json'')], rq_Body = po_json_marshal P body\<rparr>)) (\<lambda>resp.
      if rs_StatusCode resp < 200 \<or> rs_StatusCode resp \<ge> 300
      then Inl (ErrNew (plugin @ '': '' @ verb @ '' returned '' @ Itoa (rs_StatusCode resp) @ '': '' @
                        TrimSpace (take 1024 (rs_Body resp))))
      else Inr (take 1048576 (rs_Body resp)))))"

definition sidecar_Validate :: "plugin_ops \<Rightarrow> Manifest \<Rightarrow> TemplateContext \<Rightarrow> ValidationResult result" where
  "sidecar_Validate P m vars =
     (let plugin = ''plugin '' @ sp_ID (mf_Spec m) in
      rbind (sidecar_target P m) (\<lambda>(sc, timeout).
      rbind (sidecar_post P m sc timeout ''/validate'' ''validate''
              (AnyMap [(''fields'', fields_json vars), (''context'', AnyMap [(''token'', AnyString (tc_Token vars))])])) (\<lambda>body.
      rbind (wrap (plugin @ '': decode response: '') (po_json_sidecar P body)) (\<lambda>r.
      if sr_Status r \<noteq> ''connected''
      then Inl (ErrNew (plugin @ '': validate status '' @ Quote (sr_Status r)))
      else Inr \<lparr>vr_ExternalAccountID = sr_ExternalAccountID r, vr_ExternalLogin = sr_ExternalLogin r,
                vr_AccountType = sr_AccountType r\<rparr>))))"

definition sidecar_BuildEnv :: "plugin_ops \<Rightarrow> Manifest \<Rightarrow> TemplateContext \<Rightarrow> (string \<times> string) list result" where
  "sidecar_BuildEnv P m vars =
     (let plugin = ''plugin '' @ sp_ID (mf_Spec m) in
      rbind (sidecar_target P m) (\<lambda>(sc, timeout).
      rbind (sidecar_post P m sc timeout ''/runtime-env'' ''runtime-env''
              (AnyMap [(''fields'', fields_json vars)])) (\<lambda>body.
      rbind (wrap (plugin @ '': decode response: '') (po_json_env P body)) (\<lambda>env.
      Inr (case env of None \<Rightarrow> [] | Some e \<Rightarrow> e)))))"

section \<open>MCP servers\<close>

record ResolvedMCPServer =
  rm_Name :: string
  rm_URL :: string
  rm_Headers :: "(string \<times> string) list"
  rm_Env :: "(string \<times> string) list"

definition renderEnvFrom :: "plugin_ops \<Rightarrow> (string \<times> string) list \<Rightarrow> TemplateContext \<Rightarrow> (string \<times> string) list result" where
  "renderEnvFrom P envFrom vars =
     map_entries (\<lambda>k v. wrap (''render env_from['' @ k @ '']: '') (renderTemplate P v vars)) envFrom"

definition resolveExternal :: "plugin_ops \<Rightarrow> MCPRef \<Rightarrow> ExternalMCP \<Rightarrow> TemplateContext \<Rightarrow> ResolvedMCPServer result" where
  "resolveExternal P ref ext vars =
     rbind (wrap ''render url: '' (renderTemplate P (xm_URL ext) vars)) (\<lambda>url.
     rbind (if xm_AuthHeader ext = [] then Inr []
           else rbind (wrap ''render auth_header: '' (renderTemplate P (xm_AuthHeader ext) vars))
                  (\<lambda>auth. Inr [(''Authorization'', auth)])) (\<lambda>headers.
     rbind (renderEnvFrom P (mr_EnvFrom ref) vars) (\<lambda>env.
     Inr \<lparr>rm_Name = mr_Name ref, rm_URL = url, rm_Headers = headers, rm_Env = env\<rparr>)))"

definition cluster_lookup :: "plugin_ops \<Rightarrow> string \<Rightarrow> string \<Rightarrow> MCPServerCR result" where
  "cluster_lookup P namespace name =
     (case po_mcp_lookup P namespace name of
        Inl LookupNotFound \<Rightarrow> Inl (ErrNew (''mcpserver_not_found: '' @ name))
      | Inl (LookupError err) \<Rightarrow> Inl (ErrWrap (''lister get '' @ Quote name @ '': '') err [])
      | Inl (LookupWrongType t) \<Rightarrow> Inl (ErrNew (''unexpected type '' @ t @ '' for MCPServer '' @ Quote name))
      | Inl (LookupBadObject err) \<Rightarrow> Inl (ErrWrap (''convert MCPServer '' @ Quote name @ '': '') err [])
      | Inr cr \<Rightarrow> Inr cr)"

definition service_url :: "string \<Rightarrow> MCPServerCR \<Rightarrow> string" where
  "service_url namespace cr =
     (if mcr_ServiceURL cr = []
      then ''http://mcp-'' @ mcr_Name cr @ ''.'' @ namespace @ ''.svc.cluster.local:'' @ Itoa (mcr_Port cr)
      else mcr_ServiceURL cr)"

definition resolveCluster :: "plugin_ops \<Rightarrow> string \<Rightarrow> MCPRef \<Rightarrow> TemplateContext \<Rightarrow> ResolvedMCPServer result" where
  "resolveCluster P namespace ref vars =
     rbind (cluster_lookup P namespace (mr_Ref ref)) (\<lambda>cr.
     rbind (renderEnvFrom P (mr_EnvFrom ref) vars) (\<lambda>env.
     Inr \<lparr>rm_Name = mr_Name ref, rm_URL = service_url namespace cr, rm_Headers = [], rm_Env = env\<rparr>))"

definition resolveOne :: "plugin_ops \<Rightarrow> string \<Rightarrow> MCPRef \<Rightarrow> TemplateContext \<Rightarrow> ResolvedMCPServer result" where
  "resolveOne P namespace ref vars =
     (case mr_External ref of
        Some ext \<Rightarrow> resolveExternal P ref ext vars
      | None \<Rightarrow>
          if mr_Ref ref \<noteq> [] then resolveCluster P namespace ref vars
          else Inl (ErrNew ''ref has neither external nor ref field set''))"

fun resolve_from :: "plugin_ops \<Rightarrow> string \<Rightarrow> TemplateContext \<Rightarrow> int \<Rightarrow> MCPRef list \<Rightarrow> ResolvedMCPServer list result" where
  "resolve_from P namespace vars i [] = Inr []"
| "resolve_from P namespace vars i (ref # refs) =
     rbind (wrap (''ref['' @ Itoa i @ ''] '' @ Quote (mr_Name ref) @ '': '') (resolveOne P namespace ref vars)) (\<lambda>entry.
     rbind (resolve_from P namespace vars (i + 1) refs) (\<lambda>out. Inr (entry # out)))"

definition mcp_Resolve :: "plugin_ops \<Rightarrow> string \<Rightarrow> MCPRef list \<Rightarrow> TemplateContext \<Rightarrow> ResolvedMCPServer list result" where
  "mcp_Resolve P namespace refs vars = resolve_from P namespace vars 0 refs"

section \<open>Facts\<close>

text \<open>A successful probe got a status the manifest lists, from the URL and headers it renders.\<close>

lemma http_Validate_status:
  assumes "http_Validate P m vars = Inr v"
  shows "\<exists>h t req resp. sp_HTTP (mf_Spec m) = Some h \<and> sp_PluginKind (mf_Spec m) = ''http_template'' \<and>
    po_http P t req = Inr resp \<and> rs_StatusCode resp \<in> set (hv_SuccessStatus h) \<and>
    renderTemplate P (hv_URL h) vars = Inr (rq_URL req) \<and> map fst (rq_Headers req) = map fst (hv_Headers h)"
  using assms
  by (fastforce simp: http_Validate_def Let_def split: option.splits if_splits dest: map_entries_Inr)

lemma http_Validate_exchange:
  assumes "http_Validate P m vars = Inr v" "sp_HTTP (mf_Spec m) = Some h"
  shows "\<exists>t u hs resp body obj.
    po_http P t \<lparr>rq_Method = (if hv_Method h = [] then ''GET'' else hv_Method h), rq_URL = u,
                 rq_Headers = hs, rq_Body = []\<rparr> = Inr resp \<and>
    read_limited 1048576 resp = Inr body \<and> po_json_object P body = Inr obj"
  using assms by (simp add: http_Validate_def Let_def split: if_splits) blast+

text \<open>The environment of a plugin has exactly the keys its manifest lists.\<close>

lemma http_BuildEnv_keys:
  "http_BuildEnv P m vars = Inr env \<Longrightarrow> map fst env = map fst (cb_Env (sp_Contributions (mf_Spec m)))"
  by (auto simp: http_BuildEnv_def dest: map_entries_Inr)

lemma resolveOne_name: "resolveOne P ns ref vars = Inr s \<Longrightarrow> rm_Name s = mr_Name ref"
  by (auto simp: resolveOne_def resolveExternal_def resolveCluster_def split: option.splits if_splits)

text \<open>Resolution is all or nothing: one server per reference, in order, under the reference's name.\<close>

lemma resolve_from_names:
  "resolve_from P ns vars i refs = Inr out \<Longrightarrow> map rm_Name out = map mr_Name refs"
  by (induction P ns vars i refs arbitrary: out rule: resolve_from.induct) (auto dest: resolveOne_name)

text \<open>A plugin whose probe uses the HEAD method, which validation accepts, can never be
  connected: a response to HEAD has no body, and the probe insists on a JSON object.\<close>

theorem head_probe_never_succeeds:
  assumes "sp_HTTP (mf_Spec m) = Some h" "hv_Method h = ''HEAD''"
    and no_body: "\<And>t req resp. rq_Method req = ''HEAD'' \<Longrightarrow> po_http P t req = Inr resp \<Longrightarrow> rs_Body resp = []"
    and no_json: "\<And>obj. po_json_object P [] \<noteq> Inr obj"
  shows "\<exists>e. http_Validate P m vars = Inl e"
proof (rule ccontr)
  assume "\<nexists>e. http_Validate P m vars = Inl e"
  then obtain v where "http_Validate P m vars = Inr v" by (cases "http_Validate P m vars") auto
  from http_Validate_exchange [OF this assms(1)] assms(2) obtain t u hs resp body obj where
    req: "po_http P t \<lparr>rq_Method = ''HEAD'', rq_URL = u, rq_Headers = hs, rq_Body = []\<rparr> = Inr resp"
    and body: "read_limited 1048576 resp = Inr body" "po_json_object P body = Inr obj"
    by auto
  have "rs_Body resp = []" by (rule no_body [OF _ req]) simp
  with body(1) have "body = []" by (simp add: read_limited_def split: option.splits)
  with body(2) no_json show False by auto
qed

theorem head_probe_never_succeeds_witness:
  "\<exists>e. http_Validate sample_ops (sample_manifest ''gh'' ''HEAD'') \<lparr>tc_Token = ''t'', tc_Fields = []\<rparr> = Inl e"
  by (rule head_probe_never_succeeds [where h = "the (sp_HTTP (mf_Spec (sample_manifest ''gh'' ''HEAD'')))"])
     (auto simp: sample_manifest_def sample_ops_def)

end
