(* ===== verification/Registry.thy ===== *)
theory Registry
  imports PluginEval MemStore
begin

text \<open>
  The plugin registries: the shared \<open>baseRegistry\<close> (\<open>base_registry.go\<close>), which the file, database and
  CRD registries embed, and the \<open>MergedRegistry\<close> over them (\<open>registry.go\<close>). Embedding is record
  extension. Each goroutine's body between two waits is one definition: \<open>scan\<close>, \<open>poll\<close>, \<open>crd_upsert\<close>,
  \<open>crd_delete\<close>, \<open>rebuild\<close>. The interface \<open>Registry\<close> is the locale \<open>plugin_registry\<close>.
\<close>

record Resolved =
  rv_Manifest :: Manifest
  rv_Source :: string

abbreviation plugin_id :: "Resolved \<Rightarrow> string" where
  "plugin_id r \<equiv> sp_ID (mf_Spec (rv_Manifest r))"

section \<open>The shared base\<close>

record baseRegistry =
  br_resolved :: "string \<rightharpoonup> Resolved"
  br_subscribers :: "bool list"

definition base_Get :: "string \<Rightarrow> 'a baseRegistry_scheme \<Rightarrow> Resolved option" where
  "base_Get ident b = br_resolved b ident"

definition base_List :: "string list \<Rightarrow> 'a baseRegistry_scheme \<Rightarrow> Resolved list" where
  "base_List ks b = range_values (br_resolved b) ks"

definition base_Subscribe :: "'a baseRegistry_scheme \<Rightarrow> 'a baseRegistry_scheme \<times> nat" where
  "base_Subscribe b = (b\<lparr>br_subscribers := br_subscribers b @ [False]\<rparr>, length (br_subscribers b))"

definition base_broadcast :: "'a baseRegistry_scheme \<Rightarrow> 'a baseRegistry_scheme" where
  "base_broadcast b = b\<lparr>br_subscribers := map (\<lambda>_. True) (br_subscribers b)\<rparr>"

text \<open>Every registry files a manifest under its own id.\<close>

definition ids_ok :: "(string \<rightharpoonup> Resolved) \<Rightarrow> bool" where
  "ids_ok m \<longleftrightarrow> (\<forall>k r. m k = Some r \<longrightarrow> plugin_id r = k)"

lemma ids_ok_empty [simp]: "ids_ok Map.empty"
  by (simp add: ids_ok_def)

lemma ids_ok_upd: "ids_ok m \<Longrightarrow> plugin_id r = k \<Longrightarrow> ids_ok (m(k \<mapsto> r))"
  by (simp add: ids_ok_def)

lemma ids_ok_del: "ids_ok m \<Longrightarrow> ids_ok (m(k := None))"
  by (simp add: ids_ok_def)

section \<open>The Registry interface\<close>

locale plugin_registry =
  fixes inv :: "'s \<Rightarrow> bool"
    and order :: "string list \<Rightarrow> 's \<Rightarrow> bool"
    and get :: "string \<Rightarrow> 's \<Rightarrow> Resolved option"
    and list :: "string list \<Rightarrow> 's \<Rightarrow> Resolved list"
  assumes list_get: "inv s \<Longrightarrow> order ks s \<Longrightarrow> r \<in> set (list ks s) \<longleftrightarrow> (\<exists>k. get k s = Some r)"
    and get_id: "inv s \<Longrightarrow> get k s = Some r \<Longrightarrow> plugin_id r = k"
begin

text \<open>Looking an id up in the listing is \<open>get\<close>.\<close>

lemma find_list:
  assumes "inv s" "order ks s"
  shows "find (\<lambda>r. plugin_id r = k) (list ks s) = get k s"
proof (cases "find (\<lambda>r. plugin_id r = k) (list ks s)")
  case None
  then have "\<forall>r\<in>set (list ks s). plugin_id r \<noteq> k" by (simp add: find_None_iff)
  then have "get k s = None" using list_get [OF assms] get_id [OF assms(1)] by (cases "get k s") auto
  with None show ?thesis by simp
next
  case (Some r)
  then have r: "r \<in> set (list ks s)" "plugin_id r = k" by (auto dest: find_SomeD)
  then obtain k' where "get k' s = Some r" using list_get [OF assms] by blast
  with get_id [OF assms(1) this] r(2) Some show ?thesis by simp
qed

lemma list_known: "inv s \<Longrightarrow> order ks s \<Longrightarrow> r \<in> set (list ks s) \<Longrightarrow> get (plugin_id r) s = Some r"
  using list_get get_id by fastforce

end

interpretation base: plugin_registry
  "\<lambda>b. ids_ok (br_resolved b)" "\<lambda>ks b. range_order (br_resolved b) ks" base_Get base_List
proof
  show "r \<in> set (base_List ks b) \<longleftrightarrow> (\<exists>k. base_Get k b = Some r)"
    if "ids_ok (br_resolved b)" "range_order (br_resolved b) ks" for b :: "'a baseRegistry_scheme" and ks r
    using that(2) by (simp add: base_List_def base_Get_def range_values_ran ran_def)
  show "plugin_id r = k" if "ids_ok (br_resolved b)" "base_Get k b = Some r"
    for b :: "'a baseRegistry_scheme" and k r
    using that by (simp add: base_Get_def ids_ok_def)
qed

section \<open>Plugins from files\<close>

record FileRegistry = baseRegistry +
  fr_dir :: string
  fr_pathToID :: "string \<rightharpoonup> string"
  fr_pathLast :: "string \<rightharpoonup> Resolved"

definition NewFileRegistry :: "string \<Rightarrow> FileRegistry" where
  "NewFileRegistry dir = \<lparr>br_resolved = Map.empty, br_subscribers = [], fr_dir = dir,
     fr_pathToID = Map.empty, fr_pathLast = Map.empty\<rparr>"

text \<open>A directory entry: its name, whether it is a directory, and what reading it gives.\<close>

record dir_entry =
  de_Name :: string
  de_IsDir :: bool
  de_Data :: "string result"

text \<open>\<open>filepath.Ext\<close>: from the last dot on; a file name has no slash.\<close>

definition Ext :: "string \<Rightarrow> string" where
  "Ext name =
     (if CHR ''.'' \<in> set name
      then CHR ''.'' # rev (takeWhile (\<lambda>c. c \<noteq> CHR ''.'') (rev name)) else [])"

definition eligible :: "(string \<Rightarrow> string) \<Rightarrow> dir_entry \<Rightarrow> bool" where
  "eligible ul e \<longleftrightarrow> \<not> de_IsDir e \<and> \<not> HasPrefix (de_Name e) ''.'' \<and>
     ToLower ul (Ext (de_Name e)) \<in> {''.yaml'', ''.yml''}"

text \<open>\<open>path\<close> is \<open>filepath.Join(r.dir, _)\<close>.\<close>

definition scan_entry ::
  "plugin_ops \<Rightarrow> (string \<Rightarrow> string) \<Rightarrow> (string \<rightharpoonup> Resolved) \<times> FileRegistry \<Rightarrow> dir_entry
     \<Rightarrow> (string \<rightharpoonup> Resolved) \<times> FileRegistry" where
  "scan_entry P path = (\<lambda>(newResolved, r) e.
     (let absPath = path (de_Name e);
          keep_previous = (case fr_pathLast r absPath of
                             Some prev \<Rightarrow> newResolved(plugin_id prev \<mapsto> prev)
                           | None \<Rightarrow> newResolved)
      in case rbind (de_Data e) (ParseManifest P) of
           Inl err \<Rightarrow> (keep_previous, r)
         | Inr m \<Rightarrow>
             let resolved = \<lparr>rv_Manifest = m, rv_Source = ''file''\<rparr> in
             (newResolved(sp_ID (mf_Spec m) \<mapsto> resolved),
              r\<lparr>fr_pathLast := (fr_pathLast r)(absPath \<mapsto> resolved),
                fr_pathToID := (fr_pathToID r)(absPath \<mapsto> sp_ID (mf_Spec m))\<rparr>)))"

definition scan ::
  "plugin_ops \<Rightarrow> (string \<Rightarrow> string) \<Rightarrow> (string \<Rightarrow> string) \<Rightarrow> dir_entry list result \<Rightarrow> FileRegistry \<Rightarrow> FileRegistry" where
  "scan P ul path entries r =
     (case entries of
        Inl err \<Rightarrow> r
      | Inr es \<Rightarrow>
          let todo = filter (eligible ul) es;
              currentPaths = set (map (\<lambda>e. path (de_Name e)) todo);
              (newResolved, r1) = foldl (scan_entry P path) (Map.empty, r) todo
          in r1\<lparr>fr_pathLast := fr_pathLast r1 |` currentPaths,
                fr_pathToID := fr_pathToID r1 |` ((- dom (fr_pathLast r1)) \<union> currentPaths),
                br_resolved := newResolved\<rparr>)"

definition file_rescan ::
  "plugin_ops \<Rightarrow> (string \<Rightarrow> string) \<Rightarrow> (string \<Rightarrow> string) \<Rightarrow> dir_entry list result \<Rightarrow> FileRegistry \<Rightarrow> FileRegistry" where
  "file_rescan P ul path entries r = base_broadcast (scan P ul path entries r)"

lemma scan_entry_ids:
  "ids_ok (fst p) \<Longrightarrow> ids_ok (fst (scan_entry P path p e))"
  by (auto simp: scan_entry_def case_prod_beta Let_def ids_ok_upd split: sum.splits option.splits)

lemma scan_ids: "ids_ok (br_resolved r) \<Longrightarrow> ids_ok (br_resolved (scan P ul path es r))"
proof -
  have "ids_ok (fst p) \<Longrightarrow> ids_ok (fst (foldl (scan_entry P path) p xs))" for p xs
    by (induction xs arbitrary: p) (simp_all add: scan_entry_ids)
  from this [of "(Map.empty, r)"] show "ids_ok (br_resolved r) \<Longrightarrow> ?thesis"
    by (simp add: scan_def Let_def case_prod_beta split: sum.splits)
qed

text \<open>A file that is malformed now keeps the plugin it last provided.\<close>

lemma scan_entry_malformed:
  "rbind (de_Data e) (ParseManifest P) = Inl err \<Longrightarrow> fr_pathLast (snd p) (path (de_Name e)) = Some prev \<Longrightarrow>
     fst (scan_entry P path p e) (plugin_id prev) = Some prev"
  by (simp add: scan_entry_def case_prod_beta Let_def)

section \<open>Plugins from the database\<close>

record DBRegistry = baseRegistry +
  dr_lastHash :: string

definition NewDBRegistry :: DBRegistry where
  "NewDBRegistry = \<lparr>br_resolved = Map.empty, br_subscribers = [], dr_lastHash = []\<rparr>"

definition poll_row ::
  "plugin_ops \<Rightarrow> (string \<rightharpoonup> Resolved) \<Rightarrow> (string \<rightharpoonup> Resolved) \<times> (string \<times> int) list \<Rightarrow> PluginManifest
     \<Rightarrow> (string \<rightharpoonup> Resolved) \<times> (string \<times> int) list" where
  "poll_row P prior = (\<lambda>(newResolved, entries) row.
     (case ParseManifest P (pm_YAML row) of
        Inl err \<Rightarrow>
          ((case prior (pm_ID row) of Some prev \<Rightarrow> newResolved(pm_ID row \<mapsto> prev) | None \<Rightarrow> newResolved),
           entries @ [(pm_ID row, pm_Revision row)])
      | Inr m \<Rightarrow>
          (newResolved(sp_ID (mf_Spec m) \<mapsto> \<lparr>rv_Manifest = m, rv_Source = ''db''\<rparr>),
           entries @ [(sp_ID (mf_Spec m), pm_Revision row)])))"

definition snapshot_hash :: "(string \<Rightarrow> string) \<Rightarrow> (string \<times> int) list \<Rightarrow> string" where
  "snapshot_hash sha256 entries =
     hex_encode (sha256
       (Join (map (\<lambda>(i, rev). i @ CHR '':'' # Itoa rev) (sort_slice (\<lambda>a b. fst a < fst b) entries)) '';''))"

definition poll :: "plugin_ops \<Rightarrow> (string \<Rightarrow> string) \<Rightarrow> PluginManifest list result \<Rightarrow> DBRegistry \<Rightarrow> DBRegistry" where
  "poll P sha256 listed r =
     (case listed of
        Inl err \<Rightarrow> r
      | Inr rows \<Rightarrow>
          let (newResolved, entries) = foldl (poll_row P (br_resolved r)) (Map.empty, []) rows;
              hash = snapshot_hash sha256 entries
          in if hash = dr_lastHash r then r
             else base_broadcast (r\<lparr>br_resolved := newResolved, dr_lastHash := hash\<rparr>))"

lemma base_broadcast_simps [simp]:
  "br_resolved (base_broadcast b) = br_resolved b"
  "br_subscribers (base_broadcast b) = map (\<lambda>_. True) (br_subscribers b)"
  by (simp_all add: base_broadcast_def)

lemma poll_row_ids: "ids_ok prior \<Longrightarrow> ids_ok (fst p) \<Longrightarrow> ids_ok (fst (poll_row P prior p row))"
  by (auto simp: poll_row_def case_prod_beta ids_ok_upd split: sum.splits option.splits)
     (auto simp: ids_ok_def)

lemma poll_ids: "ids_ok (br_resolved r) \<Longrightarrow> ids_ok (br_resolved (poll P sha listed r))"
proof -
  assume inv: "ids_ok (br_resolved r)"
  have "ids_ok (fst p) \<Longrightarrow> ids_ok (fst (foldl (poll_row P (br_resolved r)) p rows))" for p rows
    by (induction rows arbitrary: p) (simp_all add: poll_row_ids inv)
  from this [of "(Map.empty, [])"] inv show ?thesis
    by (simp add: poll_def Let_def case_prod_beta split: sum.splits)
qed

section \<open>Plugins from custom resources\<close>

record CRDRegistry = baseRegistry +
  cr_nameToID :: "string \<rightharpoonup> string"

definition NewCRDRegistry :: CRDRegistry where
  "NewCRDRegistry = \<lparr>br_resolved = Map.empty, br_subscribers = [], cr_nameToID = Map.empty\<rparr>"

text \<open>What the informer delivers: something that is no resource, or a resource by its name with
  the YAML of its synthetic envelope (an error when conversion or marshalling fails). A tombstone
  is unwrapped before.\<close>

datatype crd_object = NotUnstructured | Resource string "string result"

definition crd_upsert :: "plugin_ops \<Rightarrow> crd_object \<Rightarrow> CRDRegistry \<Rightarrow> CRDRegistry" where
  "crd_upsert P obj r =
     (case obj of
        NotUnstructured \<Rightarrow> r
      | Resource name yaml \<Rightarrow>
          (case rbind yaml (ParseManifest P) of
             Inl err \<Rightarrow> r
           | Inr m \<Rightarrow>
               base_broadcast
                 (r\<lparr>br_resolved := (br_resolved r)(sp_ID (mf_Spec m) \<mapsto> \<lparr>rv_Manifest = m, rv_Source = ''crd''\<rparr>),
                    cr_nameToID := (cr_nameToID r)(name \<mapsto> sp_ID (mf_Spec m))\<rparr>)))"

definition crd_delete :: "crd_object \<Rightarrow> CRDRegistry \<Rightarrow> CRDRegistry" where
  "crd_delete obj r =
     (case obj of
        NotUnstructured \<Rightarrow> r
      | Resource name yaml \<Rightarrow>
          (case cr_nameToID r name of
             None \<Rightarrow> r
           | Some ident \<Rightarrow>
               base_broadcast
                 (r\<lparr>br_resolved := (br_resolved r)(ident := None),
                    cr_nameToID := (cr_nameToID r)(name := None)\<rparr>)))"

lemma crd_ids:
  "ids_ok (br_resolved r) \<Longrightarrow> ids_ok (br_resolved (crd_upsert P obj r))"
  "ids_ok (br_resolved r) \<Longrightarrow> ids_ok (br_resolved (crd_delete obj r))"
  by (auto simp: crd_upsert_def crd_delete_def ids_ok_upd ids_ok_del split: crd_object.splits sum.splits option.splits)

section \<open>The merged registry\<close>

record MergedRegistry =
  mg_resolved :: "string \<rightharpoonup> Resolved"
  mg_loggedShadows :: "string set"
  mg_subscribers :: "bool list"

definition NewMerged :: MergedRegistry where
  "NewMerged = \<lparr>mg_resolved = Map.empty, mg_loggedShadows = {}, mg_subscribers = []\<rparr>"

definition merged_Get :: "string \<Rightarrow> MergedRegistry \<Rightarrow> Resolved option" where
  "merged_Get ident m = mg_resolved m ident"

definition merged_List :: "string list \<Rightarrow> MergedRegistry \<Rightarrow> Resolved list" where
  "merged_List ks m = range_values (mg_resolved m) ks"

definition merged_Subscribe :: "MergedRegistry \<Rightarrow> MergedRegistry \<times> nat" where
  "merged_Subscribe m = (m\<lparr>mg_subscribers := mg_subscribers m @ [False]\<rparr>, length (mg_subscribers m))"

definition merged_broadcast :: "MergedRegistry \<Rightarrow> MergedRegistry" where
  "merged_broadcast m = m\<lparr>mg_subscribers := map (\<lambda>_. True) (mg_subscribers m)\<rparr>"

text \<open>\<open>specHash\<close>: \<open>digest\<close> is SHA-256 of the YAML of a spec.\<close>

definition specHash :: "(ManifestSpec \<Rightarrow> string) \<Rightarrow> ManifestSpec \<Rightarrow> string" where
  "specHash digest spec = hex_encode (take 8 (digest spec))"

text \<open>\<open>allEntries\<close>: for every id the entries that carry it, highest precedence first.\<close>

definition add_entry ::
  "(string \<rightharpoonup> Resolved list) \<Rightarrow> Resolved \<Rightarrow> (string \<rightharpoonup> Resolved list)" where
  "add_entry m r = m(plugin_id r \<mapsto> (case m (plugin_id r) of None \<Rightarrow> [] | Some rs \<Rightarrow> rs) @ [r])"

definition shadow_key :: "(ManifestSpec \<Rightarrow> string) \<Rightarrow> Resolved \<Rightarrow> Resolved \<Rightarrow> string" where
  "shadow_key digest winner loser =
     Join [plugin_id winner, rv_Source winner, rv_Source loser,
           specHash digest (mf_Spec (rv_Manifest winner)), specHash digest (mf_Spec (rv_Manifest loser))] ''|''"

definition shadow_keys :: "(ManifestSpec \<Rightarrow> string) \<Rightarrow> Resolved list \<Rightarrow> string list" where
  "shadow_keys digest entries =
     (case entries of
        [] \<Rightarrow> []
      | winner # losers \<Rightarrow>
          map (shadow_key digest winner)
            (filter (\<lambda>loser. specHash digest (mf_Spec (rv_Manifest loser))
                             \<noteq> specHash digest (mf_Spec (rv_Manifest winner))) losers))"

text \<open>\<open>srcs\<close> is what \<open>List\<close> returns for each source, in the order of the sources. A shadow that was
  logged before is not logged again; the keys logged now join the set.\<close>

definition rebuild :: "(ManifestSpec \<Rightarrow> string) \<Rightarrow> Resolved list list \<Rightarrow> MergedRegistry \<Rightarrow> MergedRegistry \<times> string set" where
  "rebuild digest srcs m =
     (let allEntries = foldl add_entry Map.empty (concat srcs);
          keys = concat (map (shadow_keys digest)
                   (range_values allEntries (remdups (map plugin_id (concat srcs)))))
      in (m\<lparr>mg_resolved := (\<lambda>i. Option.bind (allEntries i) (\<lambda>es. case es of [] \<Rightarrow> None | e # _ \<Rightarrow> Some e)),
            mg_loggedShadows := mg_loggedShadows m \<union> set keys\<rparr>,
          set keys - mg_loggedShadows m))"

definition merged_refresh :: "(ManifestSpec \<Rightarrow> string) \<Rightarrow> Resolved list list \<Rightarrow> MergedRegistry \<Rightarrow> MergedRegistry" where
  "merged_refresh digest srcs m = merged_broadcast (fst (rebuild digest srcs m))"

lemma add_entries:
  "foldl add_entry m rs i =
     (let es = filter (\<lambda>r. plugin_id r = i) rs in
      if es = [] then m i else Some ((case m i of None \<Rightarrow> [] | Some xs \<Rightarrow> xs) @ es))"
  by (induction rs arbitrary: m) (simp_all add: add_entry_def Let_def)

lemma hd_filter: "filter Q xs = y # ys \<Longrightarrow> find Q xs = Some y"
  by (induction xs) (auto split: if_splits)

lemma rebuild_resolved:
  "mg_resolved (fst (rebuild digest srcs m)) i = find (\<lambda>r. plugin_id r = i) (concat srcs)"
  by (cases "filter (\<lambda>r. plugin_id r = i) (concat srcs)")
     (auto simp: rebuild_def Let_def add_entries find_None_iff find_None_iff2 filter_empty_conv dest: hd_filter)

lemma rebuild_ids: "ids_ok (mg_resolved (fst (rebuild digest srcs m)))"
  unfolding ids_ok_def rebuild_resolved by (auto dest: find_SomeD)

text \<open>The merged registry keeps the contract of its sources.\<close>

interpretation merged: plugin_registry
  "\<lambda>m. ids_ok (mg_resolved m)" "\<lambda>ks m. range_order (mg_resolved m) ks" merged_Get merged_List
proof
  show "r \<in> set (merged_List ks m) \<longleftrightarrow> (\<exists>k. merged_Get k m = Some r)"
    if "ids_ok (mg_resolved m)" "range_order (mg_resolved m) ks" for m ks r
    using that(2) by (simp add: merged_List_def merged_Get_def range_values_ran ran_def)
  show "plugin_id r = k" if "ids_ok (mg_resolved m)" "merged_Get k m = Some r" for m k r
    using that by (simp add: merged_Get_def ids_ok_def)
qed

text \<open>The three sources of the server, each with an order in which its map is visited.\<close>

definition source_lists ::
  "string list \<Rightarrow> CRDRegistry \<Rightarrow> string list \<Rightarrow> DBRegistry \<Rightarrow> string list \<Rightarrow> FileRegistry \<Rightarrow> Resolved list list" where
  "source_lists kc c kd d kf f = [base_List kc c, base_List kd d, base_List kf f]"

text \<open>C34: precedence. After a rebuild over the CRD, database and file registries, a plugin id
  resolves to the CRD's manifest if there is one, else to the database's, else to the file's, and
  what was resolved before plays no part.\<close>

theorem merged_precedence:
  assumes "ids_ok (br_resolved c)" "ids_ok (br_resolved d)" "ids_ok (br_resolved f)"
    and "range_order (br_resolved c) kc" "range_order (br_resolved d) kd" "range_order (br_resolved f) kf"
  shows "merged_Get i (merged_refresh digest (source_lists kc c kd d kf f) m) =
    (case base_Get i c of Some r \<Rightarrow> Some r | None \<Rightarrow>
      (case base_Get i d of Some r \<Rightarrow> Some r | None \<Rightarrow> base_Get i f))"
  using assms
  by (simp add: merged_Get_def merged_refresh_def merged_broadcast_def rebuild_resolved source_lists_def
      find_append base.find_list split: option.splits)

text \<open>What an entry of the database contributes to the snapshot hash: its id and its revision.\<close>

definition row_entry :: "plugin_ops \<Rightarrow> PluginManifest \<Rightarrow> string \<times> int" where
  "row_entry P row =
     ((case ParseManifest P (pm_YAML row) of Inl _ \<Rightarrow> pm_ID row | Inr m \<Rightarrow> sp_ID (mf_Spec m)), pm_Revision row)"

lemma poll_entries:
  "snd (foldl (poll_row P prior) p rows) = snd p @ map (row_entry P) rows"
  by (induction rows arbitrary: p) (simp_all add: poll_row_def row_entry_def case_prod_beta split: sum.splits)

text \<open>The change detector of the database registry sees ids and revisions only: a second poll
  whose rows have the ids and revisions of the first changes nothing, whatever their YAML says.
  (A plugin deleted and created again between two polls has revision 1 again.)\<close>

theorem poll_ignores_content:
  assumes "map (row_entry P) rows' = map (row_entry P) rows"
  shows "poll P sha (Inr rows') (poll P sha (Inr rows) r) = poll P sha (Inr rows) r"
proof -
  let ?h = "snapshot_hash sha (map (row_entry P) rows)"
  have "dr_lastHash (poll P sha (Inr rows) r) = ?h"
    by (simp add: poll_def Let_def case_prod_beta poll_entries base_broadcast_def)
  then show ?thesis
    by (simp add: poll_def [of P sha "Inr rows'"] Let_def case_prod_beta poll_entries assms)
qed

text \<open>The CRD registry follows a resource by name: after a resource is updated to a manifest
  with a new id, the plugin it provided before stays installed, and deleting the resource does
  not remove it.\<close>

theorem crd_renamed_id_stays:
  assumes "rbind y1 (ParseManifest P) = Inr m1" "rbind y2 (ParseManifest P) = Inr m2"
    and "sp_ID (mf_Spec m1) \<noteq> sp_ID (mf_Spec m2)"
  shows "base_Get (sp_ID (mf_Spec m1))
      (crd_delete (Resource n y3) (crd_upsert P (Resource n y2) (crd_upsert P (Resource n y1) r)))
    = Some \<lparr>rv_Manifest = m1, rv_Source = ''crd''\<rparr>"
  using assms
  by (auto simp: base_Get_def crd_delete_def crd_upsert_def base_broadcast_def)

definition sample_row :: "string \<Rightarrow> PluginManifest" where
  "sample_row yaml = \<lparr>pm_ID = ''gh'', pm_YAML = yaml, pm_Enabled = True, pm_Revision = 1, pm_CreatedAt = 1, pm_UpdatedAt = 1\<rparr>"

definition sample_any_yaml :: plugin_ops where
  "sample_any_yaml = sample_ops\<lparr>po_yaml := (\<lambda>s. Inr (sample_manifest s ''GET''))\<rparr>"

definition sample_resolved :: "string \<Rightarrow> Resolved" where
  "sample_resolved source = \<lparr>rv_Manifest = sample_manifest ''gh'' ''GET'', rv_Source = source\<rparr>"

theorem merged_precedence_witness:
  "merged_Get ''gh'' (merged_refresh (\<lambda>m. []) (source_lists [] NewCRDRegistry
       [''gh''] (NewDBRegistry\<lparr>br_resolved := [''gh'' \<mapsto> sample_resolved ''db'']\<rparr>)
       [''gh''] ((NewFileRegistry ''dir'')\<lparr>br_resolved := [''gh'' \<mapsto> sample_resolved ''file'']\<rparr>)) NewMerged)
     = Some (sample_resolved ''db'')"
  by (subst merged_precedence)
     (simp_all add: ids_ok_def range_order_def base_Get_def NewCRDRegistry_def NewDBRegistry_def NewFileRegistry_def
        sample_resolved_def sample_manifest_def)

theorem poll_ignores_content_witness:
  "poll sample_ops (\<lambda>t. t) (Inr [sample_row ''broken'']) (poll sample_ops (\<lambda>t. t) (Inr [sample_row ''doc'']) NewDBRegistry)
     = poll sample_ops (\<lambda>t. t) (Inr [sample_row ''doc'']) NewDBRegistry"
proof (rule poll_ignores_content)
  show "map (row_entry sample_ops) [sample_row ''broken''] = map (row_entry sample_ops) [sample_row ''doc'']" by code_simp
qed

theorem crd_renamed_id_stays_witness:
  "\<exists>m. rbind (Inr ''gh'') (ParseManifest sample_any_yaml) = Inr m \<and> sp_ID (mf_Spec m) = ''gh'' \<and>
     base_Get (sp_ID (mf_Spec m)) (crd_delete (Resource ''res'' (Inr ''gl'')) (crd_upsert sample_any_yaml (Resource ''res'' (Inr ''gl''))
       (crd_upsert sample_any_yaml (Resource ''res'' (Inr ''gh'')) NewCRDRegistry))) = Some \<lparr>rv_Manifest = m, rv_Source = ''crd''\<rparr>"
proof -
  have "(case (rbind (Inr ''gh'') (ParseManifest sample_any_yaml), rbind (Inr ''gl'') (ParseManifest sample_any_yaml)) of
      (Inr m1, Inr m2) \<Rightarrow> sp_ID (mf_Spec m1) = ''gh'' \<and> sp_ID (mf_Spec m2) = ''gl'' | _ \<Rightarrow> False)" by code_simp
  then obtain m1 m2 where "rbind (Inr ''gh'') (ParseManifest sample_any_yaml) = Inr m1" "rbind (Inr ''gl'') (ParseManifest sample_any_yaml) = Inr m2"
      "sp_ID (mf_Spec m1) = ''gh''" "sp_ID (mf_Spec m2) = ''gl''"
    by (auto split: sum.splits simp del: rbind_Inr rbind_simps)
  with crd_renamed_id_stays [OF this(1,2)] show ?thesis by (intro exI [of _ m1]) simp
qed

end
