(* ===== verification/Integrations.thy ===== *)
theory Integrations
  imports Registry StoreInv Crypto
begin

text \<open>
  \<open>internal/integrations/service.go\<close>: connecting a user to a provider, the summary of a user's
  providers and the environment and MCP servers of an agent at start. The service reaches the
  store and the plugin registry through interfaces, so the operations it calls are its
  arguments: \<open>upsert\<close>, \<open>getConnection\<close>, ... over a store state of any type, \<open>getPlugin\<close> and
  \<open>plugins\<close>. The locale \<open>connection_store\<close> is the contract of the store.

  A Go map given by the caller or built by a plugin is a list of entries, later ones winning.
\<close>

record AgentRuntimeResolution =
  arr_Env :: "string \<rightharpoonup> string"
  arr_MCPServers :: "ResolvedMCPServer list"

section \<open>Credentials\<close>

definition field :: "(string \<times> string) list \<Rightarrow> string \<Rightarrow> string" where
  "field flds k = (case map_of flds k of None \<Rightarrow> [] | Some v \<Rightarrow> v)"

definition plugin_Validate :: "plugin_ops \<Rightarrow> string \<Rightarrow> Manifest \<Rightarrow> TemplateContext \<Rightarrow> ValidationResult result" where
  "plugin_Validate P providerID m vars =
     (let plugin = ''plugin '' @ providerID in
      if sp_PluginKind (mf_Spec m) = ''http_template''
      then wrap (plugin @ '': validation failed: '') (http_Validate P m vars)
      else if sp_PluginKind (mf_Spec m) = ''sidecar''
      then wrap (plugin @ '': validation failed: '') (sidecar_Validate P m vars)
      else Inl (ErrNew (plugin @ '': unsupported kind '' @ Quote (sp_PluginKind (mf_Spec m)))))"

definition new_connection :: "string \<Rightarrow> string \<Rightarrow> ValidationResult \<Rightarrow> string \<Rightarrow> IntegrationConnection" where
  "new_connection userID providerID r secret =
     \<lparr>ic_ProviderID = providerID, ic_UserID = userID, ic_Scope = [], ic_ScopeID = [],
      ic_ExternalAccountID = vr_ExternalAccountID r, ic_ExternalLogin = vr_ExternalLogin r,
      ic_AccountType = vr_AccountType r, ic_Status = ''connected'', ic_Secret = secret,
      ic_Revision = 0, ic_UpdatedAt = 0, ic_CreatedAt = 0\<rparr>"

definition Connect ::
  "plugin_ops \<Rightarrow> crypto_ops \<Rightarrow> rnd \<Rightarrow> SecretBox \<Rightarrow> (string \<Rightarrow> Resolved option)
     \<Rightarrow> (IntegrationConnection \<Rightarrow> 's \<Rightarrow> 's \<times> IntegrationConnection result)
     \<Rightarrow> string \<Rightarrow> string \<Rightarrow> (string \<times> string) list \<Rightarrow> 's \<Rightarrow> 's \<times> IntegrationConnection result" where
  "Connect P C r box getPlugin upsert userID providerID flds st =
     (case getPlugin providerID of
        None \<Rightarrow> (st, Inl (ErrNew (''plugin '' @ providerID @ '' not registered'')))
      | Some rv \<Rightarrow>
          (case plugin_Validate P providerID (rv_Manifest rv)
                  \<lparr>tc_Token = field flds ''token'', tc_Fields = flds\<rparr> of
             Inl err \<Rightarrow> (st, Inl err)
           | Inr v \<Rightarrow>
               (case wrap ''encrypt token: '' (EncryptToString C r box (field flds ''token'')) of
                  Inl err \<Rightarrow> (st, Inl err)
                | Inr encrypted \<Rightarrow>
                    (case upsert (new_connection userID providerID v encrypted) st of
                       (st', saved) \<Rightarrow> (st', wrap ''store connection: '' saved)))))"

definition Disconnect :: "(string \<Rightarrow> string \<Rightarrow> 's \<Rightarrow> 's \<times> unit result) \<Rightarrow> string \<Rightarrow> string \<Rightarrow> 's \<Rightarrow> 's \<times> unit result" where
  "Disconnect delete userID providerID st = delete userID providerID st"

definition DecryptToken ::
  "crypto_ops \<Rightarrow> SecretBox \<Rightarrow> (string \<Rightarrow> string \<Rightarrow> 's \<Rightarrow> IntegrationConnection result)
     \<Rightarrow> string \<Rightarrow> string \<Rightarrow> 's \<Rightarrow> string result" where
  "DecryptToken C box getConnection userID providerID st =
     rbind (getConnection userID providerID st) (\<lambda>conn.
     wrap ''decrypt token: '' (DecryptFromString C box (ic_Secret conn)))"

definition GetConnection ::
  "(string \<Rightarrow> string \<Rightarrow> 's \<Rightarrow> IntegrationConnection result) \<Rightarrow> string \<Rightarrow> string \<Rightarrow> 's \<Rightarrow> IntegrationConnection result" where
  "GetConnection getConnection userID providerID st = getConnection userID providerID st"

definition ToggleAgentIntegration ::
  "(string \<Rightarrow> string \<Rightarrow> bool \<Rightarrow> int \<Rightarrow> string \<Rightarrow> 's \<Rightarrow> 's \<times> AgentIntegration result)
     \<Rightarrow> string \<Rightarrow> string \<Rightarrow> bool \<Rightarrow> 's \<Rightarrow> 's \<times> AgentIntegration result" where
  "ToggleAgentIntegration upsertAgent agentID providerID enabled st =
     upsertAgent agentID providerID enabled 0 (if enabled then ''active'' else ''disabled'') st"

section \<open>The summary\<close>

definition toFormFieldSummaries :: "FormField list \<Rightarrow> FormFieldSummary list" where
  "toFormFieldSummaries flds =
     map (\<lambda>f. \<lparr>ffs_Name = ff_Name f, ffs_Label = ff_Label f, ffs_Secret = ff_Secret f,
               ffs_Placeholder = ff_Placeholder f, ffs_HelpURL = ff_HelpURL f\<rparr>) flds"

definition toMCPServerSummaries :: "MCPRef list \<Rightarrow> MCPServerSummary list" where
  "toMCPServerSummaries refs =
     map (\<lambda>ref. \<lparr>mss_Name = mr_Name ref, mss_Kind = (if mr_Ref ref \<noteq> [] then ''ref'' else ''external'')\<rparr>) refs"

definition buildAgentBindings ::
  "(string \<Rightarrow> Agent list result) \<Rightarrow> (string \<Rightarrow> string \<Rightarrow> AgentIntegration result) \<Rightarrow> string \<Rightarrow> string
     \<Rightarrow> AgentBindingSummary list" where
  "buildAgentBindings listAgents getAgentIntegration userID providerID =
     (case listAgents userID of
        Inl err \<Rightarrow> []
      | Inr agents \<Rightarrow>
          List.map_filter (\<lambda>agent.
            (case getAgentIntegration (a_ID agent) providerID of
               Inl err \<Rightarrow> None
             | Inr ai \<Rightarrow> Some \<lparr>abs_AgentID = ai_AgentID ai, abs_Enabled = ai_Enabled ai,
                              abs_Revision = ai_Revision ai, abs_Status = ai_Status ai\<rparr>)) agents)"

definition connection_metadata :: "IntegrationConnection \<Rightarrow> ConnectionMetadata" where
  "connection_metadata conn =
     \<lparr>cm_ExternalAccountID = ic_ExternalAccountID conn, cm_ExternalLogin = ic_ExternalLogin conn,
      cm_AccountType = ic_AccountType conn, cm_Status = ic_Status conn, cm_Revision = ic_Revision conn\<rparr>"

definition provider_summary ::
  "IntegrationConnection result \<Rightarrow> AgentBindingSummary list \<Rightarrow> ManifestSpec \<Rightarrow> ProviderSummary" where
  "provider_summary found bindings spec =
     \<lparr>ps_ProviderID = sp_ID spec, ps_Name = sp_DisplayName spec,
      ps_Connected = (case found of Inl _ \<Rightarrow> False | Inr _ \<Rightarrow> True),
      ps_Connection = (case found of Inl _ \<Rightarrow> None | Inr conn \<Rightarrow> Some (connection_metadata conn)),
      ps_AgentBindings = bindings, ps_AuthKind = au_Type (sp_Auth spec),
      ps_FormFields = toFormFieldSummaries (au_Fields (sp_Auth spec)),
      ps_MCPServers = toMCPServerSummaries (cb_MCPServers (sp_Contributions spec)),
      ps_Description = sp_Description spec\<rparr>"

definition orphan_summary :: "string \<Rightarrow> ProviderSummary" where
  "orphan_summary pid =
     \<lparr>ps_ProviderID = pid, ps_Name = pid, ps_Connected = True, ps_Connection = None, ps_AgentBindings = [],
      ps_AuthKind = ''unknown'', ps_FormFields = [], ps_MCPServers = [],
      ps_Description = ''Provider is no longer registered. Disconnect available.''\<rparr>"

definition BuildSummary ::
  "(string \<Rightarrow> Resolved option) \<Rightarrow> Resolved list \<Rightarrow> (string \<Rightarrow> string \<Rightarrow> IntegrationConnection result)
     \<Rightarrow> (string \<Rightarrow> string list result) \<Rightarrow> (string \<Rightarrow> Agent list result)
     \<Rightarrow> (string \<Rightarrow> string \<Rightarrow> AgentIntegration result) \<Rightarrow> string \<Rightarrow> IntegrationSummary" where
  "BuildSummary getPlugin plugins getConnection listProviderIDs listAgents getAgentIntegration userID =
     (let summaries = map (\<lambda>r. let spec = mf_Spec (rv_Manifest r) in
            provider_summary (getConnection userID (sp_ID spec))
              (buildAgentBindings listAgents getAgentIntegration userID (sp_ID spec)) spec) plugins;
          orphans = (case listProviderIDs userID of
            Inl err \<Rightarrow> []
          | Inr ids \<Rightarrow> map orphan_summary (filter (\<lambda>pid. getPlugin pid = None) ids))
      in \<lparr>is_Providers = summaries @ orphans\<rparr>)"

section \<open>The runtime of an agent\<close>

definition plugin_BuildEnv :: "plugin_ops \<Rightarrow> string \<Rightarrow> Manifest \<Rightarrow> TemplateContext \<Rightarrow> (string \<times> string) list result" where
  "plugin_BuildEnv P providerID m vars =
     (let plugin = ''plugin '' @ providerID in
      if sp_PluginKind (mf_Spec m) = ''http_template''
      then wrap (plugin @ '': build env: '') (http_BuildEnv P m vars)
      else if sp_PluginKind (mf_Spec m) = ''sidecar''
      then wrap (plugin @ '': build env: '') (sidecar_BuildEnv P m vars)
      else Inl (ErrNew (plugin @ '': unsupported kind '' @ Quote (sp_PluginKind (mf_Spec m)))))"

text \<open>\<open>resolver\<close> is the namespace of the MCP resolver, \<open>None\<close> when there is none.\<close>

definition plugin_MCPServers ::
  "plugin_ops \<Rightarrow> string option \<Rightarrow> string \<Rightarrow> Manifest \<Rightarrow> TemplateContext \<Rightarrow> ResolvedMCPServer list result" where
  "plugin_MCPServers P resolver providerID m vars =
     (let refs = cb_MCPServers (sp_Contributions (mf_Spec m)); plugin = ''plugin '' @ providerID in
      if refs = [] then Inr []
      else
        (case resolver of
           None \<Rightarrow> Inl (ErrNew (plugin @ '': mcp resolver not configured (no kubernetes provider)''))
         | Some namespace \<Rightarrow> wrap (plugin @ '': resolve MCP servers: '') (mcp_Resolve P namespace refs vars)))"

definition resolve_integration ::
  "plugin_ops \<Rightarrow> crypto_ops \<Rightarrow> SecretBox \<Rightarrow> string option \<Rightarrow> (string \<Rightarrow> Resolved option)
     \<Rightarrow> (string \<Rightarrow> string \<Rightarrow> IntegrationConnection result) \<Rightarrow> string \<Rightarrow> AgentIntegration
     \<Rightarrow> ((string \<times> string) list \<times> ResolvedMCPServer list) result" where
  "resolve_integration P C box resolver getPlugin getConnection userID ai =
     (let providerID = ai_ProviderID ai in
      case getPlugin providerID of
        None \<Rightarrow> Inl (ErrNew (''plugin '' @ providerID @ '' unregistered''))
      | Some rv \<Rightarrow>
          (case getConnection userID providerID of
             Inl err \<Rightarrow> Inl (ErrNew (''no connection for plugin '' @ providerID))
           | Inr conn \<Rightarrow>
               rbind (wrap (''plugin '' @ providerID @ '': decrypt token: '')
                        (DecryptFromString C box (ic_Secret conn))) (\<lambda>token.
               let vars = \<lparr>tc_Token = token, tc_Fields = [(''token'', token)]\<rparr> in
               rbind (plugin_BuildEnv P providerID (rv_Manifest rv) vars) (\<lambda>env.
               rbind (plugin_MCPServers P resolver providerID (rv_Manifest rv) vars) (\<lambda>mcps.
               Inr (env, mcps))))))"

fun resolve_integrations ::
  "(AgentIntegration \<Rightarrow> ((string \<times> string) list \<times> ResolvedMCPServer list) result)
     \<Rightarrow> AgentIntegration list \<Rightarrow> AgentRuntimeResolution \<Rightarrow> AgentRuntimeResolution result" where
  "resolve_integrations f [] acc = Inr acc"
| "resolve_integrations f (ai # ais) acc =
     (if \<not> ai_Enabled ai then resolve_integrations f ais acc
      else
        (case f ai of
           Inl err \<Rightarrow> Inl err
         | Inr (env, mcps) \<Rightarrow>
             resolve_integrations f ais
               \<lparr>arr_Env = arr_Env acc ++ map_of env, arr_MCPServers = arr_MCPServers acc @ mcps\<rparr>))"

definition ResolveAgentRuntime ::
  "plugin_ops \<Rightarrow> crypto_ops \<Rightarrow> SecretBox \<Rightarrow> string option \<Rightarrow> (string \<Rightarrow> Resolved option)
     \<Rightarrow> (string \<Rightarrow> string \<Rightarrow> IntegrationConnection result) \<Rightarrow> (string \<Rightarrow> AgentIntegration list result)
     \<Rightarrow> string \<Rightarrow> string \<Rightarrow> AgentRuntimeResolution result" where
  "ResolveAgentRuntime P C box resolver getPlugin getConnection listAgentIntegrations userID agentID =
     rbind (wrap ''list agent integrations: '' (listAgentIntegrations agentID)) (\<lambda>ais.
     resolve_integrations (resolve_integration P C box resolver getPlugin getConnection userID) ais
       \<lparr>arr_Env = Map.empty, arr_MCPServers = []\<rparr>)"

section \<open>The contract of the store\<close>

text \<open>\<open>ok\<close> is what the store keeps of its connections; the service stores connections without a scope.\<close>

locale connection_store =
  fixes upsert :: "IntegrationConnection \<Rightarrow> 's \<Rightarrow> 's \<times> IntegrationConnection result"
    and get :: "string \<Rightarrow> string \<Rightarrow> 's \<Rightarrow> IntegrationConnection result"
    and ok :: "'s \<Rightarrow> bool"
  assumes upsert_Inl: "upsert c s = (s', Inl e) \<Longrightarrow> s' = s"
    and upsert_ok: "ok s \<Longrightarrow> ic_Scope c = [] \<Longrightarrow> ic_ScopeID c = [] \<Longrightarrow> upsert c s = (s', Inr d) \<Longrightarrow> ok s'"
    and upsert_Inr: "ok s \<Longrightarrow> ic_Scope c = [] \<Longrightarrow> ic_ScopeID c = [] \<Longrightarrow> upsert c s = (s', Inr d) \<Longrightarrow>
      ic_Secret d = ic_Secret c \<and> ic_Status d = ic_Status c \<and>
      ic_UserID d = ic_UserID c \<and> ic_ProviderID d = ic_ProviderID c"
    and upsert_get: "ok s \<Longrightarrow> ic_Scope c = [] \<Longrightarrow> ic_ScopeID c = [] \<Longrightarrow> upsert c s = (s', Inr d) \<Longrightarrow>
      get u p s' = (if u = ic_UserID c \<and> p = ic_ProviderID c then Inr d else get u p s)"
begin

lemma Connect_Inl:
  "Connect P C r box getPlugin upsert u p flds s = (s', Inl e) \<Longrightarrow> s' = s"
  by (auto simp: Connect_def wrap_def split: option.splits sum.splits prod.splits dest: upsert_Inl)

text \<open>A connection that is made stores the sealed token, and nothing of another user or provider
  changes.\<close>

lemma Connect_Inr:
  assumes "Connect P C r box getPlugin upsert u p flds s = (s', Inr d)" "ok s"
  shows "EncryptToString C r box (field flds ''token'') = Inr (ic_Secret d)"
    "ic_UserID d = u" "ic_ProviderID d = p" "ic_Status d = ''connected''" "getPlugin p \<noteq> None"
    "get u' p' s' = (if u' = u \<and> p' = p then Inr d else get u' p' s)" "ok s'"
proof -
  from assms(1) obtain v secret where "getPlugin p \<noteq> None" "EncryptToString C r box (field flds ''token'') = Inr secret"
    and up: "upsert (new_connection u p v secret) s = (s', Inr d)"
    by (auto simp: Connect_def split: option.splits sum.splits prod.splits)
  moreover have "ic_Scope (new_connection u p v secret) = []" "ic_ScopeID (new_connection u p v secret) = []"
    by (simp_all add: new_connection_def)
  note facts = upsert_ok [OF assms(2) this up] upsert_Inr [OF assms(2) this up] upsert_get [OF assms(2) this up]
  ultimately show "EncryptToString C r box (field flds ''token'') = Inr (ic_Secret d)"
    "ic_UserID d = u" "ic_ProviderID d = p" "ic_Status d = ''connected''" "getPlugin p \<noteq> None"
    "get u' p' s' = (if u' = u \<and> p' = p then Inr d else get u' p' s)" "ok s'"
    using facts by (simp_all add: new_connection_def)
qed

lemma Connect_DecryptToken:
  assumes "Connect P C (Some nonce) box getPlugin upsert u p flds s = (s', Inr d)" "ok s"
    and "aead_law C" "length (aead_key (sb_aead box)) = 32" "length nonce = NonceSize"
  shows "DecryptToken C box get u p s' = Inr (field flds ''token'')"
proof -
  note c = Connect_Inr [OF assms(1,2)]
  from DecryptFromString_Encrypt [OF assms(3-5), of "field flds ''token''"] c(1)
  have "DecryptFromString C box (ic_Secret d) = Inr (field flds ''token'')" by auto
  with c(6) [of u p] show ?thesis by (simp add: DecryptToken_def)
qed

end

interpretation mem_connections: connection_store
  "UpsertIntegrationConnection cx now" "GetIntegrationConnection cx" "\<lambda>m. True" for cx now
proof
  show "True" for s s' :: Memory and c d :: IntegrationConnection by simp
  show "s' = s" if "UpsertIntegrationConnection cx now c s = (s', Inl e)" for c s s' e
    using that by (auto simp: UpsertIntegrationConnection_def Let_def split: option.splits)
  show "ic_Secret d = ic_Secret c \<and> ic_Status d = ic_Status c \<and>
      ic_UserID d = ic_UserID c \<and> ic_ProviderID d = ic_ProviderID c"
    if "UpsertIntegrationConnection cx now c s = (s', Inr d)" for c s s' d
    using that
    by (auto simp: UpsertIntegrationConnection_def Let_def loop_defs split: option.splits dest!: find_SomeD)
  show "GetIntegrationConnection cx u p s' =
      (if u = ic_UserID c \<and> p = ic_ProviderID c then Inr d else GetIntegrationConnection cx u p s)"
    if "UpsertIntegrationConnection cx now c s = (s', Inr d)" for c s s' d u p
  proof -
    let ?conn = "default_scope c" and ?cs = "m_integrations s"
    let ?P = "\<lambda>x. ic_ProviderID x = ic_ProviderID c \<and> ic_UserID x = ic_UserID c"
    let ?Q = "\<lambda>x. ic_UserID x = u \<and> ic_ProviderID x = p"
    from that have cx: "cx = None" by (auto simp: UpsertIntegrationConnection_def split: option.splits)
    have same: "?Q = ?P" if "u = ic_UserID c" "p = ic_ProviderID c" using that by auto
    have get: "GetIntegrationConnection cx u p m = (case find ?Q (m_integrations m) of None \<Rightarrow> Inl ErrNotFound | Some x \<Rightarrow> Inr x)" for m
      by (simp add: GetIntegrationConnection_def find_or_not_found_def cx)
    show ?thesis
    proof (cases "find ?P ?cs")
      case None
      with that cx have s': "m_integrations s' = ?cs @ [d]" and d: "d = first_connection now ?conn"
        by (auto simp: UpsertIntegrationConnection_def Let_def loop_defs)
      then have "?P d" by simp
      show ?thesis
      proof (cases "u = ic_UserID c \<and> p = ic_ProviderID c")
        case True
        then have "?Q = ?P" by (intro same) auto
        from get [of s'] have "GetIntegrationConnection cx u p s'
            = (case find ?P (?cs @ [d]) of None \<Rightarrow> Inl ErrNotFound | Some x \<Rightarrow> Inr x)"
          by (simp only: s' \<open>?Q = ?P\<close>)
        moreover have "find ?P (?cs @ [d]) = Some d" using None \<open>?P d\<close> by (simp add: find_append)
        ultimately show ?thesis using True by simp
      next
        case False
        with \<open>?P d\<close> have "\<not> ?Q d" by auto
        with False show ?thesis by (auto simp: get s' find_append split: option.splits)
      qed
    next
      case (Some e)
      with that cx have s': "m_integrations s' = update1 ?P (refresh_connection now ?conn) ?cs"
        and d: "d = refresh_connection now ?conn e"
        by (auto simp: UpsertIntegrationConnection_def Let_def loop_defs)
      show ?thesis
      proof (cases "u = ic_UserID c \<and> p = ic_ProviderID c")
        case True
        then have "?Q = ?P" by (intro same) auto
        from get [of s'] have "GetIntegrationConnection cx u p s'
            = (case find ?P (update1 ?P (refresh_connection now ?conn) ?cs) of None \<Rightarrow> Inl ErrNotFound | Some x \<Rightarrow> Inr x)"
          by (simp only: s' \<open>?Q = ?P\<close>)
        moreover have "find ?P (update1 ?P (refresh_connection now ?conn) ?cs) = Some d" using Some d by simp
        ultimately show ?thesis using True by simp
      next
        case False
        then have "find ?Q (update1 ?P (refresh_connection now ?conn) ?cs) = find ?Q ?cs"
          by (intro find_update1_other) auto
        with False show ?thesis by (auto simp: get s')
      qed
    qed
  qed
qed

text \<open>C35: a stored credential comes back: after a user connects a provider on the in-memory store,
  decrypting that connection yields the token supplied, and no other user's connection to any
  provider, nor the user's connections to others, changes.\<close>

theorem connect_then_decrypt:
  assumes "Connect P C (Some nonce) box getPlugin (UpsertIntegrationConnection cx now) u p flds m = (m', Inr d)"
    and "aead_law C" "NewSecretBoxFromConfig C key = Inr box" "length nonce = NonceSize"
  shows "DecryptToken C box (GetIntegrationConnection cx) u p m' = Inr (field flds ''token'') \<and>
    ((u', p') \<noteq> (u, p) \<longrightarrow> GetIntegrationConnection cx u' p' m' = GetIntegrationConnection cx u' p' m)"
proof -
  from assms(3) have "length (aead_key (sb_aead box)) = 32"
    using NewSecretBox_key [OF assms(2)] by (auto simp: NewSecretBoxFromConfig_def split: if_splits)
  from mem_connections.Connect_DecryptToken [OF assms(1) TrueI assms(2) this assms(4)]
    mem_connections.Connect_Inr(6) [OF assms(1) TrueI, of u' p']
  show ?thesis by simp
qed

theorem connect_then_decrypt_witness:
  "let box = NewSecretBox sample_crypto ''key'';
       plugin = (\<lambda>p. if p = ''gh'' then Some \<lparr>rv_Manifest = sample_manifest ''gh'' ''GET'', rv_Source = ''file''\<rparr> else None);
       m' = fst (Connect sample_ops sample_crypto (Some ''0123456789ab'') box plugin (UpsertIntegrationConnection None 7) ''u2'' ''gh''
              [(''token'', ''pat'')] NewMemory)
   in DecryptToken sample_crypto box (GetIntegrationConnection None) ''u2'' ''gh'' m' = Inr (field [(''token'', ''pat'')] ''token'') \<and>
      GetIntegrationConnection None ''u1'' ''gh'' m' = GetIntegrationConnection None ''u1'' ''gh'' NewMemory"
proof -
  let ?box = "NewSecretBox sample_crypto ''key''"
  let ?plugin = "\<lambda>p. if p = ''gh'' then Some \<lparr>rv_Manifest = sample_manifest ''gh'' ''GET'', rv_Source = ''file''\<rparr> else None"
  let ?run = "Connect sample_ops sample_crypto (Some ''0123456789ab'') ?box ?plugin (UpsertIntegrationConnection None 7) ''u2'' ''gh''
              [(''token'', ''pat'')] NewMemory"
  have "\<not> isl (EncryptToString sample_crypto (Some ''0123456789ab'') ?box (field [(''token'', ''pat'')] ''token''))" by code_simp
  then obtain e where "EncryptToString sample_crypto (Some ''0123456789ab'') ?box (field [(''token'', ''pat'')] ''token'') = Inr e"
    by (metis sum.collapse(2))
  then have "\<not> isl (snd ?run)"
    by (simp add: Connect_def plugin_Validate_def http_Validate_def sample_ops_def sample_manifest_def ParseTimeout_def
        renderTemplate_def read_limited_def extract_path_def UpsertIntegrationConnection_def NewMemory_def Let_def update_first_def
        new_connection_def)
  then obtain d where run: "?run = (fst ?run, Inr d)" by (metis prod.collapse sum.collapse(2))
  have "NewSecretBoxFromConfig sample_crypto ''key'' = Inr ?box" "length ''0123456789ab'' = NonceSize"
    by (simp_all add: NewSecretBoxFromConfig_def NonceSize_def)
  from connect_then_decrypt [OF run sample_crypto_law this, of "''u1''" "''gh''"] show ?thesis by (simp add: Let_def)
qed

end
