(* ===== verification/PostgresClients.thy ===== *)
theory PostgresClients
  imports PostgresRefine IdP Integrations
begin

text \<open>
  The database as the provider of the interfaces the program states: the store of connections behind the
  integrations service (\<open>connection_store\<close>) and the source of settings behind the identity providers
  (\<open>settings_source\<close>), so that what those clients prove holds over Postgres too.
\<close>

section \<open>Connections\<close>

lemma list_all_change_rows: "list_all Q t \<Longrightarrow> Q y \<Longrightarrow> list_all Q (change_rows P (\<lambda>x. y) t)"
  by (auto simp: list_all_iff change_rows_def)

lemma find_change_same: "find P t = Some x \<Longrightarrow> P y \<Longrightarrow> find P (change_rows P (\<lambda>x. y) t) = Some y"
  by (induction t) (auto simp: change_rows_def split: if_splits)

lemma find_change_other: "(\<And>x. P x \<Longrightarrow> \<not> Q x) \<Longrightarrow> \<not> Q y \<Longrightarrow> find Q (change_rows P (\<lambda>x. y) t) = find Q t"
  by (induction t) (auto simp: change_rows_def)

text \<open>What a successful upsert leaves: the connection of the user, and the others as they were.\<close>

lemma connection_stored:
  assumes own: "list_all own_scope t" and row: "own_scope row"
    and conn: "connection_pkey conn = connection_pkey row"
    and up: "upsert_row same_connection (overwrite_connection now conn) [] refs row t = (t', Inr d)"
  shows "list_all own_scope t' \<and> ic_UserID d = ic_UserID row \<and> ic_ProviderID d = ic_ProviderID row \<and>
    find (of_user u p) t' = (if u = ic_UserID row \<and> p = ic_ProviderID row then Some d else find (of_user u p) t)"
  using up
proof (cases rule: upsert_row_cases)
  case (changed old new)
  then have old: "same_connection row old" "old \<in> set t" by (auto simp: find_Some_iff)
  with own row changed(2) have d: "own_scope new" "connection_pkey new = connection_pkey row"
    by (auto simp: list_all_iff own_scope_def overwrite_connection_def same_connection_def connection_pkey_def)
  have key: "of_user (ic_UserID row) (ic_ProviderID row) = same_connection row"
    using row by (auto simp: fun_eq_iff of_user_def same_connection_def own_scope_def)
  have ids: "ic_UserID new = ic_UserID row" "ic_ProviderID new = ic_ProviderID row"
    using d row by (metis own_scope_def connection_pkey_def prod.inject)+
  have new: "same_connection row new" using d(2) by (simp add: same_connection_pkey)
  have "find (of_user u p) t' = find (of_user u p) t" if "\<not> (u = ic_UserID row \<and> p = ic_ProviderID row)"
    unfolding changed(3)
    by (rule find_change_other) (use that row new in \<open>auto simp: of_user_def same_connection_def own_scope_def\<close>)
  moreover have "find (same_connection row) t' = Some new"
    unfolding changed(3) by (rule find_change_same [OF changed(1) new])
  ultimately show ?thesis
    using changed ids list_all_change_rows [OF own d(1)] key by auto
next
  case inserted
  have key: "of_user (ic_UserID row) (ic_ProviderID row) = same_connection row"
    using row by (auto simp: fun_eq_iff of_user_def same_connection_def own_scope_def)
  have "of_user u p row \<longleftrightarrow> u = ic_UserID row \<and> p = ic_ProviderID row"
    using row by (auto simp: of_user_def own_scope_def)
  with inserted own row key show ?thesis by (auto simp: find_append split: option.splits)
qed (simp_all)

lemma overwrite_connection_data:
  "overwrite_connection now conn old = Inr new \<Longrightarrow> ic_Secret new = ic_Secret conn \<and> ic_Status new = ic_Status conn"
  by (auto simp: overwrite_connection_def)

lemma upsert_row_Inr:
  assumes "upsert_row same change uniques refs row t = (t', Inr d)"
  shows "d = row \<or> (\<exists>old\<in>set t. same row old \<and> change old = Inr d)"
  using assms by (cases rule: upsert_row_cases) (auto simp: find_Some_iff)

definition connections_ok :: "Db \<Rightarrow> bool" where
  "connections_ok db \<longleftrightarrow> list_all own_scope (db_connections db)"

interpretation pg_connections: connection_store
  "pg_UpsertIntegrationConnection Delivered now" "pg_GetIntegrationConnection None" connections_ok for now
proof
  fix c d :: IntegrationConnection and s s' e u p
  let ?up = "pg_UpsertIntegrationConnection Delivered now c s"
  let ?conn = "default_scope c"
  let ?row = "?conn\<lparr>ic_Revision := or_one (ic_Revision c), ic_CreatedAt := now, ic_UpdatedAt := now\<rparr>"
  show "?up = (s', Inl e) \<Longrightarrow> s' = s"
    by (auto simp: pg_UpsertIntegrationConnection_def Let_def split: prod.splits dest: upsert_row_Inl)
  assume ok: "connections_ok s" and plain: "ic_Scope c = []" "ic_ScopeID c = []" and up: "?up = (s', Inr d)"
  from plain have row: "own_scope ?row" "connection_pkey ?conn = connection_pkey ?row"
    by (simp_all add: default_scope_own own_scope_def connection_pkey_def)
  from up obtain t where t: "upsert_row same_connection (overwrite_connection now ?conn) []
      [(user_exists (ic_UserID c) s, ''integration_connections'', ''integration_connections_user_id_fkey'')] ?row (db_connections s) = (t, Inr d)"
    and s': "s' = s\<lparr>db_connections := t\<rparr>"
    by (auto simp: pg_UpsertIntegrationConnection_def Let_def split: prod.splits)
  from ok have own: "list_all own_scope (db_connections s)" by (simp add: connections_ok_def)
  note stored = connection_stored [OF own row t]
  from stored s' show "connections_ok s'" by (simp add: connections_ok_def)
  have "ic_Secret d = ic_Secret c \<and> ic_Status d = ic_Status c"
    using upsert_row_Inr [OF t] by (auto dest: overwrite_connection_data)
  moreover from stored have "ic_UserID d = ic_UserID c" "ic_ProviderID d = ic_ProviderID c" by simp_all
  ultimately show "ic_Secret d = ic_Secret c \<and> ic_Status d = ic_Status c \<and> ic_UserID d = ic_UserID c \<and> ic_ProviderID d = ic_ProviderID c"
    by simp
  show "pg_GetIntegrationConnection None u p s' = (if u = ic_UserID c \<and> p = ic_ProviderID c then Inr d else pg_GetIntegrationConnection None u p s)"
    using stored [of u p] s' by (simp add: pg_GetIntegrationConnection_def row_read find_or_not_found_def)
qed

text \<open>A credential on Postgres. After a user connects a provider, decrypting the stored connection
  yields the token supplied, and every other connection reads as before.\<close>

theorem connect_then_decrypt_postgres:
  assumes "Connect P C (Some nonce) box getPlugin (pg_UpsertIntegrationConnection Delivered now) u p flds db = (db', Inr d)"
    and "connections_ok db" "aead_law C" "NewSecretBoxFromConfig C key = Inr box" "length nonce = NonceSize"
  shows "DecryptToken C box (pg_GetIntegrationConnection None) u p db' = Inr (field flds ''token'') \<and> connections_ok db' \<and>
    ((u', p') \<noteq> (u, p) \<longrightarrow> pg_GetIntegrationConnection None u' p' db' = pg_GetIntegrationConnection None u' p' db)"
proof -
  from assms(4) have "length (aead_key (sb_aead box)) = 32"
    using NewSecretBox_key [OF assms(3)] by (auto simp: NewSecretBoxFromConfig_def split: if_splits)
  from pg_connections.Connect_DecryptToken [OF assms(1,2,3) this assms(5)] pg_connections.Connect_Inr(6) [OF assms(1,2), of u' p'] pg_connections.Connect_Inr(7) [OF assms(1,2)]
  show ?thesis by simp
qed

section \<open>Settings\<close>

lemma like_percent: "like p s \<Longrightarrow> like (CHR ''%'' # p) s"
  by (cases s) simp_all

lemma like_extends: "CHR 0x5C \<notin> set p \<Longrightarrow> prefix p k \<Longrightarrow> like (p @ [CHR ''%'']) k"
proof (induction p arbitrary: k)
  case Nil
  then show ?case by (simp add: like_any)
next
  case (Cons c p)
  then obtain k' where k: "k = c # k'" "prefix p k'" by (cases k) auto
  with Cons have "like (p @ [CHR ''%'']) k'" by auto
  with k Cons.prems(1) show ?case by (auto intro: like_percent)
qed

lemma map_of_filter_covers: "Q k \<Longrightarrow> map_of (filter (\<lambda>row. Q (fst row)) t) k = map_of t k"
  by (induction t) auto

interpretation pg_settings: settings_source
  "\<lambda>k. pg_GetAppSetting None k db" "\<lambda>p. pg_ListAppSettings None p db" "map_of (db_settings db)" for db
proof
  have get: "one_row (map snd (filter (\<lambda>row. fst row = k) t)) = (case map_of t k of None \<Rightarrow> Inl ErrNoRows | Some v \<Rightarrow> Inr v)"
    for t :: "(string \<times> string) list" and k
    by (induction t) auto
  show "v = (case map_of (db_settings db) k of None \<Rightarrow> [] | Some w \<Rightarrow> w)" if "pg_GetAppSetting None k db = Inr v" for k v
    using that by (auto simp: pg_GetAppSetting_def get split: option.splits)
  show "f k = map_of (db_settings db) k" if "pg_ListAppSettings None p db = Inr f" "CHR 0x5C \<notin> set p" "prefix p k" for p f k
    using that like_extends [OF that(2,3)]
    by (auto simp: pg_ListAppSettings_def map_of_filter_covers split: if_splits)
qed

text \<open>Settings on Postgres. A reload of the identity providers takes the mode and every provider's flag
  from the rows of the database.\<close>

theorem reload_reads_database:
  assumes "Reload (\<lambda>k. pg_GetAppSetting None k db) (\<lambda>p. pg_ListAppSettings None p db) r = (r', Inr ())"
  shows "ir_mode r' = auth_mode_of (case map_of (db_settings db) ''auth.mode'' of None \<Rightarrow> [] | Some w \<Rightarrow> w) \<and>
    map_option mp_Enabled (ir_snapshot r' name) =
      map_option (\<lambda>e. map_of (db_settings db) (enabled_key name) \<in> {None, Some ''true''}) (ir_snapshot r name)"
  using pg_settings.Reload_Inr [OF assms]
  by (simp add: pg_settings.stored_mode_def pg_settings.stored_enabled_def option.map_comp comp_def)

end
