(* ===== verification/Sandbox.thy ===== *)
theory Sandbox
  imports Prelude
begin

text \<open>
  \<open>internal/sandbox\<close> without the Kubernetes client: labels and network policies
  (\<open>networkpolicy.go\<close>), the hardened pod of an agent (\<open>podspec.go\<close>), its translation into
  Kubernetes objects (\<open>k8s_resources.go\<close>), the runtime token secret (\<open>secrets.go\<close>), the Kata,
  docker and mock providers. Kubernetes API types are records with the fields the code sets.
  \<open>net.ParseCIDR\<close>, \<open>resource.ParseQuantity\<close>, \<open>docker\<close> and the Unicode case tables are arguments.
\<close>

section \<open>Labels\<close>

definition alnum :: "char \<Rightarrow> bool" where
  "alnum c = (let n = of_char c :: nat in 97 \<le> n \<and> n \<le> 122 \<or> 48 \<le> n \<and> n \<le> 57)"

definition label_char :: "char \<Rightarrow> bool" where
  "label_char c \<longleftrightarrow> alnum c \<or> c = CHR ''-'' \<or> c = CHR ''.''"

definition edge_char :: "char \<Rightarrow> bool" where
  "edge_char c \<longleftrightarrow> c = CHR ''-'' \<or> c = CHR ''.''"

text \<open>The loop over the runes. Every byte above 127 belongs to a rune that is replaced, and a run of
  replaced runes gives one dash, so going through the bytes gives the same text. \<open>buf\<close> is kept in
  reverse.\<close>

fun label_loop :: "string \<Rightarrow> string \<Rightarrow> string" where
  "label_loop buf [] = rev buf"
| "label_loop buf (c # cs) =
     (if label_char c then label_loop (c # buf) cs
      else if buf = [] \<or> hd buf \<noteq> CHR ''-'' then label_loop (CHR ''-'' # buf) cs
      else label_loop buf cs)"

definition trim_right :: "(char \<Rightarrow> bool) \<Rightarrow> string \<Rightarrow> string" where
  "trim_right P s = rev (dropWhile P (rev s))"

definition labelValue :: "(string \<Rightarrow> string) \<Rightarrow> string \<Rightarrow> string" where
  "labelValue ul value =
     (let v = TrimSpace (ToLower ul value) in
      if v = [] then []
      else
        let w = trim_right edge_char (dropWhile edge_char (label_loop [] v)) in
        if w = [] then [] else if length w > 63 then trim_right edge_char (take 63 w) else w)"

text \<open>A Kubernetes label value: at most 63 characters, alphanumeric at both ends.\<close>

definition label_ok :: "string \<Rightarrow> bool" where
  "label_ok s \<longleftrightarrow> s = [] \<or> length s \<le> 63 \<and> list_all label_char s \<and> alnum (hd s) \<and> alnum (last s)"

lemma label_loop_chars: "list_all label_char buf \<Longrightarrow> list_all label_char (label_loop buf s)"
  by (induction buf s rule: label_loop.induct) (auto simp: label_char_def list_all_iff)

lemma set_dropWhile_sub: "set (dropWhile P s) \<subseteq> set s"
  by (auto dest: set_dropWhileD)

lemma trim_right_sub: "set (trim_right P s) \<subseteq> set s"
  using set_dropWhile_sub [of P "rev s"] by (simp add: trim_right_def)

lemma trim_right_last: "trim_right P s \<noteq> [] \<Longrightarrow> \<not> P (last (trim_right P s))"
  by (simp add: trim_right_def last_rev hd_dropWhile)

lemma trim_right_prefix: "prefix (trim_right P s) s"
proof -
  have "rev s = takeWhile P (rev s) @ dropWhile P (rev s)" by simp
  then have "s = rev (dropWhile P (rev s)) @ rev (takeWhile P (rev s))"
    by (metis rev_append rev_rev_ident)
  then show ?thesis by (auto simp: trim_right_def prefix_def)
qed

lemma trim_right_hd: "trim_right P s \<noteq> [] \<Longrightarrow> hd (trim_right P s) = hd s"
  by (metis trim_right_prefix prefixE hd_append2)

lemma not_edge: "label_char c \<Longrightarrow> \<not> edge_char c \<Longrightarrow> alnum c"
  by (simp add: label_char_def edge_char_def)

lemma label_trimmed:
  assumes "list_all label_char s" "s \<noteq> []" "\<not> edge_char (hd s)"
  shows "trim_right edge_char s = [] \<or>
    list_all label_char (trim_right edge_char s) \<and> alnum (hd (trim_right edge_char s)) \<and>
    alnum (last (trim_right edge_char s))"
proof (cases "trim_right edge_char s = []")
  case False
  from assms(1) trim_right_sub [of edge_char s] have all: "list_all label_char (trim_right edge_char s)"
    by (auto simp: list_all_iff)
  from False all have "label_char (last (trim_right edge_char s))" by (simp add: list_all_iff)
  moreover have "label_char (hd s)" using assms(1,2) by (cases s) auto
  ultimately show ?thesis
    using all trim_right_last [OF False] trim_right_hd [OF False] assms(3) by (simp add: not_edge)
qed simp

text \<open>Every label value the program computes is one Kubernetes accepts, whatever name it is
  computed from.\<close>

theorem labelValue_ok: "label_ok (labelValue ul value)"
proof -
  define s where "s = dropWhile edge_char (label_loop [] (TrimSpace (ToLower ul value)))"
  define w where "w = trim_right edge_char s"
  have chars: "list_all label_char s"
    using label_loop_chars [of "[]"] set_dropWhile_sub by (fastforce simp: s_def list_all_iff)
  have lv: "labelValue ul value =
      (if TrimSpace (ToLower ul value) = [] \<or> w = [] then [] else if length w > 63 then trim_right edge_char (take 63 w) else w)"
    by (simp add: labelValue_def Let_def s_def w_def)
  show ?thesis
  proof (cases "w = []")
    case True
    then show ?thesis by (simp add: lv label_ok_def)
  next
    case False
    then have "s \<noteq> []" by (auto simp: w_def trim_right_def)
    then have "\<not> edge_char (hd s)" by (simp add: s_def hd_dropWhile)
    with label_trimmed [OF chars \<open>s \<noteq> []\<close>] False
    have w: "list_all label_char w" "alnum (hd w)" "alnum (last w)" by (auto simp: w_def)
    have "list_all label_char (take 63 w)" using w(1) by (auto simp: list_all_iff dest: in_set_takeD)
    moreover have "take 63 w \<noteq> []" "hd (take 63 w) = hd w" using False by simp_all
    moreover have "\<not> edge_char (hd w)" using w(2) by (auto simp: alnum_def edge_char_def)
    ultimately have "label_ok (trim_right edge_char (take 63 w))"
      using label_trimmed [of "take 63 w"] prefix_length_le [OF trim_right_prefix [of edge_char "take 63 w"]]
      by (auto simp: label_ok_def)
    with w show ?thesis by (simp add: lv label_ok_def)
  qed
qed

definition put_label :: "(string \<Rightarrow> string) \<Rightarrow> string \<Rightarrow> string \<Rightarrow> (string \<rightharpoonup> string) \<Rightarrow> string \<rightharpoonup> string" where
  "put_label ul k v m = (if labelValue ul v = [] then m else m(k \<mapsto> labelValue ul v))"

definition RuntimeLabels :: "(string \<Rightarrow> string) \<Rightarrow> string \<Rightarrow> string \<Rightarrow> string \<Rightarrow> string \<rightharpoonup> string" where
  "RuntimeLabels ul agentID runtime sandboxID =
     put_label ul ''shclop.io/sandbox-id'' sandboxID
       (put_label ul ''shclop.io/runtime-flavor'' runtime
         (put_label ul ''shclop.io/agent-id'' agentID
           [''app.kubernetes.io/name'' \<mapsto> ''shclop-agent-runtime'',
            ''app.kubernetes.io/component'' \<mapsto> ''agent-runtime'']))"

section \<open>Network policies\<close>

datatype protocol = TCP | UDP

record EgressRule =
  er_Name :: string
  er_CIDR :: string
  er_DNSName :: string
  er_Ports :: "int list"

record NetworkPolicySpec =
  ns_Enabled :: bool
  ns_Mode :: string
  ns_AllowBackend :: bool
  ns_AllowVault :: bool
  ns_AllowedEgress :: "EgressRule list"

abbreviation NetworkPolicyDisabled :: string where "NetworkPolicyDisabled \<equiv> ''disabled''"
abbreviation NetworkPolicyRestricted :: string where "NetworkPolicyRestricted \<equiv> ''restricted''"
abbreviation NetworkPolicyCustom :: string where "NetworkPolicyCustom \<equiv> ''custom''"

text \<open>One egress rule: the blocks it allows (none: every destination) and its ports.\<close>

record npEgress =
  ne_To :: "string list"
  ne_Ports :: "(int \<times> protocol) list"

record NetworkPolicy =
  np_Name :: string
  np_Namespace :: string
  np_Labels :: "string \<rightharpoonup> string"
  np_PodSelector :: "string \<rightharpoonup> string"
  np_PolicyTypes :: "string list"
  np_Egress :: "npEgress list"

fun number_cidrs :: "int \<Rightarrow> string list \<Rightarrow> EgressRule list" where
  "number_cidrs index [] = []"
| "number_cidrs index (raw # raws) =
     (let cidr = TrimSpace raw in
      if cidr = [] then number_cidrs index raws
      else \<lparr>er_Name = ''custom-'' @ Itoa (index + 1), er_CIDR = cidr, er_DNSName = [], er_Ports = [443]\<rparr> #
           number_cidrs (index + 1) raws)"

definition NetworkPolicySpecFromConfig :: "bool \<Rightarrow> string \<Rightarrow> string \<Rightarrow> NetworkPolicySpec" where
  "NetworkPolicySpecFromConfig enabled mode cidrs =
     \<lparr>ns_Enabled = enabled,
      ns_Mode = (if TrimSpace mode = [] then NetworkPolicyRestricted else TrimSpace mode),
      ns_AllowBackend = True, ns_AllowVault = True,
      ns_AllowedEgress = number_cidrs 0 (split_on CHR '','' cidrs)\<rparr>"

fun custom_rules :: "(string \<Rightarrow> unit result) \<Rightarrow> EgressRule list \<Rightarrow> npEgress list result" where
  "custom_rules parseCIDR [] = Inr []"
| "custom_rules parseCIDR (rule # rules) =
     (if TrimSpace (er_CIDR rule) = [] then custom_rules parseCIDR rules
      else
        (case parseCIDR (TrimSpace (er_CIDR rule)) of
           Inl err \<Rightarrow> Inl (ErrWrap (''invalid cidr '' @ Quote (er_CIDR rule) @ '': '') err [])
         | Inr _ \<Rightarrow>
             rbind (custom_rules parseCIDR rules) (\<lambda>rs.
             Inr (\<lparr>ne_To = [TrimSpace (er_CIDR rule)], ne_Ports = map (\<lambda>p. (p, TCP)) (er_Ports rule)\<rparr> # rs))))"

definition BuildRuntimeNetworkPolicy ::
  "(string \<Rightarrow> string) \<Rightarrow> (string \<Rightarrow> unit result) \<Rightarrow> string \<Rightarrow> string \<Rightarrow> NetworkPolicySpec
     \<Rightarrow> NetworkPolicy option result" where
  "BuildRuntimeNetworkPolicy ul parseCIDR agentID sandboxID spec =
     (if \<not> ns_Enabled spec \<or> ns_Mode spec = NetworkPolicyDisabled then Inr None
      else
        rbind (custom_rules parseCIDR (ns_AllowedEgress spec)) (\<lambda>custom.
        Inr (Some
          \<lparr>np_Name = ''shclop-runtime-netpol-'' @ agentID, np_Namespace = [],
           np_Labels = RuntimeLabels ul agentID [] sandboxID,
           np_PodSelector = [''shclop.io/agent-id'' \<mapsto> labelValue ul agentID],
           np_PolicyTypes = [''Egress''],
           np_Egress =
             (if ns_AllowBackend spec
              then [\<lparr>ne_To = [], ne_Ports = [(53, UDP), (53, TCP), (80, TCP), (443, TCP), (4000, TCP), (8080, TCP)]\<rparr>]
              else []) @
             (if ns_AllowVault spec then [\<lparr>ne_To = [], ne_Ports = [(8200, TCP)]\<rparr>] else []) @ custom\<rparr>)))"

text \<open>What a policy lets a selected pod reach: a rule with no destinations allows all of them.
  \<open>inBlock\<close> says which addresses lie in a block.\<close>

definition egress_allows :: "(string \<Rightarrow> 'ip \<Rightarrow> bool) \<Rightarrow> NetworkPolicy \<Rightarrow> 'ip \<Rightarrow> int \<Rightarrow> protocol \<Rightarrow> bool" where
  "egress_allows inBlock pol ip port proto \<longleftrightarrow>
     (\<exists>r\<in>set (np_Egress pol). (port, proto) \<in> set (ne_Ports r) \<and>
        (ne_To r = [] \<or> (\<exists>b\<in>set (ne_To r). inBlock b ip)))"

lemma number_cidrs_ports: "r \<in> set (number_cidrs i raws) \<Longrightarrow> er_Ports r = [443]"
  by (induction raws arbitrary: i) (auto simp: Let_def split: if_splits)

lemma custom_rules_ports:
  "custom_rules pc rules = Inr rs \<Longrightarrow> (\<forall>r\<in>set rules. er_Ports r = [443]) \<Longrightarrow>
     (\<forall>r\<in>set rs. ne_Ports r = [(443, TCP)])"
  by (induction rules arbitrary: rs) (auto split: if_splits sum.splits)

text \<open>C32: what the runtime policy restricts. Every policy built from the configuration, whatever mode
  and CIDR list are set, admits exactly the seven port and protocol pairs below and admits them
  to every address: the configured CIDRs add nothing.\<close>

theorem runtime_policy_reach:
  assumes "BuildRuntimeNetworkPolicy ul parseCIDR a s (NetworkPolicySpecFromConfig en mode cidrs) = Inr (Some pol)"
  shows "egress_allows inBlock pol ip port proto \<longleftrightarrow>
    (port, proto) \<in> {(53, UDP), (53, TCP), (80, TCP), (443, TCP), (4000, TCP), (8080, TCP), (8200, TCP)}"
proof -
  from assms obtain custom where
    c: "custom_rules parseCIDR (number_cidrs 0 (split_on CHR '','' cidrs)) = Inr custom"
    and e: "np_Egress pol =
      [\<lparr>ne_To = [], ne_Ports = [(53, UDP), (53, TCP), (80, TCP), (443, TCP), (4000, TCP), (8080, TCP)]\<rparr>,
       \<lparr>ne_To = [], ne_Ports = [(8200, TCP)]\<rparr>] @ custom"
    by (auto simp: BuildRuntimeNetworkPolicy_def NetworkPolicySpecFromConfig_def split: if_splits)
  have "\<forall>r\<in>set custom. ne_Ports r = [(443, TCP)]"
    using custom_rules_ports [OF c] number_cidrs_ports by blast
  then show ?thesis by (auto simp: egress_allows_def e)
qed

section \<open>The agent pod\<close>

record SecretRef =
  sx_Name :: string
  sx_Key :: string
  sx_EnvName :: string
  sx_MountPath :: string

record SecretKeyRef =
  sk_Name :: string
  sk_Key :: string
  sk_EnvVar :: string

record AgentPodRequest =
  ap_AgentID :: string
  ap_OwnerID :: string
  ap_Image :: string
  ap_RuntimeClassName :: string
  ap_GatewayURL :: string
  ap_Runtime :: string
  ap_SandboxID :: string
  ap_SecretRef :: SecretRef
  ap_WorkspacePVC :: string
  ap_CPU :: string
  ap_Memory :: string
  ap_LLMGatewayBaseURL :: string
  ap_LLMModel :: string
  ap_LLMGatewaySecretRef :: "SecretKeyRef option"
  ap_SystemPrompt :: string
  ap_IntegrationEnv :: "string \<rightharpoonup> string"

record EnvFromSource =
  ef_SecretName :: string
  ef_SecretKey :: string
  ef_EnvVar :: string

record VolumeSpec =
  vs_Name :: string
  vs_PVC :: string
  vs_SecretName :: string
  vs_SecretKey :: string
  vs_SecretPath :: string

record VolumeMount =
  vm_Name :: string
  vm_MountPath :: string
  vm_ReadOnly :: bool

record ContainerSpec =
  co_Name :: string
  co_Image :: string
  co_Privileged :: bool
  co_AllowPrivilegeEscalation :: bool
  co_ReadOnlyRootFilesystem :: bool
  co_RunAsNonRoot :: bool
  co_RunAsUser :: int
  co_SeccompProfile :: string
  co_DropCapabilities :: "string list"
  co_CPU :: string
  co_Memory :: string
  co_Env :: "string \<rightharpoonup> string"
  co_EnvFrom :: "EnvFromSource list"
  co_VolumeMounts :: "VolumeMount list"

record AgentPodSpec =
  as_Name :: string
  as_Labels :: "string \<rightharpoonup> string"
  as_RuntimeClassName :: string
  as_AutomountServiceAccountToken :: bool
  as_HostNetwork :: bool
  as_HostPID :: bool
  as_HostIPC :: bool
  as_FSGroup :: int
  as_Container :: ContainerSpec
  as_Volumes :: "VolumeSpec list"

text \<open>\<open>filepath.Dir\<close> and \<open>filepath.Base\<close> of a clean absolute path.\<close>

definition path_base :: "string \<Rightarrow> string" where
  "path_base p = rev (takeWhile (\<lambda>c. c \<noteq> CHR ''/'') (rev p))"

definition path_dir :: "string \<Rightarrow> string" where
  "path_dir p =
     (let d = rev (dropWhile (\<lambda>c. c \<noteq> CHR ''/'') (rev p)) in
      if d = ''/'' then d else if d = [] then ''.'' else butlast d)"

definition pod_env :: "AgentPodRequest \<Rightarrow> string \<rightharpoonup> string" where
  "pod_env req =
     (let put = (\<lambda>k v m. if v = [] then m else m(k \<mapsto> v)) in
      put ''AGENT_SYSTEM_PROMPT'' (ap_SystemPrompt req)
        (put ''LLM_GATEWAY_MODEL'' (ap_LLMModel req)
          (put ''LLM_GATEWAY_BASE_URL'' (ap_LLMGatewayBaseURL req)
            [''SHCLOP_GATEWAY_URL'' \<mapsto> ap_GatewayURL req, ''SHCLOP_AGENT_ID'' \<mapsto> ap_AgentID req,
             ''SHCLOP_AGENT_FLAVOR'' \<mapsto> ap_Runtime req,
             ''SHCLOP_RUNTIME_TOKEN_FILE'' \<mapsto> sx_MountPath (ap_SecretRef req)]))
      ++ ap_IntegrationEnv req)"

definition BuildAgentPodSpec :: "(string \<Rightarrow> string) \<Rightarrow> AgentPodRequest \<Rightarrow> AgentPodSpec" where
  "BuildAgentPodSpec ul req =
     (let ref = ap_SecretRef req; mount = sx_MountPath ref;
          withToken = (sx_Name ref \<noteq> [] \<and> mount \<noteq> []);
          secretKey = (if sx_Key ref = [] then path_base mount else sx_Key ref);
          labels = RuntimeLabels ul (ap_AgentID req) (ap_Runtime req) (ap_SandboxID req);
          owner = labelValue ul (ap_OwnerID req)
      in \<lparr>as_Name = ''agent-'' @ ap_AgentID req,
          as_Labels = (if owner = [] then labels else labels(''shclop.io/owner-id'' \<mapsto> owner)),
          as_RuntimeClassName = ap_RuntimeClassName req,
          as_AutomountServiceAccountToken = False, as_HostNetwork = False, as_HostPID = False,
          as_HostIPC = False, as_FSGroup = 10001,
          as_Container =
            \<lparr>co_Name = ''runtime'', co_Image = ap_Image req, co_Privileged = False,
             co_AllowPrivilegeEscalation = False, co_ReadOnlyRootFilesystem = True,
             co_RunAsNonRoot = True, co_RunAsUser = 10001, co_SeccompProfile = ''RuntimeDefault'',
             co_DropCapabilities = [''ALL''], co_CPU = ap_CPU req, co_Memory = ap_Memory req,
             co_Env = pod_env req,
             co_EnvFrom = (case ap_LLMGatewaySecretRef req of
                None \<Rightarrow> []
              | Some r \<Rightarrow> [\<lparr>ef_SecretName = sk_Name r, ef_SecretKey = sk_Key r, ef_EnvVar = sk_EnvVar r\<rparr>]),
             co_VolumeMounts =
               [\<lparr>vm_Name = ''workspace'', vm_MountPath = ''/workspace'', vm_ReadOnly = False\<rparr>,
                \<lparr>vm_Name = ''memory'', vm_MountPath = ''/memory'', vm_ReadOnly = False\<rparr>] @
               (if withToken then [\<lparr>vm_Name = ''runtime-token'', vm_MountPath = path_dir mount, vm_ReadOnly = True\<rparr>]
                else [])\<rparr>,
          as_Volumes =
            [\<lparr>vs_Name = ''workspace'', vs_PVC = ap_WorkspacePVC req, vs_SecretName = [], vs_SecretKey = [], vs_SecretPath = []\<rparr>,
             \<lparr>vs_Name = ''memory'', vs_PVC = ap_WorkspacePVC req, vs_SecretName = [], vs_SecretKey = [], vs_SecretPath = []\<rparr>] @
            (if withToken
             then [\<lparr>vs_Name = ''runtime-token'', vs_PVC = [], vs_SecretName = sx_Name ref,
                    vs_SecretKey = secretKey, vs_SecretPath = path_base mount\<rparr>]
             else [])\<rparr>)"

theorem runtime_policy_reach_witness:
  "\<exists>pol. BuildRuntimeNetworkPolicy (\<lambda>t. t) (\<lambda>t. Inr ()) ''g1'' ''s'' (NetworkPolicySpecFromConfig True [] ''10.0.0.0/8'') = Inr (Some pol) \<and>
     egress_allows (\<lambda>block ip. block = ip) pol ''203.0.113.9'' 443 TCP \<and> \<not> egress_allows (\<lambda>block ip. block = ip) pol ''10.1.2.3'' 22 TCP"
proof -
  let ?build = "BuildRuntimeNetworkPolicy (\<lambda>t. t) (\<lambda>t. Inr ()) ''g1'' ''s'' (NetworkPolicySpecFromConfig True [] ''10.0.0.0/8'')"
  have "\<not> isl ?build \<and> projr ?build \<noteq> None" by code_simp
  then obtain pol where "?build = Inr (Some pol)" by (cases ?build) auto
  with runtime_policy_reach [OF this, of "\<lambda>block ip. block = ip"] show ?thesis by (intro exI [of _ pol]) simp
qed

end
