(* ===== verification/Pods.thy ===== *)
theory Pods
  imports Sandbox
begin

text \<open>
  \<open>internal/sandbox\<close>, continued: Kubernetes objects from a pod specification (\<open>k8s_resources.go\<close>),
  the runtime token secret (\<open>secrets.go\<close>), and the providers that need no cluster: Kata
  (\<open>provider.go\<close>), docker (\<open>docker_demo.go\<close>) and mock (\<open>mock_runtime.go\<close>).
\<close>

section \<open>Kubernetes objects\<close>

record PVC =
  pvc_Name :: string
  pvc_Namespace :: string
  pvc_Labels :: "string \<rightharpoonup> string"
  pvc_AccessModes :: "string list"
  pvc_Storage :: string
  pvc_StorageClassName :: "string option"

text \<open>\<open>quantity\<close> is \<open>resource.ParseQuantity\<close>; a quantity is kept as its text.\<close>

definition BuildWorkspacePVC ::
  "(string \<Rightarrow> string) \<Rightarrow> (string \<Rightarrow> string result) \<Rightarrow> string \<Rightarrow> string \<Rightarrow> string \<Rightarrow> string \<Rightarrow> PVC result" where
  "BuildWorkspacePVC ul quantity agentID sandboxID storageClassName size_text =
     (let size1 = (if size_text = [] then ''10Gi'' else size_text) in
      rbind (wrap (''invalid workspace size '' @ Quote size1 @ '': '') (quantity size1)) (\<lambda>qty.
      Inr \<lparr>pvc_Name = ''shclop-workspace-'' @ agentID, pvc_Namespace = [],
           pvc_Labels = RuntimeLabels ul agentID [] sandboxID,
           pvc_AccessModes = [''ReadWriteOnce''], pvc_Storage = qty,
           pvc_StorageClassName = (if storageClassName = [] then None else Some storageClassName)\<rparr>))"

datatype env_value = Plain string | FromSecret string string

record SecurityContext =
  sc_Privileged :: bool
  sc_AllowPrivilegeEscalation :: bool
  sc_ReadOnlyRootFilesystem :: bool
  sc_RunAsNonRoot :: bool
  sc_RunAsUser :: int
  sc_SeccompProfile :: string
  sc_DropCapabilities :: "string list"

record Container =
  ct_Name :: string
  ct_Image :: string
  ct_ImagePullPolicy :: string
  ct_Env :: "(string \<times> env_value) list"
  ct_VolumeMounts :: "VolumeMount list"
  ct_SecurityContext :: SecurityContext
  ct_Resources :: "(string \<times> string) list"

datatype volume_source = NoSource | ClaimSource string | SecretSource string "(string \<times> string) list"

record Pod =
  pod_Name :: string
  pod_Namespace :: string
  pod_Labels :: "string \<rightharpoonup> string"
  pod_AutomountServiceAccountToken :: bool
  pod_HostNetwork :: bool
  pod_HostPID :: bool
  pod_HostIPC :: bool
  pod_FSGroup :: int
  pod_RuntimeClassName :: "string option"
  pod_Containers :: "Container list"
  pod_Volumes :: "(string \<times> volume_source) list"

text \<open>\<open>sort.Strings\<close> of the keys; \<open>ks\<close> is the order in which \<open>range\<close> visits the map.\<close>

definition buildEnvVars :: "string list \<Rightarrow> (string \<rightharpoonup> string) \<Rightarrow> (string \<times> env_value) list" where
  "buildEnvVars ks env =
     List.map_filter (\<lambda>k. map_option (\<lambda>v. (k, Plain v)) (env k)) (sort_slice (<) ks)"

definition buildSecretEnvVars :: "EnvFromSource list \<Rightarrow> (string \<times> env_value) list" where
  "buildSecretEnvVars envFrom =
     map (\<lambda>e. (ef_EnvVar e, FromSecret (ef_SecretName e) (ef_SecretKey e)))
       (filter (\<lambda>e. \<not> (ef_SecretName e = [] \<or> ef_SecretKey e = [] \<or> ef_EnvVar e = [])) envFrom)"

definition buildVolumes :: "VolumeSpec list \<Rightarrow> (string \<times> volume_source) list" where
  "buildVolumes volumes =
     map (\<lambda>v. (vs_Name v,
        if vs_PVC v \<noteq> [] then ClaimSource (vs_PVC v)
        else if vs_SecretName v \<noteq> [] then
          SecretSource (vs_SecretName v)
            (if vs_SecretKey v \<noteq> [] \<or> vs_SecretPath v \<noteq> []
             then [(vs_SecretKey v, if vs_SecretPath v = [] then vs_SecretKey v else vs_SecretPath v)] else [])
        else NoSource)) volumes"

text \<open>\<open>MustParse\<close> panics on a quantity that does not parse: \<open>None\<close>.\<close>

definition must_parse :: "(string \<Rightarrow> string result) \<Rightarrow> string \<Rightarrow> string \<Rightarrow> (string \<times> string) list option" where
  "must_parse quantity name text =
     (if text = [] then Some [] else case quantity text of Inl _ \<Rightarrow> None | Inr q \<Rightarrow> Some [(name, q)])"

definition buildRuntimeContainer ::
  "(string \<Rightarrow> string result) \<Rightarrow> string list \<Rightarrow> ContainerSpec \<Rightarrow> Container option" where
  "buildRuntimeContainer quantity ks spec =
     Option.bind (must_parse quantity ''cpu'' (co_CPU spec)) (\<lambda>cpu.
     Option.bind (must_parse quantity ''memory'' (co_Memory spec)) (\<lambda>memory.
     Some \<lparr>ct_Name = co_Name spec, ct_Image = co_Image spec, ct_ImagePullPolicy = ''IfNotPresent'',
           ct_Env = buildEnvVars ks (co_Env spec) @ buildSecretEnvVars (co_EnvFrom spec),
           ct_VolumeMounts = co_VolumeMounts spec,
           ct_SecurityContext =
             \<lparr>sc_Privileged = False, sc_AllowPrivilegeEscalation = False, sc_ReadOnlyRootFilesystem = True,
              sc_RunAsNonRoot = True, sc_RunAsUser = co_RunAsUser spec, sc_SeccompProfile = ''RuntimeDefault'',
              sc_DropCapabilities = co_DropCapabilities spec\<rparr>,
           ct_Resources = cpu @ memory\<rparr>))"

definition BuildRuntimePod :: "(string \<Rightarrow> string result) \<Rightarrow> string list \<Rightarrow> AgentPodSpec \<Rightarrow> Pod option" where
  "BuildRuntimePod quantity ks spec =
     map_option (\<lambda>c.
       \<lparr>pod_Name = as_Name spec, pod_Namespace = [], pod_Labels = as_Labels spec,
        pod_AutomountServiceAccountToken = as_AutomountServiceAccountToken spec,
        pod_HostNetwork = as_HostNetwork spec, pod_HostPID = as_HostPID spec, pod_HostIPC = as_HostIPC spec,
        pod_FSGroup = as_FSGroup spec,
        pod_RuntimeClassName = (if as_RuntimeClassName spec = [] then None else Some (as_RuntimeClassName spec)),
        pod_Containers = [c], pod_Volumes = buildVolumes (as_Volumes spec)\<rparr>)
       (buildRuntimeContainer quantity ks (as_Container spec))"

definition hardened :: "Pod \<Rightarrow> bool" where
  "hardened p \<longleftrightarrow> \<not> pod_AutomountServiceAccountToken p \<and> \<not> pod_HostNetwork p \<and> \<not> pod_HostPID p \<and> \<not> pod_HostIPC p \<and>
     list_all (\<lambda>c. let s = ct_SecurityContext c in
       \<not> sc_Privileged s \<and> \<not> sc_AllowPrivilegeEscalation s \<and> sc_ReadOnlyRootFilesystem s \<and> sc_RunAsNonRoot s \<and>
       sc_RunAsUser s = 10001 \<and> sc_SeccompProfile s = ''RuntimeDefault'' \<and> sc_DropCapabilities s = [''ALL'']) (pod_Containers p)"

lemma BuildRuntimePod_hardened:
  "BuildRuntimePod quantity ks (BuildAgentPodSpec ul req) = Some p \<Longrightarrow> hardened p"
  by (auto simp: BuildRuntimePod_def BuildAgentPodSpec_def buildRuntimeContainer_def hardened_def Let_def
      split: bind_splits)

text \<open>The plain variables of the pod: sorted by name, one per entry of the environment, and an
  integration's variable replaces one of the server's own.\<close>

lemma buildEnvVars_map:
  assumes "range_order env ks"
  shows "map_of (buildEnvVars ks env) = map_option Plain \<circ> env"
    "sorted (map fst (buildEnvVars ks env))" "distinct (map fst (buildEnvVars ks env))"
proof -
  have ord: "sort_slice (<) ks = sort_slice (\<lambda>a b. id a < id b) ks" by simp
  have s: "set (sort_slice (<) ks) = dom env" "distinct (sort_slice (<) ks)" "sorted (sort_slice (<) ks)"
    using assms sort_slice_key_sorted [of id ks] distinct_map_sort_slice [of id "(<)" ks]
    by (simp_all add: range_order_def)
  have keys: "map fst (List.map_filter (\<lambda>k. map_option (\<lambda>v. (k, Plain v)) (env k)) xs) = xs"
    if "set xs \<subseteq> dom env" for xs
    using that by (induction xs) (auto simp: map_filter_simps)
  from s keys [of "sort_slice (<) ks"] show "sorted (map fst (buildEnvVars ks env))" "distinct (map fst (buildEnvVars ks env))"
    by (simp_all add: buildEnvVars_def)
  have lookup: "map_of (List.map_filter (\<lambda>k. map_option (\<lambda>v. (k, Plain v)) (env k)) xs) k
      = (if k \<in> set xs then map_option Plain (env k) else None)" for xs k
    by (induction xs) (auto simp: map_filter_simps split: option.splits)
  show "map_of (buildEnvVars ks env) = map_option Plain \<circ> env"
  proof
    fix k show "map_of (buildEnvVars ks env) k = (map_option Plain \<circ> env) k"
      using s(1) by (auto simp: buildEnvVars_def lookup domIff)
  qed
qed

section \<open>The runtime token\<close>

record Secret =
  sec_Name :: string
  sec_Namespace :: string
  sec_Labels :: "string \<rightharpoonup> string"
  sec_Type :: string
  sec_Data :: "string \<rightharpoonup> string"
  sec_StringData :: "string \<rightharpoonup> string"

definition DeleteRuntimeTokenName :: "string \<Rightarrow> string" where
  "DeleteRuntimeTokenName agentID = ''shclop-runtime-token-'' @ TrimSpace agentID"

definition BuildRuntimeTokenSecret ::
  "(string \<Rightarrow> string) \<Rightarrow> string \<Rightarrow> string \<Rightarrow> string \<Rightarrow> (SecretRef \<times> Secret) result" where
  "BuildRuntimeTokenSecret ul namespace agentID0 token0 =
     (let agentID = TrimSpace agentID0; token = TrimSpace token0 in
      if agentID = [] then Inl (ErrNew ''agentID is required'')
      else if token = [] then Inl (ErrNew ''token is required'')
      else
        let name = DeleteRuntimeTokenName agentID in
        Inr (\<lparr>sx_Name = name, sx_Key = ''token'', sx_EnvName = ''SHCLOP_RUNTIME_TOKEN'',
              sx_MountPath = ''/var/run/shclop/token''\<rparr>,
             \<lparr>sec_Name = name, sec_Namespace = namespace, sec_Labels = RuntimeLabels ul agentID [] [],
              sec_Type = ''Opaque'', sec_Data = Map.empty, sec_StringData = [''token'' \<mapsto> token]\<rparr>))"

section \<open>Kata\<close>

record AgentRequest =
  aq_AgentID :: string
  aq_OwnerID :: string
  aq_Runtime :: string
  aq_GatewayURL :: string
  aq_SandboxID :: string
  aq_SecretRef :: SecretRef
  aq_WorkspacePVC :: string
  aq_CPU :: string
  aq_Memory :: string

record KataProvider =
  kp_runtimeClassName :: string
  kp_images :: "string \<rightharpoonup> string"

definition BuildAgentPod :: "(string \<Rightarrow> string) \<Rightarrow> KataProvider \<Rightarrow> AgentRequest \<Rightarrow> AgentPodSpec result" where
  "BuildAgentPod ul p req =
     (case kp_images p (aq_Runtime req) of
        None \<Rightarrow> Inl (ErrNew (''unknown runtime '' @ Quote (aq_Runtime req)))
      | Some img \<Rightarrow>
          if img = [] then Inl (ErrNew (''unknown runtime '' @ Quote (aq_Runtime req)))
          else Inr (BuildAgentPodSpec ul
            \<lparr>ap_AgentID = aq_AgentID req, ap_OwnerID = aq_OwnerID req, ap_Image = img,
             ap_RuntimeClassName = kp_runtimeClassName p, ap_GatewayURL = aq_GatewayURL req,
             ap_Runtime = aq_Runtime req, ap_SandboxID = aq_SandboxID req, ap_SecretRef = aq_SecretRef req,
             ap_WorkspacePVC = aq_WorkspacePVC req, ap_CPU = aq_CPU req, ap_Memory = aq_Memory req,
             ap_LLMGatewayBaseURL = [], ap_LLMModel = [], ap_LLMGatewaySecretRef = None,
             ap_SystemPrompt = [], ap_IntegrationEnv = Map.empty\<rparr>))"

section \<open>The RuntimeProvider interface\<close>

record StartRequest =
  st_AgentID :: string
  st_OwnerID :: string
  st_Runtime :: string
  st_RuntimeToken :: string
  st_LLMModel :: string
  st_LLMGatewayBaseURL :: string
  st_LLMGatewaySecretName :: string
  st_LLMGatewaySecretKey :: string
  st_SystemPrompt :: string
  st_IntegrationEnv :: "string \<rightharpoonup> string"

record RuntimeLease =
  rl_AgentID :: string
  rl_Provider :: string
  rl_Runtime :: string
  rl_ExternalID :: string

definition normalizeRuntime :: "(string \<Rightarrow> string) \<Rightarrow> string \<Rightarrow> string" where
  "normalizeRuntime ul runtime =
     (let r = TrimSpace (ToLower ul runtime) in if r = [] then ''nanoclaw'' else r)"

definition isKnownRuntime :: "string \<Rightarrow> bool" where
  "isKnownRuntime runtime \<longleftrightarrow> runtime = ''openclaw'' \<or> runtime = ''nanoclaw''"

text \<open>The mock provider.\<close>

definition mock_Start :: "(string \<Rightarrow> string) \<Rightarrow> ctx \<Rightarrow> StartRequest \<Rightarrow> RuntimeLease result" where
  "mock_Start ul cx request =
     (case cx of
        Some err \<Rightarrow> Inl err
      | None \<Rightarrow> Inr \<lparr>rl_AgentID = st_AgentID request, rl_Provider = ''mock'',
                   rl_Runtime = normalizeRuntime ul (st_Runtime request),
                   rl_ExternalID = ''mock-'' @ st_AgentID request\<rparr>)"

definition mock_Stop :: "ctx \<Rightarrow> string \<Rightarrow> unit result" where
  "mock_Stop cx agentID = (case cx of Some err \<Rightarrow> Inl err | None \<Rightarrow> Inr ())"

section \<open>Docker\<close>

record DockerDemoProvider =
  dd_GatewayURL :: string
  dd_ImagePrefix :: string

definition docker_args :: "DockerDemoProvider \<Rightarrow> string \<Rightarrow> string list \<Rightarrow> StartRequest \<Rightarrow> string list" where
  "docker_args p runtime ks request =
     (let gatewayURL = (if dd_GatewayURL p = [] then ''ws://host.docker.internal:8080/runtime/ws'' else dd_GatewayURL p);
          imagePrefix = (if dd_ImagePrefix p = [] then ''shclop-runtime'' else dd_ImagePrefix p)
      in [''run'', ''--rm'', ''--detach'', ''--name'', ''shclop-agent-'' @ st_AgentID request,
          ''--add-host=host.docker.internal:host-gateway'',
          ''-e'', ''SHCLOP_GATEWAY_URL='' @ gatewayURL,
          ''-e'', ''SHCLOP_AGENT_ID='' @ st_AgentID request,
          ''-e'', ''SHCLOP_RUNTIME_TOKEN='' @ st_RuntimeToken request,
          ''-e'', ''SHCLOP_AGENT_FLAVOR='' @ runtime] @
         (if st_SystemPrompt request = [] then []
          else [''-e'', ''AGENT_SYSTEM_PROMPT='' @ st_SystemPrompt request]) @
         concat (List.map_filter (\<lambda>k. map_option (\<lambda>v. [''-e'', k @ CHR ''='' # v]) (st_IntegrationEnv request k)) ks) @
         [imagePrefix @ CHR ''-'' # runtime @ '':latest''])"

text \<open>\<open>run\<close> is one call of the docker command on a world \<open>'w\<close>; \<open>ks\<close> the order in which the integration
  environment is visited.\<close>

definition docker_Start ::
  "(string \<Rightarrow> string) \<Rightarrow> (string list \<Rightarrow> 'w \<Rightarrow> 'w \<times> unit result) \<Rightarrow> DockerDemoProvider \<Rightarrow> string list
     \<Rightarrow> StartRequest \<Rightarrow> 'w \<Rightarrow> 'w \<times> RuntimeLease result" where
  "docker_Start ul run p ks request w =
     (let runtime = normalizeRuntime ul (st_Runtime request) in
      if TrimSpace (st_AgentID request) = [] \<or> TrimSpace (st_RuntimeToken request) = []
      then (w, Inl (ErrNew ''agent id and runtime token are required''))
      else if \<not> isKnownRuntime runtime
      then (w, Inl (ErrNew (''unsupported runtime '' @ Quote (st_Runtime request))))
      else
        (case run (docker_args p runtime ks request) w of
           (w', Inl err) \<Rightarrow> (w', Inl err)
         | (w', Inr _) \<Rightarrow>
             (w', Inr \<lparr>rl_AgentID = st_AgentID request, rl_Provider = ''docker-demo'', rl_Runtime = runtime,
                       rl_ExternalID = ''shclop-agent-'' @ st_AgentID request\<rparr>)))"

definition docker_Stop ::
  "(string list \<Rightarrow> 'w \<Rightarrow> 'w \<times> unit result) \<Rightarrow> string \<Rightarrow> 'w \<Rightarrow> 'w \<times> unit result" where
  "docker_Stop run agentID w = run [''rm'', ''-f'', ''shclop-agent-'' @ agentID] w"

text \<open>The pod of an agent is hardened whatever the request says: no service account token, no
  host namespaces, one unprivileged container with a read-only root file system, a fixed
  non-root user and every capability dropped.\<close>

theorem agent_pod_hardened:
  assumes "BuildAgentPod ul p req = Inr spec" "BuildRuntimePod quantity ks spec = Some pod"
  shows "hardened pod \<and> length (pod_Containers pod) = 1"
proof -
  from assms(1) obtain r where "spec = BuildAgentPodSpec ul r"
    by (auto simp: BuildAgentPod_def split: option.splits if_splits)
  with assms(2) show ?thesis
    using BuildRuntimePod_hardened [of quantity ks ul r pod] by (auto simp: BuildRuntimePod_def)
qed

definition sample_agent_request :: AgentRequest where
  "sample_agent_request = \<lparr>aq_AgentID = ''g1'', aq_OwnerID = ''u2'', aq_Runtime = ''nanoclaw'', aq_GatewayURL = ''ws://gw'',
     aq_SandboxID = ''sandbox-g1'', aq_SecretRef = \<lparr>sx_Name = ''s'', sx_Key = ''token'', sx_EnvName = ''T'', sx_MountPath = ''/var/run/t''\<rparr>,
     aq_WorkspacePVC = ''w'', aq_CPU = ''1'', aq_Memory = ''1Gi''\<rparr>"

theorem agent_pod_hardened_witness:
  "\<exists>pod. Option.bind (case BuildAgentPod (\<lambda>t. t) \<lparr>kp_runtimeClassName = ''kata'', kp_images = (\<lambda>r. Some ''image'')\<rparr> sample_agent_request of
       Inl err \<Rightarrow> None | Inr spec \<Rightarrow> Some spec) (BuildRuntimePod Inr []) = Some pod \<and>
     hardened pod \<and> length (pod_Containers pod) = 1"
proof -
  let ?build = "BuildAgentPod (\<lambda>t. t) \<lparr>kp_runtimeClassName = ''kata'', kp_images = (\<lambda>r. Some ''image'')\<rparr> sample_agent_request"
  have "\<not> isl ?build \<and> BuildRuntimePod Inr [] (projr ?build) \<noteq> None" by code_simp
  then obtain spec pod where "?build = Inr spec" "BuildRuntimePod Inr [] spec = Some pod" by (cases ?build) auto
  with agent_pod_hardened [OF this] show ?thesis by (intro exI [of _ pod]) simp
qed

end
