(* ===== verification/Config.thy ===== *)
theory Config
  imports Prelude
begin

text \<open>
  \<open>internal/config/config.go\<close>: the configuration read from the environment. \<open>getenv\<close> is
  \<open>os.Getenv\<close>, an argument: a variable that is not set reads as the empty string. \<open>ul\<close> lowers
  text that is not ASCII.
\<close>

record IdPProviderConfig =
  ip_Name :: string
  ip_DisplayName :: string
  ip_Issuer :: string
  ip_ClientID :: string
  ip_ClientSecret :: string
  ip_RedirectURI :: string
  ip_Scopes :: "string list"
  ip_EmailClaim :: string
  ip_NameClaim :: string
  ip_GroupsClaim :: string

record Config =
  c_Addr :: string
  c_Dev :: bool
  c_MockRuntime :: bool
  c_MockLLM :: bool
  c_MockSecrets :: bool
  c_Store :: string
  c_PostgresDSN :: string
  c_SandboxProvider :: string
  c_DockerGatewayURL :: string
  c_RuntimeImagePrefix :: string
  c_AgentRuntimeClassName :: string
  c_RuntimeImages :: "string \<rightharpoonup> string"
  c_KubernetesNamespace :: string
  c_KubernetesGatewayURL :: string
  c_WorkspaceStorageClass :: string
  c_WorkspaceSize :: string
  c_WorkspaceRetention :: string
  c_NetworkPolicyEnabled :: bool
  c_NetworkPolicyMode :: string
  c_NetworkPolicyCIDRs :: string
  c_SecretStore :: string
  c_PodReadyTimeout :: string
  c_LogLevel :: string
  c_Metrics :: bool
  c_StaticDir :: string
  c_LLMGatewayBaseURL :: string
  c_LLMGatewaySecretName :: string
  c_LLMGatewaySecretKey :: string
  c_LLMGatewayAPIKey :: string
  c_BootstrapAdminUsername :: string
  c_IntegrationEncryptionKey :: string
  c_PluginDir :: string
  c_PluginPollInterval :: string
  c_KubeconfigPath :: string
  c_GrafanaURL :: string
  c_IdPProviders :: "IdPProviderConfig list"
  c_AuthCookieKey :: string

definition env :: "(string \<Rightarrow> string) \<Rightarrow> string \<Rightarrow> string \<Rightarrow> string" where
  "env getenv key fallback = (if getenv key \<noteq> [] then getenv key else fallback)"

definition envBool :: "(string \<Rightarrow> string) \<Rightarrow> (string \<Rightarrow> string) \<Rightarrow> string \<Rightarrow> bool \<Rightarrow> bool" where
  "envBool ul getenv key fallback =
     (let value = TrimSpace (ToLower ul (getenv key)) in
      if value = [] then fallback
      else if value \<in> {''1'', ''true'', ''yes'', ''on''} then True
      else if value \<in> {''0'', ''false'', ''no'', ''off''} then False
      else fallback)"

definition default_scope_list :: "string list" where
  "default_scope_list = [''openid'', ''email'', ''profile'']"

definition parseScopes :: "string \<Rightarrow> string list" where
  "parseScopes raw =
     (if raw = [] then default_scope_list
      else
        let scopes = filter (\<lambda>p. p \<noteq> []) (map TrimSpace (split_on CHR '','' raw))
        in if scopes = [] then default_scope_list else scopes)"

definition provider_prefix :: "nat \<Rightarrow> string" where
  "provider_prefix n = ''SHCLOP_IDP_PROVIDER_'' @ Itoa (int n)"

definition read_provider :: "(string \<Rightarrow> string) \<Rightarrow> nat \<Rightarrow> IdPProviderConfig result" where
  "read_provider getenv n =
     (let pre = provider_prefix n; get = (\<lambda>s. getenv (pre @ s));
          name = get ''_NAME''; missing = (\<lambda>what. ''idp provider '' @ Itoa (int n) @ '': missing '' @ what)
      in rbind (refuse [(get ''_ISSUER'' = [], missing ''ISSUER''),
                        (get ''_CLIENT_ID'' = [], missing ''CLIENT_ID''),
                        (get ''_CLIENT_SECRET'' = [], missing ''CLIENT_SECRET''),
                        (get ''_REDIRECT_URI'' = [], missing ''REDIRECT_URI'')]) (\<lambda>_.
         Inr \<lparr>ip_Name = name,
              ip_DisplayName = (if get ''_DISPLAY_NAME'' = [] then ''Sign in with '' @ name else get ''_DISPLAY_NAME''),
              ip_Issuer = get ''_ISSUER'', ip_ClientID = get ''_CLIENT_ID'',
              ip_ClientSecret = get ''_CLIENT_SECRET'', ip_RedirectURI = get ''_REDIRECT_URI'',
              ip_Scopes = parseScopes (get ''_SCOPES''),
              ip_EmailClaim = env getenv (pre @ ''_EMAIL_CLAIM'') ''email'',
              ip_NameClaim = env getenv (pre @ ''_NAME_CLAIM'') ''name'',
              ip_GroupsClaim = env getenv (pre @ ''_GROUPS_CLAIM'') ''groups''\<rparr>))"

text \<open>\<open>left\<close> counts the iterations of \<open>for n := range 32\<close> that remain.\<close>

fun parse_providers ::
  "(string \<Rightarrow> string) \<Rightarrow> nat \<Rightarrow> nat \<Rightarrow> IdPProviderConfig list \<Rightarrow> IdPProviderConfig list result" where
  "parse_providers getenv 0 n providers = Inl (ErrNew ''idp provider limit of 32 exceeded'')"
| "parse_providers getenv (Suc left) n providers =
     (if getenv (provider_prefix n @ ''_NAME'') = [] then Inr providers
      else
        (case read_provider getenv n of
           Inl err \<Rightarrow> Inl err
         | Inr p \<Rightarrow> parse_providers getenv left (Suc n) (providers @ [p])))"

definition parseIdPProviders :: "(string \<Rightarrow> string) \<Rightarrow> IdPProviderConfig list result" where
  "parseIdPProviders getenv = parse_providers getenv 32 0 []"

definition Default :: "(string \<Rightarrow> string) \<Rightarrow> (string \<Rightarrow> string) \<Rightarrow> Config result" where
  "Default ul getenv =
     rbind (parseIdPProviders getenv) (\<lambda>providers. Inr
       \<lparr>c_Addr = '':8080'', c_Dev = False, c_MockRuntime = False, c_MockLLM = False, c_MockSecrets = False,
        c_Store = ''inmemory'', c_PostgresDSN = getenv ''SHCLOP_POSTGRES_DSN'',
        c_SandboxProvider = env getenv ''SHCLOP_SANDBOX_PROVIDER'' ''mock'',
        c_DockerGatewayURL = env getenv ''SHCLOP_DOCKER_GATEWAY_URL'' ''ws://host.docker.internal:8080/runtime/ws'',
        c_RuntimeImagePrefix = env getenv ''SHCLOP_RUNTIME_IMAGE_PREFIX'' ''shclop-runtime'',
        c_AgentRuntimeClassName = env getenv ''SHCLOP_AGENT_RUNTIME_CLASS'' ''kata'',
        c_RuntimeImages =
          [''nanoclaw'' \<mapsto> env getenv ''SHCLOP_RUNTIME_IMAGE_NANOCLAW'' ''shclop-runtime-nanoclaw:latest'',
           ''openclaw'' \<mapsto> env getenv ''SHCLOP_RUNTIME_IMAGE_OPENCLAW'' ''shclop-runtime-openclaw:latest''],
        c_KubernetesNamespace = env getenv ''SHCLOP_KUBERNETES_NAMESPACE'' ''default'',
        c_KubernetesGatewayURL = env getenv ''SHCLOP_KUBERNETES_GATEWAY_URL'' ''ws://shclop-backend:8080/runtime/ws'',
        c_WorkspaceStorageClass = getenv ''SHCLOP_WORKSPACE_STORAGE_CLASS'',
        c_WorkspaceSize = env getenv ''SHCLOP_WORKSPACE_SIZE'' ''10Gi'',
        c_WorkspaceRetention = env getenv ''SHCLOP_WORKSPACE_RETENTION'' ''delete'',
        c_NetworkPolicyEnabled = envBool ul getenv ''SHCLOP_NETWORK_POLICY_ENABLED'' True,
        c_NetworkPolicyMode = env getenv ''SHCLOP_NETWORK_POLICY_MODE'' ''restricted'',
        c_NetworkPolicyCIDRs = getenv ''SHCLOP_NETWORK_POLICY_ALLOWED_CIDRS'',
        c_SecretStore = env getenv ''SHCLOP_RUNTIME_SECRET_STORE'' ''kubernetes'',
        c_PodReadyTimeout = getenv ''SHCLOP_POD_READY_TIMEOUT'',
        c_LogLevel = ''info'', c_Metrics = True, c_StaticDir = ''web/dist'',
        c_LLMGatewayBaseURL = getenv ''SHCLOP_LLM_GATEWAY_BASE_URL'',
        c_LLMGatewaySecretName = getenv ''SHCLOP_LLM_GATEWAY_SECRET_NAME'',
        c_LLMGatewaySecretKey = getenv ''SHCLOP_LLM_GATEWAY_SECRET_KEY'',
        c_LLMGatewayAPIKey = getenv ''SHCLOP_LLM_GATEWAY_API_KEY'',
        c_BootstrapAdminUsername = env getenv ''SHCLOP_BOOTSTRAP_ADMIN_USERNAME'' ''admin'',
        c_IntegrationEncryptionKey = getenv ''SHCLOP_INTEGRATION_ENCRYPTION_KEY'',
        c_PluginDir = env getenv ''SHCLOP_PLUGIN_DIR'' ''/etc/shclop/plugins.d/'',
        c_PluginPollInterval = env getenv ''SHCLOP_PLUGIN_POLL_INTERVAL'' ''10s'',
        c_KubeconfigPath = getenv ''KUBECONFIG'', c_GrafanaURL = getenv ''SHCLOP_GRAFANA_URL'',
        c_IdPProviders = providers, c_AuthCookieKey = getenv ''SHCLOP_AUTH_COOKIE_KEY''\<rparr>)"

definition provider_check :: "int \<Rightarrow> IdPProviderConfig \<Rightarrow> unit result" where
  "provider_check i p =
     (let missing = (\<lambda>what. ''idp provider '' @ Itoa i @ '': missing '' @ what) in
      refuse [(ip_Name p = [], missing ''NAME''), (ip_Issuer p = [], missing ''ISSUER''),
              (ip_ClientID p = [], missing ''CLIENT_ID''), (ip_ClientSecret p = [], missing ''CLIENT_SECRET''),
              (ip_RedirectURI p = [], missing ''REDIRECT_URI'')])"

definition Config_Validate :: "Config \<Rightarrow> unit result" where
  "Config_Validate c =
     first_failure
       (refuse [(c_IdPProviders c \<noteq> [] \<and> c_AuthCookieKey c = [] \<and> \<not> c_Dev c,
                 ''SHCLOP_AUTH_COOKIE_KEY must be set when IdP providers are configured'')] #
        map (\<lambda>(i, p). provider_check (int i) p) (enumerate 0 (c_IdPProviders c)))"

section \<open>Facts\<close>

definition provider_ok :: "IdPProviderConfig \<Rightarrow> bool" where
  "provider_ok p \<longleftrightarrow> ip_Name p \<noteq> [] \<and> ip_Issuer p \<noteq> [] \<and> ip_ClientID p \<noteq> [] \<and> ip_ClientSecret p \<noteq> [] \<and>
     ip_RedirectURI p \<noteq> [] \<and> ip_Scopes p \<noteq> [] \<and> ip_EmailClaim p \<noteq> []"

lemma parseScopes_nonempty: "parseScopes raw \<noteq> []"
  by (simp add: parseScopes_def default_scope_list_def Let_def)

lemma parseScopes_trimmed: "[] \<notin> set (parseScopes raw)"
  by (simp add: parseScopes_def default_scope_list_def Let_def)

lemma env_nonempty: "fallback \<noteq> [] \<Longrightarrow> env getenv key fallback \<noteq> []"
  by (simp add: env_def)

lemma read_provider_ok:
  "read_provider getenv n = Inr p \<Longrightarrow> getenv (provider_prefix n @ ''_NAME'') \<noteq> [] \<Longrightarrow> provider_ok p"
  by (auto simp: read_provider_def provider_ok_def Let_def parseScopes_nonempty env_nonempty)

lemma parse_providers_Inr:
  "parse_providers getenv left n ps = Inr qs \<Longrightarrow>
     (\<forall>p\<in>set ps. provider_ok p) \<Longrightarrow> (\<forall>q\<in>set qs. provider_ok q) \<and> length qs < length ps + left"
proof (induction getenv left n ps rule: parse_providers.induct)
  case (1 getenv n ps)
  then show ?case by simp
next
  case (2 getenv left n ps)
  show ?case
  proof (cases "getenv (provider_prefix n @ ''_NAME'') = []")
    case True
    with 2 show ?thesis by simp
  next
    case False
    with 2 obtain p where p: "read_provider getenv n = Inr p"
      "parse_providers getenv left (Suc n) (ps @ [p]) = Inr qs"
      by (auto split: sum.splits)
    from 2(1) [OF False p] 2(3) read_provider_ok [OF p(1) False] show ?thesis by auto
  qed
qed

lemma provider_check_ok: "provider_ok p \<Longrightarrow> provider_check i p = Inr ()"
  by (simp add: provider_check_def provider_ok_def Let_def)

text \<open>A configuration read from the environment has fewer than 32 providers, each complete,
  with scopes and an email claim, so \<open>Validate\<close> can only object to a missing cookie key.\<close>

theorem Default_validates:
  assumes "Default ul getenv = Inr c"
  shows "length (c_IdPProviders c) < 32 \<and> list_all provider_ok (c_IdPProviders c) \<and>
    Config_Validate c =
      (if c_IdPProviders c \<noteq> [] \<and> c_AuthCookieKey c = []
       then Inl (ErrNew ''SHCLOP_AUTH_COOKIE_KEY must be set when IdP providers are configured'') else Inr ())"
proof -
  from assms have p: "parse_providers getenv 32 0 [] = Inr (c_IdPProviders c)" and dev: "\<not> c_Dev c"
    by (auto simp: Default_def parseIdPProviders_def)
  from parse_providers_Inr [OF p] have ok: "\<forall>q\<in>set (c_IdPProviders c). provider_ok q"
    and len: "length (c_IdPProviders c) < 32" by simp_all
  have "first_failure (map (\<lambda>(i, p). provider_check (int i) p) (enumerate 0 (c_IdPProviders c))) = Inr ()"
    using ok by (auto simp: provider_check_ok in_set_enumerate_eq)
  with ok len dev show ?thesis
    by (simp add: Config_Validate_def list_all_iff first_failure.simps refuse.simps)
qed

lemma parse_providers_full:
  "(\<forall>k<left. getenv (provider_prefix (n + k) @ ''_NAME'') \<noteq> [] \<and> (\<exists>p. read_provider getenv (n + k) = Inr p)) \<Longrightarrow>
     parse_providers getenv left n ps = Inl (ErrNew ''idp provider limit of 32 exceeded'')"
proof (induction getenv left n ps rule: parse_providers.induct)
  case (1 getenv n ps)
  then show ?case by simp
next
  case (2 getenv left n ps)
  from 2(2) obtain p where "getenv (provider_prefix n @ ''_NAME'') \<noteq> []" "read_provider getenv n = Inr p"
    by force
  moreover have "\<forall>k<left. getenv (provider_prefix (Suc n + k) @ ''_NAME'') \<noteq> [] \<and>
      (\<exists>p. read_provider getenv (Suc n + k) = Inr p)"
    using 2(2) by (metis Suc_less_eq add_Suc add_Suc_right)
  ultimately show ?case using 2(1) by simp
qed

text \<open>The limit is 31 providers, not 32: an environment with exactly the providers 0 to 31, all
  complete, is refused as exceeding 32.\<close>

theorem thirty_two_providers_refused:
  assumes "\<And>n. n < 32 \<Longrightarrow> getenv (provider_prefix n @ ''_NAME'') \<noteq> [] \<and> (\<exists>p. read_provider getenv n = Inr p)"
  shows "Default ul getenv = Inl (ErrNew ''idp provider limit of 32 exceeded'')"
  using parse_providers_full [of 32 getenv 0 "[]"] assms
  by (simp add: Default_def parseIdPProviders_def)

theorem Default_validates_witness:
  "\<exists>c. Default (\<lambda>t. t) (\<lambda>k. []) = Inr c \<and> length (c_IdPProviders c) < 32 \<and> Config_Validate c = Inr ()"
proof -
  have "(case Default (\<lambda>t. t) (\<lambda>k. []) of Inl err \<Rightarrow> False | Inr c \<Rightarrow> c_IdPProviders c = [])" by code_simp
  then obtain c where "Default (\<lambda>t. t) (\<lambda>k. []) = Inr c" "c_IdPProviders c = []" by (auto split: sum.splits)
  with Default_validates [OF this(1)] show ?thesis by simp
qed

theorem thirty_two_providers_refused_witness:
  "Default (\<lambda>t. t) (\<lambda>k. ''x'') = Inl (ErrNew ''idp provider limit of 32 exceeded'')"
  by (rule thirty_two_providers_refused) (simp add: read_provider_def Let_def)

end
