(* ===== verification/Http.thy ===== *)
theory Http
  imports Integrations IdP Pods Config "HOL-Library.Monad_Syntax"
begin

text \<open>
  The frame of \<open>internal/api\<close>: requests and responses, the decoding of JSON bodies, the server's
  state (\<open>type Server\<close> of \<open>server.go\<close>) and what every handler shares: the activity log, the session
  check and the error responses.

  A request carries what its handler reads from outside: headers, path values, query and body;
  \<open>q_ctx i\<close> is \<open>r.Context().Err()\<close> as the \<open>i\<close>-th context-taking call of the handler finds it, \<open>q_now i\<close>
  and \<open>q_rnd i\<close> its \<open>i\<close>-th clock reading and random read, so a request that is cancelled half way
  is a value of the type. Maps are visited in the orders \<open>q_order\<close> gives. The world the sandbox
  provider acts on is of any type \<open>'w\<close>. Third-party code is the record \<open>api_env\<close>.
\<close>

section \<open>Requests\<close>

record Request =
  q_method :: string
  q_path :: string
  q_pathvalue :: "string \<Rightarrow> string"
  q_query :: "string \<Rightarrow> string list"
  q_authorization :: string
  q_cookie :: "string \<rightharpoonup> string"
  q_origin :: string
  q_host :: string
  q_remote :: string
  q_body :: "any option"
  q_ctx :: "nat \<Rightarrow> ctx"
  q_now :: "nat \<Rightarrow> time"
  q_rnd :: "nat \<Rightarrow> rnd"
  q_order :: "string list"

text \<open>\<open>url.Values.Get\<close>: the first value, or the empty string.\<close>

definition query_get :: "Request \<Rightarrow> string \<Rightarrow> string" where
  "query_get q k = (case q_query q k of [] \<Rightarrow> [] | v # vs \<Rightarrow> v)"

section \<open>JSON bodies\<close>

text \<open>
  \<open>json.NewDecoder(r.Body).Decode(&request)\<close>: \<open>q_body\<close> is the first JSON value of the body, \<open>None\<close>
  when there is none. Keys match a field's name up to case folding, a later key overwrites an
  earlier one, a \<open>null\<close> leaves a value alone and clears a pointer, and a value of the wrong type
  fails the decoding.
\<close>

function fold_key :: "string \<Rightarrow> string" where
  "fold_key [] = []"
| "fold_key (c # s) =
     (if c = CHR 0xC5 \<and> prefix [CHR 0xBF] s then CHR ''s'' # fold_key (drop 1 s)
      else if c = CHR 0xE2 \<and> prefix [CHR 0x84, CHR 0xAA] s then CHR ''k'' # fold_key (drop 2 s)
      else lower_char c # fold_key s)"
  by pat_completeness auto
termination by (relation "measure length") auto

definition json_object :: "any option \<Rightarrow> (string \<times> any) list option" where
  "json_object body =
     (case body of Some AnyNil \<Rightarrow> Some [] | Some (AnyMap kvs) \<Rightarrow> Some kvs | _ \<Rightarrow> None)"

fun last_value :: "('a \<Rightarrow> any \<Rightarrow> 'a option) \<Rightarrow> 'a \<Rightarrow> any list \<Rightarrow> 'a option" where
  "last_value conv acc [] = Some acc"
| "last_value conv acc (v # vs) =
     (case conv acc v of None \<Rightarrow> None | Some acc' \<Rightarrow> last_value conv acc' vs)"

definition json_field :: "('a \<Rightarrow> any \<Rightarrow> 'a option) \<Rightarrow> 'a \<Rightarrow> (string \<times> any) list \<Rightarrow> string \<Rightarrow> 'a option" where
  "json_field conv zero obj name =
     last_value conv zero (map snd (filter (\<lambda>kv. fold_key (fst kv) = name) obj))"

definition conv_string :: "string \<Rightarrow> any \<Rightarrow> string option" where
  "conv_string acc v = (case v of AnyNil \<Rightarrow> Some acc | AnyString t \<Rightarrow> Some t | _ \<Rightarrow> None)"

definition json_bool :: "any \<Rightarrow> bool option" where
  "json_bool v =
     (case v of AnyOther t \<Rightarrow> if t = ''true'' then Some True else if t = ''false'' then Some False else None
      | _ \<Rightarrow> None)"

definition conv_bool :: "bool \<Rightarrow> any \<Rightarrow> bool option" where
  "conv_bool acc v = (if v = AnyNil then Some acc else json_bool v)"

definition conv_ptr :: "('a \<Rightarrow> any \<Rightarrow> 'a option) \<Rightarrow> 'a \<Rightarrow> 'a option \<Rightarrow> any \<Rightarrow> 'a option option" where
  "conv_ptr conv zero acc v =
     (if v = AnyNil then Some None
      else map_option Some (conv (case acc of Some x \<Rightarrow> x | None \<Rightarrow> zero) v))"

fun conv_entries :: "(string \<times> any) list \<Rightarrow> (string \<times> string) list option" where
  "conv_entries [] = Some []"
| "conv_entries ((k, v) # kvs) =
     (case (conv_string [] v, conv_entries kvs) of
        (Some t, Some r) \<Rightarrow> Some ((k, t) # r)
      | _ \<Rightarrow> None)"

text \<open>A \<open>map[string]string\<close>; the entries are kept with the ones decoded last in front.\<close>

definition conv_map :: "(string \<times> string) list \<Rightarrow> any \<Rightarrow> (string \<times> string) list option" where
  "conv_map acc v =
     (case v of AnyNil \<Rightarrow> Some [] | AnyMap kvs \<Rightarrow> map_option (\<lambda>es. rev es @ acc) (conv_entries kvs) | _ \<Rightarrow> None)"

abbreviation str_field :: "(string \<times> any) list \<Rightarrow> string \<Rightarrow> string option" where
  "str_field \<equiv> json_field conv_string []"

abbreviation bool_field :: "(string \<times> any) list \<Rightarrow> string \<Rightarrow> bool option" where
  "bool_field \<equiv> json_field conv_bool False"

abbreviation str_ptr_field :: "(string \<times> any) list \<Rightarrow> string \<Rightarrow> string option option" where
  "str_ptr_field \<equiv> json_field (conv_ptr conv_string []) None"

abbreviation bool_ptr_field :: "(string \<times> any) list \<Rightarrow> string \<Rightarrow> bool option option" where
  "bool_ptr_field \<equiv> json_field (conv_ptr conv_bool False) None"

section \<open>Responses\<close>

record activityEntry =
  ac_Time :: time
  ac_Type :: string
  ac_ActorID :: string
  ac_AgentID :: string
  ac_Message :: string
  ac_Details :: "(string \<times> any) list"

text \<open>\<open>RedirectTo\<close> is the address given to \<open>http.Redirect\<close>, which cleans it (\<open>path.Clean\<close>) when it has no host.\<close>

datatype body =
    NoBody
  | Text string
  | RedirectTo string
  | JStatus string
  | JError string
  | JUser User
  | JSession User string
  | JUsers "User list"
  | JAgent Agent
  | JAgents "Agent list"
  | JModel LLMModel
  | JModels "LLMModel list"
  | JGateway LLMGatewaySettings
  | JSummary IntegrationSummary
  | JConnection string string string string string int
  | JBinding AgentIntegration
  | JManifest PluginManifest
  | JManifests "PluginManifest list"
  | JOverview AdminOverview
  | JActivity "activityEntry list"
  | JProviders "IdPProviderSummary list"
  | JAuthSettings AuthSettings
  | JIdentities "UserIdentity list"

record Cookie =
  ck_Name :: string
  ck_Value :: string
  ck_Path :: string
  ck_HttpOnly :: bool
  ck_SameSite :: string
  ck_MaxAge :: int

record Response =
  rp_Status :: int
  rp_Cookies :: "Cookie list"
  rp_Body :: body

definition http_Error :: "string \<Rightarrow> int \<Rightarrow> Response" where
  "http_Error msg code = \<lparr>rp_Status = code, rp_Cookies = [], rp_Body = Text msg\<rparr>"

definition NotFound :: Response where
  "NotFound = http_Error ''404 page not found'' 404"

definition writeStoreError :: "go_error \<Rightarrow> Response" where
  "writeStoreError err = http_Error ''internal server error'' 500"

definition writeJSON :: "int \<Rightarrow> body \<Rightarrow> Response" where
  "writeJSON status value = \<lparr>rp_Status = status, rp_Cookies = [], rp_Body = value\<rparr>"

definition WriteHeader :: "int \<Rightarrow> Response" where
  "WriteHeader status = \<lparr>rp_Status = status, rp_Cookies = [], rp_Body = NoBody\<rparr>"

definition methodNotAllowed :: Response where
  "methodNotAllowed = http_Error ''method not allowed'' 405"

definition SetCookie :: "Cookie \<Rightarrow> Response \<Rightarrow> Response" where
  "SetCookie c r = r\<lparr>rp_Cookies := c # rp_Cookies r\<rparr>"

definition session_cookie :: "string \<Rightarrow> Cookie" where
  "session_cookie token =
     \<lparr>ck_Name = ''shclop_session'', ck_Value = token, ck_Path = ''/'', ck_HttpOnly = True,
      ck_SameSite = ''Strict'', ck_MaxAge = 0\<rparr>"

lemmas response_defs = http_Error_def NotFound_def writeStoreError_def writeJSON_def WriteHeader_def
  methodNotAllowed_def SetCookie_def session_cookie_def

lemma rp_Status_simps [simp]:
  "rp_Status (http_Error msg code) = code" "rp_Status NotFound = 404"
  "rp_Status (writeStoreError e) = 500" "rp_Status (writeJSON code v) = code"
  "rp_Status (WriteHeader code) = code" "rp_Status (SetCookie c r) = rp_Status r"
  "rp_Status methodNotAllowed = 405"
  by (simp_all add: response_defs)

lemma rs_Cookies_simps [simp]:
  "rp_Cookies (http_Error msg code) = []" "rp_Cookies NotFound = []"
  "rp_Cookies (writeStoreError e) = []" "rp_Cookies (writeJSON code v) = []"
  "rp_Cookies (WriteHeader code) = []" "rp_Cookies (SetCookie c r) = c # rp_Cookies r"
  "rp_Cookies methodNotAllowed = []"
  by (simp_all add: response_defs)

section \<open>The server\<close>

record MetricsCollectors =
  mc_agentStarts :: nat
  mc_agentStops :: nat
  mc_agentFailures :: nat
  mc_runtimePodFailures :: nat
  mc_chatEvents :: nat
  mc_taskEvents :: nat
  mc_modelAllowlistErrors :: nat
  mc_gatewayErrors :: nat

record 'w Server =
  s_cfg :: Config
  s_auth :: Service
  s_store :: Memory
  s_sandbox :: 'w
  s_box :: SecretBox
  s_plugins :: MergedRegistry
  s_resolver :: "string option"
  s_idp :: idpRegistry
  s_codec :: CookieCodec
  s_tokens :: "string \<rightharpoonup> string"
  s_activity :: "activityEntry list"
  s_metrics :: MetricsCollectors
  s_bootstrapped :: bool

text \<open>
  The code the server calls and does not own: ciphers, gob, the plugin machinery's parsers and HTTP
  client, bcrypt, the process environment, Unicode case tables, the sandbox provider, the JSON
  text of the MCP servers, the LiteLLM model list (status and ids, or an error), RFC 3339, OAuth2
  and the ID token verifier, SHA-256.
\<close>

record 'w api_env =
  e_crypto :: crypto_ops
  e_gob :: gob_ops
  e_plugin :: plugin_ops
  e_bcrypt_compare :: "string \<Rightarrow> string \<Rightarrow> bool"
  e_bcrypt_generate :: "rnd \<Rightarrow> string \<Rightarrow> string result"
  e_getenv :: "string \<Rightarrow> string"
  e_ul :: "string \<Rightarrow> string"
  e_Start :: "ctx \<Rightarrow> StartRequest \<Rightarrow> 'w \<Rightarrow> 'w \<times> RuntimeLease result"
  e_Stop :: "ctx \<Rightarrow> string \<Rightarrow> 'w \<Rightarrow> 'w \<times> unit result"
  e_marshal :: "ResolvedMCPServer list \<Rightarrow> string result"
  e_models :: "string \<Rightarrow> string \<Rightarrow> (int \<times> string list result) result"
  e_parse_time :: "string \<Rightarrow> time result"
  e_exchange :: "OIDCProvider \<Rightarrow> string \<Rightarrow> string \<Rightarrow> string option result"
  e_verify :: "OIDCProvider \<Rightarrow> string \<Rightarrow> IDToken result"
  e_auth_code_url :: "OAuth2Config \<Rightarrow> string \<Rightarrow> string \<Rightarrow> string \<Rightarrow> string"
  e_sha256 :: "string \<Rightarrow> string"

section \<open>The activity log\<close>

definition keep_last :: "nat \<Rightarrow> 'a list \<Rightarrow> 'a list" where
  "keep_last n xs = drop (length xs - n) xs"

definition recordActivity ::
  "time \<Rightarrow> string \<Rightarrow> string \<Rightarrow> string \<Rightarrow> string \<Rightarrow> (string \<times> any) list \<Rightarrow> 'w Server \<Rightarrow> 'w Server" where
  "recordActivity now eventType actorID agentID message details s =
     s\<lparr>s_activity := keep_last 200 (s_activity s @
        [\<lparr>ac_Time = now, ac_Type = eventType, ac_ActorID = actorID, ac_AgentID = agentID,
          ac_Message = message, ac_Details = details\<rparr>])\<rparr>"

definition activityForUser :: "User \<Rightarrow> 'w Server \<Rightarrow> activityEntry list" where
  "activityForUser user s =
     (if u_Role user = ''admin'' then s_activity s
      else filter (\<lambda>entry. ac_ActorID entry = u_ID user) (s_activity s))"

lemma recordActivity_simps [simp]:
  "s_cfg (recordActivity n t ac ag m d s) = s_cfg s"
  "s_auth (recordActivity n t ac ag m d s) = s_auth s"
  "s_store (recordActivity n t ac ag m d s) = s_store s"
  "s_sandbox (recordActivity n t ac ag m d s) = s_sandbox s"
  "s_idp (recordActivity n t ac ag m d s) = s_idp s"
  "s_codec (recordActivity n t ac ag m d s) = s_codec s"
  "s_tokens (recordActivity n t ac ag m d s) = s_tokens s"
  "s_metrics (recordActivity n t ac ag m d s) = s_metrics s"
  "s_bootstrapped (recordActivity n t ac ag m d s) = s_bootstrapped s"
  "s_plugins (recordActivity n t ac ag m d s) = s_plugins s"
  "s_box (recordActivity n t ac ag m d s) = s_box s"
  "s_resolver (recordActivity n t ac ag m d s) = s_resolver s"
  by (simp_all add: recordActivity_def)

lemma length_keep_last: "length (keep_last n xs) \<le> n"
  by (simp add: keep_last_def)

lemma activity_bounded: "length (s_activity (recordActivity n t ac ag m d s)) \<le> 200"
  by (simp add: recordActivity_def length_keep_last)

lemma activity_newest:
  "last (s_activity (recordActivity n t ac ag m d s)) =
     \<lparr>ac_Time = n, ac_Type = t, ac_ActorID = ac, ac_AgentID = ag, ac_Message = m, ac_Details = d\<rparr>"
  by (simp add: recordActivity_def keep_last_def)

section \<open>Sessions\<close>

definition bearer :: string where
  "bearer = ''Bearer ''"

definition bearer_token :: "string \<Rightarrow> string" where
  "bearer_token authorization =
     (if HasPrefix authorization bearer then TrimSpace (TrimPrefix authorization bearer) else [])"

definition unauthorized :: Response where
  "unauthorized = http_Error ''unauthorized'' 401"

definition forbidden :: Response where
  "forbidden = http_Error ''forbidden'' 403"

lemma auth_status [simp]: "rp_Status unauthorized = 401" "rp_Status forbidden = 403"
  by (simp_all add: unauthorized_def forbidden_def)

definition enforceCurrentUser :: "Request \<Rightarrow> User \<Rightarrow> 'w Server \<Rightarrow> Response + User" where
  "enforceCurrentUser q cached s =
     (case GetUser (q_ctx q 0) (u_ID cached) (s_store s) of
        Inl err \<Rightarrow> if errors_Is err ErrNotFound then Inl unauthorized else Inl (writeStoreError err)
      | Inr current \<Rightarrow> if u_Disabled current then Inl unauthorized else Inr current)"

definition session_user :: "Request \<Rightarrow> string \<Rightarrow> 'w Server \<Rightarrow> Response + User" where
  "session_user q token s =
     (if token = [] then Inl unauthorized
      else
        (case Resolve token (s_auth s) of
           None \<Rightarrow> Inl unauthorized
         | Some user \<Rightarrow> enforceCurrentUser q user s))"

definition requireUser :: "Request \<Rightarrow> 'w Server \<Rightarrow> Response + User" where
  "requireUser q s = session_user q (bearer_token (q_authorization q)) s"

text \<open>The cookie first, the header when it is absent or blank.\<close>

definition request_token :: "Request \<Rightarrow> string" where
  "request_token q =
     (let token = (case q_cookie q ''shclop_session'' of Some v \<Rightarrow> TrimSpace v | None \<Rightarrow> [])
      in if token = [] then bearer_token (q_authorization q) else token)"

definition requireUserFromRequest :: "Request \<Rightarrow> 'w Server \<Rightarrow> Response + User" where
  "requireUserFromRequest q s = session_user q (request_token q) s"

text \<open>A caller let in holds a live session of an account that exists and is enabled now, with the
  role it has now.\<close>

lemma session_user_Inr:
  assumes "session_user q token s = Inr user"
  shows "user \<in> set (m_users (s_store s))" "\<not> u_Disabled user" "q_ctx q 0 = None"
    "\<exists>cached. Resolve token (s_auth s) = Some cached \<and> u_ID cached = u_ID user"
  using assms
  by (auto simp: session_user_def enforceCurrentUser_def GetUser_def find_or_not_found_def
      split: if_splits option.splits sum.splits dest: find_SomeD)

lemmas requireUser_Inr = session_user_Inr [of q "bearer_token (q_authorization q)" s user for q s user,
    folded requireUser_def]

lemma session_user_Inl: "session_user q token s = Inl r \<Longrightarrow> rp_Status r = 401 \<or> rp_Status r = 500"
  by (auto simp: session_user_def enforceCurrentUser_def split: if_splits option.splits sum.splits)

text \<open>\<open>user, ok := s.requireUser(w, r); if !ok { return }\<close>, the same followed by the role check, and
  by the lookup of an agent the caller owns or administers.\<close>

definition with_user :: "Request \<Rightarrow> 'w Server \<Rightarrow> (User \<Rightarrow> 'w Server \<times> Response) \<Rightarrow> 'w Server \<times> Response" where
  "with_user q s f = (case requireUser q s of Inl r \<Rightarrow> (s, r) | Inr user \<Rightarrow> f user)"

definition with_admin :: "Request \<Rightarrow> 'w Server \<Rightarrow> (User \<Rightarrow> 'w Server \<times> Response) \<Rightarrow> 'w Server \<times> Response" where
  "with_admin q s f =
     with_user q s (\<lambda>user. if u_Role user \<noteq> ''admin'' then (s, forbidden) else f user)"

definition visible_agent :: "User \<Rightarrow> Agent \<Rightarrow> bool" where
  "visible_agent user agent \<longleftrightarrow> a_OwnerUserID agent = u_ID user \<or> u_Role user = ''admin''"

definition load_agent :: "ctx \<Rightarrow> User \<Rightarrow> string \<Rightarrow> 'w Server \<Rightarrow> Response + Agent" where
  "load_agent cx user agentID s =
     (case GetAgent cx agentID (s_store s) of
        Inl err \<Rightarrow> if errors_Is err ErrNotFound then Inl NotFound else Inl (writeStoreError err)
      | Inr agent \<Rightarrow> if visible_agent user agent then Inr agent else Inl NotFound)"

definition with_agent ::
  "Request \<Rightarrow> string \<Rightarrow> 'w Server \<Rightarrow> (User \<Rightarrow> Agent \<Rightarrow> 'w Server \<times> Response) \<Rightarrow> 'w Server \<times> Response" where
  "with_agent q agentID s f =
     with_user q s (\<lambda>user.
       (case load_agent (q_ctx q 1) user agentID s of Inl r \<Rightarrow> (s, r) | Inr agent \<Rightarrow> f user agent))"

lemma load_agent_Inr:
  "load_agent cx user agentID s = Inr agent \<Longrightarrow>
     GetAgent cx agentID (s_store s) = Inr agent \<and> a_ID agent = agentID \<and> visible_agent user agent"
  by (auto simp: load_agent_def GetAgent_def find_or_not_found_def
      split: sum.splits option.splits if_splits dest: find_SomeD)

text \<open>\<open>x, err := call(); if err != nil { s.writeStoreError(w, err); return }\<close> for a call that reads,
  and for one that writes the store.\<close>

definition or_500 :: "'w Server \<Rightarrow> 'a result \<Rightarrow> ('a \<Rightarrow> 'w Server \<times> Response) \<Rightarrow> 'w Server \<times> Response" where
  "or_500 s r f = (case r of Inl err \<Rightarrow> (s, writeStoreError err) | Inr x \<Rightarrow> f x)"

definition store_call ::
  "(Memory \<Rightarrow> Memory \<times> 'a result) \<Rightarrow> 'w Server \<Rightarrow> 'w Server \<times> 'a result" where
  "store_call op s = (case op (s_store s) of (m, r) \<Rightarrow> (s\<lparr>s_store := m\<rparr>, r))"

text \<open>\<open>if err := Decode(&request); err != nil { http.Error(w, "bad request", 400); return }\<close>\<close>

definition or_400 :: "'w Server \<Rightarrow> 'a option \<Rightarrow> ('a \<Rightarrow> 'w Server \<times> Response) \<Rightarrow> 'w Server \<times> Response" where
  "or_400 s r f = (case r of None \<Rightarrow> (s, http_Error ''bad request'' 400) | Some x \<Rightarrow> f x)"

lemma frame_simps [simp]:
  "or_500 s (Inl e) f = (s, writeStoreError e)" "or_500 s (Inr x) f = f x"
  "or_400 s None g = (s, http_Error ''bad request'' 400)" "or_400 s (Some x) g = g x"
  by (simp_all add: or_500_def or_400_def)

lemma store_call_simps [simp]:
  "s_cfg (fst (store_call op s)) = s_cfg s"
  "s_auth (fst (store_call op s)) = s_auth s"
  "s_store (fst (store_call op s)) = fst (op (s_store s))"
  "s_sandbox (fst (store_call op s)) = s_sandbox s"
  "s_idp (fst (store_call op s)) = s_idp s"
  "s_codec (fst (store_call op s)) = s_codec s"
  "s_tokens (fst (store_call op s)) = s_tokens s"
  "s_activity (fst (store_call op s)) = s_activity s"
  "s_metrics (fst (store_call op s)) = s_metrics s"
  "s_bootstrapped (fst (store_call op s)) = s_bootstrapped s"
  "s_plugins (fst (store_call op s)) = s_plugins s"
  "s_box (fst (store_call op s)) = s_box s"
  "s_resolver (fst (store_call op s)) = s_resolver s"
  "snd (store_call op s) = snd (op (s_store s))"
  by (simp_all add: store_call_def split: prod.splits)

end
