(* ===== verification/ApiAgents.thy ===== *)
theory ApiAgents
  imports Http
begin

text \<open>
  The handlers of \<open>internal/api/server.go\<close> for password login, agents and integrations, one
  definition per handler: environment, request and server in, the server and the response out.
  Every call that changes state is there, in the code's order; the guards are the code's. Store calls made inside one loop of the integration service read the
  request's context once.
\<close>

section \<open>Bootstrap and login\<close>

definition requireBootstrapPassword :: "(string \<Rightarrow> string) \<Rightarrow> Config \<Rightarrow> unit result" where
  "requireBootstrapPassword getenv cfg =
     (if c_Store cfg = ''inmemory'' \<or> c_SandboxProvider cfg = ''mock'' \<or> c_Dev cfg then Inr ()
      else if getenv ''SHCLOP_BOOTSTRAP_ADMIN_PASSWORD'' = []
      then Inl (ErrNew ''SHCLOP_BOOTSTRAP_ADMIN_PASSWORD must be set for production configuration (non-inmemory store, non-mock sandbox provider)'')
      else Inr ())"

definition admin_username :: "Config \<Rightarrow> string" where
  "admin_username cfg = (if c_BootstrapAdminUsername cfg = [] then ''admin'' else c_BootstrapAdminUsername cfg)"

definition admin_password :: "(string \<Rightarrow> string) \<Rightarrow> string" where
  "admin_password getenv =
     (if getenv ''SHCLOP_BOOTSTRAP_ADMIN_PASSWORD'' = [] then ''admin''
      else getenv ''SHCLOP_BOOTSTRAP_ADMIN_PASSWORD'')"

text \<open>The body of \<open>bootstrapMu.Do\<close> and the once guard around it. The calls use the background
  context, which is never cancelled.\<close>

definition seed_admin :: "'w api_env \<Rightarrow> time \<Rightarrow> rnd \<Rightarrow> rnd \<Rightarrow> Config \<Rightarrow> Memory \<Rightarrow> Memory" where
  "seed_admin E now salt r cfg m =
     (case e_bcrypt_generate E salt (admin_password (e_getenv E)) of
        Inl err \<Rightarrow> m
      | Inr hash \<Rightarrow>
          (case BootstrapAdmin None now r (admin_username cfg) hash m of
             (m1, Inl err) \<Rightarrow> m1
           | (m1, Inr _) \<Rightarrow>
               let m2 = (if c_LLMGatewayBaseURL cfg \<noteq> [] \<or> c_LLMGatewaySecretName cfg \<noteq> [] \<or> c_LLMGatewaySecretKey cfg \<noteq> []
                         then fst (UpsertLLMGatewaySettings None now (c_LLMGatewayBaseURL cfg \<noteq> [])
                                (c_LLMGatewayBaseURL cfg) (c_LLMGatewaySecretName cfg) (c_LLMGatewaySecretKey cfg) m1)
                         else m1)
               in SetPasswordHash (admin_username cfg) hash m2))"

definition bootstrapAdmin :: "'w api_env \<Rightarrow> time \<Rightarrow> rnd \<Rightarrow> rnd \<Rightarrow> 'w Server \<Rightarrow> 'w Server" where
  "bootstrapAdmin E now salt r s =
     (if s_bootstrapped s then s
      else s\<lparr>s_bootstrapped := True, s_store := seed_admin E now salt r (s_cfg s) (s_store s)\<rparr>)"

definition decode_login :: "any option \<Rightarrow> (string \<times> string) option" where
  "decode_login body = do {
     obj \<leftarrow> json_object body;
     username \<leftarrow> str_field obj ''username'';
     password \<leftarrow> str_field obj ''password'';
     Some (username, password) }"

definition handleLogin :: "'w api_env \<Rightarrow> Request \<Rightarrow> 'w Server \<Rightarrow> 'w Server \<times> Response" where
  "handleLogin E q s0 =
     (let s = bootstrapAdmin E (q_now q 0) (q_rnd q 0) (q_rnd q 1) s0 in
      if Mode (s_idp s) = AuthModeSSO then (s, http_Error ''local login disabled'' 403)
      else or_400 s (decode_login (q_body q)) (\<lambda>(username, password).
        (case Login (\<lambda>n. GetUserByUsername (q_ctx q 0) n (s_store s)) (\<lambda>n. GetPasswordHash n (s_store s))
                (e_bcrypt_compare E) (q_rnd q 2) username password (s_auth s) of
           (a, Inl err) \<Rightarrow>
             (recordActivity (q_now q 1) ''auth.login_failed'' [] [] ''login failed''
                [(''username'', AnyString username)] (s\<lparr>s_auth := a\<rparr>),
              unauthorized)
         | (a, Inr (user, token)) \<Rightarrow>
             (recordActivity (q_now q 1) ''auth.login'' (u_ID user) [] ''login succeeded''
                [(''username'', AnyString (u_Username user))] (s\<lparr>s_auth := a\<rparr>),
              SetCookie (session_cookie token) (writeJSON 200 (JSession user token))))))"

definition handleMe :: "Request \<Rightarrow> 'w Server \<Rightarrow> 'w Server \<times> Response" where
  "handleMe q s = with_user q s (\<lambda>user. (s, writeJSON 200 (JUser user)))"

section \<open>Agents\<close>

text \<open>The allowlist loop: some enabled model with this provider name.\<close>

definition model_enabled :: "string \<Rightarrow> LLMModel list \<Rightarrow> bool" where
  "model_enabled model models = list_ex (\<lambda>m. lm_ProviderModel m = model \<and> lm_Enabled m) models"

definition count_allowlist_error :: "'w Server \<Rightarrow> 'w Server" where
  "count_allowlist_error s =
     s\<lparr>s_metrics := (s_metrics s)\<lparr>mc_modelAllowlistErrors := mc_modelAllowlistErrors (s_metrics s) + 1\<rparr>\<rparr>"

definition check_model ::
  "ctx \<Rightarrow> string \<Rightarrow> string \<Rightarrow> 'w Server \<Rightarrow> ('w Server \<times> Response) + unit" where
  "check_model cx model msg s =
     (if model = [] then Inr ()
      else
        (case ListLLMModels cx (s_store s) of
           Inl err \<Rightarrow> Inl (s, writeStoreError err)
         | Inr models \<Rightarrow>
             if model_enabled model models then Inr ()
             else Inl (count_allowlist_error s, http_Error msg 400)))"

definition decode_create_agent :: "any option \<Rightarrow> CreateAgentInput option" where
  "decode_create_agent body = do {
     obj \<leftarrow> json_object body;
     name \<leftarrow> str_field obj ''name'';
     description \<leftarrow> str_field obj ''description'';
     runtime \<leftarrow> str_field obj ''runtime'';
     model \<leftarrow> str_field obj ''model'';
     prompt \<leftarrow> str_field obj ''system_prompt'';
     Some \<lparr>cai_Name = name, cai_Description = description, cai_Runtime = runtime, cai_Model = model,
           cai_SystemPrompt = prompt\<rparr> }"

definition handleCreateAgent :: "Request \<Rightarrow> 'w Server \<Rightarrow> 'w Server \<times> Response" where
  "handleCreateAgent q s =
     with_user q s (\<lambda>user.
     if u_Disabled user then (s, forbidden)
     else or_400 s (decode_create_agent (q_body q)) (\<lambda>request.
     let name = TrimSpace (cai_Name request);
         runtime = (let t = TrimSpace (cai_Runtime request) in if t = [] then ''nanoclaw'' else t);
         model = TrimSpace (cai_Model request)
     in if name = [] then (s, http_Error ''bad request'' 400)
        else if runtime \<noteq> ''openclaw'' \<and> runtime \<noteq> ''nanoclaw''
        then (s, http_Error ''bad request: runtime must be openclaw or nanoclaw'' 400)
        else
          (case check_model (q_ctx q 1) model ''bad request: model not found or not enabled'' s of
             Inl stop \<Rightarrow> stop
           | Inr _ \<Rightarrow>
               let (s1, r) = store_call (CreateAgent (q_ctx q 2) (q_now q 0) (q_rnd q 0) (u_ID user) name
                               (cai_Description request) runtime model (cai_SystemPrompt request)) s
               in or_500 s1 r (\<lambda>agent.
                  (recordActivity (q_now q 1) ''agent.created'' (u_ID user) (a_ID agent) ''agent created''
                     [(''name'', AnyString (a_Name agent))] s1,
                   writeJSON 201 (JAgent agent))))))"

definition handleListAgents :: "Request \<Rightarrow> 'w Server \<Rightarrow> 'w Server \<times> Response" where
  "handleListAgents q s =
     with_user q s (\<lambda>user.
     or_500 s (ListAgents (q_ctx q 1) (u_ID user) (s_store s)) (\<lambda>agents.
     (s, writeJSON 200 (JAgents agents))))"

definition handleGetAgent :: "Request \<Rightarrow> 'w Server \<Rightarrow> 'w Server \<times> Response" where
  "handleGetAgent q s =
     with_agent q (q_pathvalue q ''id'') s (\<lambda>user agent. (s, writeJSON 200 (JAgent agent)))"

section \<open>Starting an agent\<close>

definition resolve_agent ::
  "'w api_env \<Rightarrow> ctx \<Rightarrow> ctx \<Rightarrow> string \<Rightarrow> string \<Rightarrow> 'w Server \<Rightarrow> AgentRuntimeResolution result" where
  "resolve_agent E cx cx' userID agentID s =
     ResolveAgentRuntime (e_plugin E) (e_crypto E) (s_box s) (s_resolver s)
       (\<lambda>p. merged_Get p (s_plugins s))
       (\<lambda>u p. GetIntegrationConnection cx' u p (s_store s))
       (\<lambda>a. ListAgentIntegrations cx a (s_store s)) userID agentID"

definition with_mcp_config ::
  "'w api_env \<Rightarrow> AgentRuntimeResolution \<Rightarrow> (string \<rightharpoonup> string) result" where
  "with_mcp_config E resolution =
     (if arr_MCPServers resolution = [] then Inr (arr_Env resolution)
      else
        (case e_marshal E (arr_MCPServers resolution) of
           Inl err \<Rightarrow> Inl err
         | Inr blob \<Rightarrow> Inr ((arr_Env resolution)(''SHCLOP_MCP_CONFIG'' \<mapsto> blob))))"

definition start_request ::
  "string \<Rightarrow> User \<Rightarrow> Agent \<Rightarrow> LLMGatewaySettings \<Rightarrow> string \<Rightarrow> (string \<rightharpoonup> string) \<Rightarrow> StartRequest" where
  "start_request agentID user agent settings secret environ =
     \<lparr>st_AgentID = agentID, st_OwnerID = u_ID user, st_Runtime = a_Runtime agent,
      st_RuntimeToken = secret, st_LLMModel = a_Model agent, st_LLMGatewayBaseURL = gs_BaseURL settings,
      st_LLMGatewaySecretName = gs_SecretName settings, st_LLMGatewaySecretKey = gs_SecretKey settings,
      st_SystemPrompt = a_SystemPrompt agent, st_IntegrationEnv = environ\<rparr>"

text \<open>The tail of the handler, from the call of the sandbox provider on.\<close>

definition launch_agent ::
  "'w api_env \<Rightarrow> Request \<Rightarrow> User \<Rightarrow> Agent \<Rightarrow> StartRequest \<Rightarrow> 'w Server \<Rightarrow> 'w Server \<times> Response" where
  "launch_agent E q user agent request s =
     (let agentID = st_AgentID request in
      case e_Start E (q_ctx q 6) request (s_sandbox s) of
        (w, Inl err) \<Rightarrow>
          let s1 = fst (store_call (UpdateAgentState (q_ctx q 7) (q_now q 2) agentID ''idle'') (s\<lparr>s_sandbox := w\<rparr>));
              s2 = fst (store_call (UpdateAgentError (q_ctx q 8) (q_now q 3) agentID (error_text err)) s1);
              s3 = s2\<lparr>s_metrics := (s_metrics s2)\<lparr>mc_agentFailures := mc_agentFailures (s_metrics s2) + 1,
                        mc_runtimePodFailures := mc_runtimePodFailures (s_metrics s2) + 1\<rparr>\<rparr>
          in (recordActivity (q_now q 4) ''sandbox.start_failed'' (u_ID user) agentID ''sandbox start failed''
                [(''runtime'', AnyString (a_Runtime agent)), (''error'', AnyString (error_text err))] s3,
              writeStoreError err)
      | (w, Inr lease) \<Rightarrow>
          let s1 = s\<lparr>s_sandbox := w,
                     s_metrics := (s_metrics s)\<lparr>mc_agentStarts := mc_agentStarts (s_metrics s) + 1\<rparr>\<rparr>;
              s2 = recordActivity (q_now q 2) ''sandbox.started'' (u_ID user) agentID ''sandbox started''
                     [(''runtime'', AnyString (a_Runtime agent)), (''provider'', AnyString (rl_Provider lease)),
                      (''runtime_id'', AnyString (rl_ExternalID lease))] s1;
              (s3, r) = store_call (UpdateAgentState (q_ctx q 7) (q_now q 3) agentID ''running'') s2
          in (s3, writeJSON 202 (JAgent (case r of Inr agent' \<Rightarrow> agent'
                  | Inl _ \<Rightarrow> \<lparr>a_ID = [], a_OwnerUserID = [], a_Name = [], a_Description = [], a_Runtime = [],
                       a_Model = [], a_SystemPrompt = [], a_State = [], a_LastError = [], a_CreatedAt = 0,
                       a_UpdatedAt = 0\<rparr>))))"

text \<open>The part between the checks and the launch: a fresh runtime token, then state \<open>starting\<close>.\<close>

definition issue_and_launch ::
  "'w api_env \<Rightarrow> Request \<Rightarrow> User \<Rightarrow> string \<Rightarrow> LLMGatewaySettings \<Rightarrow> (string \<rightharpoonup> string) \<Rightarrow> 'w Server
     \<Rightarrow> 'w Server \<times> Response" where
  "issue_and_launch E q user agentID settings environ s =
     or_500 s (random_hex (q_rnd q 0)) (\<lambda>secret.
     let s1 = s\<lparr>s_tokens := (s_tokens s)(agentID \<mapsto> secret)\<rparr>;
         (s2, r) = store_call (UpdateAgentState (q_ctx q 5) (q_now q 0) agentID ''starting'') s1
     in or_500 s2 r (\<lambda>agent.
        launch_agent E q user agent (start_request agentID user agent settings secret environ)
          (recordActivity (q_now q 1) ''agent.start_requested'' (u_ID user) agentID ''agent start requested''
             [(''runtime'', AnyString (a_Runtime agent))] s2)))"

text \<open>The handler for an agent the caller may start: the checks, the integrations, then the launch.\<close>

definition start_visible_agent ::
  "'w api_env \<Rightarrow> Request \<Rightarrow> string \<Rightarrow> 'w Server \<Rightarrow> User \<Rightarrow> Agent \<Rightarrow> 'w Server \<times> Response" where
  "start_visible_agent E q agentID s user agent =
     (case check_model (q_ctx q 2) (a_Model agent) ''model not enabled'' s of
        Inl stop \<Rightarrow> stop
      | Inr _ \<Rightarrow>
          or_500 s (GetLLMGatewaySettings (q_ctx q 3) (s_store s)) (\<lambda>settings.
          if a_Model agent \<noteq> [] \<and> (\<not> gs_Enabled settings \<or> gs_BaseURL settings = [])
          then (s\<lparr>s_metrics := (s_metrics s)\<lparr>mc_gatewayErrors := mc_gatewayErrors (s_metrics s) + 1\<rparr>\<rparr>,
                http_Error ''LLM gateway not fully configured: enabled and base URL are required when an agent model is set'' 400)
          else
            (case resolve_agent E (q_ctx q 4) (q_ctx q 9) (u_ID user) agentID s of
               Inl err \<Rightarrow>
                 let s1 = recordActivity (q_now q 0) ''agent.start_failed'' (u_ID user) agentID
                            (''integration resolution failed: '' @ error_text err) [] s;
                     s2 = fst (store_call (UpdateAgentError (q_ctx q 5) (q_now q 1) agentID (error_text err)) s1);
                     s3 = fst (store_call (UpdateAgentState (q_ctx q 6) (q_now q 2) agentID ''idle'') s2)
                 in (s3, writeJSON 400 (JError (error_text err)))
             | Inr resolution \<Rightarrow>
                 (case with_mcp_config E resolution of
                    Inl err \<Rightarrow> (s, writeJSON 500 (JError (error_text err)))
                  | Inr environ \<Rightarrow> issue_and_launch E q user agentID settings environ s))))"

definition handleStartAgent :: "'w api_env \<Rightarrow> Request \<Rightarrow> 'w Server \<Rightarrow> 'w Server \<times> Response" where
  "handleStartAgent E q s =
     (let agentID = q_pathvalue q ''id'' in with_agent q agentID s (start_visible_agent E q agentID s))"

definition handleStopAgent :: "'w api_env \<Rightarrow> Request \<Rightarrow> 'w Server \<Rightarrow> 'w Server \<times> Response" where
  "handleStopAgent E q s =
     (let agentID = q_pathvalue q ''id'' in
      with_agent q agentID s (\<lambda>user agent.
      (case e_Stop E (q_ctx q 2) agentID (s_sandbox s) of
         (w, Inl err) \<Rightarrow> (s\<lparr>s_sandbox := w\<rparr>, writeStoreError err)
       | (w, Inr _) \<Rightarrow>
           let s1 = s\<lparr>s_sandbox := w, s_tokens := (s_tokens s)(agentID := None)\<rparr>;
               (s2, r) = store_call (UpdateAgentState (q_ctx q 3) (q_now q 0) agentID ''stopped'') s1
           in or_500 s2 r (\<lambda>stopped.
              (recordActivity (q_now q 1) ''agent.stopped'' (u_ID user) agentID ''agent stopped'' []
                 (s2\<lparr>s_metrics := (s_metrics s2)\<lparr>mc_agentStops := mc_agentStops (s_metrics s2) + 1\<rparr>\<rparr>),
               writeJSON 200 (JAgent stopped))))))"

definition handleDeleteAgent :: "'w api_env \<Rightarrow> Request \<Rightarrow> 'w Server \<Rightarrow> 'w Server \<times> Response" where
  "handleDeleteAgent E q s =
     (let agentID = q_pathvalue q ''id'' in
      with_agent q agentID s (\<lambda>user agent.
      let w = fst (e_Stop E (q_ctx q 2) agentID (s_sandbox s));
          s1 = s\<lparr>s_sandbox := w, s_tokens := (s_tokens s)(agentID := None)\<rparr>;
          (s2, r) = store_call (DeleteAgent (q_ctx q 3) agentID) s1
          in case r of
               Inl err \<Rightarrow>
                 if errors_Is err ErrNotFound
                 then (recordActivity (q_now q 0) ''agent.deleted'' (u_ID user) agentID ''agent deleted''
                         [(''name'', AnyString (a_Name agent))] s2, WriteHeader 204)
                 else (s2, writeStoreError err)
             | Inr _ \<Rightarrow>
                 (recordActivity (q_now q 0) ''agent.deleted'' (u_ID user) agentID ''agent deleted''
                    [(''name'', AnyString (a_Name agent))] s2, WriteHeader 204)))"

section \<open>Integrations\<close>

definition handleListIntegrations :: "Request \<Rightarrow> 'w Server \<Rightarrow> 'w Server \<times> Response" where
  "handleListIntegrations q s =
     with_user q s (\<lambda>user.
     (s, writeJSON 200 (JSummary
       (BuildSummary (\<lambda>p. merged_Get p (s_plugins s)) (merged_List (q_order q) (s_plugins s))
          (\<lambda>u p. GetIntegrationConnection (q_ctx q 1) u p (s_store s))
          (\<lambda>u. ListUserIntegrationProviderIDs (q_ctx q 2) u (s_store s))
          (\<lambda>u. ListAgents (q_ctx q 3) u (s_store s))
          (\<lambda>a p. GetAgentIntegration (q_ctx q 4) a p (s_store s)) (u_ID user)))))"

definition decode_connect :: "any option \<Rightarrow> (string \<times> (string \<times> string) list) option" where
  "decode_connect body = do {
     obj \<leftarrow> json_object body;
     token \<leftarrow> str_field obj ''token'';
     flds \<leftarrow> json_field conv_map [] obj ''fields'';
     Some (token, flds) }"

text \<open>A token at the top level is the field \<open>token\<close>, unless the fields have one.\<close>

definition connect_fields :: "string \<Rightarrow> (string \<times> string) list \<Rightarrow> (string \<times> string) list" where
  "connect_fields token flds =
     (if token \<noteq> [] \<and> map_of flds ''token'' = None then (''token'', token) # flds else flds)"

definition handleConnectIntegration :: "'w api_env \<Rightarrow> Request \<Rightarrow> 'w Server \<Rightarrow> 'w Server \<times> Response" where
  "handleConnectIntegration E q s =
     (let providerID = q_pathvalue q ''providerID'' in
      with_user q s (\<lambda>user.
      or_400 s (decode_connect (q_body q)) (\<lambda>(token, flds0).
      let flds = connect_fields token flds0 in
      if flds = [] then (s, http_Error ''fields or token is required'' 400)
      else
        (case Connect (e_plugin E) (e_crypto E) (q_rnd q 0) (s_box s) (\<lambda>p. merged_Get p (s_plugins s))
                (UpsertIntegrationConnection (q_ctx q 1) (q_now q 0)) (u_ID user) providerID flds (s_store s) of
           (m, Inl err) \<Rightarrow>
             (recordActivity (q_now q 1) ''integration.connect_failed'' (u_ID user) [] ''integration connection failed''
                [(''provider'', AnyString providerID), (''error'', AnyString (error_text err))] (s\<lparr>s_store := m\<rparr>),
              http_Error (''token validation failed: '' @ error_text err) 400)
         | (m, Inr conn) \<Rightarrow>
             (recordActivity (q_now q 1) ''integration.connected'' (u_ID user) [] ''integration connected''
                [(''provider'', AnyString providerID), (''external_login'', AnyString (ic_ExternalLogin conn))]
                (s\<lparr>s_store := m\<rparr>),
              writeJSON 200 (JConnection (ic_ProviderID conn) (ic_ExternalAccountID conn) (ic_ExternalLogin conn)
                (ic_AccountType conn) (ic_Status conn) (ic_Revision conn)))))))"

definition handleDisconnectIntegration :: "Request \<Rightarrow> 'w Server \<Rightarrow> 'w Server \<times> Response" where
  "handleDisconnectIntegration q s =
     (let providerID = q_pathvalue q ''providerID'' in
      with_user q s (\<lambda>user.
      (case Disconnect (DeleteIntegrationConnection (q_ctx q 1)) (u_ID user) providerID (s_store s) of
         (m, Inl err) \<Rightarrow>
           (recordActivity (q_now q 0) ''integration.disconnect_failed'' (u_ID user) [] ''integration disconnect failed''
              [(''provider'', AnyString providerID), (''error'', AnyString (error_text err))] (s\<lparr>s_store := m\<rparr>),
            writeStoreError err)
       | (m, Inr _) \<Rightarrow>
           (recordActivity (q_now q 0) ''integration.disconnected'' (u_ID user) [] ''integration disconnected''
              [(''provider'', AnyString providerID)] (s\<lparr>s_store := m\<rparr>),
            writeJSON 200 (JStatus ''disconnected'')))))"

definition bool_text :: "bool \<Rightarrow> string" where
  "bool_text b = (if b then ''true'' else ''false'')"

definition handleAgentIntegration :: "Request \<Rightarrow> 'w Server \<Rightarrow> 'w Server \<times> Response" where
  "handleAgentIntegration q s =
     (let agentID = q_pathvalue q ''id''; providerID = q_pathvalue q ''providerID'' in
      with_agent q agentID s (\<lambda>user agent.
      (case GetConnection (\<lambda>u p. GetIntegrationConnection (q_ctx q 2) u p) (a_OwnerUserID agent) providerID (s_store s) of
         Inl err \<Rightarrow> (s, http_Error ''no connection for provider, connect first'' 400)
       | Inr _ \<Rightarrow>
           or_400 s (Option.bind (json_object (q_body q)) (\<lambda>obj. bool_field obj ''enabled'')) (\<lambda>enabled.
           let (s1, r) = store_call (ToggleAgentIntegration
                           (\<lambda>a p e v st. UpsertAgentIntegration (q_ctx q 3) (q_now q 0) a p e v st)
                           agentID providerID enabled) s
           in or_500 s1 r (\<lambda>ai.
              (recordActivity (q_now q 1)
                 (if enabled then ''integration.agent_enabled'' else ''integration.agent_disabled'')
                 (u_ID user) agentID
                 (if enabled then ''agent integration enabled'' else ''agent integration disabled'')
                 [(''provider'', AnyString providerID), (''enabled'', AnyOther (bool_text enabled))] s1,
               writeJSON 200 (JBinding ai)))))))"

end
