(* ===== verification/ApiAdmin.thy ===== *)
theory ApiAdmin
  imports ApiAgents
begin

text \<open>
  The handlers of \<open>internal/api/server.go\<close> for users, models, the LLM gateway, plugins, the
  overview and the activity log, and the health checks.
\<close>

section \<open>Health\<close>

definition handleHealth :: "Request \<Rightarrow> 'w Server \<Rightarrow> 'w Server \<times> Response" where
  "handleHealth q s = (s, writeJSON 200 (JStatus ''ok''))"

definition handleReady :: "Request \<Rightarrow> 'w Server \<Rightarrow> 'w Server \<times> Response" where
  "handleReady q s =
     (case ListUsers (q_ctx q 0) (s_store s) of
        Inl err \<Rightarrow> (s, http_Error ''{\"status\":\"not ready\"}'' 503)
      | Inr _ \<Rightarrow> (s, writeJSON 200 (JStatus ''ready'')))"

section \<open>Users\<close>

definition handleAdminListUsers :: "Request \<Rightarrow> 'w Server \<Rightarrow> 'w Server \<times> Response" where
  "handleAdminListUsers q s =
     with_admin q s (\<lambda>user.
     or_500 s (ListUsers (q_ctx q 1) (s_store s)) (\<lambda>users. (s, writeJSON 200 (JUsers users))))"

definition decode_create_user :: "any option \<Rightarrow> (string \<times> string \<times> string) option" where
  "decode_create_user body = do {
     obj \<leftarrow> json_object body;
     username \<leftarrow> str_field obj ''username'';
     password \<leftarrow> str_field obj ''password'';
     role \<leftarrow> str_field obj ''role'';
     Some (username, password, role) }"

definition handleAdminCreateUser :: "'w api_env \<Rightarrow> Request \<Rightarrow> 'w Server \<Rightarrow> 'w Server \<times> Response" where
  "handleAdminCreateUser E q s =
     with_admin q s (\<lambda>user.
     or_400 s (decode_create_user (q_body q)) (\<lambda>(username0, password, role0).
     let username = TrimSpace username0;
         role = (let t = TrimSpace role0 in if t = [] then ''user'' else t)
     in if username = [] \<or> password = [] then (s, http_Error ''bad request'' 400)
        else if role \<noteq> ''admin'' \<and> role \<noteq> ''user''
        then (s, http_Error ''bad request: role must be admin or user'' 400)
        else or_500 s (e_bcrypt_generate E (q_rnd q 0) password) (\<lambda>hash.
          let (s1, r) = store_call (CreateUser (q_ctx q 1) (q_now q 0) (q_rnd q 1) username hash role) s
          in case r of
               Inl err \<Rightarrow>
                 if errors_Is err ErrConflict then (s1, http_Error ''username already exists'' 409)
                 else (s1, writeStoreError err)
             | Inr created \<Rightarrow>
                 (recordActivity (q_now q 1) ''admin.user_created'' (u_ID user) [] ''user created''
                    [(''username'', AnyString (u_Username created)), (''role'', AnyString (u_Role created))] s1,
                  writeJSON 201 (JUser created)))))"

definition decode_update_user :: "any option \<Rightarrow> (bool option \<times> string option) option" where
  "decode_update_user body = do {
     obj \<leftarrow> json_object body;
     disabled \<leftarrow> bool_ptr_field obj ''disabled'';
     role \<leftarrow> str_ptr_field obj ''role'';
     Some (disabled, role) }"

definition handleAdminUpdateUser :: "Request \<Rightarrow> 'w Server \<Rightarrow> 'w Server \<times> Response" where
  "handleAdminUpdateUser q s =
     (let targetUserID = q_pathvalue q ''id'' in
      with_admin q s (\<lambda>user.
      or_400 s (decode_update_user (q_body q)) (\<lambda>(disabled, role0).
      let role = map_option TrimSpace role0 in
      if role \<notin> {None, Some ''admin'', Some ''user''}
      then (s, http_Error ''bad request: role must be admin or user'' 400)
      else
        let (s1, r) = store_call (UpdateUser (q_ctx q 1) (q_now q 0) targetUserID disabled role) s
        in case r of
             Inl err \<Rightarrow> if errors_Is err ErrNotFound then (s1, NotFound) else (s1, writeStoreError err)
           | Inr updated \<Rightarrow> (s1, writeJSON 200 (JUser updated)))))"

section \<open>Models\<close>

text \<open>The URL the LiteLLM model list is fetched from, and the fetch.\<close>

definition models_url :: "string \<Rightarrow> string" where
  "models_url baseURL =
     (let u = TrimSuffix baseURL ''/'' in
      if HasSuffix u ''/v1'' then u @ ''/models'' else u @ ''/v1/models'')"

definition fetchLiteLLMModels :: "'w api_env \<Rightarrow> string \<Rightarrow> string \<Rightarrow> string list result" where
  "fetchLiteLLMModels E baseURL apiKey =
     (case e_models E (models_url baseURL) (bearer @ apiKey) of
        Inl err \<Rightarrow> Inl (ErrWrap ''http call: '' err [])
      | Inr (status, decoded) \<Rightarrow>
          if status \<noteq> 200 then Inl (ErrNew (''LiteLLM returned status '' @ Itoa status))
          else wrap ''decode response: '' decoded)"

definition handleListEnabledModels :: "'w api_env \<Rightarrow> Request \<Rightarrow> 'w Server \<Rightarrow> 'w Server \<times> Response" where
  "handleListEnabledModels E q s =
     with_user q s (\<lambda>user.
     or_500 s (ListLLMModels (q_ctx q 1) (s_store s)) (\<lambda>allModels.
     let enabled = filter lm_Enabled allModels in
     or_500 s (GetLLMGatewaySettings (q_ctx q 2) (s_store s)) (\<lambda>settings.
     if gs_Enabled settings \<and> gs_BaseURL settings \<noteq> [] \<and> c_LLMGatewayAPIKey (s_cfg s) \<noteq> []
     then
       (case fetchLiteLLMModels E (gs_BaseURL settings) (c_LLMGatewayAPIKey (s_cfg s)) of
          Inl err \<Rightarrow>
            (s\<lparr>s_metrics := (s_metrics s)\<lparr>mc_gatewayErrors := mc_gatewayErrors (s_metrics s) + 1\<rparr>\<rparr>,
             http_Error ''{\"error\":\"LLM gateway unavailable\"}'' 502)
        | Inr known \<Rightarrow> (s, writeJSON 200 (JModels (filter (\<lambda>m. lm_ProviderModel m \<in> set known) enabled))))
     else (s, writeJSON 200 (JModels enabled)))))"

definition handleAdminListModels :: "Request \<Rightarrow> 'w Server \<Rightarrow> 'w Server \<times> Response" where
  "handleAdminListModels q s =
     with_admin q s (\<lambda>user.
     or_500 s (ListLLMModels (q_ctx q 1) (s_store s)) (\<lambda>models. (s, writeJSON 200 (JModels models))))"

definition decode_create_model :: "any option \<Rightarrow> (string \<times> string \<times> bool) option" where
  "decode_create_model body = do {
     obj \<leftarrow> json_object body;
     displayName \<leftarrow> str_field obj ''display_name'';
     providerModel \<leftarrow> str_field obj ''provider_model'';
     enabled \<leftarrow> bool_field obj ''enabled'';
     Some (displayName, providerModel, enabled) }"

definition handleAdminCreateModel :: "Request \<Rightarrow> 'w Server \<Rightarrow> 'w Server \<times> Response" where
  "handleAdminCreateModel q s =
     with_admin q s (\<lambda>user.
     or_400 s (decode_create_model (q_body q)) (\<lambda>(displayName0, providerModel0, enabled).
     let displayName = TrimSpace displayName0; providerModel = TrimSpace providerModel0 in
     if displayName = [] \<or> providerModel = [] then (s, http_Error ''bad request'' 400)
     else
       let (s1, r) = store_call (CreateLLMModel (q_ctx q 1) (q_now q 0) (q_rnd q 0) displayName providerModel enabled) s
       in or_500 s1 r (\<lambda>model. (s1, writeJSON 201 (JModel model)))))"

definition decode_update_model :: "any option \<Rightarrow> (string option \<times> string option \<times> bool option) option" where
  "decode_update_model body = do {
     obj \<leftarrow> json_object body;
     displayName \<leftarrow> str_ptr_field obj ''display_name'';
     providerModel \<leftarrow> str_ptr_field obj ''provider_model'';
     enabled \<leftarrow> bool_ptr_field obj ''enabled'';
     Some (displayName, providerModel, enabled) }"

definition handleAdminUpdateModel :: "Request \<Rightarrow> 'w Server \<Rightarrow> 'w Server \<times> Response" where
  "handleAdminUpdateModel q s =
     (let modelID = q_pathvalue q ''id'' in
      with_admin q s (\<lambda>user.
      or_400 s (decode_update_model (q_body q)) (\<lambda>(displayName, providerModel, enabled).
      let (s1, r) = store_call (UpdateLLMModel (q_ctx q 1) (q_now q 0) modelID displayName providerModel enabled) s
      in case r of
           Inl err \<Rightarrow> if errors_Is err ErrNotFound then (s1, NotFound) else (s1, writeStoreError err)
         | Inr model \<Rightarrow> (s1, writeJSON 200 (JModel model)))))"

section \<open>The LLM gateway\<close>

definition handleAdminGetLLMGateway :: "Request \<Rightarrow> 'w Server \<Rightarrow> 'w Server \<times> Response" where
  "handleAdminGetLLMGateway q s =
     with_admin q s (\<lambda>user.
     or_500 s (GetLLMGatewaySettings (q_ctx q 1) (s_store s)) (\<lambda>settings. (s, writeJSON 200 (JGateway settings))))"

definition decode_gateway :: "any option \<Rightarrow> (bool \<times> string \<times> string \<times> string) option" where
  "decode_gateway body = do {
     obj \<leftarrow> json_object body;
     enabled \<leftarrow> bool_field obj ''enabled'';
     baseURL \<leftarrow> str_field obj ''base_url'';
     secretName \<leftarrow> str_field obj ''secret_name'';
     secretKey \<leftarrow> str_field obj ''secret_key'';
     Some (enabled, baseURL, secretName, secretKey) }"

definition handleAdminUpdateLLMGateway :: "Request \<Rightarrow> 'w Server \<Rightarrow> 'w Server \<times> Response" where
  "handleAdminUpdateLLMGateway q s =
     with_admin q s (\<lambda>user.
     or_400 s (decode_gateway (q_body q)) (\<lambda>(enabled, baseURL, secretName, secretKey).
     let (s1, r) = store_call (UpsertLLMGatewaySettings (q_ctx q 1) (q_now q 0) enabled baseURL secretName secretKey) s
     in or_500 s1 r (\<lambda>settings. (s1, writeJSON 200 (JGateway settings)))))"

section \<open>Plugins\<close>

definition handleAdminListPlugins :: "Request \<Rightarrow> 'w Server \<Rightarrow> 'w Server \<times> Response" where
  "handleAdminListPlugins q s =
     with_admin q s (\<lambda>user.
     or_500 s (ListPluginManifests (q_ctx q 1) (q_order q) False (s_store s)) (\<lambda>manifests.
     (s, writeJSON 200 (JManifests manifests))))"

definition decode_plugin :: "any option \<Rightarrow> (string \<times> string \<times> bool) option" where
  "decode_plugin body = do {
     obj \<leftarrow> json_object body;
     ident \<leftarrow> str_field obj ''id'';
     yaml \<leftarrow> str_field obj ''yaml'';
     enabled \<leftarrow> bool_field obj ''enabled'';
     Some (ident, yaml, enabled) }"

definition first_nonempty :: "string list \<Rightarrow> string" where
  "first_nonempty xs = (case find (\<lambda>x. x \<noteq> []) xs of Some x \<Rightarrow> x | None \<Rightarrow> [])"

definition handleAdminUpsertPlugin :: "'w api_env \<Rightarrow> Request \<Rightarrow> string \<Rightarrow> 'w Server \<Rightarrow> 'w Server \<times> Response" where
  "handleAdminUpsertPlugin E q pathID s =
     with_admin q s (\<lambda>user.
     or_400 s (decode_plugin (q_body q)) (\<lambda>(bodyID, yaml, enabled).
     (case ParseManifest (e_plugin E) yaml of
        Inl err \<Rightarrow> (s, http_Error (''invalid manifest: '' @ error_text err) 400)
      | Inr m \<Rightarrow>
          let specID = sp_ID (mf_Spec m); ident = first_nonempty [pathID, bodyID, specID] in
          if bodyID \<noteq> [] \<and> bodyID \<noteq> specID
          then (s, http_Error ''body id does not match manifest spec.id'' 400)
          else if pathID \<noteq> [] \<and> pathID \<noteq> specID
          then (s, http_Error ''path id does not match manifest spec.id'' 400)
          else
            let (s1, r) = store_call (UpsertPluginManifest (q_ctx q 1) (q_now q 0)
                  \<lparr>pm_ID = ident, pm_YAML = yaml, pm_Enabled = enabled, pm_Revision = 0,
                   pm_CreatedAt = 0, pm_UpdatedAt = 0\<rparr>) s
            in or_500 s1 r (\<lambda>saved.
               (recordActivity (q_now q 1) ''admin.plugin_upserted'' (u_ID user) [] ''plugin upserted''
                  [(''id'', AnyString (pm_ID saved)), (''enabled'', AnyOther (bool_text (pm_Enabled saved))),
                   (''revision'', AnyOther (Itoa (pm_Revision saved)))] s1,
                writeJSON 200 (JManifest saved))))))"

definition handleAdminDeletePlugin :: "Request \<Rightarrow> 'w Server \<Rightarrow> 'w Server \<times> Response" where
  "handleAdminDeletePlugin q s =
     (let pluginID = q_pathvalue q ''id'' in
      with_admin q s (\<lambda>user.
      let (s1, r) = store_call (DeletePluginManifest (q_ctx q 1) pluginID) s
      in case r of
           Inl err \<Rightarrow> if errors_Is err ErrNotFound then (s1, NotFound) else (s1, writeStoreError err)
         | Inr _ \<Rightarrow>
             (recordActivity (q_now q 0) ''admin.plugin_deleted'' (u_ID user) [] ''plugin deleted''
                [(''id'', AnyString pluginID)] s1, WriteHeader 204)))"

section \<open>Overview\<close>

definition handleAdminOverview :: "Request \<Rightarrow> 'w Server \<Rightarrow> 'w Server \<times> Response" where
  "handleAdminOverview q s =
     with_admin q s (\<lambda>user.
     (s, writeJSON 200 (JOverview
       \<lparr>ao_Runtime = \<lparr>arc_Provider = c_SandboxProvider (s_cfg s), arc_Namespace = c_KubernetesNamespace (s_cfg s),
                      arc_RuntimeClassName = c_AgentRuntimeClassName (s_cfg s),
                      arc_Images = c_RuntimeImages (s_cfg s)\<rparr>,
        ao_Observability = \<lparr>aob_MetricsEnabled = c_Metrics (s_cfg s), aob_LoggingEnabled = True,
                            aob_GrafanaURL = c_GrafanaURL (s_cfg s)\<rparr>,
        ao_Health = \<lparr>ahs_Healthz = ''ok'', ahs_Readyz = ''ok''\<rparr>\<rparr>)))"

section \<open>Activity\<close>

text \<open>\<open>strconv.Atoi\<close>: an optional sign and decimal digits, within 64 bits.\<close>

definition is_digit :: "char \<Rightarrow> bool" where
  "is_digit c = (let n = of_char c :: nat in 48 \<le> n \<and> n \<le> 57)"

definition digits_value :: "string \<Rightarrow> int" where
  "digits_value ds = foldl (\<lambda>acc c. acc * 10 + (of_char c - 48)) 0 ds"

definition Atoi :: "string \<Rightarrow> int option" where
  "Atoi raw =
     (let (neg, ds) = (case raw of [] \<Rightarrow> (False, []) | c # s \<Rightarrow>
                         if c = CHR ''-'' then (True, s) else if c = CHR ''+'' then (False, s) else (False, raw));
          n = (if neg then - digits_value ds else digits_value ds)
      in if ds = [] \<or> \<not> list_all is_digit ds \<or> n < - (2 ^ 63) \<or> n \<ge> 2 ^ 63 then None else Some n)"

text \<open>The \<open>since\<close> and \<open>limit\<close> parameters: \<open>None\<close> refuses the request; no \<open>since\<close> is Go's zero time.\<close>

definition parse_since :: "(string \<Rightarrow> time result) \<Rightarrow> string \<Rightarrow> time option" where
  "parse_since parse raw0 =
     (let raw = TrimSpace raw0 in
      if raw = [] then Some 0 else (case parse raw of Inl _ \<Rightarrow> None | Inr t \<Rightarrow> Some t))"

definition parse_limit :: "string \<Rightarrow> nat option" where
  "parse_limit raw0 =
     (let raw = TrimSpace raw0 in
      if raw = [] then Some 200
      else (case Atoi raw of None \<Rightarrow> None | Some n \<Rightarrow> if n < 1 then None else if n > 200 then Some 200 else Some (nat n)))"

definition activity_matches ::
  "(string \<Rightarrow> string) \<Rightarrow> string list \<Rightarrow> string \<Rightarrow> string \<Rightarrow> time \<Rightarrow> string \<Rightarrow> activityEntry \<Rightarrow> bool" where
  "activity_matches ul types actorID agentID sinceAt queryText entry \<longleftrightarrow>
     (types = [] \<or> ac_Type entry \<in> set types) \<and>
     (actorID = [] \<or> ac_ActorID entry = actorID) \<and>
     (agentID = [] \<or> ac_AgentID entry = agentID) \<and>
     \<not> (sinceAt \<noteq> 0 \<and> ac_Time entry < sinceAt) \<and>
     (queryText = [] \<or> Contains (ToLower ul (ac_Message entry)) queryText)"

definition handleActivity :: "'w api_env \<Rightarrow> Request \<Rightarrow> 'w Server \<Rightarrow> 'w Server \<times> Response" where
  "handleActivity E q s =
     with_user q s (\<lambda>user.
     (case parse_since (e_parse_time E) (query_get q ''since'') of
        None \<Rightarrow> (s, http_Error ''bad request: invalid 'since' (expected RFC3339)'' 400)
      | Some sinceAt \<Rightarrow>
          (case parse_limit (query_get q ''limit'') of
             None \<Rightarrow> (s, http_Error (''bad request: invalid 'limit'' @ [CHR 0x27]) 400)
           | Some limit \<Rightarrow>
               let types = filter (\<lambda>t. t \<noteq> []) (map TrimSpace (q_query q ''type''));
                   filtered = filter
                     (activity_matches (e_ul E) types (TrimSpace (query_get q ''actor_id''))
                        (TrimSpace (query_get q ''agent_id'')) sinceAt
                        (ToLower (e_ul E) (TrimSpace (query_get q ''q''))))
                     (activityForUser user s)
               in (s, writeJSON 200 (JActivity (keep_last limit filtered))))))"

end
