(* ===== verification/ReturnTo.thy ===== *)
theory ReturnTo
  imports Prelude
begin

text \<open>
  \<open>sanitizeReturnTo\<close> of \<open>internal/api/oidc.go\<close>, the check on the page a sign-in returns to, with the
  part of \<open>net/url.Parse\<close> it depends on: the errors, \<open>Host\<close> and the decoded \<open>Path\<close>. The checks on a
  host (port, brackets, escapes) are the argument \<open>host\<close>, \<open>None\<close> when they fail.
\<close>

section \<open>url.Parse\<close>

definition before :: "char \<Rightarrow> string \<Rightarrow> string" where
  "before d s = takeWhile (\<lambda>c. c \<noteq> d) s"

definition after :: "char \<Rightarrow> string \<Rightarrow> string" where
  "after d s = drop (Suc (length (before d s))) s"

fun unescape :: "string \<Rightarrow> string option" where
  "unescape [] = Some []"
| "unescape (c # s) =
     (if c \<noteq> CHR ''%'' then map_option (Cons c) (unescape s)
      else
        (case s of
           a # b # t \<Rightarrow>
             (case (unhex_digit a, unhex_digit b) of
                (Some h, Some l) \<Rightarrow> map_option (Cons (char_of (16 * h + l))) (unescape t)
              | _ \<Rightarrow> None)
         | _ \<Rightarrow> None))"

definition is_letter :: "char \<Rightarrow> bool" where
  "is_letter c = (let n = of_char c :: nat in 65 \<le> n \<and> n \<le> 90 \<or> 97 \<le> n \<and> n \<le> 122)"

definition scheme_rest :: "char \<Rightarrow> bool" where
  "scheme_rest c = (let n = of_char c :: nat in 48 \<le> n \<and> n \<le> 57 \<or> c = CHR ''+'' \<or> c = CHR ''-'' \<or> c = CHR ''.'')"

text \<open>\<open>None\<close> is the error \<open>missing protocol scheme\<close>.\<close>

definition getScheme :: "string \<Rightarrow> (string \<times> string) option" where
  "getScheme raw =
     (let pre = takeWhile (\<lambda>c. is_letter c \<or> scheme_rest c) raw; rest = drop (length pre) raw in
      case raw of
        [] \<Rightarrow> Some ([], [])
      | c # s \<Rightarrow>
          if c = CHR '':'' then None
          else if scheme_rest c then Some ([], raw)
          else if rest \<noteq> [] \<and> hd rest = CHR '':'' then Some (pre, tl rest)
          else Some ([], raw))"

definition userinfo_char :: "char \<Rightarrow> bool" where
  "userinfo_char c = (is_letter c \<or> scheme_rest c \<or> c \<in> set ''_:~!$&()*,;=%@'' \<or> c = CHR 0x27)"

definition valid_userinfo :: "string \<Rightarrow> bool" where
  "valid_userinfo u \<longleftrightarrow> list_all userinfo_char u \<and>
     (if CHR '':'' \<in> set u then unescape (before CHR '':'' u) \<noteq> None \<and> unescape (after CHR '':'' u) \<noteq> None
      else unescape u \<noteq> None)"

definition parseAuthority :: "(string \<Rightarrow> string option) \<Rightarrow> string \<Rightarrow> string option" where
  "parseAuthority host authority =
     (if CHR ''@'' \<notin> set authority then host authority
      else
        (let hostport = rev (before CHR ''@'' (rev authority));
             userinfo = take (length authority - length hostport - 1) authority
         in case host hostport of
              None \<Rightarrow> None
            | Some h \<Rightarrow> if valid_userinfo userinfo then Some h else None))"

definition has_ctl :: "string \<Rightarrow> bool" where
  "has_ctl s = list_ex (\<lambda>c. of_char c < (32 :: nat) \<or> of_char c = (127 :: nat)) s"

text \<open>The result is the host and the decoded path.\<close>

definition parse_url :: "(string \<Rightarrow> string option) \<Rightarrow> string \<Rightarrow> (string \<times> string) option" where
  "parse_url host raw =
     (if has_ctl raw then None
      else if raw = ''*'' then Some ([], ''*'')
      else
        (case getScheme raw of
           None \<Rightarrow> None
         | Some (scheme, rest0) \<Rightarrow>
             let rest = before CHR ''?'' rest0 in
             if \<not> HasPrefix rest ''/'' \<and> scheme \<noteq> [] then Some ([], [])
             else if \<not> HasPrefix rest ''/'' \<and> CHR '':'' \<in> set (before CHR ''/'' rest) then None
             else if (scheme \<noteq> [] \<or> \<not> HasPrefix rest ''///'') \<and> HasPrefix rest ''//''
             then
               (let authority = before CHR ''/'' (drop 2 rest);
                    path = drop (2 + length authority) rest
                in case parseAuthority host authority of
                     None \<Rightarrow> None
                   | Some h \<Rightarrow> map_option (Pair h) (unescape path))
             else map_option (Pair []) (unescape rest)))"

definition url_Parse :: "(string \<Rightarrow> string option) \<Rightarrow> string \<Rightarrow> (string \<times> string) option" where
  "url_Parse host raw =
     (case parse_url host (before CHR ''#'' raw) of
        None \<Rightarrow> None
      | Some u \<Rightarrow> if unescape (after CHR ''#'' raw) = None then None else Some u)"

section \<open>sanitizeReturnTo\<close>

definition sanitizeReturnTo :: "(string \<Rightarrow> string option) \<Rightarrow> string \<Rightarrow> string" where
  "sanitizeReturnTo host returnTo =
     (if returnTo = [] then []
      else
        (case url_Parse host returnTo of
           None \<Rightarrow> []
         | Some (h, path) \<Rightarrow>
             if h \<noteq> [] then [] else if \<not> HasPrefix path ''/'' then [] else path))"

text \<open>What is kept is an absolute path.\<close>

lemma sanitize_absolute: "sanitizeReturnTo host raw = [] \<or> HasPrefix (sanitizeReturnTo host raw) ''/''"
  by (simp add: sanitizeReturnTo_def split: option.splits prod.splits)

text \<open>Characters that mean nothing to the parser.\<close>

definition plain_char :: "char \<Rightarrow> bool" where
  "plain_char c \<longleftrightarrow> c \<notin> set ''%#?'' \<and> 32 \<le> (of_char c :: nat) \<and> of_char c \<noteq> (127 :: nat)"

lemma plain_charD: "plain_char c \<Longrightarrow> c \<noteq> CHR ''%'' \<and> c \<noteq> CHR ''#'' \<and> c \<noteq> CHR ''?''"
  unfolding plain_char_def by (elim conjE) (simp only: list.set insert_iff de_Morgan_disj simp_thms)

lemma plain_set: "list_all plain_char s \<Longrightarrow> CHR ''%'' \<notin> set s \<and> CHR ''#'' \<notin> set s \<and> CHR ''?'' \<notin> set s"
  using plain_charD by (fastforce simp only: list_all_iff)

lemma unescape_plain: "CHR ''%'' \<notin> set s \<Longrightarrow> unescape s = Some s"
  by (induction s) auto

lemma before_notin: "d \<notin> set s \<Longrightarrow> before d s = s"
  unfolding before_def by (rule takeWhile_eq_all_conv [THEN iffD2]) blast

lemma after_notin: "d \<notin> set s \<Longrightarrow> after d s = []"
  by (simp add: after_def before_notin)

lemma plain_no_ctl: "list_all plain_char s \<Longrightarrow> \<not> has_ctl s"
  unfolding has_ctl_def list_ex_iff list_all_iff plain_char_def by (meson not_le)

lemma sanitize_plain:
  assumes s: "list_all plain_char s" and seg: "\<not> HasPrefix s ''/''"
  shows "sanitizeReturnTo host (CHR ''/'' # s) = CHR ''/'' # s"
proof -
  let ?r = "CHR ''/'' # s"
  have slash: "plain_char CHR ''/''" "\<not> is_letter CHR ''/''" "\<not> scheme_rest CHR ''/''" by code_simp+
  with s have r: "list_all plain_char ?r" by simp
  have "getScheme ?r = Some ([], ?r)" using slash by (simp add: getScheme_def)
  with seg plain_set [OF r] have "parse_url host ?r = Some ([], ?r)"
    by (simp add: parse_url_def plain_no_ctl [OF r] before_notin unescape_plain)
  with plain_set [OF r] have "url_Parse host ?r = Some ([], ?r)"
    by (simp add: url_Parse_def before_notin after_notin)
  then show ?thesis by (simp add: sanitizeReturnTo_def)
qed

text \<open>An address that names another host: a scheme and its colon or nothing, two slashes, an authority
  whose host is not empty, and whatever follows.\<close>

definition is_scheme :: "string \<Rightarrow> bool" where
  "is_scheme s \<longleftrightarrow> s \<noteq> [] \<and> is_letter (hd s) \<and> list_all (\<lambda>c. is_letter c \<or> scheme_rest c) s"

definition names_host :: "(string \<Rightarrow> string option) \<Rightarrow> string \<Rightarrow> bool" where
  "names_host host raw \<longleftrightarrow> (\<exists>scheme authority rest.
     raw = scheme @ ''//'' @ authority @ rest \<and>
     (scheme = [] \<or> (\<exists>s. is_scheme s \<and> scheme = s @ '':'')) \<and>
     authority \<noteq> [] \<and> list_all (\<lambda>c. c \<notin> set ''/?#@'') authority \<and> host authority \<noteq> Some [] \<and>
     (rest = [] \<or> hd rest \<in> set ''/?#''))"

lemma before_append: "d \<notin> set a \<Longrightarrow> before d (a @ b) = a @ before d b"
  unfolding before_def by (rule takeWhile_append2) blast

lemma scheme_chars: "c \<in> set ''/?#:'' \<Longrightarrow> \<not> is_letter c"
  "c \<in> set ''/?#:'' \<Longrightarrow> \<not> scheme_rest c"
  by (auto simp: is_letter_def scheme_rest_def)

lemma is_scheme_no: "is_scheme s \<Longrightarrow> c \<in> set ''/?#:'' \<Longrightarrow> c \<notin> set s"
  using scheme_chars unfolding is_scheme_def list_all_iff by blast

lemma getScheme_none: "getScheme (CHR ''/'' # s) = Some ([], CHR ''/'' # s)"
  using scheme_chars [of "CHR ''/''"] by (simp add: getScheme_def)

lemma getScheme_some:
  assumes "is_scheme s"
  shows "getScheme (s @ CHR '':'' # r) = Some (s, r)"
proof -
  obtain c cs where s: "s = c # cs" using assms by (cases s) (auto simp: is_scheme_def)
  have "\<not> scheme_rest c" using assms by (auto simp: s is_scheme_def is_letter_def scheme_rest_def Let_def)
  moreover have "c \<noteq> CHR '':''" using is_scheme_no [OF assms, of "CHR '':''"] by (auto simp: s)
  moreover have "takeWhile (\<lambda>c. is_letter c \<or> scheme_rest c) (s @ CHR '':'' # r) = s"
    using assms scheme_chars [of "CHR '':''"] by (subst takeWhile_append2) (auto simp: is_scheme_def list_all_iff)
  ultimately show ?thesis by (simp add: getScheme_def Let_def s)
qed

lemma before_hd: "rest = [] \<or> hd rest \<in> D \<Longrightarrow> d \<in> D \<Longrightarrow>
   before d rest = [] \<or> hd (before d rest) \<in> D - {d}"
  by (cases rest) (auto simp: before_def)

text \<open>Past the scheme.\<close>

lemma parse_authority_nonempty:
  assumes "getScheme u = Some (scheme, ''//'' @ authority @ rest)" "u \<noteq> ''*''"
    and a: "authority \<noteq> []" "list_all (\<lambda>c. c \<notin> set ''/?#@'') authority" "host authority \<noteq> Some []"
    and r: "rest = [] \<or> hd rest \<in> set ''/?''"
  shows "case parse_url host u of None \<Rightarrow> True | Some (h, path) \<Rightarrow> h \<noteq> []"
proof -
  have no: "CHR ''?'' \<notin> set authority" "CHR ''/'' \<notin> set authority" "CHR ''@'' \<notin> set authority"
    using a(2) by (auto simp: list_all_iff)
  define x where "x = before CHR ''?'' rest"
  have x: "x = [] \<or> hd x = CHR ''/''" using before_hd [OF r, of "CHR ''?''"] by (auto simp: x_def)
  have b: "before CHR ''?'' (CHR ''/'' # CHR ''/'' # authority @ rest) = CHR ''/'' # CHR ''/'' # authority @ x"
    using before_append [of "CHR ''?''" "CHR ''/'' # CHR ''/'' # authority" rest] no(1) by (simp add: x_def)
  have "before CHR ''/'' x = []" using x by (cases x) (auto simp: before_def)
  then have p: "before CHR ''/'' (authority @ x) = authority" using no(2) by (simp add: before_append)
  have three: "\<not> HasPrefix (authority @ x) ''/''" using a(1) no(2) by (cases authority) auto
  have "parseAuthority host authority = host authority" using no(3) by (simp add: parseAuthority_def)
  with assms(1,2) a(3) three show ?thesis
    by (auto simp: parse_url_def b p Let_def numeral_2_eq_2 split: option.splits)
qed

text \<open>An address that names a host is dropped, whatever follows the host.\<close>

lemma names_host_dropped:
  assumes "names_host host raw"
  shows "sanitizeReturnTo host raw = []"
proof -
  from assms obtain scheme authority rest where raw: "raw = scheme @ ''//'' @ authority @ rest"
    and s: "scheme = [] \<or> (\<exists>s. is_scheme s \<and> scheme = s @ '':'')"
    and a: "authority \<noteq> []" "list_all (\<lambda>c. c \<notin> set ''/?#@'') authority" "host authority \<noteq> Some []"
    and r: "rest = [] \<or> hd rest \<in> set ''/?#''"
    unfolding names_host_def by blast
  define y where "y = before CHR ''#'' rest"
  have y: "y = [] \<or> hd y \<in> set ''/?''" using before_hd [OF r, of "CHR ''#''"] by (auto simp: y_def)
  have "CHR ''#'' \<notin> set (scheme @ ''//'' @ authority)" using s a(2) is_scheme_no by (fastforce simp: list_all_iff)
  then have u: "before CHR ''#'' raw = scheme @ ''//'' @ authority @ y"
    using before_append [of "CHR ''#''" "scheme @ ''//'' @ authority" rest] by (simp add: raw y_def)
  have "\<exists>sc. getScheme (scheme @ ''//'' @ authority @ y) = Some (sc, ''//'' @ authority @ y)"
    using s getScheme_some getScheme_none by fastforce
  then obtain sc where g: "getScheme (scheme @ ''//'' @ authority @ y) = Some (sc, ''//'' @ authority @ y)" ..
  have "scheme @ ''//'' @ authority @ y \<noteq> ''*''" by (cases scheme) auto
  with g a y have "case parse_url host (scheme @ ''//'' @ authority @ y) of None \<Rightarrow> True | Some (h, path) \<Rightarrow> h \<noteq> []"
    by (intro parse_authority_nonempty [where authority = authority and rest = y and scheme = sc])
  then show ?thesis
    by (auto simp: sanitizeReturnTo_def url_Parse_def u split: option.splits)
qed

text \<open>The host check is made on the encoded form and the path is returned decoded: a slash written
  \<open>%2F\<close> after the first one comes back as the reference to another host.\<close>

lemma sanitize_encoded_slash:
  assumes s: "list_all plain_char s"
  shows "sanitizeReturnTo host (''/%2F'' @ s) = ''//'' @ s"
proof -
  let ?r = "''/%2F'' @ s"
  have "has_ctl ?r \<longleftrightarrow> has_ctl s" by (simp add: has_ctl_def)
  moreover have "char_of (47 :: nat) = CHR ''/''" by code_simp
  then have "unescape ?r = Some (''//'' @ s)"
    using unescape_plain [of s] plain_set [OF s] by (simp add: unhex_digit_def)
  moreover have "before CHR ''?'' ?r = ?r" "before CHR ''#'' ?r = ?r" "after CHR ''#'' ?r = []"
    using plain_set [OF s] by (simp_all add: before_notin after_notin)
  ultimately show ?thesis
    using plain_no_ctl [OF s] getScheme_none [of "''%2F'' @ s"]
    by (simp add: sanitizeReturnTo_def url_Parse_def parse_url_def)
qed

end
