(* ===== verification/ApiAuth.thy ===== *)
theory ApiAuth
  imports ApiAgents ReturnTo
begin

text \<open>
  The handlers of \<open>internal/api/oidc.go\<close>: sign-in through an identity provider, sign-out, the
  authentication settings and the identities of a user. The state cookie of a sign-in is sealed
  by the codec of \<open>Auth\<close>; the code exchange and the ID token verifier are arguments.
\<close>

section \<open>Providers on offer\<close>

definition idp_summary :: "IdPProviderDiagnostics option \<Rightarrow> MaterializedProvider \<Rightarrow> IdPProviderSummary" where
  "idp_summary diagnostics p =
     \<lparr>ips_Name = oc_Name (mp_Config p), ips_DisplayName = oc_DisplayName (mp_Config p),
      ips_Status = mp_Status p, ips_Error = mp_LastErr p, ips_Enabled = mp_Enabled p,
      ips_Diagnostics = diagnostics\<rparr>"

definition handleListAuthProviders :: "Request \<Rightarrow> 'w Server \<Rightarrow> 'w Server \<times> Response" where
  "handleListAuthProviders q s =
     (s, writeJSON 200 (JProviders
       (map (idp_summary None) (filter mp_Enabled (idp_List (q_order q) (s_idp s))))))"

text \<open>\<open>entry, ok := Get(name)\<close> with \<open>!ok || !entry.Enabled || entry.Status != "ready"\<close> refused. A ready
  entry without a provider would be a nil dereference, which the recovery middleware answers.\<close>

definition available :: "string \<Rightarrow> 'w Server \<Rightarrow> MaterializedProvider option" where
  "available name s =
     (case idp_Get name (s_idp s) of
        None \<Rightarrow> None
      | Some entry \<Rightarrow> if mp_Enabled entry \<and> mp_Status entry = StatusReady then Some entry else None)"

definition panicked :: Response where
  "panicked = http_Error ''internal server error'' 500"

section \<open>Starting a sign-in\<close>

definition oidcStateCookieName :: string where
  "oidcStateCookieName = ''shclop_oidc_state''"

definition state_cookie :: "string \<Rightarrow> int \<Rightarrow> string \<Rightarrow> Cookie" where
  "state_cookie v maxAge site =
     \<lparr>ck_Name = oidcStateCookieName, ck_Value = v, ck_Path = ''/api/auth/oidc/'', ck_HttpOnly = True,
      ck_SameSite = site, ck_MaxAge = maxAge\<rparr>"

definition random_b64 :: "rnd \<Rightarrow> string option" where
  "random_b64 r = map_option b64_encode r"

text \<open>Ten minutes in nanoseconds.\<close>

definition state_lifetime :: time where
  "state_lifetime = 600 * 10 ^ 9"

text \<open>What the cookie carries to the callback.\<close>

definition login_cookie ::
  "(string \<Rightarrow> string option) \<Rightarrow> Request \<Rightarrow> string \<Rightarrow> string \<Rightarrow> string \<Rightarrow> string \<Rightarrow> OIDCStateCookie" where
  "login_cookie host q providerName state nonce codeVerifier =
     \<lparr>sc_State = state, sc_Nonce = nonce, sc_CodeVerifier = codeVerifier, sc_Provider = providerName,
      sc_ReturnTo = sanitizeReturnTo host (query_get q ''return_to''),
      sc_ExpiresAt = q_now q 0 + state_lifetime\<rparr>"

definition handleOIDCLogin ::
  "(string \<Rightarrow> string option) \<Rightarrow> 'w api_env \<Rightarrow> Request \<Rightarrow> string \<Rightarrow> 'w Server \<Rightarrow> 'w Server \<times> Response" where
  "handleOIDCLogin host E q providerName s =
     (let failed = http_Error ''internal server error'' 500 in
      case available providerName s of
        None \<Rightarrow> (s, http_Error ''provider not available'' 404)
      | Some entry \<Rightarrow>
          (case (random_b64 (q_rnd q 0), random_b64 (q_rnd q 1), random_b64 (q_rnd q 2)) of
             (Some state, Some nonce, Some codeVerifier) \<Rightarrow>
               let codeChallenge = b64_encode (e_sha256 E codeVerifier);
                   payload = login_cookie host q providerName state nonce codeVerifier
               in (case Encode (e_crypto E) (e_gob E) (q_rnd q 3) (s_codec s) payload of
                     Inl err \<Rightarrow> (s, failed)
                   | Inr encoded \<Rightarrow>
                       (case mp_Provider entry of
                          None \<Rightarrow> (s, panicked)
                        | Some p \<Rightarrow>
                            (s, SetCookie (state_cookie encoded 600 ''Lax'')
                              \<lparr>rp_Status = 302, rp_Cookies = [],
                               rp_Body = RedirectTo (e_auth_code_url E (op_OAuth2 p) state nonce codeChallenge)\<rparr>)))
           | _ \<Rightarrow> (s, failed)))"

section \<open>Finishing a sign-in\<close>

definition linkOrCreateUser ::
  "(nat \<Rightarrow> ctx) \<Rightarrow> (nat \<Rightarrow> time) \<Rightarrow> rnd \<Rightarrow> string \<Rightarrow> string \<Rightarrow> string \<Rightarrow> string \<Rightarrow> Memory
     \<Rightarrow> Memory \<times> User result" where
  "linkOrCreateUser cx now r providerName subject email displayName m =
     (case GetUserIDByIdentity (cx 0) providerName subject m of
        Inl err \<Rightarrow> (m, Inl err)
      | Inr (Some userID) \<Rightarrow>
          let m1 = fst (TouchIdentityLogin (cx 1) (now 0) providerName subject m) in
            (case GetUser (cx 2) userID m1 of
               Inl err \<Rightarrow> (m1, Inl err)
             | Inr user \<Rightarrow>
                 if u_Disabled user then (m1, Inl (ErrNew ''account disabled'')) else (m1, Inr user))
      | Inr None \<Rightarrow>
          let taken = (case GetUserByUsername (cx 3) email m of Inl _ \<Rightarrow> False | Inr u \<Rightarrow> u_ID u \<noteq> []) in
          if taken then (m, Inl (ErrNew ''email already registered with a local account''))
          else CreateUserAndIdentity (cx 4) (now 1) r
                 \<lparr>cui_Username = email, cui_Role = ''user'', cui_ProviderName = providerName,
                  cui_Subject = subject, cui_Email = email, cui_DisplayName = displayName\<rparr> m)"

text \<open>The checks between the cookie and the account, in order: the response that ends the request, or
  the identity the provider vouches for.\<close>

definition callback_identity ::
  "'w api_env \<Rightarrow> Request \<Rightarrow> string \<Rightarrow> OIDCStateCookie \<Rightarrow> 'w Server \<Rightarrow> Response + Identity" where
  "callback_identity E q providerName cookie s =
     (let bad = (\<lambda>msg. Inl (http_Error msg 400)) in
      if sc_Provider cookie \<noteq> providerName then bad ''provider mismatch''
      else if query_get q ''state'' \<noteq> sc_State cookie then bad ''state mismatch''
      else if query_get q ''error'' \<noteq> [] then bad (''oidc error: '' @ query_get q ''error'')
      else if query_get q ''code'' = [] then bad ''missing code''
      else
        (case available providerName s of
           None \<Rightarrow> bad ''provider not available''
         | Some entry \<Rightarrow>
             (case mp_Provider entry of
                None \<Rightarrow> Inl panicked
              | Some p \<Rightarrow>
                  (case e_exchange E p (query_get q ''code'') (sc_CodeVerifier cookie) of
                     Inl err \<Rightarrow> bad ''token exchange failed''
                   | Inr rawIDToken \<Rightarrow>
                       if rawIDToken \<in> {None, Some []} then bad ''missing id_token''
                       else
                         (case e_verify E p (the rawIDToken) of
                            Inl err \<Rightarrow> bad ''id token verification failed''
                          | Inr idToken \<Rightarrow>
                              if it_Nonce idToken \<noteq> sc_Nonce cookie then bad ''nonce mismatch''
                              else
                                (case IdentityFromIDToken p idToken of
                                   Inl err \<Rightarrow> bad ''identity extraction failed''
                                 | Inr ident \<Rightarrow> Inr ident))))))"

text \<open>The last part: the account, the session and the redirect.\<close>

definition open_session ::
  "Request \<Rightarrow> string \<Rightarrow> Identity \<Rightarrow> string \<Rightarrow> 'w Server \<Rightarrow> 'w Server \<times> Response" where
  "open_session q providerName ident returnTo s =
     (case linkOrCreateUser (q_ctx q) (q_now q) (q_rnd q 0) providerName (id_Subject ident)
             (id_Email ident) (id_Name ident) (s_store s) of
        (m, Inl err) \<Rightarrow> (s\<lparr>s_store := m\<rparr>, http_Error (error_text err) 409)
      | (m, Inr user) \<Rightarrow>
          (case IssueToken (q_rnd q 1) user (s_auth s) of
             (a, Inl err) \<Rightarrow> (s\<lparr>s_store := m, s_auth := a\<rparr>, http_Error ''internal server error'' 500)
           | (a, Inr token) \<Rightarrow>
               (recordActivity (q_now q 2) ''auth.sso_login'' (u_ID user) [] ''sso login succeeded''
                  [(''provider'', AnyString providerName), (''subject'', AnyString (id_Subject ident))]
                  (s\<lparr>s_store := m, s_auth := a\<rparr>),
                SetCookie (session_cookie token)
                  \<lparr>rp_Status = 302, rp_Cookies = [], rp_Body = RedirectTo (if returnTo = [] then ''/'' else returnTo)\<rparr>)))"

definition handleOIDCCallback ::
  "'w api_env \<Rightarrow> Request \<Rightarrow> string \<Rightarrow> 'w Server \<Rightarrow> 'w Server \<times> Response" where
  "handleOIDCCallback E q providerName s =
     (case q_cookie q oidcStateCookieName of
        None \<Rightarrow> (s, http_Error ''missing state cookie'' 400)
      | Some v \<Rightarrow>
          (case Decode (e_crypto E) (e_gob E) (q_now q 3) (s_codec s) v of
             Inl err \<Rightarrow>
               (s, http_Error (if errors_Is err ErrExpired then ''state cookie expired'' else ''invalid state cookie'') 400)
           | Inr cookie \<Rightarrow>
               let (s1, resp) =
                 (case callback_identity E q providerName cookie s of
                    Inl r \<Rightarrow> (s, r)
                  | Inr ident \<Rightarrow> open_session q providerName ident (sc_ReturnTo cookie) s)
               in (s1, SetCookie (state_cookie [] (-1) []) resp)))"

definition handleOIDCRoute ::
  "(string \<Rightarrow> string option) \<Rightarrow> 'w api_env \<Rightarrow> Request \<Rightarrow> 'w Server \<Rightarrow> 'w Server \<times> Response" where
  "handleOIDCRoute host E q s =
     (let tail = TrimPrefix (q_path q) ''/api/auth/oidc/'';
          action = before CHR ''/'' tail; provider = after CHR ''/'' tail
      in if CHR ''/'' \<notin> set tail \<or> provider = [] then (s, NotFound)
         else if action = ''login'' then
           if q_method q \<noteq> ''GET'' then (s, methodNotAllowed) else handleOIDCLogin host E q provider s
         else if action = ''callback'' then
           if q_method q \<noteq> ''GET'' then (s, methodNotAllowed) else handleOIDCCallback E q provider s
         else (s, NotFound))"

definition handleLogout :: "Request \<Rightarrow> 'w Server \<Rightarrow> 'w Server \<times> Response" where
  "handleLogout q s =
     (let token = request_token q;
          s1 = (if token = [] then s else s\<lparr>s_auth := fst (Revoke token (s_auth s))\<rparr>)
      in (s1, SetCookie \<lparr>ck_Name = ''shclop_session'', ck_Value = [], ck_Path = ''/'', ck_HttpOnly = True,
             ck_SameSite = [], ck_MaxAge = -1\<rparr>
                (writeJSON 200 (JStatus ''ok''))))"

section \<open>Authentication settings\<close>

definition diagnostics :: "OIDCProviderConfig \<Rightarrow> IdPProviderDiagnostics" where
  "diagnostics c =
     \<lparr>ipd_Issuer = oc_Issuer c, ipd_ClientID = oc_ClientID c, ipd_RedirectURI = oc_RedirectURI c,
      ipd_Scopes = oc_Scopes c, ipd_EmailClaim = oc_EmailClaim c, ipd_NameClaim = oc_NameClaim c,
      ipd_GroupsClaim = oc_GroupsClaim c, ipd_SecretSet = (oc_ClientSecret c \<noteq> [])\<rparr>"

definition handleGetAuthSettings :: "Request \<Rightarrow> 'w Server \<Rightarrow> 'w Server \<times> Response" where
  "handleGetAuthSettings q s =
     with_admin q s (\<lambda>user.
     (s, writeJSON 200 (JAuthSettings
       \<lparr>as_Mode = Mode (s_idp s),
        as_Providers = map (\<lambda>p. idp_summary (Some (diagnostics (mp_Config p))) p)
                         (idp_List (q_order q) (s_idp s))\<rparr>)))"

definition conv_provider :: "any \<Rightarrow> (string \<times> bool option) option" where
  "conv_provider v = do {
     obj \<leftarrow> json_object (Some v);
     name \<leftarrow> str_field obj ''name'';
     enabled \<leftarrow> bool_ptr_field obj ''enabled'';
     Some (name, enabled) }"

definition conv_providers :: "(string \<times> bool option) list \<Rightarrow> any \<Rightarrow> (string \<times> bool option) list option" where
  "conv_providers acc v =
     (case v of AnyNil \<Rightarrow> Some [] | AnyList vs \<Rightarrow> those (map conv_provider vs) | _ \<Rightarrow> None)"

definition decode_auth_settings :: "any option \<Rightarrow> (string option \<times> (string \<times> bool option) list) option" where
  "decode_auth_settings body = do {
     obj \<leftarrow> json_object body;
     mode \<leftarrow> str_ptr_field obj ''mode'';
     providers \<leftarrow> json_field conv_providers [] obj ''providers'';
     Some (mode, providers) }"

text \<open>The loop that stores the flags stops at the first failing write; \<open>i\<close> numbers the writes.\<close>

fun set_flags :: "(nat \<Rightarrow> ctx) \<Rightarrow> nat \<Rightarrow> (string \<times> bool option) list \<Rightarrow> Memory \<Rightarrow> Memory \<times> unit result" where
  "set_flags cx i [] m = (m, Inr ())"
| "set_flags cx i ((name, None) # ps) m = set_flags cx i ps m"
| "set_flags cx i ((name, Some enabled) # ps) m =
     (case SetAppSetting (cx i) (enabled_key name) (bool_text enabled) m of
        (m1, Inl err) \<Rightarrow> (m1, Inl err)
      | (m1, Inr _) \<Rightarrow> set_flags cx (Suc i) ps m1)"

definition set_mode :: "ctx \<Rightarrow> string option \<Rightarrow> Memory \<Rightarrow> Memory \<times> unit result" where
  "set_mode cx mode m = (case mode of None \<Rightarrow> (m, Inr ()) | Some v \<Rightarrow> SetAppSetting cx ''auth.mode'' v m)"

text \<open>The request as the handler called last sees it: its context is read later.\<close>

definition later :: "nat \<Rightarrow> Request \<Rightarrow> Request" where
  "later n q = q\<lparr>q_ctx := (\<lambda>i. q_ctx q (n + i))\<rparr>"

definition handlePatchAuthSettings :: "Request \<Rightarrow> 'w Server \<Rightarrow> 'w Server \<times> Response" where
  "handlePatchAuthSettings q s =
     with_admin q s (\<lambda>user.
     or_400 s (decode_auth_settings (q_body q)) (\<lambda>(mode, providers).
     if mode \<notin> {None, Some AuthModeLocal, Some AuthModeSSO, Some AuthModeBoth}
     then (s, http_Error ''bad request: invalid mode'' 400)
     else
       let (s1, r1) = store_call (set_mode (q_ctx q 1) mode) s in
       or_500 s1 r1 (\<lambda>_.
       let (s2, r2) = store_call (set_flags (q_ctx q) 4 providers) s1 in
       or_500 s2 r2 (\<lambda>_.
       let s3 = s2\<lparr>s_idp := fst (Reload (\<lambda>k. GetAppSetting (q_ctx q 2) k (s_store s2))
                                   (\<lambda>p. ListAppSettings (q_ctx q 3) p (s_store s2)) (s_idp s2))\<rparr>
       in handleGetAuthSettings (later (4 + length providers) q) s3))))"

section \<open>Identities\<close>

definition handleAdminListIdentities :: "Request \<Rightarrow> 'w Server \<Rightarrow> 'w Server \<times> Response" where
  "handleAdminListIdentities q s =
     (let userID = q_pathvalue q ''id'' in
      with_admin q s (\<lambda>caller.
      (case ListUserIdentities (q_ctx q 1) userID (s_store s) of
         Inl err \<Rightarrow> if errors_Is err ErrNotFound then (s, NotFound) else (s, writeStoreError err)
       | Inr identities \<Rightarrow> (s, writeJSON 200 (JIdentities identities)))))"

definition decode_identity :: "any option \<Rightarrow> (string \<times> string \<times> string \<times> string) option" where
  "decode_identity body = do {
     obj \<leftarrow> json_object body;
     providerName \<leftarrow> str_field obj ''provider_name'';
     subject \<leftarrow> str_field obj ''subject'';
     email \<leftarrow> str_field obj ''email'';
     displayName \<leftarrow> str_field obj ''display_name'';
     Some (providerName, subject, email, displayName) }"

definition handleAdminLinkIdentity :: "Request \<Rightarrow> 'w Server \<Rightarrow> 'w Server \<times> Response" where
  "handleAdminLinkIdentity q s =
     (let userID = q_pathvalue q ''id'' in
      with_admin q s (\<lambda>caller.
      or_400 s (decode_identity (q_body q)) (\<lambda>(providerName, subject, email, displayName).
      if providerName = [] \<or> subject = []
      then (s, http_Error ''bad request: provider_name and subject required'' 400)
      else
        let (s1, r) = store_call (LinkIdentityToUser (q_ctx q 1) (q_now q 0) userID providerName subject email displayName) s
        in case r of
             Inl err \<Rightarrow>
               if errors_Is err ErrConflict then (s1, http_Error ''identity already linked'' 409)
               else if errors_Is err ErrNotFound then (s1, NotFound) else (s1, writeStoreError err)
           | Inr _ \<Rightarrow>
               or_500 s1 (ListUserIdentities (q_ctx q 2) userID (s_store s1)) (\<lambda>identities.
               (s1, writeJSON 201 (JIdentities identities))))))"

definition handleAdminUnlinkIdentity :: "Request \<Rightarrow> 'w Server \<Rightarrow> 'w Server \<times> Response" where
  "handleAdminUnlinkIdentity q s =
     (let userID = q_pathvalue q ''id'' in
      with_admin q s (\<lambda>caller.
      let (s1, r) = store_call (UnlinkIdentity (q_ctx q 1) userID (q_pathvalue q ''provider'') (q_pathvalue q ''subject'')) s
      in case r of
           Inl err \<Rightarrow> if errors_Is err ErrNotFound then (s1, NotFound) else (s1, writeStoreError err)
         | Inr _ \<Rightarrow> (s1, WriteHeader 204)))"

end
