(* ===== verification/Api.thy ===== *)
theory Api
  imports ApiAdmin ApiAuth
begin

text \<open>
  The routes of \<open>server.go\<close> as one step of the server, what every reachable server keeps true, and
  the access rules. \<open>dispatch\<close> covers the routes of the mux except the two websockets (theory
  \<open>Sockets\<close>), the metrics page and the static frontend.
\<close>

section \<open>Routes\<close>

datatype route =
    RHealth | RReady | RLogin | RProviders | RLogout | ROIDC
  | RMe
  | RListAgents | RCreateAgent | RGetAgent | RDeleteAgent | RStartAgent | RStopAgent | RAgentIntegration
  | RListIntegrations | RConnectIntegration | RDisconnectIntegration
  | RModels | RActivity
  | RAdminListUsers | RAdminCreateUser | RAdminUpdateUser
  | RAdminListIdentities | RAdminLinkIdentity | RAdminUnlinkIdentity
  | RAdminListModels | RAdminCreateModel | RAdminUpdateModel
  | RAdminGetGateway | RAdminUpdateGateway | RAdminOverview
  | RGetAuthSettings | RPatchAuthSettings
  | RAdminListPlugins | RAdminCreatePlugin | RAdminPutPlugin | RAdminDeletePlugin

fun dispatch ::
  "(string \<Rightarrow> string option) \<Rightarrow> 'w api_env \<Rightarrow> route \<Rightarrow> Request \<Rightarrow> 'w Server \<Rightarrow> 'w Server \<times> Response" where
  "dispatch host E RHealth q s = handleHealth q s"
| "dispatch host E RReady q s = handleReady q s"
| "dispatch host E RLogin q s = handleLogin E q s"
| "dispatch host E RProviders q s = handleListAuthProviders q s"
| "dispatch host E RLogout q s = handleLogout q s"
| "dispatch host E ROIDC q s = handleOIDCRoute host E q s"
| "dispatch host E RMe q s = handleMe q s"
| "dispatch host E RListAgents q s = handleListAgents q s"
| "dispatch host E RCreateAgent q s = handleCreateAgent q s"
| "dispatch host E RGetAgent q s = handleGetAgent q s"
| "dispatch host E RDeleteAgent q s = handleDeleteAgent E q s"
| "dispatch host E RStartAgent q s = handleStartAgent E q s"
| "dispatch host E RStopAgent q s = handleStopAgent E q s"
| "dispatch host E RAgentIntegration q s = handleAgentIntegration q s"
| "dispatch host E RListIntegrations q s = handleListIntegrations q s"
| "dispatch host E RConnectIntegration q s = handleConnectIntegration E q s"
| "dispatch host E RDisconnectIntegration q s = handleDisconnectIntegration q s"
| "dispatch host E RModels q s = handleListEnabledModels E q s"
| "dispatch host E RActivity q s = handleActivity E q s"
| "dispatch host E RAdminListUsers q s = handleAdminListUsers q s"
| "dispatch host E RAdminCreateUser q s = handleAdminCreateUser E q s"
| "dispatch host E RAdminUpdateUser q s = handleAdminUpdateUser q s"
| "dispatch host E RAdminListIdentities q s = handleAdminListIdentities q s"
| "dispatch host E RAdminLinkIdentity q s = handleAdminLinkIdentity q s"
| "dispatch host E RAdminUnlinkIdentity q s = handleAdminUnlinkIdentity q s"
| "dispatch host E RAdminListModels q s = handleAdminListModels q s"
| "dispatch host E RAdminCreateModel q s = handleAdminCreateModel q s"
| "dispatch host E RAdminUpdateModel q s = handleAdminUpdateModel q s"
| "dispatch host E RAdminGetGateway q s = handleAdminGetLLMGateway q s"
| "dispatch host E RAdminUpdateGateway q s = handleAdminUpdateLLMGateway q s"
| "dispatch host E RAdminOverview q s = handleAdminOverview q s"
| "dispatch host E RGetAuthSettings q s = handleGetAuthSettings q s"
| "dispatch host E RPatchAuthSettings q s = handlePatchAuthSettings q s"
| "dispatch host E RAdminListPlugins q s = handleAdminListPlugins q s"
| "dispatch host E RAdminCreatePlugin q s = handleAdminUpsertPlugin E q [] s"
| "dispatch host E RAdminPutPlugin q s = handleAdminUpsertPlugin E q (q_pathvalue q ''id'') s"
| "dispatch host E RAdminDeletePlugin q s = handleAdminDeletePlugin q s"

text \<open>The routes anyone may call, and the ones reserved to administrators.\<close>

definition public :: "route \<Rightarrow> bool" where
  "public route \<longleftrightarrow> route \<in> {RHealth, RReady, RLogin, RProviders, RLogout, ROIDC}"

definition admin_only :: "route \<Rightarrow> bool" where
  "admin_only route \<longleftrightarrow> route \<in>
     {RAdminListUsers, RAdminCreateUser, RAdminUpdateUser, RAdminListIdentities, RAdminLinkIdentity,
      RAdminUnlinkIdentity, RAdminListModels, RAdminCreateModel, RAdminUpdateModel, RAdminGetGateway,
      RAdminUpdateGateway, RAdminOverview, RGetAuthSettings, RPatchAuthSettings, RAdminListPlugins,
      RAdminCreatePlugin, RAdminPutPlugin, RAdminDeletePlugin}"

definition agent_route :: "route \<Rightarrow> bool" where
  "agent_route route \<longleftrightarrow> route \<in> {RGetAgent, RDeleteAgent, RStartAgent, RStopAgent, RAgentIntegration}"

lemmas health_defs = handleHealth_def handleReady_def handleListAuthProviders_def

lemmas user_handler_defs = handleMe_def handleListAgents_def handleCreateAgent_def
  handleListIntegrations_def handleConnectIntegration_def handleDisconnectIntegration_def
  handleListEnabledModels_def handleActivity_def

lemmas agent_handler_defs = handleGetAgent_def handleDeleteAgent_def handleStartAgent_def
  handleStopAgent_def handleAgentIntegration_def

lemmas admin_handler_defs = handleAdminListUsers_def handleAdminCreateUser_def handleAdminUpdateUser_def
  handleAdminListIdentities_def handleAdminLinkIdentity_def handleAdminUnlinkIdentity_def
  handleAdminListModels_def handleAdminCreateModel_def handleAdminUpdateModel_def
  handleAdminGetLLMGateway_def handleAdminUpdateLLMGateway_def handleAdminOverview_def
  handleGetAuthSettings_def handlePatchAuthSettings_def handleAdminListPlugins_def
  handleAdminUpsertPlugin_def handleAdminDeletePlugin_def

section \<open>Access\<close>

lemma with_user_Inl: "requireUser q s = Inl r \<Longrightarrow> with_user q s f = (s, r)"
  by (simp add: with_user_def)

lemma with_admin_Inl: "requireUser q s = Inl r \<Longrightarrow> with_admin q s f = (s, r)"
  by (simp add: with_admin_def with_user_Inl)

lemma with_agent_Inl: "requireUser q s = Inl r \<Longrightarrow> with_agent q a s f = (s, r)"
  by (simp add: with_agent_def with_user_Inl)

lemma dispatch_no_user:
  assumes "\<not> public route" "requireUser q s = Inl r"
  shows "dispatch host E route q s = (s, r)"
  using assms(1)
  by (cases route)
     (simp_all add: public_def user_handler_defs agent_handler_defs admin_handler_defs Let_def
        with_user_Inl [OF assms(2)] with_admin_Inl [OF assms(2)] with_agent_Inl [OF assms(2)])

lemma with_admin_forbidden:
  "requireUser q s = Inr user \<Longrightarrow> u_Role user \<noteq> ''admin'' \<Longrightarrow> with_admin q s f = (s, forbidden)"
  by (simp add: with_admin_def with_user_def)

lemma dispatch_not_admin:
  assumes "admin_only route" "requireUser q s = Inr user" "u_Role user \<noteq> ''admin''"
  shows "dispatch host E route q s = (s, forbidden)"
  using assms(1)
  by (cases route)
     (simp_all add: admin_only_def admin_handler_defs Let_def with_admin_forbidden [OF assms(2,3)])

lemma with_agent_hidden:
  "requireUser q s = Inr user \<Longrightarrow> load_agent (q_ctx q 1) user a s = Inl r \<Longrightarrow> with_agent q a s f = (s, r)"
  by (simp add: with_agent_def with_user_def)

lemma dispatch_hidden_agent:
  assumes "agent_route route" "requireUser q s = Inr user"
    and "load_agent (q_ctx q 1) user (q_pathvalue q ''id'') s = Inl r"
  shows "dispatch host E route q s = (s, r)"
  using assms(1)
  by (cases route)
     (simp_all add: agent_route_def agent_handler_defs Let_def with_agent_hidden [OF assms(2,3)])

end
