(* ===== verification/ApiInv.thy ===== *)
theory ApiInv
  imports Api
begin

text \<open>
  The invariant of the server under its handlers: the store and the provider registry stay
  reachable by their own operations, every reference in the store resolves, the activity log stays
  within its bound, every session names a user of the store and every runtime token an agent of the
  store. One handler is one step here; handlers that overlap are not interleaved.
\<close>

section \<open>The store under a handler\<close>

abbreviation user_ids :: "Memory \<Rightarrow> string set" where
  "user_ids m \<equiv> u_ID ` set (m_users m)"

abbreviation agent_ids :: "Memory \<Rightarrow> string set" where
  "agent_ids m \<equiv> a_ID ` set (m_agents m)"

text \<open>
  The references the in-memory store does not check itself and the database does: the owner of an
  agent, the user of a connection, the agent of a binding. The store keeps them when the three
  operations that make such a reference are called with one that resolves (\<open>op_refs\<close>), which is
  for the handlers to see to.
\<close>

definition refs_ok :: "Memory \<Rightarrow> bool" where
  "refs_ok m \<longleftrightarrow> a_OwnerUserID ` set (m_agents m) \<subseteq> user_ids m \<and>
     ic_UserID ` set (m_integrations m) \<subseteq> user_ids m \<and>
     ai_AgentID ` set (m_agentIntegrations m) \<subseteq> agent_ids m"

lemma refs_ok_New: "refs_ok NewMemory"
  by (simp add: refs_ok_def NewMemory_def)

fun op_refs :: "store_op \<Rightarrow> Memory \<Rightarrow> bool" where
  "op_refs (OpCreateAgent r ow n d rt mo sp) m = (ow \<in> user_ids m)"
| "op_refs (OpUpsertIntegrationConnection c) m = (ic_UserID c \<in> user_ids m)"
| "op_refs (OpUpsertAgentIntegration a p e v st) m = (a \<in> agent_ids m)"
| "op_refs op m = True"

fun removed_agent :: "store_op \<Rightarrow> string set" where
  "removed_agent (OpDeleteAgent a) = {a}"
| "removed_agent op = {}"

lemma delete1_ids: "g ` set xs - {k} \<subseteq> g ` set (delete1 (\<lambda>x. g x = k) xs)"
  by (induction xs) auto

lemma agents_grow: "agent_ids m - removed_agent op \<subseteq> agent_ids (fst (store_step cx now op m))"
proof (cases "m_agents (fst (store_step cx now op m)) = m_agents m")
  case True
  then show ?thesis by (simp add: Diff_subset)
next
  case False
  then show ?thesis
  proof (cases op)
    case (OpDeleteAgent a)
    with False show ?thesis
      using delete1_ids [of a_ID "m_agents m" a]
      by (simp add: DeleteAgent_def loop_defs split: option.splits)
  qed (auto simp: write_defs loop_defs Let_def split: write_splits)
qed

text \<open>Each kind of reference is made by one operation only.\<close>

lemma owners_step:
  assumes "op_refs op m"
  shows "a_OwnerUserID ` set (m_agents (fst (store_step cx now op m))) \<subseteq> a_OwnerUserID ` set (m_agents m) \<union> user_ids m"
proof (cases "m_agents (fst (store_step cx now op m)) = m_agents m")
  case True
  then show ?thesis by simp
next
  case False
  with assms show ?thesis
    by (cases op) (simp_all add: write_defs loop_defs Let_def image_mono le_supI1 set_delete1 split: write_splits)
qed

lemma connections_changed_by:
  obtains "m_integrations (fst (store_step cx now op m)) = m_integrations m"
  | c where "op = OpUpsertIntegrationConnection c"
  | u p where "op = OpDeleteIntegrationConnection u p"
  by (cases op) (simp_all add: write_defs Let_def split: write_splits)

lemma bindings_changed_by:
  obtains "m_agentIntegrations (fst (store_step cx now op m)) = m_agentIntegrations m" "removed_agent op = {}"
  | a p e v st where "op = OpUpsertAgentIntegration a p e v st"
  | u p where "op = OpDeleteIntegrationConnection u p"
  | a where "op = OpDeleteAgent a"
  by (cases op) (simp_all add: write_defs Let_def split: write_splits)

lemma connection_users_step:
  assumes "op_refs op m"
  shows "ic_UserID ` set (m_integrations (fst (store_step cx now op m))) \<subseteq> ic_UserID ` set (m_integrations m) \<union> user_ids m"
proof (rule connections_changed_by [of cx now op m])
  fix c assume "op = OpUpsertIntegrationConnection c"
  with assms show ?thesis
    by (simp add: UpsertIntegrationConnection_def loop_defs Let_def split: option.split; blast)
next
  fix u p assume "op = OpDeleteIntegrationConnection u p"
  then show ?thesis
    by (auto simp: DeleteIntegrationConnection_def loop_defs split: option.splits)
qed simp

lemma binding_agents_step:
  assumes "op_refs op m"
  shows "ai_AgentID ` set (m_agentIntegrations (fst (store_step cx now op m)))
     \<subseteq> (ai_AgentID ` set (m_agentIntegrations m) \<union> agent_ids m) - removed_agent op \<or>
     fst (store_step cx now op m) = m"
proof (rule bindings_changed_by [of cx now op m])
  fix a p e v st assume "op = OpUpsertAgentIntegration a p e v st"
  with assms show ?thesis
    by (simp add: UpsertAgentIntegration_def loop_defs Let_def split: option.split; blast)
next
  fix u p assume "op = OpDeleteIntegrationConnection u p"
  then show ?thesis
    by (auto simp: DeleteIntegrationConnection_def loop_defs split: option.splits)
next
  fix a assume "op = OpDeleteAgent a"
  then show ?thesis by (auto simp: DeleteAgent_def loop_defs split: option.splits)
qed auto

lemma refs_step:
  assumes "refs_ok m" "op_refs op m"
  shows "refs_ok (fst (store_step cx now op m))"
proof -
  from assms(1) have refs: "a_OwnerUserID ` set (m_agents m) \<subseteq> user_ids m"
    "ic_UserID ` set (m_integrations m) \<subseteq> user_ids m" "ai_AgentID ` set (m_agentIntegrations m) \<subseteq> agent_ids m"
    by (simp_all add: refs_ok_def)
  note users = user_ids_grow [of m cx now op]
  have "a_OwnerUserID ` set (m_agents (fst (store_step cx now op m))) \<subseteq> user_ids (fst (store_step cx now op m))"
    using owners_step [OF assms(2)] refs(1) users by blast
  moreover have "ic_UserID ` set (m_integrations (fst (store_step cx now op m))) \<subseteq> user_ids (fst (store_step cx now op m))"
    using connection_users_step [OF assms(2)] refs(2) users by blast
  moreover have "ai_AgentID ` set (m_agentIntegrations (fst (store_step cx now op m)))
      \<subseteq> agent_ids (fst (store_step cx now op m))"
    using binding_agents_step [OF assms(2), of cx now]
  proof
    assume "fst (store_step cx now op m) = m"
    with refs(3) show ?thesis by simp
  next
    note agents_grow [of m op cx now]
    moreover assume "ai_AgentID ` set (m_agentIntegrations (fst (store_step cx now op m)))
        \<subseteq> (ai_AgentID ` set (m_agentIntegrations m) \<union> agent_ids m) - removed_agent op"
    ultimately show ?thesis unfolding Un_absorb1 [OF refs(3)] by (rule subset_trans [rotated])
  qed
  ultimately show ?thesis by (simp add: refs_ok_def)
qed

definition store_next :: "Memory \<Rightarrow> Memory \<Rightarrow> bool" where
  "store_next m m' \<longleftrightarrow> (\<exists>cx now op. op_refs op m \<and> m' = fst (store_step cx now op m))"

abbreviation store_path :: "Memory \<Rightarrow> Memory \<Rightarrow> bool" where
  "store_path \<equiv> store_next\<^sup>*\<^sup>*"

lemma store_path_reachable: "store_path m m' \<Longrightarrow> store_reachable m \<Longrightarrow> store_reachable m'"
  by (induction rule: rtranclp_induct) (auto simp: store_next_def intro: store_reachable.step)

lemma store_path_refs: "store_path m m' \<Longrightarrow> refs_ok m \<Longrightarrow> refs_ok m'"
  by (induction rule: rtranclp_induct) (auto simp: store_next_def intro: refs_step)

lemma store_path_users: "store_path m m' \<Longrightarrow> set (user_names m) \<subseteq> set (user_names m')"
proof (induction rule: rtranclp_induct)
  case base
  then show ?case by (rule subset_refl)
next
  case (step m1 m2)
  from step.hyps(2) obtain cx now op where m2: "m2 = fst (store_step cx now op m1)"
    unfolding store_next_def by blast
  show ?case unfolding m2 by (rule subset_trans [OF step.IH set_mono_prefix [OF users_grow]])
qed

text \<open>
  A store method that is one step and removes at most the agents \<open>gone\<close>; \<open>store_ext\<close> is the same for
  a state in which its references resolve, and for operations made of several that remove no agent.
\<close>

definition store_op_ok :: "string set \<Rightarrow> (Memory \<Rightarrow> Memory \<times> 'a result) \<Rightarrow> bool" where
  "store_op_ok gone f \<longleftrightarrow> (\<forall>m. store_path m (fst (f m)) \<and> agent_ids m - gone \<subseteq> agent_ids (fst (f m)))"

definition store_ext :: "Memory \<Rightarrow> Memory \<Rightarrow> bool" where
  "store_ext m m' \<longleftrightarrow> store_path m m' \<and> agent_ids m \<subseteq> agent_ids m'"

lemma store_op_okI:
  assumes "\<And>m. fst (f m) = fst (store_step cx now op m)" "removed_agent op = gone" "\<And>m. op_refs op m"
  shows "store_op_ok gone f"
  unfolding store_op_ok_def
proof (intro allI conjI)
  fix m
  have "store_next m (fst (f m))" unfolding store_next_def using assms(1,3) by metis
  then show "store_path m (fst (f m))" by blast
  show "agent_ids m - gone \<subseteq> agent_ids (fst (f m))"
    using agents_grow [of m op cx now] assms by simp
qed

lemma store_extI:
  assumes "m' = fst (store_step cx now op m)" "removed_agent op = {}" "op_refs op m"
  shows "store_ext m m'"
proof -
  from assms(1,3) have "store_next m m'" by (auto simp: store_next_def)
  then have "store_path m m'" by blast
  then show ?thesis using agents_grow [of m op cx now] assms(1,2) by (simp add: store_ext_def)
qed

lemma CreateAgent_ext: "ow \<in> user_ids m \<Longrightarrow> store_ext m (fst (CreateAgent cx now r ow n d rt mo sp m))"
  by (rule store_extI [where op = "OpCreateAgent r ow n d rt mo sp"]) simp_all
lemma UpsertIntegrationConnection_ext:
  "ic_UserID c \<in> user_ids m \<Longrightarrow> store_ext m (fst (UpsertIntegrationConnection cx now c m))"
  by (rule store_extI [where op = "OpUpsertIntegrationConnection c"]) simp_all
lemma UpsertAgentIntegration_ext:
  "a \<in> agent_ids m \<Longrightarrow> store_ext m (fst (UpsertAgentIntegration cx now a p e v st m))"
  by (rule store_extI [where op = "OpUpsertAgentIntegration a p e v st"]) simp_all

named_theorems store_ops "which operations are steps of the store"

lemma CreateUser_op [store_ops]: "store_op_ok {} (CreateUser cx now r n h ro)"
  by (rule store_op_okI [where op = "OpCreateUser r n h ro"]) simp_all
lemma UpdateUser_op [store_ops]: "store_op_ok {} (UpdateUser cx now i d ro)"
  by (rule store_op_okI [where op = "OpUpdateUser i d ro"]) simp_all
lemma UpdateAgentState_op [store_ops]: "store_op_ok {} (UpdateAgentState cx now i st)"
  by (rule store_op_okI [where op = "OpUpdateAgentState i st"]) simp_all
lemma UpdateAgentError_op [store_ops]: "store_op_ok {} (UpdateAgentError cx now i st)"
  by (rule store_op_okI [where op = "OpUpdateAgentError i st"]) simp_all
lemma DeleteAgent_op [store_ops]: "store_op_ok {a} (DeleteAgent cx a)"
  by (rule store_op_okI [where op = "OpDeleteAgent a"]) simp_all
lemma CreateLLMModel_op [store_ops]: "store_op_ok {} (CreateLLMModel cx now r d p e)"
  by (rule store_op_okI [where op = "OpCreateLLMModel r d p e"]) simp_all
lemma UpdateLLMModel_op [store_ops]: "store_op_ok {} (UpdateLLMModel cx now i d p e)"
  by (rule store_op_okI [where op = "OpUpdateLLMModel i d p e"]) simp_all
lemma UpsertLLMGatewaySettings_op [store_ops]: "store_op_ok {} (UpsertLLMGatewaySettings cx now e b n k)"
  by (rule store_op_okI [where op = "OpUpsertLLMGatewaySettings e b n k"]) simp_all
lemma DeleteIntegrationConnection_op [store_ops]: "store_op_ok {} (DeleteIntegrationConnection cx u p)"
  by (rule store_op_okI [where op = "OpDeleteIntegrationConnection u p"]) simp_all
lemma UpsertPluginManifest_op [store_ops]: "store_op_ok {} (UpsertPluginManifest cx now pm)"
  by (rule store_op_okI [where op = "OpUpsertPluginManifest pm"]) simp_all
lemma DeletePluginManifest_op [store_ops]: "store_op_ok {} (DeletePluginManifest cx i)"
  by (rule store_op_okI [where op = "OpDeletePluginManifest i"]) simp_all
lemma BootstrapAdmin_op [store_ops]: "store_op_ok {} (BootstrapAdmin cx now r n h)"
  by (rule store_op_okI [where op = "OpBootstrapAdmin r n h"]) simp_all
lemma TouchIdentityLogin_op [store_ops]: "store_op_ok {} (TouchIdentityLogin cx now p sub)"
  by (rule store_op_okI [where op = "OpTouchIdentityLogin p sub"]) simp_all
lemma CreateUserAndIdentity_op [store_ops]: "store_op_ok {} (CreateUserAndIdentity cx now r a)"
  by (rule store_op_okI [where op = "OpCreateUserAndIdentity r a"]) simp_all
lemma LinkIdentityToUser_op [store_ops]: "store_op_ok {} (LinkIdentityToUser cx now u p sub e d)"
  by (rule store_op_okI [where op = "OpLinkIdentityToUser u p sub e d"]) simp_all
lemma UnlinkIdentity_op [store_ops]: "store_op_ok {} (UnlinkIdentity cx u p sub)"
  by (rule store_op_okI [where op = "OpUnlinkIdentity u p sub"]) simp_all
lemma SetAppSetting_op [store_ops]: "store_op_ok {} (SetAppSetting cx k v)"
  by (rule store_op_okI [where op = "OpSetAppSetting k v"]) simp_all
lemma SetPasswordHash_op [store_ops]: "store_op_ok {} (\<lambda>m. (SetPasswordHash n h m, r))"
  by (rule store_op_okI [where op = "OpSetPasswordHash n h"]) simp_all

lemma store_ext_refl [simp]: "store_ext m m"
  by (simp add: store_ext_def)

lemma store_ext_trans: "store_ext m m1 \<Longrightarrow> store_ext m1 m2 \<Longrightarrow> store_ext m m2"
  unfolding store_ext_def by (metis rtranclp_trans subset_trans)

lemma store_op_ext: "store_op_ok {} f \<Longrightarrow> store_ext m (fst (f m))"
  by (simp add: store_op_ok_def store_ext_def)

lemma store_op_ext': "store_op_ok {} f \<Longrightarrow> f m = (m', r) \<Longrightarrow> store_ext m m'"
  using store_op_ext [of f m] by simp

lemma set_mode_ext: "store_ext m (fst (set_mode cx mode m))"
  by (cases mode) (simp_all add: set_mode_def store_op_ext store_ops)

lemma set_flags_ext: "store_ext m (fst (set_flags cx i ps m))"
proof (induction cx i ps m rule: set_flags.induct)
  case (3 cx i name enabled ps m)
  have "store_ext m (fst (SetAppSetting (cx i) (enabled_key name) (bool_text enabled) m))"
    by (rule store_op_ext [OF SetAppSetting_op])
  with 3 show ?case by (auto split: prod.splits sum.splits intro: store_ext_trans)
qed simp_all

lemma seed_admin_ext: "store_ext m (seed_admin E now salt r cfg m)"
proof -
  note b = store_op_ext' [OF BootstrapAdmin_op]
  have u: "store_ext m1 m2 \<Longrightarrow> store_ext m1 (fst (UpsertLLMGatewaySettings cx now e a n k m2))" for m1 m2 cx e a n k
    by (rule store_ext_trans [OF _ store_op_ext [OF UpsertLLMGatewaySettings_op]])
  have p: "store_ext m1 m2 \<Longrightarrow> store_ext m1 (SetPasswordHash n h m2)" for m1 m2 n h
    using store_ext_trans [OF _ store_op_ext [OF SetPasswordHash_op]] by fastforce
  show ?thesis
    by (auto simp: seed_admin_def Let_def split: sum.splits prod.splits intro!: p u dest: b)
qed

lemma linkOrCreateUser_ext: "store_ext m (fst (linkOrCreateUser cx now r p sub e d m))"
  by (auto simp: linkOrCreateUser_def Let_def split: sum.splits option.splits
      intro: store_op_ext [OF TouchIdentityLogin_op] store_op_ext [OF CreateUserAndIdentity_op])

lemma new_connection_user: "ic_UserID (new_connection u p v e) = u"
  by (simp add: new_connection_def)

lemma Connect_ext:
  "u \<in> user_ids m \<Longrightarrow> store_ext m (fst (Connect P C r box g (UpsertIntegrationConnection cx now) u p flds m))"
  by (simp add: Connect_def UpsertIntegrationConnection_ext new_connection_user case_prod_beta
      split: option.split sum.split)

lemma Toggle_ext:
  "ag \<in> agent_ids m \<Longrightarrow>
     store_ext m (fst (ToggleAgentIntegration (\<lambda>a p e v st. UpsertAgentIntegration cx now a p e v st) ag pr en m))"
  by (simp add: ToggleAgentIntegration_def UpsertAgentIntegration_ext)

section \<open>The invariant of the server\<close>

definition sessions_ok :: "Service \<Rightarrow> Memory \<Rightarrow> bool" where
  "sessions_ok a m \<longleftrightarrow> (\<forall>t u. sv_tokens a t = Some u \<longrightarrow> (u_ID u, u_Username u) \<in> set (user_names m))"

definition tokens_ok :: "(string \<rightharpoonup> string) \<Rightarrow> Memory \<Rightarrow> bool" where
  "tokens_ok tk m \<longleftrightarrow> dom tk \<subseteq> agent_ids m"

definition server_inv :: "'w Server \<Rightarrow> bool" where
  "server_inv s \<longleftrightarrow> store_reachable (s_store s) \<and> refs_ok (s_store s) \<and> idp_reachable (s_idp s) \<and>
     length (s_activity s) \<le> 200 \<and> sessions_ok (s_auth s) (s_store s) \<and> tokens_ok (s_tokens s) (s_store s)"

lemma sessions_ok_ext: "sessions_ok a m \<Longrightarrow> store_path m m' \<Longrightarrow> sessions_ok a m'"
  unfolding sessions_ok_def using store_path_users by blast

lemma tokens_ok_ext: "tokens_ok tk m \<Longrightarrow> agent_ids m \<subseteq> agent_ids m' \<Longrightarrow> tokens_ok tk m'"
  unfolding tokens_ok_def by (rule subset_trans)

lemma inv_store: "server_inv s \<Longrightarrow> store_ext (s_store s) m \<Longrightarrow> server_inv (s\<lparr>s_store := m\<rparr>)"
  unfolding server_inv_def store_ext_def
  by (simp, blast intro: store_path_reachable store_path_refs sessions_ok_ext tokens_ok_ext)

lemma inv_activity: "server_inv s \<Longrightarrow> server_inv (recordActivity n t ac ag msg d s)"
  by (simp add: server_inv_def activity_bounded)

lemma inv_frame:
  assumes "server_inv s" "s_store s' = s_store s" "s_idp s' = s_idp s" "s_activity s' = s_activity s"
    "s_auth s' = s_auth s" "s_tokens s' = s_tokens s"
  shows "server_inv s'"
  using assms by (simp add: server_inv_def)

lemma inv_store_call: "server_inv s \<Longrightarrow> store_op_ok {} f \<Longrightarrow> server_inv (fst (store_call f s))"
  using inv_store [of s "fst (f (s_store s))"] store_op_ext [of f]
  by (simp add: store_call_def case_prod_beta)

lemma inv_tokens_del: "server_inv s \<Longrightarrow> server_inv (s\<lparr>s_sandbox := w, s_tokens := (s_tokens s)(a := None)\<rparr>)"
  by (auto simp: server_inv_def tokens_ok_def)

lemma inv_delete_agent:
  assumes "server_inv s" "s_tokens s a = None"
  shows "server_inv (fst (store_call (DeleteAgent cx a) s))"
proof -
  let ?m = "s_store s" and ?m' = "fst (DeleteAgent cx a (s_store s))"
  from DeleteAgent_op [of a cx] have p: "store_path ?m ?m'" and ids: "agent_ids ?m - {a} \<subseteq> agent_ids ?m'"
    by (simp_all add: store_op_ok_def)
  from assms have "dom (s_tokens s) \<subseteq> agent_ids ?m - {a}" by (auto simp: server_inv_def tokens_ok_def)
  with ids have "tokens_ok (s_tokens s) ?m'" unfolding tokens_ok_def by (rule subset_trans [rotated])
  with assms p show ?thesis
    unfolding server_inv_def by (simp, blast intro: store_path_reachable store_path_refs sessions_ok_ext)
qed

lemma inv_auth: "server_inv s \<Longrightarrow> sessions_ok a (s_store s) \<Longrightarrow> server_inv (s\<lparr>s_auth := a\<rparr>)"
  by (simp add: server_inv_def)

lemma sessions_ok_issue:
  "sessions_ok a m \<Longrightarrow> u \<in> set (m_users m) \<Longrightarrow> sessions_ok (fst (IssueToken r u a)) m"
  by (auto simp: sessions_ok_def IssueToken_def split: sum.splits)

lemma sessions_ok_revoke: "sessions_ok a m \<Longrightarrow> sessions_ok (fst (Revoke t a)) m"
  by (auto simp: sessions_ok_def Revoke_def split: option.splits)

lemma sessions_ok_login:
  assumes "sessions_ok a m"
  shows "sessions_ok (fst (Login (\<lambda>n. GetUserByUsername cx n m) (\<lambda>n. GetPasswordHash n m) cmp r n p a)) m"
proof (cases "Login (\<lambda>n. GetUserByUsername cx n m) (\<lambda>n. GetPasswordHash n m) cmp r n p a")
  case (Pair a' res)
  show ?thesis
  proof (cases res)
    case (Inl e)
    with Pair mem_credentials.Login_Inl [of cx m cmp r n p a a' e] assms show ?thesis by simp
  next
    case (Inr ut)
    obtain u t where "ut = (u, t)" by fastforce
    with Pair Inr have "Login (\<lambda>n. GetUserByUsername cx n m) (\<lambda>n. GetPasswordHash n m) cmp r n p a = (a', Inr (u, t))"
      by simp
    note l = mem_credentials.Login_Inr [OF this]
    from l(1) have "u \<in> set (m_users m)" by (auto simp: account_of_def dest: find_SomeD)
    with assms l(6) Pair show ?thesis by (auto simp: sessions_ok_def)
  qed
qed

lemma linkOrCreateUser_user:
  "linkOrCreateUser cx now r p sub e d m = (m', Inr u) \<Longrightarrow> u \<in> set (m_users m')"
  by (auto simp: linkOrCreateUser_def Let_def GetUser_def find_or_not_found_def CreateUserAndIdentity_def
      split: sum.splits option.splits if_splits dest: find_SomeD)

section \<open>Every handler keeps it\<close>

abbreviation keeps :: "'w Server \<Rightarrow> 'w Server \<times> Response \<Rightarrow> bool" where
  "keeps s p \<equiv> server_inv s \<longrightarrow> server_inv (fst p)"

named_theorems keep_rules "rules that walk through a handler"

lemma keeps_user [keep_rules]: "server_inv s \<Longrightarrow> (\<And>u. server_inv (fst (f u))) \<Longrightarrow> server_inv (fst (with_user q s f))"
  by (simp add: with_user_def split: sum.splits)

lemma keeps_admin [keep_rules]: "server_inv s \<Longrightarrow> (\<And>u. server_inv (fst (f u))) \<Longrightarrow> server_inv (fst (with_admin q s f))"
  by (simp add: with_admin_def keeps_user)

text \<open>The user a handler acts for is one of the store, and so is the agent it has looked up.\<close>

lemma session_user_known: "requireUser q s = Inr u \<Longrightarrow> u_ID u \<in> user_ids (s_store s)"
  by (rule imageI [OF requireUser_Inr(1)])

lemma keeps_known_user:
  "server_inv s \<Longrightarrow> (\<And>u. u_ID u \<in> user_ids (s_store s) \<Longrightarrow> server_inv (fst (f u))) \<Longrightarrow>
     server_inv (fst (with_user q s f))"
  by (simp add: with_user_def session_user_known split: sum.splits)

lemma inv_store_ext:
  "server_inv s \<Longrightarrow> store_ext (s_store s) (fst (f (s_store s))) \<Longrightarrow> server_inv (fst (store_call f s))"
  using inv_store [of s "fst (f (s_store s))"] by (simp add: store_call_def case_prod_beta)

lemma keeps_agent [keep_rules]:
  "server_inv s \<Longrightarrow> (\<And>u a. server_inv (fst (f u a))) \<Longrightarrow> server_inv (fst (with_agent q i s f))"
  unfolding with_agent_def by (rule keeps_user) (simp_all split: sum.splits)

lemma keeps_500 [keep_rules]: "server_inv s \<Longrightarrow> (\<And>x. server_inv (fst (f x))) \<Longrightarrow> server_inv (fst (or_500 s r f))"
  by (simp add: or_500_def split: sum.splits)

lemma keeps_400 [keep_rules]: "server_inv s \<Longrightarrow> (\<And>x. server_inv (fst (f x))) \<Longrightarrow> server_inv (fst (or_400 s r f))"
  by (simp add: or_400_def split: option.splits)

declare inv_activity [keep_rules]

lemma inv_metrics [keep_rules]: "server_inv s \<Longrightarrow> server_inv (s\<lparr>s_metrics := x\<rparr>)"
  by (rule inv_frame [of s]) simp_all

lemma inv_sandbox [keep_rules]: "server_inv s \<Longrightarrow> server_inv (s\<lparr>s_sandbox := x\<rparr>)"
  by (rule inv_frame [of s]) simp_all

lemma inv_started [keep_rules]: "server_inv s \<Longrightarrow> server_inv (s\<lparr>s_sandbox := x, s_metrics := y\<rparr>)"
  by (rule inv_frame [of s]) simp_all

lemma inv_call [keep_rules]: "store_op_ok {} f \<Longrightarrow> server_inv s \<Longrightarrow> server_inv (fst (store_call f s))"
  by (rule inv_store_call)

lemma keeps_read_only:
  "server_inv s \<Longrightarrow> server_inv (fst (handleMe q s))"
  "server_inv s \<Longrightarrow> server_inv (fst (handleListAgents q s))"
  "server_inv s \<Longrightarrow> server_inv (fst (handleGetAgent q s))"
  "server_inv s \<Longrightarrow> server_inv (fst (handleListIntegrations q s))"
  "server_inv s \<Longrightarrow> server_inv (fst (handleListEnabledModels E q s))"
  "server_inv s \<Longrightarrow> server_inv (fst (handleActivity E q s))"
  "server_inv s \<Longrightarrow> server_inv (fst (handleAdminListUsers q s))"
  "server_inv s \<Longrightarrow> server_inv (fst (handleAdminListModels q s))"
  "server_inv s \<Longrightarrow> server_inv (fst (handleAdminGetLLMGateway q s))"
  "server_inv s \<Longrightarrow> server_inv (fst (handleAdminListPlugins q s))"
  "server_inv s \<Longrightarrow> server_inv (fst (handleAdminListIdentities q s))"
  "server_inv s \<Longrightarrow> server_inv (fst (handleAdminOverview q s))"
  "server_inv s \<Longrightarrow> server_inv (fst (handleGetAuthSettings q s))"
  by (auto simp: user_handler_defs agent_handler_defs admin_handler_defs Let_def
      split: sum.splits option.splits intro!: keep_rules)

lemma check_model_keeps: "check_model cx mo msg s = Inl (s', r) \<Longrightarrow> server_inv s \<Longrightarrow> server_inv s'"
  by (auto simp: check_model_def count_allowlist_error_def split: if_splits sum.splits intro!: keep_rules)

lemma keeps_check [keep_rules]:
  "server_inv s \<Longrightarrow> (\<And>u. server_inv (fst (f u))) \<Longrightarrow>
     server_inv (fst (case check_model cx mo msg s of Inl stop \<Rightarrow> stop | Inr u \<Rightarrow> f u))"
  using check_model_keeps by (fastforce split: sum.splits)

lemma keeps_check_keeping:
  assumes "server_inv s" "server_inv (fst (f ()))"
  shows "server_inv (fst (case check_model cx mo msg s of Inl stop \<Rightarrow> stop | Inr u \<Rightarrow> f u))"
  using assms check_model_keeps [of cx mo msg s] by (cases "check_model cx mo msg s") fastforce+

lemma keeps_CreateAgent: "server_inv s \<Longrightarrow> server_inv (fst (handleCreateAgent q s))"
  unfolding handleCreateAgent_def Let_def case_prod_beta
  by (rule keeps_known_user, assumption)
     (auto simp del: store_call_simps intro!: keeps_400 keeps_check_keeping keeps_500 inv_activity inv_store_ext CreateAgent_ext)

lemma keeps_admin_writes:
  "server_inv s \<Longrightarrow> server_inv (fst (handleAdminCreateUser E q s))"
  "server_inv s \<Longrightarrow> server_inv (fst (handleAdminUpdateUser q s))"
  "server_inv s \<Longrightarrow> server_inv (fst (handleAdminLinkIdentity q s))"
  "server_inv s \<Longrightarrow> server_inv (fst (handleAdminUnlinkIdentity q s))"
  "server_inv s \<Longrightarrow> server_inv (fst (handleAdminCreateModel q s))"
  "server_inv s \<Longrightarrow> server_inv (fst (handleAdminUpdateModel q s))"
  "server_inv s \<Longrightarrow> server_inv (fst (handleAdminUpdateLLMGateway q s))"
  "server_inv s \<Longrightarrow> server_inv (fst (handleAdminUpsertPlugin E q i s))"
  "server_inv s \<Longrightarrow> server_inv (fst (handleAdminDeletePlugin q s))"
  by (auto simp: admin_handler_defs Let_def case_prod_beta simp del: store_call_simps
      split: sum.splits intro!: keep_rules store_ops)

lemma keeps_Connect: "server_inv s \<Longrightarrow> server_inv (fst (handleConnectIntegration E q s))"
  unfolding handleConnectIntegration_def Let_def case_prod_beta
  by (rule keeps_known_user, assumption)
     (auto split: sum.splits intro!: keeps_400 inv_activity inv_store Connect_ext)

lemma keeps_Disconnect: "server_inv s \<Longrightarrow> server_inv (fst (handleDisconnectIntegration q s))"
  by (auto simp: handleDisconnectIntegration_def Disconnect_def Let_def case_prod_beta
      split: sum.splits intro!: keep_rules inv_store store_op_ext store_ops)

text \<open>The agent's life cycle.\<close>

lemma keeps_launch: "server_inv s \<Longrightarrow> server_inv (fst (launch_agent E q user agent request s))"
  by (auto simp: launch_agent_def Let_def case_prod_beta simp del: store_call_simps
      split: sum.splits intro!: keep_rules store_ops)

lemma GetAgent_id: "GetAgent cx i m = Inr a \<Longrightarrow> i \<in> agent_ids m"
  by (auto simp: GetAgent_def find_or_not_found_def split: option.splits dest!: find_SomeD)

lemma inv_token_set:
  "server_inv s \<Longrightarrow> i \<in> agent_ids (s_store s) \<Longrightarrow> server_inv (s\<lparr>s_tokens := (s_tokens s)(i \<mapsto> t)\<rparr>)"
  by (auto simp: server_inv_def tokens_ok_def)

lemma keeps_issue:
  "server_inv s \<Longrightarrow> i \<in> agent_ids (s_store s) \<Longrightarrow> server_inv (fst (issue_and_launch E q user i settings environ s))"
  unfolding issue_and_launch_def Let_def case_prod_beta
  by (rule keeps_500, assumption)
     (intro keeps_500 keeps_launch inv_activity inv_call UpdateAgentState_op inv_token_set)

lemma keeps_agent':
  assumes "server_inv s" "\<And>u a. i \<in> agent_ids (s_store s) \<Longrightarrow> server_inv (fst (f u a))"
  shows "server_inv (fst (with_agent q i s f))"
  unfolding with_agent_def
  by (rule keeps_user) (use assms in \<open>auto split: sum.splits dest!: load_agent_Inr dest: GetAgent_id\<close>)

lemma keeps_AgentIntegration: "server_inv s \<Longrightarrow> server_inv (fst (handleAgentIntegration q s))"
  unfolding handleAgentIntegration_def Let_def case_prod_beta
  by (rule keeps_agent', assumption)
     (auto simp del: store_call_simps split: sum.splits
        intro!: keeps_400 keeps_500 inv_activity inv_store_ext Toggle_ext)

lemma keeps_start_visible:
  "server_inv s \<Longrightarrow> i \<in> agent_ids (s_store s) \<Longrightarrow> server_inv (fst (start_visible_agent E q i s user agent))"
  by (auto simp: start_visible_agent_def Let_def simp del: store_call_simps split: sum.splits
      dest: check_model_keeps intro!: keep_rules store_ops keeps_issue)

lemma keeps_StartAgent: "server_inv s \<Longrightarrow> server_inv (fst (handleStartAgent E q s))"
  unfolding handleStartAgent_def Let_def by (rule keeps_agent', assumption, rule keeps_start_visible)

lemma keeps_StopAgent: "server_inv s \<Longrightarrow> server_inv (fst (handleStopAgent E q s))"
  by (auto simp: handleStopAgent_def Let_def case_prod_beta simp del: store_call_simps
      split: sum.splits intro!: keep_rules store_ops inv_tokens_del)

lemma keeps_DeleteAgent: "server_inv s \<Longrightarrow> server_inv (fst (handleDeleteAgent E q s))"
  by (auto simp: handleDeleteAgent_def Let_def case_prod_beta simp del: store_call_simps
      split: sum.splits intro!: keeps_agent inv_activity inv_delete_agent inv_tokens_del)

text \<open>Sessions and settings.\<close>

lemma inv_bootstrap: "server_inv s \<Longrightarrow> server_inv (bootstrapAdmin E n r r' s)"
proof -
  assume inv: "server_inv s"
  then have "server_inv (s\<lparr>s_store := seed_admin E n r r' (s_cfg s) (s_store s)\<rparr>)"
    by (rule inv_store [OF _ seed_admin_ext])
  then have "server_inv (s\<lparr>s_bootstrapped := True, s_store := seed_admin E n r r' (s_cfg s) (s_store s)\<rparr>)"
    by (rule inv_frame) simp_all
  with inv show ?thesis by (simp add: bootstrapAdmin_def)
qed

lemma inv_login:
  assumes "server_inv s"
  shows "server_inv (s\<lparr>s_auth := fst (Login (\<lambda>n. GetUserByUsername cx n (s_store s))
    (\<lambda>n. GetPasswordHash n (s_store s)) cmp r n p (s_auth s))\<rparr>)"
  by (rule inv_auth [OF assms]) (use assms in \<open>simp add: server_inv_def sessions_ok_login\<close>)

lemma keeps_Login: "server_inv s \<Longrightarrow> server_inv (fst (handleLogin E q s))"
  unfolding handleLogin_def Let_def
  by (auto simp: case_prod_beta split: sum.splits
      intro!: keeps_400 inv_activity inv_login inv_bootstrap)

lemma keeps_Logout: "server_inv s \<Longrightarrow> server_inv (fst (handleLogout q s))"
  by (auto simp: handleLogout_def Let_def server_inv_def sessions_ok_revoke)

lemma keeps_open_session:
  assumes inv: "server_inv s"
  shows "server_inv (fst (open_session q p ident ret s))"
proof -
  let ?l = "linkOrCreateUser (q_ctx q) (q_now q) (q_rnd q 0) p (id_Subject ident) (id_Email ident) (id_Name ident) (s_store s)"
  have m: "server_inv (s\<lparr>s_store := fst ?l\<rparr>)"
    by (rule inv_store [OF inv linkOrCreateUser_ext])
  have "server_inv (s\<lparr>s_store := fst ?l, s_auth := fst (IssueToken r u (s_auth s))\<rparr>)" if "snd ?l = Inr u" for u r
  proof -
    from that have "u \<in> set (m_users (fst ?l))"
      by (intro linkOrCreateUser_user) (rule prod_eqI; simp)
    with m have "sessions_ok (fst (IssueToken r u (s_auth s))) (fst ?l)"
      by (intro sessions_ok_issue) (simp_all add: server_inv_def)
    with inv_auth [OF m] show ?thesis by simp
  qed
  with m show ?thesis
    by (auto simp: open_session_def case_prod_beta split: sum.splits intro!: inv_activity)
qed

lemma keeps_OIDC: "server_inv s \<Longrightarrow> server_inv (fst (handleOIDCRoute host E q s))"
  by (auto simp: handleOIDCRoute_def handleOIDCLogin_def handleOIDCCallback_def Let_def case_prod_beta
      split: option.splits sum.splits intro!: keeps_open_session)

lemma inv_reload: "server_inv s \<Longrightarrow> server_inv (s\<lparr>s_idp := fst (Reload g l (s_idp s))\<rparr>)"
  using idp_reachable.step [of "s_idp s" "OpReload g l"] by (simp add: server_inv_def)

lemma keeps_PatchAuthSettings: "server_inv s \<Longrightarrow> server_inv (fst (handlePatchAuthSettings q s))"
proof -
  have call: "server_inv s \<Longrightarrow> (\<And>m. store_ext m (fst (f m))) \<Longrightarrow> server_inv (fst (store_call f s))"
    for s :: "'a Server" and f :: "Memory \<Rightarrow> Memory \<times> unit result"
    using inv_store [of s "fst (f (s_store s))"] by (simp add: store_call_def case_prod_beta)
  show "server_inv s \<Longrightarrow> ?thesis"
    unfolding handlePatchAuthSettings_def Let_def case_prod_beta
    by (intro keeps_admin keeps_400) (auto simp del: store_call_simps
        intro!: keeps_500 keeps_read_only(13) inv_reload call set_mode_ext set_flags_ext)
qed

end
