(* ===== verification/Kube.thy ===== *)
theory Kube
  imports Pods
begin

text \<open>
  \<open>internal/sandbox/kubernetes_provider.go\<close>: the provider that runs an agent as a pod. The cluster
  is the four collections of one namespace; an API call succeeds unless \<open>fault verb kind name\<close>
  gives an error, so every theorem holds under any pattern of failing calls. The API server is the
  documented behaviour of its verbs by name: a create of a name in use is refused, the others answer
  "not found" for a name that is not, and a deletion that is accepted takes the name out of the
  collection. In a cluster that last step may come later than the answer: a pod ends within its
  grace period, a volume claim in use is kept until no pod uses it. So "deleted" means here that the
  API server has accepted the deletion. The cluster a call starts from is arbitrary, one that still
  holds objects of an earlier run included. The readiness loop
  polls a list: what \<open>Get\<close> returns at each iteration before the deadline, its end being the
  deadline.
\<close>

section \<open>The API server\<close>

datatype kube_err = KNotFound | KAlreadyExists | KOther go_error

fun kube_error :: "kube_err \<Rightarrow> go_error" where
  "kube_error KNotFound = ErrWrap ''kubernetes: '' ErrNotFound []"
| "kube_error KAlreadyExists = ErrNew ''kubernetes: already exists''"
| "kube_error (KOther err) = err"

type_synonym faults = "string \<Rightarrow> string \<Rightarrow> string \<Rightarrow> go_error option"

definition api_create ::
  "faults \<Rightarrow> string \<Rightarrow> string \<Rightarrow> 'o \<Rightarrow> (string \<rightharpoonup> 'o) \<Rightarrow> (string \<rightharpoonup> 'o) \<times> (kube_err + unit)" where
  "api_create fault kind name obj m =
     (case fault ''create'' kind name of
        Some err \<Rightarrow> (m, Inl (KOther err))
      | None \<Rightarrow> (case m name of Some _ \<Rightarrow> (m, Inl KAlreadyExists) | None \<Rightarrow> (m(name \<mapsto> obj), Inr ())))"

definition api_get :: "faults \<Rightarrow> string \<Rightarrow> string \<Rightarrow> (string \<rightharpoonup> 'o) \<Rightarrow> kube_err + 'o" where
  "api_get fault kind name m =
     (case fault ''get'' kind name of
        Some err \<Rightarrow> Inl (KOther err)
      | None \<Rightarrow> (case m name of None \<Rightarrow> Inl KNotFound | Some obj \<Rightarrow> Inr obj))"

definition api_update ::
  "faults \<Rightarrow> string \<Rightarrow> string \<Rightarrow> 'o \<Rightarrow> (string \<rightharpoonup> 'o) \<Rightarrow> (string \<rightharpoonup> 'o) \<times> (kube_err + unit)" where
  "api_update fault kind name obj m =
     (case fault ''update'' kind name of
        Some err \<Rightarrow> (m, Inl (KOther err))
      | None \<Rightarrow> (case m name of None \<Rightarrow> (m, Inl KNotFound) | Some _ \<Rightarrow> (m(name \<mapsto> obj), Inr ())))"

definition api_delete ::
  "faults \<Rightarrow> string \<Rightarrow> string \<Rightarrow> (string \<rightharpoonup> 'o) \<Rightarrow> (string \<rightharpoonup> 'o) \<times> (kube_err + unit)" where
  "api_delete fault kind name m =
     (case fault ''delete'' kind name of
        Some err \<Rightarrow> (m, Inl (KOther err))
      | None \<Rightarrow> (case m name of None \<Rightarrow> (m, Inl KNotFound) | Some _ \<Rightarrow> (m(name := None), Inr ())))"

text \<open>The four \<open>createOrUpdate\<close> functions: create, and when the object exists fetch it, merge the
  new fields into it and update it.\<close>

definition createOrUpdate ::
  "faults \<Rightarrow> string \<Rightarrow> ('o \<Rightarrow> 'o \<Rightarrow> 'o) \<Rightarrow> string \<Rightarrow> 'o \<Rightarrow> (string \<rightharpoonup> 'o) \<Rightarrow> (string \<rightharpoonup> 'o) \<times> unit result" where
  "createOrUpdate fault kind merge name obj m =
     (case api_create fault kind name obj m of
        (m1, Inr _) \<Rightarrow> (m1, Inr ())
      | (m1, Inl err) \<Rightarrow>
          if err \<noteq> KAlreadyExists then (m1, Inl (kube_error err))
          else
            (case api_get fault kind name m1 of
               Inl err \<Rightarrow> (m1, Inl (kube_error err))
             | Inr existing \<Rightarrow>
                 (case api_update fault kind name (merge obj existing) m1 of
                    (m2, Inl err) \<Rightarrow> (m2, Inl (kube_error err))
                  | (m2, Inr _) \<Rightarrow> (m2, Inr ()))))"

definition deleteIgnoreNotFound ::
  "faults \<Rightarrow> string \<Rightarrow> string \<Rightarrow> (string \<rightharpoonup> 'o) \<Rightarrow> (string \<rightharpoonup> 'o) \<times> unit result" where
  "deleteIgnoreNotFound fault kind name m =
     (case api_delete fault kind name m of
        (m1, Inl KNotFound) \<Rightarrow> (m1, Inr ())
      | (m1, Inl err) \<Rightarrow> (m1, Inl (kube_error err))
      | (m1, Inr _) \<Rightarrow> (m1, Inr ()))"

definition merge_secret :: "Secret \<Rightarrow> Secret \<Rightarrow> Secret" where
  "merge_secret secret existing =
     existing\<lparr>sec_StringData := sec_StringData secret, sec_Data := sec_Data secret,
              sec_Labels := sec_Labels secret, sec_Type := sec_Type secret\<rparr>"

definition merge_pvc :: "PVC \<Rightarrow> PVC \<Rightarrow> PVC" where
  "merge_pvc pvc existing = existing\<lparr>pvc_Labels := pvc_Labels pvc\<rparr>"

definition merge_policy :: "NetworkPolicy \<Rightarrow> NetworkPolicy \<Rightarrow> NetworkPolicy" where
  "merge_policy pol existing =
     existing\<lparr>np_Labels := np_Labels pol, np_PodSelector := np_PodSelector pol,
              np_PolicyTypes := np_PolicyTypes pol, np_Egress := np_Egress pol\<rparr>"

definition merge_pod :: "Pod \<Rightarrow> Pod \<Rightarrow> Pod" where
  "merge_pod pod existing = existing\<lparr>pod_Labels := pod_Labels pod\<rparr>"

record Cluster =
  kc_secrets :: "string \<rightharpoonup> Secret"
  kc_pvcs :: "string \<rightharpoonup> PVC"
  kc_policies :: "string \<rightharpoonup> NetworkPolicy"
  kc_pods :: "string \<rightharpoonup> Pod"

section \<open>Waiting for the pod\<close>

record ContainerStatus =
  cs_Name :: string
  cs_Ready :: bool
  cs_Waiting :: "(string \<times> string) option"
  cs_Terminated :: "(string \<times> int \<times> string) option"
  cs_LastTerminated :: "(string \<times> int) option"

record PodStatus =
  ph_Phase :: string
  ph_Reason :: string
  ph_Message :: string
  ph_Containers :: "ContainerStatus list"

record KubeEvent =
  ev_Object :: string
  ev_Type :: string
  ev_Reason :: string
  ev_Message :: string
  ev_Count :: int

definition allContainersReady :: "PodStatus \<Rightarrow> bool" where
  "allContainersReady p \<longleftrightarrow> ph_Containers p \<noteq> [] \<and> list_all cs_Ready (ph_Containers p)"

definition with_message :: "string \<Rightarrow> string \<Rightarrow> string" where
  "with_message msg detail = (if detail = [] then msg else msg @ '': '' @ detail)"

definition waiting_message :: "ContainerStatus \<Rightarrow> string list" where
  "waiting_message cs =
     (case cs_Waiting cs of
        None \<Rightarrow> []
      | Some (reason, detail) \<Rightarrow>
          [with_message (''container '' @ Quote (cs_Name cs) @ '' waiting: '' @ reason) detail])"

definition buildPodErrorMessage :: "PodStatus \<Rightarrow> string" where
  "buildPodErrorMessage p =
     Join
       ([''phase='' @ ph_Phase p] @
        (if ph_Reason p = [] then [] else [''reason='' @ ph_Reason p]) @
        (if ph_Message p = [] then [] else [''message='' @ ph_Message p]) @
        concat (map (\<lambda>cs.
          waiting_message cs @
          (case cs_Terminated cs of
             Some (reason, code, detail) \<Rightarrow>
               (if code \<noteq> 0
                then [with_message (''container '' @ Quote (cs_Name cs) @ '' terminated: '' @ reason @
                                    '' (exit '' @ Itoa code @ '')'') detail] else [])
           | None \<Rightarrow> []) @
          (case cs_LastTerminated cs of
             Some (reason, code) \<Rightarrow>
               [''container '' @ Quote (cs_Name cs) @ '' previously terminated: '' @ reason @
                '' (exit '' @ Itoa code @ '')'']
           | None \<Rightarrow> [])) (ph_Containers p))) ''; ''"

text \<open>\<open>limit\<close> is the timeout as \<open>%v\<close> prints it.\<close>

definition collectPodFailureInfo ::
  "KubeEvent list result \<Rightarrow> PodStatus result \<Rightarrow> string \<Rightarrow> string \<Rightarrow> go_error" where
  "collectPodFailureInfo events status podName limit =
     (let warnings = (case events of
            Inl _ \<Rightarrow> []
          | Inr evs \<Rightarrow>
              map (\<lambda>ev. let msg = ev_Reason ev @ '': '' @ ev_Message ev in
                        if ev_Count ev > 1 then msg @ '' (x'' @ Itoa (ev_Count ev) @ '')'' else msg)
                (filter (\<lambda>ev. ev_Object ev = podName \<and> ev_Type ev = ''Warning'') evs));
          waits = (case status of Inl _ \<Rightarrow> [] | Inr p \<Rightarrow> concat (map waiting_message (ph_Containers p)));
          phase = (case status of Inl _ \<Rightarrow> [] | Inr p \<Rightarrow> ph_Phase p);
          head = ''pod '' @ Quote podName @ '' not ready after '' @ limit @ '' (phase='' @ phase @ '')''
      in if warnings @ waits \<noteq> [] then ErrNew (head @ '': '' @ Join (warnings @ waits) ''; '') else ErrNew head)"

fun waitForPodReady :: "go_error \<Rightarrow> string \<Rightarrow> PodStatus result list \<Rightarrow> unit result" where
  "waitForPodReady diagnosis podName [] = Inl diagnosis"
| "waitForPodReady diagnosis podName (poll # polls) =
     (case poll of
        Inl err \<Rightarrow> Inl (ErrWrap (''get pod '' @ Quote podName @ '' during readiness wait: '') err [])
      | Inr p \<Rightarrow>
          if ph_Phase p = ''Running'' \<and> allContainersReady p then Inr ()
          else if ph_Phase p = ''Failed''
          then Inl (ErrNew (''pod '' @ Quote podName @ '' failed: '' @ buildPodErrorMessage p))
          else waitForPodReady diagnosis podName polls)"

text \<open>Readiness is reported only after a poll that saw a running pod with all containers ready.\<close>

lemma waitForPodReady_Inr:
  "waitForPodReady d n polls = Inr u \<Longrightarrow>
     \<exists>p. Inr p \<in> set polls \<and> ph_Phase p = ''Running'' \<and> allContainersReady p"
  by (induction d n polls rule: waitForPodReady.induct) (auto split: sum.splits if_splits)

section \<open>The provider\<close>

record KubernetesRuntimeProviderConfig =
  kr_Namespace :: string
  kr_GatewayURL :: string
  kr_RuntimeClassName :: string
  kr_Images :: "string \<rightharpoonup> string"
  kr_WorkspaceSize :: string
  kr_StorageClassName :: string
  kr_WorkspacePolicy :: string
  kr_SecretStore :: string
  kr_NetworkPolicySpec :: NetworkPolicySpec
  kr_LLMGatewayBaseURL :: string
  kr_LLMGatewaySecretName :: string
  kr_LLMGatewaySecretKey :: string
  kr_PodReadyTimeout :: int

text \<open>\<open>client\<close> is the outcome of \<open>buildKubernetesClient\<close>.\<close>

definition NewKubernetesRuntimeProvider ::
  "unit result \<Rightarrow> KubernetesRuntimeProviderConfig \<Rightarrow> KubernetesRuntimeProviderConfig result" where
  "NewKubernetesRuntimeProvider client cfg0 =
     (let dflt = (\<lambda>v d. if v = [] then d else v);
          cfg = cfg0\<lparr>kr_Namespace := dflt (kr_Namespace cfg0) ''default'',
                     kr_WorkspaceSize := dflt (kr_WorkspaceSize cfg0) ''10Gi'',
                     kr_WorkspacePolicy := dflt (kr_WorkspacePolicy cfg0) ''delete'',
                     kr_SecretStore := dflt (kr_SecretStore cfg0) ''kubernetes''\<rparr>
      in if kr_SecretStore cfg \<noteq> ''kubernetes''
         then Inl (ErrNew (''unsupported secret store '' @ Quote (kr_SecretStore cfg)))
         else if TrimSpace (kr_RuntimeClassName cfg) = []
         then Inl (ErrNew ''runtime class name is required for kubernetes provider'')
         else rbind client (\<lambda>_. Inr cfg))"

definition validateSecretKey :: "faults \<Rightarrow> string \<Rightarrow> string \<Rightarrow> Cluster \<Rightarrow> unit result" where
  "validateSecretKey fault name key c =
     (let head = ''validate llm gateway secret '' @ Quote name in
      case api_get fault ''secret'' name (kc_secrets c) of
        Inl err \<Rightarrow> Inl (ErrWrap (head @ '': '') (kube_error err) [])
      | Inr secret \<Rightarrow>
          if sec_Data secret key \<noteq> None \<or> sec_StringData secret key \<noteq> None then Inr ()
          else Inl (ErrNew (head @ '': key '' @ Quote key @ '' not found'')))"

text \<open>What the code calls, and the order in which it visits the pod's environment.\<close>

record kube_env =
  ke_ul :: "string \<Rightarrow> string"
  ke_fault :: faults
  ke_quantity :: "string \<Rightarrow> string result"
  ke_parseCIDR :: "string \<Rightarrow> unit result"
  ke_order :: "string list"
  ke_polls :: "PodStatus result list"
  ke_diagnosis :: go_error

definition runtime_image :: "KubernetesRuntimeProviderConfig \<Rightarrow> string \<Rightarrow> string result" where
  "runtime_image cfg runtime =
     (case kr_Images cfg runtime of
        None \<Rightarrow> Inl (ErrNew (''missing runtime image for '' @ Quote runtime))
      | Some img \<Rightarrow>
          if TrimSpace img = [] then Inl (ErrNew (''missing runtime image for '' @ Quote runtime)) else Inr img)"

definition llm_secret_ref :: "faults \<Rightarrow> StartRequest \<Rightarrow> Cluster \<Rightarrow> SecretKeyRef option result" where
  "llm_secret_ref fault request c =
     (let name = st_LLMGatewaySecretName request; key = st_LLMGatewaySecretKey request in
      if name \<noteq> [] \<and> key \<noteq> []
      then rbind (validateSecretKey fault name key c)
             (\<lambda>_. Inr (Some \<lparr>sk_Name = name, sk_Key = key, sk_EnvVar = ''LLM_GATEWAY_API_KEY''\<rparr>))
      else Inr None)"

definition pod_request ::
  "KubernetesRuntimeProviderConfig \<Rightarrow> StartRequest \<Rightarrow> string \<Rightarrow> string \<Rightarrow> SecretRef \<Rightarrow> PVC \<Rightarrow> SecretKeyRef option
     \<Rightarrow> AgentPodRequest" where
  "pod_request cfg request runtime img secretRef pvc llmRef =
     \<lparr>ap_AgentID = st_AgentID request, ap_OwnerID = st_OwnerID request, ap_Image = img,
      ap_RuntimeClassName = kr_RuntimeClassName cfg, ap_GatewayURL = kr_GatewayURL cfg,
      ap_Runtime = runtime, ap_SandboxID = ''sandbox-'' @ st_AgentID request, ap_SecretRef = secretRef,
      ap_WorkspacePVC = pvc_Name pvc, ap_CPU = [], ap_Memory = [],
      ap_LLMGatewayBaseURL =
        (if st_LLMGatewayBaseURL request = [] then kr_LLMGatewayBaseURL cfg else st_LLMGatewayBaseURL request),
      ap_LLMModel = st_LLMModel request, ap_LLMGatewaySecretRef = llmRef,
      ap_SystemPrompt = st_SystemPrompt request, ap_IntegrationEnv = st_IntegrationEnv request\<rparr>"

definition in_namespace :: "string \<Rightarrow> Secret \<times> PVC \<times> NetworkPolicy option \<times> Pod \<Rightarrow> Secret \<times> PVC \<times> NetworkPolicy option \<times> Pod" where
  "in_namespace ns = (\<lambda>(secret, pvc, pol, pod).
     (secret\<lparr>sec_Namespace := ns\<rparr>, pvc\<lparr>pvc_Namespace := ns\<rparr>,
      map_option (\<lambda>p. p\<lparr>np_Namespace := ns\<rparr>) pol, pod\<lparr>pod_Namespace := ns\<rparr>))"

text \<open>Everything \<open>Start\<close> prepares before it touches the cluster. A quantity that panics does not
  occur: the request sets neither CPU nor memory.\<close>

definition prepare_start ::
  "kube_env \<Rightarrow> KubernetesRuntimeProviderConfig \<Rightarrow> StartRequest \<Rightarrow> Cluster
     \<Rightarrow> (string \<times> Secret \<times> PVC \<times> NetworkPolicy option \<times> Pod) result" where
  "prepare_start E cfg request c =
     (let ul = ke_ul E; agent = st_AgentID request;
          runtime = normalizeRuntime ul (st_Runtime request); sandboxID = ''sandbox-'' @ agent
      in
      rbind (refuse [(TrimSpace agent = [] \<or> TrimSpace (st_RuntimeToken request) = [],
                      ''agent id and runtime token are required''),
                     (\<not> isKnownRuntime runtime, ''unsupported runtime '' @ Quote (st_Runtime request))]) (\<lambda>_.
      rbind (runtime_image cfg runtime) (\<lambda>img.
      rbind (BuildRuntimeTokenSecret ul (kr_Namespace cfg) agent (st_RuntimeToken request)) (\<lambda>token.
      rbind (BuildWorkspacePVC ul (ke_quantity E) agent sandboxID (kr_StorageClassName cfg) (kr_WorkspaceSize cfg)) (\<lambda>pvc.
      rbind (BuildRuntimeNetworkPolicy ul (ke_parseCIDR E) agent sandboxID (kr_NetworkPolicySpec cfg)) (\<lambda>pol.
      rbind (llm_secret_ref (ke_fault E) request c) (\<lambda>llmRef.
      case BuildRuntimePod (ke_quantity E) (ke_order E)
             (BuildAgentPodSpec ul (pod_request cfg request runtime img (fst token) pvc llmRef)) of
        None \<Rightarrow> Inl (ErrNew ''panic: cannot parse quantity'')
      | Some pod \<Rightarrow> Inr (runtime, in_namespace (kr_Namespace cfg) (snd token, pvc, pol, pod)))))))))"

definition apply_policy :: "faults \<Rightarrow> NetworkPolicy option \<Rightarrow> (string \<rightharpoonup> NetworkPolicy) \<Rightarrow> (string \<rightharpoonup> NetworkPolicy) \<times> unit result" where
  "apply_policy fault pol m =
     (case pol of None \<Rightarrow> (m, Inr ()) | Some p \<Rightarrow> createOrUpdate fault ''networkpolicy'' merge_policy (np_Name p) p m)"

definition Start ::
  "kube_env \<Rightarrow> KubernetesRuntimeProviderConfig \<Rightarrow> StartRequest \<Rightarrow> Cluster \<Rightarrow> Cluster \<times> RuntimeLease result" where
  "Start E cfg request c =
     (case prepare_start E cfg request c of
        Inl err \<Rightarrow> (c, Inl err)
      | Inr (runtime, secret, pvc, pol, pod) \<Rightarrow>
          let fault = ke_fault E;
              (m1, r1) = createOrUpdate fault ''secret'' merge_secret (sec_Name secret) secret (kc_secrets c);
              c1 = c\<lparr>kc_secrets := m1\<rparr>
          in case r1 of Inl err \<Rightarrow> (c1, Inl err) | Inr _ \<Rightarrow>
          let (m2, r2) = createOrUpdate fault ''pvc'' merge_pvc (pvc_Name pvc) pvc (kc_pvcs c1);
              c2 = c1\<lparr>kc_pvcs := m2\<rparr>
          in case r2 of Inl err \<Rightarrow> (c2, Inl err) | Inr _ \<Rightarrow>
          let (m3, r3) = apply_policy fault pol (kc_policies c2);
              c3 = c2\<lparr>kc_policies := m3\<rparr>
          in case r3 of Inl err \<Rightarrow> (c3, Inl err) | Inr _ \<Rightarrow>
          let (m4, r4) = createOrUpdate fault ''pod'' merge_pod (pod_Name pod) pod (kc_pods c3);
              c4 = c3\<lparr>kc_pods := m4\<rparr>
          in case r4 of Inl err \<Rightarrow> (c4, Inl err) | Inr _ \<Rightarrow>
          (case waitForPodReady (ke_diagnosis E) (pod_Name pod) (ke_polls E) of
             Inl err \<Rightarrow> (c4, Inl err)
           | Inr _ \<Rightarrow> (c4, Inr \<lparr>rl_AgentID = st_AgentID request, rl_Provider = ''kubernetes'',
                              rl_Runtime = runtime, rl_ExternalID = pod_Name pod\<rparr>)))"

text \<open>\<open>strings.EqualFold(_, "delete")\<close> by lowering both sides.\<close>

definition deletes_workspace :: "(string \<Rightarrow> string) \<Rightarrow> string \<Rightarrow> bool" where
  "deletes_workspace ul pol \<longleftrightarrow> ToLower ul (TrimSpace pol) = ''delete''"

definition Stop ::
  "kube_env \<Rightarrow> KubernetesRuntimeProviderConfig \<Rightarrow> string \<Rightarrow> Cluster \<Rightarrow> Cluster \<times> unit result" where
  "Stop E cfg agentID0 c =
     (let agentID = TrimSpace agentID0; fault = ke_fault E in
      if agentID = [] then (c, Inl (ErrNew ''agent id is required''))
      else
        let (m1, r1) = deleteIgnoreNotFound fault ''pod'' (''agent-'' @ agentID) (kc_pods c);
            c1 = c\<lparr>kc_pods := m1\<rparr>
        in case r1 of Inl err \<Rightarrow> (c1, Inl err) | Inr _ \<Rightarrow>
        let (m2, r2) = deleteIgnoreNotFound fault ''networkpolicy'' (''shclop-runtime-netpol-'' @ agentID) (kc_policies c1);
            c2 = c1\<lparr>kc_policies := m2\<rparr>
        in case r2 of Inl err \<Rightarrow> (c2, Inl err) | Inr _ \<Rightarrow>
        let (m3, r3) = deleteIgnoreNotFound fault ''secret'' (DeleteRuntimeTokenName agentID) (kc_secrets c2);
            c3 = c2\<lparr>kc_secrets := m3\<rparr>
        in case r3 of Inl err \<Rightarrow> (c3, Inl err) | Inr _ \<Rightarrow>
        (if deletes_workspace (ke_ul E) (kr_WorkspacePolicy cfg)
         then
           let (m4, r4) = deleteIgnoreNotFound fault ''pvc'' (''shclop-workspace-'' @ agentID) (kc_pvcs c3)
           in (c3\<lparr>kc_pvcs := m4\<rparr>, r4)
         else (c3, Inr ())))"

section \<open>Facts\<close>

text \<open>Each API helper touches one name; what it leaves there.\<close>

lemma createOrUpdate_other:
  "n \<noteq> name \<Longrightarrow> fst (createOrUpdate fault kind merge name obj m) n = m n"
  by (simp add: createOrUpdate_def api_create_def api_get_def api_update_def split: option.splits)

lemma createOrUpdate_Inr:
  "createOrUpdate fault kind merge name obj m = (m', Inr u) \<Longrightarrow>
     m' name = Some (case m name of None \<Rightarrow> obj | Some existing \<Rightarrow> merge obj existing)"
  by (auto simp: createOrUpdate_def api_create_def api_get_def api_update_def split: option.splits if_splits)

lemma createOrUpdate_cases:
  "fst (createOrUpdate fault kind merge name obj m) name \<in>
     {m name, Some (case m name of None \<Rightarrow> obj | Some existing \<Rightarrow> merge obj existing)}"
  by (simp add: createOrUpdate_def api_create_def api_get_def api_update_def split: option.splits)

lemma delete_other: "n \<noteq> name \<Longrightarrow> fst (deleteIgnoreNotFound fault kind name m) n = m n"
  by (simp add: deleteIgnoreNotFound_def api_delete_def split: option.splits)

lemma delete_Inr:
  "snd (deleteIgnoreNotFound fault kind name m) = Inr u \<Longrightarrow>
     fst (deleteIgnoreNotFound fault kind name m) = m(name := None)"
  by (cases "m name") (auto simp: deleteIgnoreNotFound_def api_delete_def fun_upd_idem split: option.splits)

lemma hardened_labels: "hardened (merge_pod pod existing) = hardened existing"
  by (simp add: hardened_def merge_pod_def)

lemma hardened_namespace: "hardened (p\<lparr>pod_Namespace := n\<rparr>) = hardened p"
  by (simp add: hardened_def)

lemma prepare_start_parts:
  assumes "prepare_start E cfg request c = Inr (runtime, objs)"
  shows "\<exists>img token pvc0 pol0 llmRef pod0.
    BuildRuntimeTokenSecret (ke_ul E) (kr_Namespace cfg) (st_AgentID request) (st_RuntimeToken request) = Inr token \<and>
    BuildWorkspacePVC (ke_ul E) (ke_quantity E) (st_AgentID request) (''sandbox-'' @ st_AgentID request)
         (kr_StorageClassName cfg) (kr_WorkspaceSize cfg) = Inr pvc0 \<and>
    BuildRuntimePod (ke_quantity E) (ke_order E) (BuildAgentPodSpec (ke_ul E)
         (pod_request cfg request runtime img (fst token) pvc0 llmRef)) = Some pod0 \<and>
    objs = in_namespace (kr_Namespace cfg) (snd token, pvc0, pol0, pod0)"
  using assms unfolding prepare_start_def Let_def rbind_Inr refuse_Inr
  apply (elim exE conjE)
  apply (simp only: split: option.splits)
   apply simp
  apply simp
  apply clarify
  apply (intro exI conjI)
     apply (rule refl | assumption)+
  done

lemma prepare_start_Inr:
  assumes "prepare_start E cfg request c = Inr (runtime, secret, pvc, pol, pod)"
  shows "pod_Name pod = ''agent-'' @ st_AgentID request" "hardened pod"
    "pvc_Name pvc = ''shclop-workspace-'' @ st_AgentID request"
    "sec_Name secret = DeleteRuntimeTokenName (TrimSpace (st_AgentID request))"
proof -
  from prepare_start_parts [OF assms] obtain img token pvc0 pol0 llmRef pod0 where
    p: "BuildRuntimeTokenSecret (ke_ul E) (kr_Namespace cfg) (st_AgentID request) (st_RuntimeToken request) = Inr token"
      "BuildWorkspacePVC (ke_ul E) (ke_quantity E) (st_AgentID request) (''sandbox-'' @ st_AgentID request)
         (kr_StorageClassName cfg) (kr_WorkspaceSize cfg) = Inr pvc0"
      "BuildRuntimePod (ke_quantity E) (ke_order E) (BuildAgentPodSpec (ke_ul E)
         (pod_request cfg request runtime img (fst token) pvc0 llmRef)) = Some pod0"
    and eqs: "(secret, pvc, pol, pod) = in_namespace (kr_Namespace cfg) (snd token, pvc0, pol0, pod0)"
    by blast
  from eqs have e: "secret = (snd token)\<lparr>sec_Namespace := kr_Namespace cfg\<rparr>"
    "pvc = pvc0\<lparr>pvc_Namespace := kr_Namespace cfg\<rparr>" "pod = pod0\<lparr>pod_Namespace := kr_Namespace cfg\<rparr>"
    by (auto simp: in_namespace_def)
  from BuildRuntimePod_hardened [OF p(3)] e show "hardened pod" by (simp add: hardened_namespace)
  from p(3) e show "pod_Name pod = ''agent-'' @ st_AgentID request"
    by (auto simp: BuildRuntimePod_def BuildAgentPodSpec_def pod_request_def Let_def)
  from p(2) e show "pvc_Name pvc = ''shclop-workspace-'' @ st_AgentID request"
    by (auto simp: BuildWorkspacePVC_def Let_def)
  from p(1) e show "sec_Name secret = DeleteRuntimeTokenName (TrimSpace (st_AgentID request))"
    by (auto simp: BuildRuntimeTokenSecret_def Let_def split: if_splits)
qed

text \<open>The pods of the cluster after \<open>Start\<close>: the call on the agent's pod, or no change.\<close>

lemma Start_pods:
  "(\<exists>runtime secret pvc pol pod. prepare_start E cfg request c = Inr (runtime, secret, pvc, pol, pod) \<and>
      kc_pods (fst (Start E cfg request c)) =
        fst (createOrUpdate (ke_fault E) ''pod'' merge_pod (pod_Name pod) pod (kc_pods c))) \<or>
   kc_pods (fst (Start E cfg request c)) = kc_pods c"
  by (simp add: Start_def Let_def case_prod_beta split: sum.splits)

text \<open>C30: no pod but a hardened one runs. However \<open>Start\<close> is called and whichever API calls fail, a
  cluster whose pods are all hardened still has only hardened pods.\<close>

theorem Start_keeps_hardened:
  assumes "\<And>n p. kc_pods c n = Some p \<Longrightarrow> hardened p"
    and "kc_pods (fst (Start E cfg request c)) n = Some p"
  shows "hardened p"
  using Start_pods [of E cfg request c]
proof
  assume "kc_pods (fst (Start E cfg request c)) = kc_pods c"
  with assms show ?thesis by simp
next
  assume "\<exists>runtime secret pvc pol pod. prepare_start E cfg request c = Inr (runtime, secret, pvc, pol, pod) \<and>
      kc_pods (fst (Start E cfg request c)) =
        fst (createOrUpdate (ke_fault E) ''pod'' merge_pod (pod_Name pod) pod (kc_pods c))"
  then obtain pod where h: "hardened pod" and
    pods: "kc_pods (fst (Start E cfg request c)) =
      fst (createOrUpdate (ke_fault E) ''pod'' merge_pod (pod_Name pod) pod (kc_pods c))"
    using prepare_start_Inr(2) by blast
  show ?thesis
  proof (cases "n = pod_Name pod")
    case False
    with assms pods show ?thesis by (simp add: createOrUpdate_other)
  next
    case True
    with createOrUpdate_cases [of "ke_fault E" "''pod''" merge_pod n pod "kc_pods c"] pods assms h
    show ?thesis by (auto simp: hardened_labels split: option.splits)
  qed
qed

text \<open>\<open>Start\<close> reports success for a pod that already exists and leaves everything but its
  labels as it was, so a restart does not apply a new image, model or environment.\<close>

theorem Start_keeps_existing_pod:
  assumes "Start E cfg request c = (c', Inr lease)" "kc_pods c (''agent-'' @ st_AgentID request) = Some old"
  shows "\<exists>labels. kc_pods c' (''agent-'' @ st_AgentID request) = Some (old\<lparr>pod_Labels := labels\<rparr>)"
proof -
  from assms(1) obtain runtime secret pvc pol pod u where
    prep: "prepare_start E cfg request c = Inr (runtime, secret, pvc, pol, pod)"
    and cu: "createOrUpdate (ke_fault E) ''pod'' merge_pod (pod_Name pod) pod (kc_pods c) = (kc_pods c', Inr u)"
    by (auto simp: Start_def Let_def case_prod_beta prod_eq_iff split: sum.splits)
  from createOrUpdate_Inr [OF cu] assms(2) show ?thesis
    by (auto simp: prepare_start_Inr(1) [OF prep] merge_pod_def)
qed

text \<open>C31: \<open>Stop\<close> removes the agent's pod, network policy and token secret, and its workspace exactly
  when the retention policy says so.\<close>

theorem Stop_cleans_up:
  assumes "Stop E cfg agentID c = (c', Inr u)"
  shows "kc_pods c' (''agent-'' @ TrimSpace agentID) = None \<and>
    kc_policies c' (''shclop-runtime-netpol-'' @ TrimSpace agentID) = None \<and>
    kc_secrets c' (DeleteRuntimeTokenName (TrimSpace agentID)) = None \<and>
    (if deletes_workspace (ke_ul E) (kr_WorkspacePolicy cfg)
     then kc_pvcs c' = (kc_pvcs c)(''shclop-workspace-'' @ TrimSpace agentID := None)
     else kc_pvcs c' = kc_pvcs c)"
  using assms
  by (auto simp: Stop_def Let_def case_prod_beta prod_eq_iff delete_Inr split: if_splits sum.splits)

section \<open>A concrete cluster\<close>

definition sample_kube :: kube_env where
  "sample_kube = \<lparr>ke_ul = (\<lambda>t. t), ke_fault = (\<lambda>verb kind name. None), ke_quantity = Inr, ke_parseCIDR = (\<lambda>t. Inr ()),
     ke_order = [],
     ke_polls = [Inr \<lparr>ph_Phase = ''Running'', ph_Reason = [], ph_Message = [],
       ph_Containers = [\<lparr>cs_Name = ''agent'', cs_Ready = True, cs_Waiting = None, cs_Terminated = None, cs_LastTerminated = None\<rparr>]\<rparr>],
     ke_diagnosis = ErrNew ''not ready''\<rparr>"

definition sample_kube_config :: KubernetesRuntimeProviderConfig where
  "sample_kube_config = \<lparr>kr_Namespace = ''default'', kr_GatewayURL = ''ws://gw'', kr_RuntimeClassName = ''kata'',
     kr_Images = (\<lambda>r. Some ''image''), kr_WorkspaceSize = ''10Gi'', kr_StorageClassName = [], kr_WorkspacePolicy = ''delete'',
     kr_SecretStore = ''kubernetes'', kr_NetworkPolicySpec = NetworkPolicySpecFromConfig True [] [],
     kr_LLMGatewayBaseURL = [], kr_LLMGatewaySecretName = [], kr_LLMGatewaySecretKey = [], kr_PodReadyTimeout = 0\<rparr>"

definition sample_start_request :: "string \<Rightarrow> StartRequest" where
  "sample_start_request runtime = \<lparr>st_AgentID = ''g1'', st_OwnerID = ''u2'', st_Runtime = runtime, st_RuntimeToken = ''secret'',
     st_LLMModel = [], st_LLMGatewayBaseURL = [], st_LLMGatewaySecretName = [], st_LLMGatewaySecretKey = [],
     st_SystemPrompt = [], st_IntegrationEnv = Map.empty\<rparr>"

definition empty_cluster :: Cluster where
  "empty_cluster = \<lparr>kc_secrets = Map.empty, kc_pvcs = Map.empty, kc_policies = Map.empty, kc_pods = Map.empty\<rparr>"

definition sample_cluster :: Cluster where
  "sample_cluster = fst (Start sample_kube sample_kube_config (sample_start_request ''nanoclaw'') empty_cluster)"

lemma sample_pod: "kc_pods sample_cluster ''agent-g1'' \<noteq> None" by code_simp

theorem Start_keeps_hardened_witness:
  "\<exists>p. kc_pods sample_cluster ''agent-g1'' = Some p \<and> hardened p"
proof -
  obtain p where p: "kc_pods sample_cluster ''agent-g1'' = Some p" using sample_pod by auto
  moreover have "hardened p"
    by (rule Start_keeps_hardened [of empty_cluster sample_kube sample_kube_config "sample_start_request ''nanoclaw''" "''agent-g1''"])
       (use p in \<open>simp_all add: sample_cluster_def empty_cluster_def\<close>)
  ultimately show ?thesis by blast
qed

theorem Start_keeps_existing_pod_witness:
  "\<exists>old labels. kc_pods sample_cluster ''agent-g1'' = Some old \<and>
     kc_pods (fst (Start sample_kube sample_kube_config (sample_start_request ''openclaw'') sample_cluster)) ''agent-g1''
       = Some (old\<lparr>pod_Labels := labels\<rparr>)"
proof -
  let ?run = "Start sample_kube sample_kube_config (sample_start_request ''openclaw'') sample_cluster"
  have "\<not> isl (snd ?run)" by code_simp
  then obtain lease where run: "?run = (fst ?run, Inr lease)" by (metis prod.collapse sum.collapse(2))
  obtain old where old: "kc_pods sample_cluster ''agent-g1'' = Some old" using sample_pod by auto
  moreover have "''agent-g1'' = ''agent-'' @ st_AgentID (sample_start_request ''openclaw'')" by (simp add: sample_start_request_def)
  ultimately show ?thesis using Start_keeps_existing_pod [OF run] by metis
qed

theorem Stop_cleans_up_witness:
  "let c' = fst (Stop sample_kube sample_kube_config ''g1'' sample_cluster)
   in kc_pods c' (''agent-'' @ TrimSpace ''g1'') = None \<and> kc_policies c' (''shclop-runtime-netpol-'' @ TrimSpace ''g1'') = None \<and>
      kc_secrets c' (DeleteRuntimeTokenName (TrimSpace ''g1'')) = None"
proof -
  let ?run = "Stop sample_kube sample_kube_config ''g1'' sample_cluster"
  have "\<not> isl (snd ?run)" by code_simp
  then have run: "?run = (fst ?run, Inr ())" by (metis prod.collapse sum.collapse(2) old.unit.exhaust)
  from Stop_cleans_up [OF run] show ?thesis unfolding Let_def by blast
qed

end
