(* ===== verification/Boot.thy ===== *)
theory Boot
  imports ApiInv Kube
begin

text \<open>
  Building the server: \<open>sandboxProviderFromConfig\<close> and \<open>NewServer\<close> of \<open>server.go\<close>, \<open>Open\<close> of
  \<open>store/factory.go\<close>, the contract of the sandbox providers, and the servers that serving
  requests can reach.
\<close>

section \<open>The sandbox providers\<close>

datatype RuntimeProvider =
    MockRuntimeProvider
  | DockerProvider DockerDemoProvider
  | KubernetesProvider KubernetesRuntimeProviderConfig

text \<open>\<open>duration\<close> is \<open>time.ParseDuration\<close>, \<open>client\<close> the outcome of connecting to the cluster.\<close>

definition sandboxProviderFromConfig ::
  "(string \<Rightarrow> int result) \<Rightarrow> unit result \<Rightarrow> Config \<Rightarrow> RuntimeProvider result" where
  "sandboxProviderFromConfig duration client cfg =
     (if c_SandboxProvider cfg \<in> {[], ''mock''} then Inr MockRuntimeProvider
      else if c_SandboxProvider cfg = ''docker-demo''
      then Inr (DockerProvider \<lparr>dd_GatewayURL = c_DockerGatewayURL cfg, dd_ImagePrefix = c_RuntimeImagePrefix cfg\<rparr>)
      else if c_SandboxProvider cfg = ''kubernetes''
      then
        rbind (if c_PodReadyTimeout cfg = [] then Inr 0
               else wrap (''invalid pod_ready_timeout '' @ Quote (c_PodReadyTimeout cfg) @ '': '')
                      (duration (c_PodReadyTimeout cfg))) (\<lambda>timeout.
        rbind (NewKubernetesRuntimeProvider client
          \<lparr>kr_Namespace = c_KubernetesNamespace cfg, kr_GatewayURL = c_KubernetesGatewayURL cfg,
           kr_RuntimeClassName = c_AgentRuntimeClassName cfg, kr_Images = c_RuntimeImages cfg,
           kr_WorkspaceSize = c_WorkspaceSize cfg, kr_StorageClassName = c_WorkspaceStorageClass cfg,
           kr_WorkspacePolicy = c_WorkspaceRetention cfg, kr_SecretStore = c_SecretStore cfg,
           kr_NetworkPolicySpec = NetworkPolicySpecFromConfig (c_NetworkPolicyEnabled cfg)
             (c_NetworkPolicyMode cfg) (c_NetworkPolicyCIDRs cfg),
           kr_LLMGatewayBaseURL = [], kr_LLMGatewaySecretName = [], kr_LLMGatewaySecretKey = [],
           kr_PodReadyTimeout = timeout\<rparr>) (\<lambda>p. Inr (KubernetesProvider p)))
      else Inl (ErrNew (''unsupported sandbox provider: '' @ c_SandboxProvider cfg)))"

text \<open>What a lease promises: it is for the agent asked for, on the runtime asked for, and names what
  was started.\<close>

locale runtime_provider =
  fixes start :: "ctx \<Rightarrow> StartRequest \<Rightarrow> 'w \<Rightarrow> 'w \<times> RuntimeLease result"
    and ul :: "string \<Rightarrow> string"
  assumes lease: "start cx request w = (w', Inr l) \<Longrightarrow>
    rl_AgentID l = st_AgentID request \<and> rl_Runtime l = normalizeRuntime ul (st_Runtime request) \<and>
    rl_ExternalID l \<noteq> []"
begin

text \<open>An agent started through such a provider is logged with the runtime it got.\<close>

lemma launch_logged:
  assumes "e_Start E = start" "launch_agent E q user agent request s = (s', resp)" "rp_Status resp = 202"
  shows "\<exists>e. e \<in> set (s_activity s') \<and> ac_Type e = ''sandbox.started'' \<and> ac_AgentID e = st_AgentID request \<and>
    ac_ActorID e = u_ID user \<and> (\<exists>ident. ident \<noteq> [] \<and> (''runtime_id'', AnyString ident) \<in> set (ac_Details e))"
proof -
  obtain w r where r: "start (q_ctx q 6) request (s_sandbox s) = (w, r)" by fastforce
  show ?thesis
  proof (cases r)
    case (Inl err)
    with r assms show ?thesis by (auto simp: launch_agent_def Let_def)
  next
    case (Inr l)
    let ?act = "recordActivity (q_now q 2) ''sandbox.started'' (u_ID user) (st_AgentID request) ''sandbox started''
      [(''runtime'', AnyString (a_Runtime agent)), (''provider'', AnyString (rl_Provider l)),
       (''runtime_id'', AnyString (rl_ExternalID l))]
      (s\<lparr>s_sandbox := w, s_metrics := (s_metrics s)\<lparr>mc_agentStarts := mc_agentStarts (s_metrics s) + 1\<rparr>\<rparr>)"
    from r Inr assms have "s_activity s' = s_activity ?act"
      by (auto simp: launch_agent_def Let_def case_prod_beta)
    moreover have "s_activity ?act \<noteq> []" by (simp add: recordActivity_def keep_last_def)
    then have "last (s_activity ?act) \<in> set (s_activity ?act)" by (rule last_in_set)
    moreover from lease r Inr have "rl_ExternalID l \<noteq> []" by blast
    ultimately show ?thesis unfolding activity_newest by force
  qed
qed

end

interpretation mock_provider: runtime_provider "\<lambda>cx request w. (w, mock_Start ul cx request)" ul for ul
  by unfold_locales (auto simp: mock_Start_def split: option.splits)

interpretation docker_provider: runtime_provider "\<lambda>cx request. docker_Start ul run p ks request" ul
  for ul :: "string \<Rightarrow> string" and run :: "string list \<Rightarrow> 'w \<Rightarrow> 'w \<times> unit result" and p ks
  by unfold_locales (auto simp: docker_Start_def Let_def split: if_splits prod.splits sum.splits)

interpretation kubernetes_provider: runtime_provider "\<lambda>cx request. Start E cfg request" "ke_ul E" for E cfg
proof
  fix cx :: ctx and request w w' l
  assume s: "Start E cfg request w = (w', Inr l)"
  then obtain runtime secret pvc pol pod
    where prep: "prepare_start E cfg request w = Inr (runtime, secret, pvc, pol, pod)"
    by (cases "prepare_start E cfg request w") (auto simp: Start_def)
  from s prep have l: "l = \<lparr>rl_AgentID = st_AgentID request, rl_Provider = ''kubernetes'',
      rl_Runtime = runtime, rl_ExternalID = pod_Name pod\<rparr>"
    by (auto simp: Start_def Let_def split: prod.splits sum.splits)
  from prep have "runtime = normalizeRuntime (ke_ul E) (st_Runtime request)"
    by (auto simp: prepare_start_def Let_def in_namespace_def split: option.splits)
  moreover have "pod_Name pod \<noteq> []" using prepare_start_Inr [OF prep] by auto
  ultimately show "rl_AgentID l = st_AgentID request \<and>
      rl_Runtime l = normalizeRuntime (ke_ul E) (st_Runtime request) \<and> rl_ExternalID l \<noteq> []"
    by (simp add: l)
qed

section \<open>Building the server\<close>

text \<open>\<open>postgres\<close> is what opening the database gives: an error, or its contents at that moment, which is
  all \<open>NewServer\<close> reads of a store. A server on the database then works on the tables of theory \<open>Sql\<close>,
  whose operations agree with those on the \<open>Memory\<close> it holds as theory \<open>PostgresRefine\<close> says; the
  servers reached below (\<open>server_reachable\<close>) are those of the in-memory deployment only.\<close>

definition Open_store :: "string \<Rightarrow> string \<Rightarrow> Memory result \<Rightarrow> Memory result" where
  "Open_store backend dsn postgres =
     (if backend \<in> {[], ''inmemory''} then Inr NewMemory
      else if backend = ''postgres''
      then if dsn = [] then Inl (ErrNew ''postgres dsn is required'') else postgres
      else Inl (ErrNew (''unsupported store backend '' @ Quote backend)))"

definition oidc_config :: "IdPProviderConfig \<Rightarrow> OIDCProviderConfig" where
  "oidc_config p =
     \<lparr>oc_Name = ip_Name p, oc_DisplayName = ip_DisplayName p, oc_Issuer = ip_Issuer p,
      oc_ClientID = ip_ClientID p, oc_ClientSecret = ip_ClientSecret p, oc_RedirectURI = ip_RedirectURI p,
      oc_Scopes = ip_Scopes p, oc_EmailClaim = ip_EmailClaim p, oc_NameClaim = ip_NameClaim p,
      oc_GroupsClaim = ip_GroupsClaim p\<rparr>"

definition cookie_codec :: "crypto_ops \<Rightarrow> rnd \<Rightarrow> string \<Rightarrow> CookieCodec result" where
  "cookie_codec C r configKey =
     (if configKey \<noteq> [] then wrap ''cookie codec: '' (NewCookieCodecFromConfig C configKey)
      else
        (case r of
           None \<Rightarrow> Inl (ErrWrap ''ephemeral cookie key: '' (ErrNew ''rand: read failed'') [])
         | Some key \<Rightarrow> wrap ''cookie codec ephemeral: '' (NewCookieCodec C key)))"

definition empty_metrics :: MetricsCollectors where
  "empty_metrics = \<lparr>mc_agentStarts = 0, mc_agentStops = 0, mc_agentFailures = 0, mc_runtimePodFailures = 0,
     mc_chatEvents = 0, mc_taskEvents = 0, mc_modelAllowlistErrors = 0, mc_gatewayErrors = 0\<rparr>"

text \<open>\<open>plugins\<close> is the merged registry after the initial scans, \<open>discover\<close>
  the discovery of the identity providers, \<open>w\<close> the world of the sandbox.\<close>

definition NewServer ::
  "crypto_ops \<Rightarrow> (string \<Rightarrow> int result) \<Rightarrow> unit result \<Rightarrow> Memory result \<Rightarrow> (string \<Rightarrow> string \<Rightarrow> discovered result)
     \<Rightarrow> rnd \<Rightarrow> MergedRegistry \<Rightarrow> string option \<Rightarrow> 'w \<Rightarrow> Config \<Rightarrow> ('w Server \<times> RuntimeProvider) result" where
  "NewServer C duration client postgres discover r plugins resolver w cfg =
     rbind (Open_store (c_Store cfg) (c_PostgresDSN cfg) postgres) (\<lambda>store.
     rbind (sandboxProviderFromConfig duration client cfg) (\<lambda>sandbox.
     rbind (wrap ''integrations secret box: '' (NewSecretBoxFromConfig C (c_IntegrationEncryptionKey cfg))) (\<lambda>box.
     let idp = NewIdPRegistry discover (\<lambda>k. GetAppSetting None k store) (\<lambda>p. ListAppSettings None p store)
                 (map oidc_config (c_IdPProviders cfg))
     in rbind (cookie_codec C r (c_AuthCookieKey cfg)) (\<lambda>codec.
        Inr (\<lparr>s_cfg = cfg, s_auth = NewService, s_store = store, s_sandbox = w, s_box = box,
              s_plugins = plugins, s_resolver = resolver, s_idp = idp, s_codec = codec,
              s_tokens = Map.empty, s_activity = [], s_metrics = empty_metrics, s_bootstrapped = False\<rparr>,
             sandbox)))))"

section \<open>Reachable servers\<close>

text \<open>Servers on the in-memory store. Between requests the providers' registry may retry a degraded provider and the plugin
  registry may be rebuilt.\<close>

inductive server_reachable :: "'w Server \<Rightarrow> bool" where
  start: "NewServer C duration client (Inl e) discover r plugins resolver w cfg = Inr (s, sandbox)
     \<Longrightarrow> server_reachable s"
| boot: "server_reachable s \<Longrightarrow> server_reachable (bootstrapAdmin E n r r' s)"
| serve: "server_reachable s \<Longrightarrow> server_reachable (fst (dispatch host E route q s))"
| retry: "server_reachable s \<Longrightarrow> server_reachable (s\<lparr>s_idp := retryDegraded d ks (s_idp s)\<rparr>)"
| plugins: "server_reachable s \<Longrightarrow> server_reachable (s\<lparr>s_plugins := m\<rparr>)"

lemma NewServer_inv: "NewServer C d cl (Inl e) disc r pl rs w cfg = Inr (s, sb) \<Longrightarrow> server_inv s"
  by (auto simp: NewServer_def Let_def Open_store_def server_inv_def sessions_ok_def tokens_ok_def NewService_def
      split: if_splits intro: refs_ok_New store_reachable.start idp_reachable.start)

lemma dispatch_inv: "server_inv s \<Longrightarrow> server_inv (fst (dispatch host E route q s))"
  by (cases route)
     (simp_all add: keeps_read_only keeps_CreateAgent keeps_admin_writes keeps_AgentIntegration keeps_Connect
        keeps_Disconnect keeps_StartAgent keeps_StopAgent keeps_DeleteAgent keeps_Login keeps_Logout keeps_OIDC
        keeps_PatchAuthSettings handleHealth_def handleListAuthProviders_def handleReady_def split: sum.splits)

lemma inv_retry: "server_inv s \<Longrightarrow> server_inv (s\<lparr>s_idp := retryDegraded d ks (s_idp s)\<rparr>)"
  using idp_reachable.step [of "s_idp s" "OpRetry d ks"] by (simp add: server_inv_def)

lemma reachable_inv: "server_reachable s \<Longrightarrow> server_inv s"
proof (induction rule: server_reachable.induct)
  case (plugins s m)
  then show ?case by (simp add: server_inv_def)
qed (auto intro: NewServer_inv inv_bootstrap dispatch_inv inv_retry)

end
