(* ===== verification/Samples.thy ===== *)
theory Samples
  imports Boot
begin

text \<open>
  One concrete server, the input of the examples: an administrator \<open>ann\<close>, a user \<open>bob\<close> who owns the
  agent \<open>g1\<close>, a disabled user \<open>eve\<close>, a session for each, and an environment in which every outside
  call succeeds. It is a value of the model like any other.
\<close>

definition sample_account :: "string \<Rightarrow> string \<Rightarrow> string \<Rightarrow> bool \<Rightarrow> User" where
  "sample_account ident name role disabled =
     \<lparr>u_ID = ident, u_Username = name, u_Role = role, u_Disabled = disabled, u_CreatedAt = 1, u_UpdatedAt = 1\<rparr>"

definition sample_agent :: Agent where
  "sample_agent = \<lparr>a_ID = ''g1'', a_OwnerUserID = ''u2'', a_Name = ''helper'', a_Description = [],
     a_Runtime = ''nanoclaw'', a_Model = [], a_SystemPrompt = [], a_State = ''idle'', a_LastError = [],
     a_CreatedAt = 1, a_UpdatedAt = 1\<rparr>"

definition sample_model :: LLMModel where
  "sample_model = \<lparr>lm_ID = ''m1'', lm_DisplayName = ''M'', lm_ProviderModel = ''gpt'', lm_Enabled = True,
     lm_CreatedAt = 1, lm_UpdatedAt = 1\<rparr>"

definition sample_store :: Memory where
  "sample_store = NewMemory
     \<lparr>m_users := [sample_account ''u1'' ''ann'' ''admin'' False, sample_account ''u2'' ''bob'' ''user'' False,
                 sample_account ''u3'' ''eve'' ''user'' True],
      m_passwordHashes := [''ann'' \<mapsto> ''pw''],
      m_agents := [sample_agent], m_llmModels := [sample_model]\<rparr>"

definition sample_config :: Config where
  "sample_config =
     \<lparr>c_Addr = '':8080'', c_Dev = False, c_MockRuntime = False, c_MockLLM = False, c_MockSecrets = False,
      c_Store = ''inmemory'', c_PostgresDSN = [], c_SandboxProvider = ''mock'', c_DockerGatewayURL = [],
      c_RuntimeImagePrefix = [], c_AgentRuntimeClassName = ''kata'', c_RuntimeImages = Map.empty,
      c_KubernetesNamespace = ''default'', c_KubernetesGatewayURL = [], c_WorkspaceStorageClass = [],
      c_WorkspaceSize = ''10Gi'', c_WorkspaceRetention = ''delete'', c_NetworkPolicyEnabled = True,
      c_NetworkPolicyMode = ''restricted'', c_NetworkPolicyCIDRs = [], c_SecretStore = ''kubernetes'',
      c_PodReadyTimeout = [], c_LogLevel = ''info'', c_Metrics = True, c_StaticDir = ''web/dist'',
      c_LLMGatewayBaseURL = [], c_LLMGatewaySecretName = [], c_LLMGatewaySecretKey = [],
      c_LLMGatewayAPIKey = [], c_BootstrapAdminUsername = ''admin'', c_IntegrationEncryptionKey = [],
      c_PluginDir = [], c_PluginPollInterval = ''10s'', c_KubeconfigPath = [], c_GrafanaURL = [],
      c_IdPProviders = [], c_AuthCookieKey = ''key''\<rparr>"

definition sample_codec :: CookieCodec where
  "sample_codec = \<lparr>cc_aead = \<lparr>aead_key = replicate 32 CHR ''k''\<rparr>\<rparr>"

definition sample_idp :: "string \<Rightarrow> idpRegistry" where
  "sample_idp mode = sample_registry\<lparr>ir_mode := mode,
     ir_snapshot := [''okta'' \<mapsto> sample_entry\<lparr>mp_Enabled := True\<rparr>]\<rparr>"

definition sample_server :: "unit Server" where
  "sample_server =
     \<lparr>s_cfg = sample_config,
      s_auth = \<lparr>sv_tokens = [''ta'' \<mapsto> sample_account ''u1'' ''ann'' ''admin'' False,
                             ''tb'' \<mapsto> sample_account ''u2'' ''bob'' ''user'' False,
                             ''te'' \<mapsto> sample_account ''u3'' ''eve'' ''user'' False]\<rparr>,
      s_store = sample_store, s_sandbox = (),
      s_box = \<lparr>sb_aead = \<lparr>aead_key = replicate 32 CHR ''k''\<rparr>\<rparr>, s_plugins = NewMerged, s_resolver = None,
      s_idp = sample_idp ''both'', s_codec = sample_codec, s_tokens = [''g1'' \<mapsto> ''secret''],
      s_activity = [], s_metrics = empty_metrics, s_bootstrapped = True\<rparr>"

definition sample_claims :: "string \<rightharpoonup> any" where
  "sample_claims = [''email'' \<mapsto> AnyString ''new@x'']"

definition sample_api :: "unit api_env" where
  "sample_api =
     \<lparr>e_crypto = sample_crypto, e_gob = sample_gob, e_plugin = sample_ops, e_bcrypt_compare = (=),
      e_bcrypt_generate = (\<lambda>r p. Inr p), e_getenv = (\<lambda>k. []), e_ul = (\<lambda>t. t),
      e_Start = (\<lambda>cx q w. (w, mock_Start (\<lambda>t. t) cx q)), e_Stop = (\<lambda>cx a w. (w, mock_Stop cx a)),
      e_marshal = (\<lambda>xs. Inr []), e_models = (\<lambda>u k. Inr (200, Inr [''gpt''])),
      e_parse_time = (\<lambda>t. Inr 1), e_exchange = (\<lambda>p c v. Inr (Some ''raw'')),
      e_verify = (\<lambda>p raw. Inr \<lparr>it_Subject = ''sub'', it_Nonce = ''n'', it_Claims = Inr sample_claims\<rparr>),
      e_auth_code_url = (\<lambda>c st n ch. ''https://idp/auth''), e_sha256 = (\<lambda>t. t)\<rparr>"

text \<open>A request with a bearer token.\<close>

definition sample_request :: "string \<Rightarrow> Request" where
  "sample_request token =
     \<lparr>q_method = ''GET'', q_path = [], q_pathvalue = (\<lambda>k. []), q_query = (\<lambda>k. []),
      q_authorization = bearer @ token, q_cookie = Map.empty, q_origin = [], q_host = ''app'', q_remote = [],
      q_body = None, q_ctx = (\<lambda>i. None), q_now = (\<lambda>i. 5), q_rnd = (\<lambda>i. Some ''r''), q_order = []\<rparr>"

lemma sample_request_simps [simp]:
  "q_authorization (sample_request token) = bearer @ token" "q_ctx (sample_request token) i = None"
  "q_cookie (sample_request token) = Map.empty" "q_pathvalue (sample_request token) k = []"
  "q_query (sample_request token) k = []" "q_body (sample_request token) = None"
  by (simp_all add: sample_request_def)

lemma bearer_sample [simp]:
  "bearer_token (bearer @ ''ta'') = ''ta''" "bearer_token (bearer @ ''tb'') = ''tb''"
  "bearer_token (bearer @ ''te'') = ''te''" "bearer_token (bearer @ ''tx'') = ''tx''"
  by code_simp+

lemmas sample_defs = sample_server_def sample_store_def sample_account_def sample_agent_def NewMemory_def

lemma sample_users [simp]:
  "requireUser (sample_request ''ta'') sample_server = Inr (sample_account ''u1'' ''ann'' ''admin'' False)"
  "requireUser (sample_request ''tb'') sample_server = Inr (sample_account ''u2'' ''bob'' ''user'' False)"
  "requireUser (sample_request ''te'') sample_server = Inl unauthorized"
  by (simp_all add: requireUser_def session_user_def Resolve_def enforceCurrentUser_def GetUser_def
      find_or_not_found_def sample_defs)

end
