(* ===== verification/Access.thy ===== *)
theory Access
  imports Samples
begin

text \<open>
  Who may do what: the properties of the server's routes that concern accounts, sessions and
  agents. \<open>dispatch host E route q s\<close> answers the request \<open>q\<close> on \<open>route\<close> in the server \<open>s\<close>; a
  refusal is an answer that leaves the server as it was.
\<close>

section \<open>Accounts\<close>

definition account_disabled :: "string \<Rightarrow> Memory \<Rightarrow> bool" where
  "account_disabled userID m = (case find (\<lambda>u. u_ID u = userID) (m_users m) of None \<Rightarrow> True | Some u \<Rightarrow> u_Disabled u)"

lemma session_dead:
  assumes "q_ctx q 0 = None"
    and "\<And>cached. Resolve token (s_auth s) = Some cached \<Longrightarrow> account_disabled (u_ID cached) (s_store s)"
  shows "session_user q token s = Inl unauthorized"
  using assms
  by (auto simp: session_user_def enforceCurrentUser_def GetUser_def find_or_not_found_def account_disabled_def
      split: option.splits)

text \<open>C5: nobody gets past the public routes without a live session: when the request's token is not
  a session, or the session's account is deleted or disabled in the store, every other route
  answers 401 and changes nothing.\<close>

theorem unauthenticated_refused:
  assumes "\<not> public route" "q_ctx q 0 = None"
    and "\<And>cached. Resolve (bearer_token (q_authorization q)) (s_auth s) = Some cached
           \<Longrightarrow> account_disabled (u_ID cached) (s_store s)"
  shows "dispatch host E route q s = (s, unauthorized)"
  using assms by (intro dispatch_no_user) (simp_all add: requireUser_def session_dead)

theorem unauthenticated_refused_witness:
  "dispatch Some sample_api RAdminOverview (sample_request ''te'') sample_server = (sample_server, unauthorized) \<and>
   dispatch Some sample_api RMe (sample_request ''tx'') sample_server = (sample_server, unauthorized)"
  by (intro conjI unauthenticated_refused)
     (auto simp: public_def Resolve_def account_disabled_def sample_defs)

text \<open>C2: the administration routes obey administrators only: a request that changes the server, or
  that is answered with anything but a refusal or an internal error, comes from a live session of
  an account that is an enabled administrator in the store at that moment.\<close>

theorem admin_power_needs_admin:
  assumes "admin_only route" "dispatch host E route q s = (s', resp)"
    and "s' \<noteq> s \<or> rp_Status resp \<notin> {401, 403, 500}"
  shows "\<exists>user cached. Resolve (bearer_token (q_authorization q)) (s_auth s) = Some cached \<and> u_ID cached = u_ID user \<and>
    user \<in> set (m_users (s_store s)) \<and> u_Role user = ''admin'' \<and> \<not> u_Disabled user"
proof (cases "requireUser q s")
  case (Inl r)
  moreover have "\<not> public route" using assms(1) by (auto simp: admin_only_def public_def)
  ultimately have "dispatch host E route q s = (s, r)" by (simp add: dispatch_no_user)
  with assms(2,3) Inl session_user_Inl [of q _ s r] show ?thesis by (auto simp: requireUser_def)
next
  case (Inr user)
  have "u_Role user = ''admin''"
    using dispatch_not_admin [OF assms(1) Inr, of host E] assms(2,3) by fastforce
  with requireUser_Inr [OF Inr] show ?thesis by blast
qed

theorem admin_power_needs_admin_witness:
  "\<exists>user cached. Resolve (bearer_token (q_authorization (sample_request ''ta''))) (s_auth sample_server) = Some cached \<and>
    u_ID cached = u_ID user \<and> user \<in> set (m_users (s_store sample_server)) \<and> u_Role user = ''admin'' \<and> \<not> u_Disabled user"
  by (rule admin_power_needs_admin [where route = RAdminListUsers and host = Some and E = sample_api
        and s' = sample_server and resp = "writeJSON 200 (JUsers (m_users sample_store))"])
     (simp_all add: admin_only_def handleAdminListUsers_def with_admin_def with_user_def ListUsers_def,
      simp_all add: sample_account_def sample_server_def)

lemma requireUser_Inl: "requireUser q s = Inl r \<Longrightarrow> rp_Status r = 401 \<or> rp_Status r = 500"
  by (auto simp: requireUser_def dest: session_user_Inl)

lemma requireUser_Text: "requireUser q s = Inl r \<Longrightarrow> \<exists>t. rp_Body r = Text t"
  by (auto simp: requireUser_def session_user_def enforceCurrentUser_def response_defs unauthorized_def
      split: if_splits option.splits sum.splits)

lemma UpdateUser_disabled:
  assumes "UpdateUser cx now i d r m = (m', Inr u)" "u_Disabled u"
  shows "account_disabled i m' \<and> u_ID u = i"
  using assms
  by (auto simp: UpdateUser_def update_first_def account_disabled_def split: option.splits if_splits
      dest: find_SomeD)

lemma handleAdminUpdateUser_disabled:
  assumes "handleAdminUpdateUser q s = (s', writeJSON 200 (JUser u))" "u_Disabled u"
  shows "account_disabled (u_ID u) (s_store s') \<and> s_auth s' = s_auth s"
  using assms
  by (auto simp: handleAdminUpdateUser_def with_admin_def with_user_def or_400_def Let_def store_call_def
      response_defs forbidden_def
      split: sum.splits option.splits if_splits prod.splits dest: UpdateUser_disabled requireUser_Inl)

text \<open>C6: disabling an account takes effect at once: after an administrator's update is answered with
  a disabled account, every session of that account is refused on every route that is not public,
  whenever the session was opened.\<close>

theorem disabled_at_once:
  assumes "dispatch host E RAdminUpdateUser q s = (s', writeJSON 200 (JUser u))" "u_Disabled u"
    and "Resolve (bearer_token (q_authorization q')) (s_auth s) = Some cached" "u_ID cached = u_ID u"
    and "q_ctx q' 0 = None" "\<not> public route"
  shows "dispatch host E route q' s' = (s', unauthorized)"
  using assms handleAdminUpdateUser_disabled [of q s s' u]
  by (intro dispatch_no_user) (auto simp: requireUser_def intro!: session_dead)

definition sample_disable :: Request where
  "sample_disable = (sample_request ''ta'')\<lparr>q_pathvalue := (\<lambda>k. ''u2''),
     q_body := Some (AnyMap [(''disabled'', AnyOther ''true'')])\<rparr>"

theorem disabled_at_once_witness:
  "let s' = sample_server\<lparr>s_store := fst (UpdateUser None 5 ''u2'' (Some True) None sample_store)\<rparr>
   in dispatch Some sample_api RMe (sample_request ''tb'') s' = (s', unauthorized)"
  unfolding Let_def
  by (rule disabled_at_once [where q = sample_disable and s = sample_server
        and u = "(sample_account ''u2'' ''bob'' ''user'' True)\<lparr>u_UpdatedAt := 5\<rparr>" and cached = "sample_account ''u2'' ''bob'' ''user'' False"])
     (simp_all add: public_def Resolve_def bearer_sample sample_disable_def handleAdminUpdateUser_def with_admin_def
        with_user_def requireUser_def session_user_def enforceCurrentUser_def GetUser_def find_or_not_found_def
        decode_update_user_def json_object_def json_field_def conv_ptr_def conv_bool_def json_bool_def
        lower_char_def store_call_def UpdateUser_def update_first_def
        sample_request_def or_400_def Let_def sample_defs)

section \<open>Agents\<close>

text \<open>C3: an agent of somebody else is invisible: to a caller who is not an administrator, every agent
  route answers for it exactly as for an agent that does not exist, 404, and does nothing.\<close>

theorem foreign_agent_hidden:
  assumes "agent_route route" "requireUser q s = Inr user" "u_Role user \<noteq> ''admin''" "q_ctx q 1 = None"
    and "\<And>agent. GetAgent None (q_pathvalue q ''id'') (s_store s) = Inr agent \<Longrightarrow> a_OwnerUserID agent \<noteq> u_ID user"
  shows "dispatch host E route q s = (s, NotFound)"
proof -
  have "load_agent (q_ctx q 1) user (q_pathvalue q ''id'') s = Inl NotFound"
    using assms(3-5)
    by (auto simp: load_agent_def visible_agent_def GetAgent_def find_or_not_found_def split: option.splits)
  with assms(1,2) show ?thesis by (rule dispatch_hidden_agent)
qed

theorem foreign_agent_hidden_witness:
  "let s = sample_server\<lparr>s_store := sample_store\<lparr>m_agents := [sample_agent\<lparr>a_OwnerUserID := ''u1''\<rparr>]\<rparr>\<rparr>;
       q = (sample_request ''tb'')\<lparr>q_pathvalue := (\<lambda>k. ''g1'')\<rparr>
   in dispatch Some sample_api RDeleteAgent q s = (s, NotFound)"
  unfolding Let_def
  by (rule foreign_agent_hidden [where user = "sample_account ''u2'' ''bob'' ''user'' False"])
     (auto simp: agent_route_def requireUser_def session_user_def Resolve_def enforceCurrentUser_def GetUser_def
        find_or_not_found_def GetAgent_def sample_defs sample_request_def)

text \<open>What a change of one agent by its routes can touch: the agent named in the path, and only when
  the caller owns it or is an administrator.\<close>

definition other_agents :: "string \<Rightarrow> Memory \<Rightarrow> Agent list" where
  "other_agents agentID m = filter (\<lambda>a. a_ID a \<noteq> agentID) (m_agents m)"

lemma filter_update1: "(\<And>x. P x \<Longrightarrow> \<not> Q x \<and> \<not> Q (f x)) \<Longrightarrow> filter Q (update1 P f xs) = filter Q xs"
  by (induction xs) auto

lemma filter_delete1: "(\<And>x. P x \<Longrightarrow> \<not> Q x) \<Longrightarrow> filter Q (delete1 P xs) = filter Q xs"
  by (induction xs) auto

lemma other_agents_simps [simp]:
  "other_agents i (fst (UpdateAgentState cx now i st m)) = other_agents i m"
  "other_agents i (fst (UpdateAgentError cx now i err m)) = other_agents i m"
  "other_agents i (fst (DeleteAgent cx i m)) = other_agents i m"
  by (auto simp: other_agents_def UpdateAgentState_def UpdateAgentError_def DeleteAgent_def loop_defs
      filter_update1 filter_delete1 split: option.splits)

lemma other_agents_toggle [simp]:
  "other_agents i (fst (ToggleAgentIntegration (\<lambda>a p e v st. UpsertAgentIntegration cx now a p e v st) k p e m)) = other_agents i m"
  by (auto simp: other_agents_def ToggleAgentIntegration_def UpsertAgentIntegration_def Let_def
      split: option.splits prod.splits)

definition same_but :: "string \<Rightarrow> 'w Server \<Rightarrow> 'w Server \<Rightarrow> bool" where
  "same_but i s s' \<longleftrightarrow> other_agents i (s_store s') = other_agents i (s_store s) \<and>
     (\<forall>k. k \<noteq> i \<longrightarrow> s_tokens s' k = s_tokens s k) \<and> m_users (s_store s') = m_users (s_store s) \<and> s_auth s' = s_auth s"

lemma users_kept_simps [simp]:
  "m_users (fst (UpdateAgentState cx now i st m)) = m_users m"
  "m_users (fst (UpdateAgentError cx now i err m)) = m_users m"
  "m_users (fst (DeleteAgent cx i m)) = m_users m"
  "m_users (fst (ToggleAgentIntegration (\<lambda>a p e v st. UpsertAgentIntegration cx now a p e v st) i p e m)) = m_users m"
  by (auto simp: UpdateAgentState_def UpdateAgentError_def DeleteAgent_def ToggleAgentIntegration_def
      UpsertAgentIntegration_def Let_def split: option.splits prod.splits)

lemma same_but_agent:
  "same_but i s s0 \<Longrightarrow> (\<And>u a. same_but i s (fst (f u a))) \<Longrightarrow> same_but i s (fst (with_agent q k s0 f))"
  by (simp add: with_agent_def with_user_def split: sum.splits)

lemma same_but_500: "same_but i s s0 \<Longrightarrow> (\<And>x. same_but i s (fst (f x))) \<Longrightarrow> same_but i s (fst (or_500 s0 r f))"
  by (simp add: or_500_def split: sum.splits)

lemma same_but_400: "same_but i s s0 \<Longrightarrow> (\<And>x. same_but i s (fst (f x))) \<Longrightarrow> same_but i s (fst (or_400 s0 r f))"
  by (simp add: or_400_def split: option.splits)

lemma same_but_frame:
  "s_store s1 = s_store s0 \<Longrightarrow> s_tokens s1 = s_tokens s0 \<Longrightarrow> s_auth s1 = s_auth s0 \<Longrightarrow> same_but i s s0 \<Longrightarrow> same_but i s s1"
  by (simp add: same_but_def)

lemmas same_but_rules = same_but_agent same_but_500 same_but_400

lemma launch_same_but:
  assumes "same_but (st_AgentID request) s0 s"
  shows "same_but (st_AgentID request) s0 (fst (launch_agent E q user agent request s))"
  using assms by (simp add: launch_agent_def Let_def case_prod_beta same_but_def split: sum.splits)

lemma issue_same_but: "same_but i s0 s \<Longrightarrow> same_but i s0 (fst (issue_and_launch E q user i settings environ s))"
  unfolding issue_and_launch_def Let_def case_prod_beta
  using launch_same_but [of "start_request i user agent settings secret environ" s0 for agent secret]
  by (intro same_but_500) (simp_all add: same_but_def start_request_def)

lemma start_same_but: "same_but i s (fst (start_visible_agent E q i s user agent))"
proof -
  have "same_but i s s" by (simp add: same_but_def)
  moreover have "check_model cx md msg s = Inl stop \<Longrightarrow> same_but i s (fst stop)" for cx md msg stop
    by (auto simp: check_model_def count_allowlist_error_def same_but_def split: if_splits sum.splits)
  ultimately show ?thesis
    by (auto simp: start_visible_agent_def Let_def intro!: same_but_500 issue_same_but split: sum.splits)
       (simp_all add: same_but_def)
qed

lemma agent_route_same_but:
  assumes "agent_route route"
  shows "same_but (q_pathvalue q ''id'') s (fst (dispatch host E route q s))"
proof -
  have refl: "same_but i s s" for i by (simp add: same_but_def)
  show ?thesis
    using assms
    by (cases route)
       (auto simp: agent_route_def agent_handler_defs Let_def case_prod_beta refl start_same_but
          simp del: store_call_simps intro!: same_but_rules split: sum.splits prod.splits,
        auto simp: same_but_def)
qed

text \<open>C4: an agent route touches one agent: whatever it answers, the other agents and their runtime
  tokens, all accounts and all sessions stay as they are.\<close>

theorem agent_routes_touch_one:
  assumes "agent_route route" "i = q_pathvalue q ''id''" "s' = fst (dispatch host E route q s)"
  shows "other_agents i (s_store s') = other_agents i (s_store s) \<and>
    s_tokens s' |` (- {i}) = s_tokens s |` (- {i}) \<and>
    m_users (s_store s') = m_users (s_store s) \<and> s_auth s' = s_auth s"
  using agent_route_same_but [OF assms(1), of q s host E]
  by (auto simp: same_but_def assms(2,3) restrict_map_def)

theorem agent_routes_touch_one_witness:
  "other_agents ''g2'' (s_store (fst (dispatch Some sample_api RDeleteAgent
      ((sample_request ''ta'')\<lparr>q_pathvalue := (\<lambda>k. ''g2'')\<rparr>) sample_server))) = [sample_agent]"
proof -
  have i: "''g2'' = q_pathvalue ((sample_request ''ta'')\<lparr>q_pathvalue := (\<lambda>k. ''g2'')\<rparr>) ''id''" by simp
  have o: "other_agents ''g2'' (s_store sample_server) = [sample_agent]"
    by (simp add: other_agents_def sample_defs)
  show ?thesis
    by (rule trans [OF conjunct1 [OF agent_routes_touch_one [OF _ i refl]] o]) (simp add: agent_route_def)
qed

end
