(* ===== verification/SignIn.thy ===== *)
theory SignIn
  imports Samples
begin

text \<open>
  Signing in and out: what it takes to get a session, with a password or through a provider, whose
  session it is, and what ends it. A session is an entry of the service's token table; the browser
  gets it as the cookie \<open>shclop_session\<close>.
\<close>

section \<open>Passwords\<close>

text \<open>The right case: an enabled account of the name given, whose stored hash the password matches; the
  request is still there when the store is asked, and the random source gives a token.\<close>

definition right_login :: "'w api_env \<Rightarrow> Request \<Rightarrow> Memory \<Rightarrow> User \<Rightarrow> string \<Rightarrow> bool" where
  "right_login E q m user token \<longleftrightarrow> q_ctx q 0 = None \<and> tokenID (q_rnd q 2) = Inr token \<and>
     (\<exists>username password hash. decode_login (q_body q) = Some (username, password) \<and>
        account_of m username = Some user \<and> u_Username user = username \<and> \<not> u_Disabled user \<and>
        m_passwordHashes m username = Some hash \<and> e_bcrypt_compare E hash password)"

lemma Login_right:
  assumes "cx = None" "tokenID r = Inr token" "account_of m n = Some user" "\<not> u_Disabled user"
    "m_passwordHashes m n = Some hash" "compare hash p"
  shows "Login (\<lambda>n. GetUserByUsername cx n m) (\<lambda>n. GetPasswordHash n m) compare r n p a =
    (a\<lparr>sv_tokens := (sv_tokens a)(token \<mapsto> user)\<rparr>, Inr (user, token))"
  using assms by (simp add: Login_def GetUserByUsername_def find_or_not_found_def account_of_def GetPasswordHash_def)

text \<open>C23: a password login opens a session exactly in the right case: outside of SSO mode, for an
  enabled account of the store (as it is once the first login has created the administrator) with the
  name given, when the password matches the hash stored under that name, unless the request is
  cancelled or no token can be drawn; the answer then carries the session's token. Every other answer
  has another status, sets no cookie and leaves all sessions as they were.\<close>

theorem password_login_sound:
  "case (handleLogin E q s, bootstrapAdmin E (q_now q 0) (q_rnd q 0) (q_rnd q 1) s) of ((s', resp), b) \<Rightarrow>
     if Mode (s_idp s) \<noteq> AuthModeSSO \<and> (\<exists>user token. right_login E q (s_store b) user token)
     then (\<exists>user token. right_login E q (s_store b) user token \<and>
       resp = SetCookie (session_cookie token) (writeJSON 200 (JSession user token)) \<and>
       sv_tokens (s_auth s') = (sv_tokens (s_auth s))(token \<mapsto> user))
     else rp_Status resp \<noteq> 200 \<and> rp_Cookies resp = [] \<and> s_auth s' = s_auth s"
proof -
  define b where "b = bootstrapAdmin E (q_now q 0) (q_rnd q 0) (q_rnd q 1) s"
  have b: "s_idp b = s_idp s" "s_auth b = s_auth s" by (simp_all add: b_def bootstrapAdmin_def)
  note step = handleLogin_def [of E q s, folded b_def] Let_def b or_400_def
  have "case handleLogin E q s of (s', resp) \<Rightarrow>
     if Mode (s_idp s) \<noteq> AuthModeSSO \<and> (\<exists>user token. right_login E q (s_store b) user token)
     then (\<exists>user token. right_login E q (s_store b) user token \<and>
       resp = SetCookie (session_cookie token) (writeJSON 200 (JSession user token)) \<and>
       sv_tokens (s_auth s') = (sv_tokens (s_auth s))(token \<mapsto> user))
     else rp_Status resp \<noteq> 200 \<and> rp_Cookies resp = [] \<and> s_auth s' = s_auth s"
  proof (cases "Mode (s_idp s) = AuthModeSSO \<or> decode_login (q_body q) = None")
    case True
    then show ?thesis by (auto simp: step right_login_def)
  next
    case False
    then obtain username password where ok: "Mode (s_idp s) \<noteq> AuthModeSSO" and d: "decode_login (q_body q) = Some (username, password)"
      by auto
    let ?login = "Login (\<lambda>n. GetUserByUsername (q_ctx q 0) n (s_store b)) (\<lambda>n. GetPasswordHash n (s_store b))
        (e_bcrypt_compare E) (q_rnd q 2) username password (s_auth s)"
    show ?thesis
    proof (cases "\<exists>user token. right_login E q (s_store b) user token")
      case True
      then obtain user token where r: "right_login E q (s_store b) user token" by blast
      with d have l: "?login = ((s_auth s)\<lparr>sv_tokens := (sv_tokens (s_auth s))(token \<mapsto> user)\<rparr>, Inr (user, token))"
        by (auto simp: right_login_def intro!: Login_right)
      have "\<exists>user' token'. right_login E q (s_store b) user' token' \<and>
          snd (handleLogin E q s) = SetCookie (session_cookie token') (writeJSON 200 (JSession user' token')) \<and>
          sv_tokens (s_auth (fst (handleLogin E q s))) = (sv_tokens (s_auth s))(token' \<mapsto> user')"
        using r l ok d by (intro exI [of _ user] exI [of _ token]) (simp add: step)
      with True ok show ?thesis by (simp add: case_prod_beta)
    next
      case wrong: False
      have "\<exists>a err. ?login = (a, Inl err)"
      proof (cases "snd ?login")
        case (Inr ut)
        then obtain a user token where l: "?login = (a, Inr (user, token))" by (cases ?login) fastforce
        have "q_ctx q 0 = None"
          using l by (cases "q_ctx q 0") (auto simp: Login_def GetUserByUsername_def find_or_not_found_def)
        with mem_credentials.Login_Inr [OF l] d have "right_login E q (s_store b) user token"
          by (auto simp: right_login_def)
        with wrong show ?thesis by blast
      qed (cases ?login, auto)
      then obtain a err where l: "?login = (a, Inl err)" by blast
      with mem_credentials.Login_Inl [OF l] ok d wrong show ?thesis
        by (simp add: step unauthorized_def)
    qed
  qed
  then show ?thesis unfolding b_def by (simp only: case_prod_beta fst_conv snd_conv)
qed

section \<open>The account of an identity\<close>

definition linked_user :: "string \<Rightarrow> string \<Rightarrow> Memory \<Rightarrow> string option" where
  "linked_user providerName subject m =
     map_option ui_UserID (find (is_identity providerName subject) (m_userIdentities m))"

text \<open>C24: single sign-on never takes over an account: the account an identity is given is either the
  enabled one an earlier link names, whatever e-mail the provider now claims, or a new ordinary user
  under a name that nobody had; existing accounts are not changed, and no password is touched.\<close>

theorem sso_never_takes_over:
  assumes "linkOrCreateUser cx now r providerName subject email displayName m = (m', Inr user)"
  shows "\<not> u_Disabled user \<and> m_passwordHashes m' = m_passwordHashes m \<and>
    (linked_user providerName subject m = Some (u_ID user) \<and> user \<in> set (m_users m) \<and> m_users m' = m_users m \<or>
     linked_user providerName subject m = None \<and> m_users m' = m_users m @ [user] \<and> u_Role user = ''user'' \<and>
     u_Username user = email \<and> (\<forall>v\<in>set (m_users m). u_Username v \<noteq> email))"
  using assms
  by (auto simp: linkOrCreateUser_def linked_user_def GetUserIDByIdentity_def TouchIdentityLogin_def GetUser_def
      find_or_not_found_def CreateUserAndIdentity_def Let_def
      split: sum.splits option.splits if_splits dest: find_SomeD)

theorem sso_never_takes_over_witness:
  "let u = \<lparr>u_ID = ''61'', u_Username = ''new@x'', u_Role = ''user'', u_Disabled = False, u_CreatedAt = 5, u_UpdatedAt = 5\<rparr>
   in linked_user ''okta'' ''sub'' sample_store = Some (u_ID u) \<and> u \<in> set (m_users sample_store) \<or>
      linked_user ''okta'' ''sub'' sample_store = None \<and> (\<forall>v\<in>set (m_users sample_store). u_Username v \<noteq> ''new@x'')"
  using sso_never_takes_over [of "\<lambda>i. None" "\<lambda>i. 5" "Some ''a''" "''okta''" "''sub''" "''new@x''" "''New''" sample_store]
  by (simp add: linkOrCreateUser_def GetUserIDByIdentity_def GetUserByUsername_def find_or_not_found_def
      CreateUserAndIdentity_def newID_def random_hex_def hex_digit_def Let_def linked_user_def sample_defs)

section \<open>Signing in through a provider\<close>

lemma available_Some:
  "available name s = Some entry \<longleftrightarrow> idp_Get name (s_idp s) = Some entry \<and> mp_Enabled entry \<and> mp_Status entry = StatusReady"
  by (auto simp: available_def split: option.splits)

text \<open>What the checks before the account establish.\<close>

definition vouched :: "'w api_env \<Rightarrow> Request \<Rightarrow> string \<Rightarrow> OIDCStateCookie \<Rightarrow> 'w Server \<Rightarrow> Identity \<Rightarrow> bool" where
  "vouched E q providerName cookie s ident \<longleftrightarrow>
     sc_Provider cookie = providerName \<and> query_get q ''state'' = sc_State cookie \<and> query_get q ''error'' = [] \<and>
     (\<exists>entry p raw idToken. idp_Get providerName (s_idp s) = Some entry \<and> mp_Enabled entry \<and> mp_Status entry = StatusReady \<and>
        mp_Provider entry = Some p \<and> query_get q ''code'' \<noteq> [] \<and>
        e_exchange E p (query_get q ''code'') (sc_CodeVerifier cookie) = Inr (Some raw) \<and>
        e_verify E p raw = Inr idToken \<and> it_Nonce idToken = sc_Nonce cookie \<and>
        IdentityFromIDToken p idToken = Inr ident)"

lemma callback_identity_Inr:
  "callback_identity E q providerName cookie s = Inr ident \<Longrightarrow> vouched E q providerName cookie s ident"
  by (auto simp: callback_identity_def vouched_def available_Some Let_def
      split: if_splits option.splits sum.splits)

lemma callback_identity_Inl:
  "callback_identity E q providerName cookie s = Inl r \<Longrightarrow> rp_Cookies r = []"
  by (auto simp: callback_identity_def panicked_def Let_def split: if_splits option.splits sum.splits)

text \<open>The session part opens one session, for the account the identity leads to, or none.\<close>

lemma open_session_cases:
  assumes "open_session q providerName ident returnTo s = (s', resp)"
  obtains "rp_Cookies resp = []" "s_auth s' = s_auth s"
  | token user where "rp_Cookies resp = [session_cookie token]" "rp_Status resp = 302"
      "snd (linkOrCreateUser (q_ctx q) (q_now q) (q_rnd q 0) providerName (id_Subject ident) (id_Email ident)
         (id_Name ident) (s_store s)) = Inr user"
      "sv_tokens (s_auth s') = (sv_tokens (s_auth s))(token \<mapsto> user)"
      "rp_Body resp = RedirectTo (if returnTo = [] then ''/'' else returnTo)"
  using assms
  by (fastforce simp: open_session_def IssueToken_def SetCookie_def split: prod.splits sum.splits)

lemma not_state_cookie [simp]: "session_cookie token \<noteq> state_cookie v n site"
  by (simp add: session_cookie_def state_cookie_def)

lemma session_cookie_eq [simp]: "session_cookie t = session_cookie t' \<longleftrightarrow> t = t'"
  by (simp add: session_cookie_def)

text \<open>C25: a session through a provider needs the whole proof: the sign-in cookie of this browser decodes
  and has not expired, it was made for this provider and carries the state the request repeats, the
  provider is enabled and ready, it redeems the code with the cookie's verifier for an ID token that
  verifies and repeats the cookie's nonce, and the session is for the account the token's identity
  leads to.\<close>

theorem sso_session_requires_proof:
  assumes "handleOIDCCallback E q providerName s = (s', resp)" "session_cookie token \<in> set (rp_Cookies resp)"
  shows "\<exists>v cookie ident user.
    q_cookie q oidcStateCookieName = Some v \<and>
    Decode (e_crypto E) (e_gob E) (q_now q 3) (s_codec s) v = Inr cookie \<and>
    (sc_ExpiresAt cookie = 0 \<or> q_now q 3 \<le> sc_ExpiresAt cookie) \<and>
    vouched E q providerName cookie s ident \<and>
    snd (linkOrCreateUser (q_ctx q) (q_now q) (q_rnd q 0) providerName (id_Subject ident) (id_Email ident)
         (id_Name ident) (s_store s)) = Inr user \<and>
    sv_tokens (s_auth s') = (sv_tokens (s_auth s))(token \<mapsto> user)"
proof -
  obtain v where v: "q_cookie q oidcStateCookieName = Some v"
    using assms by (cases "q_cookie q oidcStateCookieName") (auto simp: handleOIDCCallback_def)
  obtain cookie where c: "Decode (e_crypto E) (e_gob E) (q_now q 3) (s_codec s) v = Inr cookie"
    using assms v
    by (cases "Decode (e_crypto E) (e_gob E) (q_now q 3) (s_codec s) v") (auto simp: handleOIDCCallback_def)
  obtain ident where i: "callback_identity E q providerName cookie s = Inr ident"
    using assms v c callback_identity_Inl [of E q providerName cookie s]
    by (cases "callback_identity E q providerName cookie s") (auto simp: handleOIDCCallback_def)
  obtain resp1 where o: "open_session q providerName ident (sc_ReturnTo cookie) s = (s', resp1)"
    and r: "resp = SetCookie (state_cookie [] (-1) []) resp1"
    using assms(1) v c i by (auto simp: handleOIDCCallback_def Let_def split: prod.splits)
  from o have "\<exists>user. snd (linkOrCreateUser (q_ctx q) (q_now q) (q_rnd q 0) providerName (id_Subject ident)
      (id_Email ident) (id_Name ident) (s_store s)) = Inr user \<and>
      sv_tokens (s_auth s') = (sv_tokens (s_auth s))(token \<mapsto> user)"
    by (rule open_session_cases) (use assms(2) r in auto)
  moreover have "sc_ExpiresAt cookie = 0 \<or> q_now q 3 \<le> sc_ExpiresAt cookie"
    using c by (auto simp: Decode_def split: sum.splits option.splits if_splits)
  ultimately show ?thesis using v c callback_identity_Inr [OF i] by blast
qed

text \<open>A browser coming back from the provider with the state of its cookie.\<close>

definition sample_oidc :: "unit api_env" where
  "sample_oidc = sample_api\<lparr>e_gob :=
     \<lparr>gob_encode = sc_State, gob_decode = (\<lambda>s. Some (sample_cookie\<lparr>sc_State := s, sc_Provider := ''okta''\<rparr>))\<rparr>\<rparr>"

definition sample_callback :: Request where
  "sample_callback = (sample_request [])\<lparr>q_cookie := [oidcStateCookieName \<mapsto> ''MDEyMzQ1Njc4OWFidHM''],
     q_query := (\<lambda>k. if k = ''state'' then [''s''] else if k = ''code'' then [''c''] else [])\<rparr>"

lemma sample_callback_cookies:
  "rp_Cookies (snd (handleOIDCCallback sample_oidc sample_callback ''okta'' sample_server)) =
     [state_cookie [] (-1) [], session_cookie ''72'']"
  by code_simp

theorem sso_session_requires_proof_witness:
  "\<exists>v cookie ident user.
    q_cookie sample_callback oidcStateCookieName = Some v \<and>
    Decode (e_crypto sample_oidc) (e_gob sample_oidc) (q_now sample_callback 3) (s_codec sample_server) v = Inr cookie \<and>
    (sc_ExpiresAt cookie = 0 \<or> q_now sample_callback 3 \<le> sc_ExpiresAt cookie) \<and>
    vouched sample_oidc sample_callback ''okta'' cookie sample_server ident \<and>
    snd (linkOrCreateUser (q_ctx sample_callback) (q_now sample_callback) (q_rnd sample_callback 0) ''okta''
      (id_Subject ident) (id_Email ident) (id_Name ident) (s_store sample_server)) = Inr user \<and>
    sv_tokens (s_auth (fst (handleOIDCCallback sample_oidc sample_callback ''okta'' sample_server)))
      = (sv_tokens (s_auth sample_server))(''72'' \<mapsto> user)"
  by (rule sso_session_requires_proof [OF surjective_pairing]) (simp add: sample_callback_cookies)

section \<open>Where a sign-in ends\<close>

lemma Decode_Encode:
  assumes "aead_law C" "gob_law G p" "NewCookieCodecFromConfig C k = Inr c" "length nonce = NonceSize"
    and "Encode C G (Some nonce) c p = Inr e" "Decode C G now c e = Inr p'"
  shows "p' = p"
proof -
  from assms(3) have "length (aead_key (cc_aead c)) = 32"
    by (auto simp: NewCookieCodecFromConfig_def NewCookieCodec_def split: if_splits sum.splits
        dest: NewAESGCM_key [OF assms(1)])
  from Open_Seal [OF assms(1) this assms(4), of "gob_encode G p"] assms(2,5,6) show ?thesis
    by (auto simp: Encode_def Decode_def b64_roundtrip gob_law_def split: if_splits)
qed

lemma callback_redirects:
  assumes "handleOIDCCallback E q providerName s = (s', resp)" "session_cookie token \<in> set (rp_Cookies resp)"
  obtains v cookie where "q_cookie q oidcStateCookieName = Some v"
    "Decode (e_crypto E) (e_gob E) (q_now q 3) (s_codec s) v = Inr cookie"
    "rp_Body resp = RedirectTo (if sc_ReturnTo cookie = [] then ''/'' else sc_ReturnTo cookie)"
proof -
  obtain v where v: "q_cookie q oidcStateCookieName = Some v"
    using assms by (cases "q_cookie q oidcStateCookieName") (auto simp: handleOIDCCallback_def)
  obtain cookie where c: "Decode (e_crypto E) (e_gob E) (q_now q 3) (s_codec s) v = Inr cookie"
    using assms v
    by (cases "Decode (e_crypto E) (e_gob E) (q_now q 3) (s_codec s) v") (auto simp: handleOIDCCallback_def)
  obtain ident where i: "callback_identity E q providerName cookie s = Inr ident"
    using assms v c callback_identity_Inl [of E q providerName cookie s]
    by (cases "callback_identity E q providerName cookie s") (auto simp: handleOIDCCallback_def)
  obtain resp1 where o: "open_session q providerName ident (sc_ReturnTo cookie) s = (s', resp1)"
    and r: "resp = SetCookie (state_cookie [] (-1) []) resp1"
    using assms(1) v c i by (auto simp: handleOIDCCallback_def Let_def split: prod.splits)
  from o have "rp_Body resp = RedirectTo (if sc_ReturnTo cookie = [] then ''/'' else sc_ReturnTo cookie)"
    by (rule open_session_cases) (use assms(2) r in \<open>auto simp: SetCookie_def\<close>)
  with v c show ?thesis by (rule that)
qed

text \<open>C40: a sign-in ends at the page its link named, as far as \<open>sanitizeReturnTo\<close> lets it: a browser follows a
  link with a \<open>return_to\<close>, gets the cookie, and later comes back from the provider with this cookie and is
  let in. Then it is redirected to the front page when the \<open>return_to\<close> names another host, whatever
  follows the host, and to the \<open>return_to\<close> itself when that is a path of ordinary characters. But a path
  whose second slash is written \<open>%2F\<close> passes the host check and comes out with two slashes, so that what
  follows them is a host to the browser: the redirect is open.\<close>

theorem sign_in_landing:
  assumes "aead_law (e_crypto E)" "NewCookieCodecFromConfig (e_crypto E) k = Inr (s_codec s)"
    and "q_rnd q 0 = Some r0" "q_rnd q 1 = Some r1" "q_rnd q 2 = Some r2" "q_rnd q 3 = Some nonce" "length nonce = NonceSize"
    and "gob_law (e_gob E) (login_cookie host q providerName (b64_encode r0) (b64_encode r1) (b64_encode r2))"
    and "handleOIDCLogin host E q providerName s = (s1, resp1)" "state_cookie v 600 ''Lax'' \<in> set (rp_Cookies resp1)"
    and "q_cookie q' oidcStateCookieName = Some v" "s_codec s2 = s_codec s"
    and "handleOIDCCallback E q' providerName s2 = (s3, resp)" "session_cookie token \<in> set (rp_Cookies resp)"
  shows "\<exists>dest. rp_Body resp = RedirectTo dest \<and>
    (names_host host (query_get q ''return_to'') \<longrightarrow> dest = ''/'') \<and>
    (\<forall>t. list_all plain_char t \<longrightarrow>
       (query_get q ''return_to'' = ''/'' @ t \<and> \<not> HasPrefix t ''/'' \<longrightarrow> dest = ''/'' @ t) \<and>
       (query_get q ''return_to'' = ''/%2F'' @ t \<longrightarrow> dest = ''//'' @ t))"
proof -
  let ?p = "login_cookie host q providerName (b64_encode r0) (b64_encode r1) (b64_encode r2)"
  from assms(3-6,9,10) have enc: "Encode (e_crypto E) (e_gob E) (Some nonce) (s_codec s) ?p = Inr v"
    by (auto simp: handleOIDCLogin_def random_b64_def Let_def SetCookie_def state_cookie_def panicked_def
        split: option.splits sum.splits)
  from callback_redirects [OF assms(13,14)] obtain cookie where
    c: "Decode (e_crypto E) (e_gob E) (q_now q' 3) (s_codec s) v = Inr cookie"
    and body: "rp_Body resp = RedirectTo (if sc_ReturnTo cookie = [] then ''/'' else sc_ReturnTo cookie)"
    using assms(11,12) by (metis option.inject)
  from Decode_Encode [OF assms(1,8,2,7) enc c] have "sc_ReturnTo cookie = sanitizeReturnTo host (query_get q ''return_to'')"
    by (simp add: login_cookie_def)
  with body show ?thesis
    using names_host_dropped [of host] sanitize_plain [of _ host] sanitize_encoded_slash [of _ host]
    by (intro exI [of _ "if sc_ReturnTo cookie = [] then ''/'' else sc_ReturnTo cookie"]) auto
qed

text \<open>The link \<open>return_to=/%2Fevil.com\<close>.\<close>

definition sample_start_link :: Request where
  "sample_start_link = (sample_request [])\<lparr>q_query := (\<lambda>k. if k = ''return_to'' then [''/%2Fevil.com''] else []),
     q_rnd := (\<lambda>i. Some ''0123456789ab'')\<rparr>"

definition sample_payload :: OIDCStateCookie where
  "sample_payload = login_cookie Some sample_start_link ''okta'' (b64_encode ''0123456789ab'') (b64_encode ''0123456789ab'')
     (b64_encode ''0123456789ab'')"

definition sample_sso :: "unit api_env" where
  "sample_sso = sample_api\<lparr>e_gob := \<lparr>gob_encode = (\<lambda>p. ''cookie''), gob_decode = (\<lambda>t. Some sample_payload)\<rparr>,
     e_verify := (\<lambda>p raw. Inr \<lparr>it_Subject = ''sub'', it_Nonce = b64_encode ''0123456789ab'', it_Claims = Inr sample_claims\<rparr>)\<rparr>"

definition sample_return :: "string \<Rightarrow> Request" where
  "sample_return v = (sample_request [])\<lparr>q_cookie := [oidcStateCookieName \<mapsto> v],
     q_query := (\<lambda>k. if k = ''state'' then [b64_encode ''0123456789ab''] else if k = ''code'' then [''c''] else [])\<rparr>"

definition sample_value :: string where
  "sample_value = ck_Value (hd (rp_Cookies (snd (handleOIDCLogin Some sample_sso sample_start_link ''okta'' sample_server))))"

theorem sign_in_landing_witness:
  "rp_Body (snd (handleOIDCCallback sample_sso (sample_return sample_value) ''okta'' sample_server)) = RedirectTo ''//evil.com''"
proof -
  let ?l = "handleOIDCLogin Some sample_sso sample_start_link ''okta'' sample_server"
  let ?c = "handleOIDCCallback sample_sso (sample_return sample_value) ''okta'' sample_server"
  have login: "rp_Cookies (snd ?l) = [state_cookie sample_value 600 ''Lax'']" by code_simp
  have landed: "rp_Cookies (snd ?c) = [state_cookie [] (-1) [], session_cookie ''72'']" by code_simp
  have crypto: "aead_law (e_crypto sample_sso)" by (simp add: sample_sso_def sample_api_def sample_crypto_law)
  have codec: "NewCookieCodecFromConfig (e_crypto sample_sso) ''key'' = Inr (s_codec sample_server)" by code_simp
  have gob: "gob_law (e_gob sample_sso) (login_cookie Some sample_start_link ''okta'' (b64_encode ''0123456789ab'')
      (b64_encode ''0123456789ab'') (b64_encode ''0123456789ab''))"
    by (simp add: gob_law_def sample_sso_def sample_payload_def)
  have q: "q_rnd sample_start_link i = Some ''0123456789ab''" "query_get sample_start_link ''return_to'' = ''/%2F'' @ ''evil.com''"
    "q_cookie (sample_return sample_value) oidcStateCookieName = Some sample_value" for i
    by (simp_all add: sample_start_link_def sample_return_def query_get_def)
  have plain: "list_all plain_char ''evil.com''" by code_simp
  have len: "length ''0123456789ab'' = NonceSize" by (simp add: NonceSize_def)
  have in_login: "state_cookie sample_value 600 ''Lax'' \<in> set (rp_Cookies (snd ?l))"
    and in_callback: "session_cookie ''72'' \<in> set (rp_Cookies (snd ?c))"
    unfolding login landed by simp_all
  from sign_in_landing [OF crypto codec q(1) q(1) q(1) q(1) len gob surjective_pairing in_login q(3) refl surjective_pairing in_callback]
  obtain dest where dest: "rp_Body (snd ?c) = RedirectTo dest"
    and to: "query_get sample_start_link ''return_to'' = ''/%2F'' @ t \<longrightarrow> dest = ''//'' @ t" if "list_all plain_char t" for t
    by blast
  from to [OF plain] q(2) dest [OF plain] show ?thesis by simp
qed

section \<open>Signing out\<close>

text \<open>Logging out ends the session: afterwards the token is nobody's, so a request with it is
  refused on every route that is not public, and the other sessions are untouched.\<close>

theorem logout_ends_session:
  assumes "request_token q = token" "token \<noteq> []" "s' = fst (dispatch host E RLogout q s)"
  shows "Resolve token (s_auth s') = None \<and>
    (bearer_token (q_authorization q') = token \<longrightarrow> \<not> public route \<longrightarrow> dispatch host E route q' s' = (s', unauthorized)) \<and>
    (\<forall>t. t \<noteq> token \<longrightarrow> Resolve t (s_auth s') = Resolve t (s_auth s)) \<and> s_store s' = s_store s"
  using assms
  by (auto simp: handleLogout_def Let_def requireUser_def session_user_def intro!: dispatch_no_user)

theorem logout_ends_session_witness:
  "dispatch Some sample_api RMe (sample_request ''tb'') (fst (dispatch Some sample_api RLogout (sample_request ''tb'') sample_server))
     = (fst (dispatch Some sample_api RLogout (sample_request ''tb'') sample_server), unauthorized)"
  using logout_ends_session [of "sample_request ''tb''" "''tb''" _ Some sample_api sample_server "sample_request ''tb''" RMe]
  by (simp add: request_token_def public_def del: dispatch.simps)

end
