(* ===== verification/Operate.thy ===== *)
theory Operate
  imports Access SignIn
begin

text \<open>
  What the server's operations achieve: settings that take effect, the activity page, the models on
  offer, the administration of plugins, and the life of an agent's runtime token.
\<close>

section \<open>Authentication settings\<close>

text \<open>The flag a request gives a provider last.\<close>

fun requested_flag :: "(string \<times> bool option) list \<Rightarrow> string \<Rightarrow> bool option" where
  "requested_flag [] name = None"
| "requested_flag ((n, e) # ps) name =
     (case requested_flag ps name of Some b \<Rightarrow> Some b | None \<Rightarrow> if n = name then e else None)"

lemma enabled_key_inj [simp]: "enabled_key a = enabled_key b \<longleftrightarrow> a = b"
  by (simp add: enabled_key_def)

lemma enabled_key_not_mode [simp]: "enabled_key a \<noteq> ''auth.mode''" "''auth.mode'' \<noteq> enabled_key a"
  by (simp_all add: enabled_key_def)

lemma bool_text_true [simp]: "bool_text b = ''true'' \<longleftrightarrow> b"
  by (simp add: bool_text_def)

lemma set_flags_settings:
  assumes "\<And>i. cx i = None"
  shows "snd (set_flags cx i ps m) = Inr () \<and>
    m_appSettings (fst (set_flags cx i ps m)) ''auth.mode'' = m_appSettings m ''auth.mode'' \<and>
    m_appSettings (fst (set_flags cx i ps m)) (enabled_key name) =
      (case requested_flag ps name of None \<Rightarrow> m_appSettings m (enabled_key name) | Some b \<Rightarrow> Some (bool_text b))"
  using assms
  by (induction cx i ps m rule: set_flags.induct) (auto simp: SetAppSetting_def split: option.splits)

text \<open>The settings a request asks for, on top of the ones in the store.\<close>

definition wanted_mode :: "string option \<Rightarrow> Memory \<Rightarrow> string" where
  "wanted_mode mode m = (case mode of Some v \<Rightarrow> v
     | None \<Rightarrow> auth_mode_of (case m_appSettings m ''auth.mode'' of None \<Rightarrow> [] | Some v \<Rightarrow> v))"

definition wanted_flag :: "(string \<times> bool option) list \<Rightarrow> string \<Rightarrow> Memory \<Rightarrow> bool" where
  "wanted_flag providers name m = (case requested_flag providers name of Some b \<Rightarrow> b
     | None \<Rightarrow> m_appSettings m (enabled_key name) \<in> {None, Some ''true''})"

lemma set_mode_settings:
  "set_mode None mode m = (m\<lparr>m_appSettings := (case mode of None \<Rightarrow> m_appSettings m
      | Some v \<Rightarrow> (m_appSettings m)(''auth.mode'' \<mapsto> v))\<rparr>, Inr ())"
  by (simp add: set_mode_def SetAppSetting_def split: option.splits)

lemma auth_mode_of_valid: "v \<in> {AuthModeLocal, AuthModeSSO, AuthModeBoth} \<Longrightarrow> auth_mode_of v = v"
  by (auto simp: auth_mode_of_def)

lemma handleGetAuthSettings_state [simp]: "fst (handleGetAuthSettings q s) = s"
  by (simp add: handleGetAuthSettings_def with_admin_def with_user_def split: sum.splits)

text \<open>C26: settings take effect when they are saved: after a request to change the authentication
  settings is answered with success, the registry runs in the mode asked for and every provider
  has the flag asked for last, and what the request leaves out is as the store had it.\<close>

theorem settings_take_effect:
  assumes "handlePatchAuthSettings q s = (s', resp)" "rp_Status resp = 200" "\<And>i. q_ctx q i = None"
    and "decode_auth_settings (q_body q) = Some (mode, providers)"
  shows "Mode (s_idp s') = wanted_mode mode (s_store s) \<and>
    map_option mp_Enabled (idp_Get name (s_idp s')) =
      map_option (\<lambda>_. wanted_flag providers name (s_store s)) (idp_Get name (s_idp s))"
proof -
  obtain user where user: "requireUser q s = Inr user" "u_Role user = ''admin''"
    using assms(1,2)
    by (auto simp: handlePatchAuthSettings_def with_admin_def with_user_def split: sum.splits if_splits
        dest: requireUser_Inl)
  have valid: "mode \<in> {None, Some AuthModeLocal, Some AuthModeSSO, Some AuthModeBoth}"
    using assms by (auto simp: handlePatchAuthSettings_def with_admin_def with_user_def user split: if_splits)
  define m2 where "m2 = fst (set_flags (q_ctx q) 4 providers (fst (set_mode None mode (s_store s))))"
  have flags: "snd (set_flags (q_ctx q) 4 providers (fst (set_mode None mode (s_store s)))) = Inr ()"
    using set_flags_settings [of "q_ctx q"] assms(3) by simp
  obtain r1 where reload: "Reload (\<lambda>k. GetAppSetting None k m2) (\<lambda>p. ListAppSettings None p m2) (s_idp s) = (r1, Inr ())"
    by (simp add: Reload_def GetAppSetting_def ListAppSettings_def)
  have "s_idp s' = r1"
    using assms valid flags reload
    by (auto simp: handlePatchAuthSettings_def with_admin_def with_user_def user Let_def case_prod_beta set_mode_settings m2_def
        dest!: arg_cong [where f = fst])
  then show ?thesis
    using mem_settings.Reload_Inr [OF reload] set_flags_settings [of "q_ctx q" 4 providers "fst (set_mode None mode (s_store s))"]
      assms(3) valid auth_mode_of_valid
    by (auto simp: Mode_def idp_Get_def m2_def wanted_mode_def wanted_flag_def set_mode_settings
        mem_settings.stored_mode_def mem_settings.stored_enabled_def option.map_comp comp_def split: option.splits)
qed

definition sample_patch :: Request where
  "sample_patch = (sample_request ''ta'')\<lparr>q_body := Some (AnyMap [(''mode'', AnyString ''sso''),
     (''providers'', AnyList [AnyMap [(''name'', AnyString ''okta''), (''enabled'', AnyOther ''false'')]])])\<rparr>"

lemma sample_patch_runs:
  "rp_Status (snd (handlePatchAuthSettings sample_patch sample_server)) = 200"
  "decode_auth_settings (q_body sample_patch) = Some (Some ''sso'', [(''okta'', Some False)])"
  by code_simp+

theorem settings_take_effect_witness:
  "Mode (s_idp (fst (handlePatchAuthSettings sample_patch sample_server))) = ''sso'' \<and>
   map_option mp_Enabled (idp_Get ''okta'' (s_idp (fst (handlePatchAuthSettings sample_patch sample_server)))) = Some False"
proof -
  have o: "map_option (\<lambda>_. wanted_flag [(''okta'', Some False)] ''okta'' (s_store sample_server))
      (idp_Get ''okta'' (s_idp sample_server)) = Some False" "wanted_mode (Some ''sso'') (s_store sample_server) = ''sso''"
    by (simp_all add: wanted_flag_def wanted_mode_def idp_Get_def sample_server_def sample_idp_def)
  have "q_ctx sample_patch i = None" for i by (simp add: sample_patch_def)
  from settings_take_effect [OF surjective_pairing sample_patch_runs(1) this sample_patch_runs(2), of "''okta''"]
  show ?thesis by (simp only: o)
qed

section \<open>The activity page\<close>

lemma handleActivity_cases:
  assumes "handleActivity E q s = (s', resp)" "rp_Body resp = JActivity entries"
  obtains user sinceAt limit where "requireUser q s = Inr user" "s' = s" "limit \<le> 200"
    "entries = keep_last limit (filter (activity_matches (e_ul E) (filter (\<lambda>t. t \<noteq> []) (map TrimSpace (q_query q ''type'')))
       (TrimSpace (query_get q ''actor_id'')) (TrimSpace (query_get q ''agent_id'')) sinceAt
       (ToLower (e_ul E) (TrimSpace (query_get q ''q'')))) (activityForUser user s))"
proof -
  obtain user where user: "requireUser q s = Inr user"
    using assms by (auto simp: handleActivity_def with_user_def split: sum.splits dest!: requireUser_Text)
  obtain sinceAt where since: "parse_since (e_parse_time E) (query_get q ''since'') = Some sinceAt"
    using assms by (auto simp: handleActivity_def with_user_def user http_Error_def split: option.splits)
  obtain limit where limit: "parse_limit (query_get q ''limit'') = Some limit"
    using assms by (auto simp: handleActivity_def with_user_def user since http_Error_def split: option.splits)
  have "limit \<le> 200" using limit by (auto simp: parse_limit_def Let_def split: if_splits option.splits)
  with assms show ?thesis
    by (intro that [OF user]) (auto simp: handleActivity_def with_user_def user since limit writeJSON_def Let_def)
qed

lemma activity_matches_ids:
  "entry \<in> set (filter (activity_matches ul types actorID agentID sinceAt text) (filter P xs)) \<Longrightarrow>
     P entry \<and> actorID \<in> {[], ac_ActorID entry} \<and> agentID \<in> {[], ac_AgentID entry}"
  by (auto simp: activity_matches_def)

text \<open>The activity page shows a caller their own entries: an answer lists at most 200 entries, in the
  order they were recorded, each of them in the log and matching the filters asked for, and a caller
  who is not an administrator sees only entries about their own actions.\<close>

theorem activity_is_scoped:
  assumes "dispatch host E RActivity q s = (s', resp)" "rp_Body resp = JActivity entries"
  shows "\<exists>user. requireUser q s = Inr user \<and> s' = s \<and> length entries \<le> 200 \<and> subseq entries (s_activity s) \<and>
    (\<forall>entry\<in>set entries. (u_Role user = ''admin'' \<or> ac_ActorID entry = u_ID user) \<and>
       (TrimSpace (query_get q ''actor_id'') \<in> {[], ac_ActorID entry}) \<and>
       (TrimSpace (query_get q ''agent_id'') \<in> {[], ac_AgentID entry}))"
  using assms(1) [unfolded dispatch.simps] assms(2)
proof (cases rule: handleActivity_cases)
  case (1 user sinceAt limit)
  have sub: "subseq (keep_last n (filter P xs)) xs" for n P and xs :: "activityEntry list"
    unfolding keep_last_def by (rule subseq_order.trans [OF suffix_imp_subseq [OF suffix_drop] subseq_filter_left])
  have visible: "activityForUser user s = filter (\<lambda>e. u_Role user = ''admin'' \<or> ac_ActorID e = u_ID user) (s_activity s)"
    by (simp add: activityForUser_def)
  have "length entries \<le> 200" using 1(3,4) length_keep_last order_trans by blast
  moreover have "subseq entries (s_activity s)"
    unfolding 1(4) visible by (rule subseq_order.trans [OF sub subseq_filter_left])
  moreover have "\<forall>entry\<in>set entries. (u_Role user = ''admin'' \<or> ac_ActorID entry = u_ID user) \<and>
      (TrimSpace (query_get q ''actor_id'') \<in> {[], ac_ActorID entry}) \<and>
      (TrimSpace (query_get q ''agent_id'') \<in> {[], ac_AgentID entry})"
    unfolding 1(4) visible keep_last_def by (blast dest: in_set_dropD activity_matches_ids)
  ultimately show ?thesis using 1(1,2) by blast
qed

definition sample_busy :: "unit Server" where
  "sample_busy = recordActivity 2 ''agent.created'' ''u2'' ''g1'' ''agent created'' []
     (recordActivity 1 ''agent.created'' ''u1'' ''g0'' ''agent created'' [] sample_server)"

theorem activity_is_scoped_witness:
  "subseq (drop 1 (s_activity sample_busy)) (s_activity sample_busy) \<and> length (drop 1 (s_activity sample_busy)) \<le> 200 \<and>
   ac_ActorID ` set (drop 1 (s_activity sample_busy)) \<subseteq> {''u2''}"
proof -
  have "requireUser (sample_request ''tb'') sample_busy = requireUser (sample_request ''tb'') sample_server"
    by (simp add: requireUser_def session_user_def enforceCurrentUser_def sample_busy_def split: option.split)
  moreover have "(case rp_Body (snd (handleActivity sample_api (sample_request ''tb'') sample_busy)) of
      JActivity es \<Rightarrow> Some es | _ \<Rightarrow> None) = Some (drop 1 (s_activity sample_busy))"
    by code_simp
  then have "rp_Body (snd (handleActivity sample_api (sample_request ''tb'') sample_busy)) = JActivity (drop 1 (s_activity sample_busy))"
    by (simp split: body.splits)
  ultimately show ?thesis
    using activity_is_scoped [OF surjective_pairing, of Some sample_api "sample_request ''tb''" sample_busy "drop 1 (s_activity sample_busy)"]
    by (auto simp: sample_account_def)
qed

section \<open>Models on offer\<close>

text \<open>The models offered to users are the enabled ones: exactly the enabled models of the store when
  no gateway is asked, and of those the ones the gateway knows when one is; an unreachable gateway
  fails the request instead of offering models it may not serve.\<close>

theorem models_listed_enabled:
  assumes "dispatch host E RModels q s = (s', resp)" "rp_Body resp = JModels models"
  shows "\<exists>known. models = filter (\<lambda>m. lm_Enabled m \<and> known (lm_ProviderModel m)) (m_llmModels (s_store s)) \<and>
    (if m_gatewayEnabled (s_store s) \<and> m_gatewayBaseURL (s_store s) \<noteq> [] \<and> c_LLMGatewayAPIKey (s_cfg s) \<noteq> []
     then \<exists>ids. fetchLiteLLMModels E (m_gatewayBaseURL (s_store s)) (c_LLMGatewayAPIKey (s_cfg s)) = Inr ids \<and>
            known = (\<lambda>m. m \<in> set ids)
     else known = (\<lambda>m. True))"
proof -
  obtain user where user: "requireUser q s = Inr user"
    using assms by (auto simp: handleListEnabledModels_def with_user_def split: sum.splits dest!: requireUser_Text)
  have live: "q_ctx q 1 = None" "q_ctx q 2 = None"
    using assms user
    by (auto simp: handleListEnabledModels_def with_user_def ListLLMModels_def GetLLMGatewaySettings_def or_500_def
        response_defs Let_def split: option.splits)
  let ?asked = "m_gatewayEnabled (s_store s) \<and> m_gatewayBaseURL (s_store s) \<noteq> [] \<and> c_LLMGatewayAPIKey (s_cfg s) \<noteq> []"
  note step = handleListEnabledModels_def with_user_def ListLLMModels_def GetLLMGatewaySettings_def user
    live [unfolded One_nat_def] Let_def
  show ?thesis
  proof (cases ?asked)
    case False
    with assms show ?thesis by (intro exI [of _ "\<lambda>m. True"]) (auto simp: step writeJSON_def)
  next
    case True
    then obtain ids where "fetchLiteLLMModels E (m_gatewayBaseURL (s_store s)) (c_LLMGatewayAPIKey (s_cfg s)) = Inr ids"
      using assms by (auto simp: step response_defs split: sum.splits)
    with assms True show ?thesis
      by (intro exI [of _ "\<lambda>m. m \<in> set ids"]) (auto simp: step writeJSON_def intro: filter_cong)
  qed
qed

theorem models_listed_enabled_witness:
  "\<exists>known. [sample_model] = filter (\<lambda>m. lm_Enabled m \<and> known (lm_ProviderModel m)) (m_llmModels sample_store)"
proof -
  have "(case rp_Body (snd (handleListEnabledModels sample_api (sample_request ''tb'') sample_server)) of
      JModels ms \<Rightarrow> Some ms | _ \<Rightarrow> None) = Some [sample_model]"
    by code_simp
  then have "rp_Body (snd (handleListEnabledModels sample_api (sample_request ''tb'') sample_server)) = JModels [sample_model]"
    by (simp split: body.splits)
  then show ?thesis
    using models_listed_enabled [OF surjective_pairing, of Some sample_api "sample_request ''tb''" sample_server "[sample_model]"]
    by (auto simp: sample_server_def)
qed

end
