(* ===== verification/Gateway.thy ===== *)
theory Gateway
  imports Prelude Domain
begin

text \<open>
  \<open>internal/gateway\<close>: the registry that connects browsers waiting for an agent's answer with the
  websocket of the agent's runtime. Its methods run concurrently, so a state holds the goroutines
  inside them with the point each has reached; one step runs a goroutine from one operation that
  can block (taking a mutex, sending on or receiving from a waiter's channel, writing to a
  websocket) to the next. A schedule decides who runs; a \<open>choice\<close> decides what is not the
  program's: the order of a map, the outcome of a write, the branch of a \<open>select\<close> with two ready.

  \<open>gw_mu\<close> and \<open>wt_mu\<close> are the owners of \<open>r.mu\<close> and \<open>w.mu\<close>, a waiter's channel is its buffer of 16
  slots, and \<open>wt_key\<close>, the key a waiter was made for, is only there for the statements. The mutex
  \<open>writeMu\<close> serialises writes and is not modelled. A consumer is \<open>handleWebSocket\<close>'s loop.
\<close>

section \<open>Messages\<close>

record Envelope =
  en_Type :: string
  en_AgentID :: string
  en_SessionID :: string
  en_MessageID :: string
  en_Seq :: int
  en_Payload :: "(string \<times> any) list"

definition terminal_event :: "string \<Rightarrow> bool" where
  "terminal_event eventType \<longleftrightarrow> eventType = ''message.done'' \<or> eventType = ''message.error''"

type_synonym waiterKey = "string \<times> string"

definition env_key :: "Envelope \<Rightarrow> waiterKey" where
  "env_key e = (en_AgentID e, en_MessageID e)"

section \<open>State\<close>

record waiter =
  wt_key :: waiterKey
  wt_events :: "Envelope list"
  wt_done :: bool
  wt_mu :: "nat option"

definition newWaiter :: "waiterKey \<Rightarrow> waiter" where
  "newWaiter key = \<lparr>wt_key = key, wt_events = [], wt_done = False, wt_mu = None\<rparr>"

definition buffer_size :: nat where
  "buffer_size = 16"

datatype gw_op =
    Register string nat
  | Unregister string nat
  | SendTask string Envelope
  | Dispatch string nat Envelope

datatype pc =
    Idle "go_error option"
  | Enter gw_op
  | FailLoop string string
  | FailLock nat Envelope string string
  | FailSend nat Envelope string string
  | Writing waiterKey nat
  | Waiting waiterKey nat
  | Responding waiterKey nat Envelope
  | Removing waiterKey
  | DeliverLock waiterKey nat Envelope
  | Delivering waiterKey nat Envelope

record RuntimeRegistry =
  gw_mu :: "nat option"
  gw_runtimes :: "string \<rightharpoonup> nat"
  gw_waiters :: "(waiterKey \<times> nat) list"
  gw_heap :: "waiter list"
  gw_closed :: "nat list"
  gw_pc :: "nat \<Rightarrow> pc"

definition NewRuntimeRegistry :: RuntimeRegistry where
  "NewRuntimeRegistry = \<lparr>gw_mu = None, gw_runtimes = Map.empty, gw_waiters = [], gw_heap = [], gw_closed = [],
     gw_pc = (\<lambda>t. Idle None)\<rparr>"

record choice =
  ch_pick :: nat
  ch_ok :: bool
  ch_done :: bool

definition goto :: "nat \<Rightarrow> pc \<Rightarrow> RuntimeRegistry \<Rightarrow> RuntimeRegistry" where
  "goto t p g = g\<lparr>gw_pc := (gw_pc g)(t := p)\<rparr>"

definition set_cell :: "nat \<Rightarrow> (waiter \<Rightarrow> waiter) \<Rightarrow> RuntimeRegistry \<Rightarrow> RuntimeRegistry" where
  "set_cell w f g = g\<lparr>gw_heap := (gw_heap g)[w := f (gw_heap g ! w)]\<rparr>"

definition drop_key :: "waiterKey \<Rightarrow> (waiterKey \<times> nat) list \<Rightarrow> (waiterKey \<times> nat) list" where
  "drop_key key ws = filter (\<lambda>x. fst x \<noteq> key) ws"

section \<open>Steps\<close>

text \<open>The four methods, each from taking \<open>r.mu\<close> to the first operation that can block.\<close>

definition step_Register :: "nat \<Rightarrow> string \<Rightarrow> nat \<Rightarrow> RuntimeRegistry \<Rightarrow> RuntimeRegistry" where
  "step_Register t agentID conn g =
     (let previous = gw_runtimes g agentID; g1 = g\<lparr>gw_runtimes := (gw_runtimes g)(agentID \<mapsto> conn)\<rparr> in
      case previous of
        None \<Rightarrow> goto t (Idle None) g1
      | Some p \<Rightarrow>
          if p = conn then goto t (Idle None) g1
          else goto t (FailLoop agentID ''runtime connection replaced'')
                 (g1\<lparr>gw_mu := Some t, gw_closed := p # gw_closed g1\<rparr>))"

definition step_Unregister :: "nat \<Rightarrow> string \<Rightarrow> nat \<Rightarrow> RuntimeRegistry \<Rightarrow> RuntimeRegistry" where
  "step_Unregister t agentID conn g =
     (if gw_runtimes g agentID = Some conn
      then goto t (FailLoop agentID ''runtime disconnected'')
             (g\<lparr>gw_mu := Some t, gw_runtimes := (gw_runtimes g)(agentID := None)\<rparr>)
      else goto t (Idle None) g)"

definition step_SendTask :: "nat \<Rightarrow> string \<Rightarrow> Envelope \<Rightarrow> RuntimeRegistry \<Rightarrow> RuntimeRegistry" where
  "step_SendTask t agentID task g =
     (case gw_runtimes g agentID of
        None \<Rightarrow> goto t (Idle (Some ErrRuntimeNotConnected)) g
      | Some conn \<Rightarrow>
          let key = (agentID, en_MessageID task); w = length (gw_heap g) in
          goto t (Writing key w)
            (g\<lparr>gw_heap := gw_heap g @ [newWaiter key], gw_waiters := (key, w) # drop_key key (gw_waiters g)\<rparr>))"

definition step_Dispatch :: "nat \<Rightarrow> string \<Rightarrow> nat \<Rightarrow> Envelope \<Rightarrow> RuntimeRegistry \<Rightarrow> RuntimeRegistry" where
  "step_Dispatch t agentID conn event g =
     (let key = (agentID, en_MessageID event) in
      case map_of (gw_waiters g) key of
        None \<Rightarrow> goto t (Idle None) g
      | Some w \<Rightarrow>
          if gw_runtimes g agentID = Some conn then goto t (DeliverLock key w event) g else goto t (Idle None) g)"

fun enter :: "nat \<Rightarrow> gw_op \<Rightarrow> RuntimeRegistry \<Rightarrow> RuntimeRegistry option" where
  "enter t (Register agentID conn) g = (if gw_mu g = None then Some (step_Register t agentID conn g) else None)"
| "enter t (Unregister agentID conn) g = (if gw_mu g = None then Some (step_Unregister t agentID conn g) else None)"
| "enter t (SendTask agentID task) g = (if gw_mu g = None then Some (step_SendTask t agentID task g) else None)"
| "enter t (Dispatch agentID conn event) g =
     (if en_AgentID event \<noteq> agentID then Some (goto t (Idle None) g)
      else if gw_mu g = None then Some (step_Dispatch t agentID conn event g) else None)"

text \<open>\<open>removeWaiter\<close>, and the turn of \<open>failWaitersLocked\<close>. \<open>removeWaiter\<close> cancels the waiter after it has
  released the lock; here the deletion and the cancellation are one step. In between no lookup finds
  the waiter any more, so the only goroutines that can tell are those already delivering to it: they
  may put one more event into a buffer that nobody reads.\<close>

definition removeWaiter :: "nat \<Rightarrow> waiterKey \<Rightarrow> RuntimeRegistry \<Rightarrow> RuntimeRegistry" where
  "removeWaiter t key g =
     (let g1 = goto t (Idle None) (g\<lparr>gw_waiters := drop_key key (gw_waiters g)\<rparr>) in
      case map_of (gw_waiters g) key of
        None \<Rightarrow> g1
      | Some w \<Rightarrow> set_cell w (\<lambda>x. x\<lparr>wt_done := True\<rparr>) g1)"

definition failure :: "waiterKey \<Rightarrow> string \<Rightarrow> Envelope" where
  "failure key reason = \<lparr>en_Type = ''message.error'', en_AgentID = fst key, en_SessionID = [],
     en_MessageID = snd key, en_Seq = 0, en_Payload = [(''text'', AnyString reason)]\<rparr>"

definition fail_turn :: "choice \<Rightarrow> nat \<Rightarrow> string \<Rightarrow> string \<Rightarrow> RuntimeRegistry \<Rightarrow> RuntimeRegistry" where
  "fail_turn c t agentID reason g =
     (let mine = filter (\<lambda>x. fst (fst x) = agentID) (gw_waiters g) in
      if mine = [] then goto t (Idle None) (g\<lparr>gw_mu := None\<rparr>)
      else
        (case mine ! (ch_pick c mod length mine) of
           (key, w) \<Rightarrow> goto t (FailLock w (failure key reason) agentID reason)
                         (g\<lparr>gw_waiters := drop_key key (gw_waiters g)\<rparr>)))"

text \<open>The \<open>select\<close> of \<open>deliver\<close> and \<open>fail\<close>: \<open>Some True\<close> when the event was sent, \<open>Some False\<close> when the waiter is
  done, \<open>None\<close> while neither is possible.\<close>

definition select :: "choice \<Rightarrow> waiter \<Rightarrow> bool option" where
  "select c x =
     (let room = length (wt_events x) < buffer_size in
      if wt_done x \<and> (ch_done c \<or> \<not> room) then Some False else if room then Some True else None)"

fun gw_next :: "choice \<Rightarrow> nat \<Rightarrow> pc \<Rightarrow> RuntimeRegistry \<Rightarrow> RuntimeRegistry option" where
  "gw_next c t (Idle r) g = None"
| "gw_next c t (Enter op) g = enter t op g"
| "gw_next c t (FailLoop agentID reason) g = Some (fail_turn c t agentID reason g)"
| "gw_next c t (FailLock w e agentID reason) g =
     (if wt_mu (gw_heap g ! w) = None
      then Some (goto t (FailSend w e agentID reason) (set_cell w (\<lambda>x. x\<lparr>wt_mu := Some t\<rparr>) g)) else None)"
| "gw_next c t (FailSend w e agentID reason) g =
     map_option (\<lambda>sent. goto t (FailLoop agentID reason)
         (set_cell w (\<lambda>x. if sent then x\<lparr>wt_events := wt_events x @ [e], wt_done := True, wt_mu := None\<rparr>
                          else x\<lparr>wt_mu := None\<rparr>) g))
       (select c (gw_heap g ! w))"
| "gw_next c t (Writing key w) g = Some (goto t (if ch_ok c then Waiting key w else Removing key) g)"
| "gw_next c t (Waiting key w) g =
     (case wt_events (gw_heap g ! w) of
        [] \<Rightarrow> None
      | e # es \<Rightarrow> Some (goto t (Responding key w e) (set_cell w (\<lambda>x. x\<lparr>wt_events := es\<rparr>) g)))"
| "gw_next c t (Responding key w e) g =
     Some (goto t (if \<not> ch_ok c \<or> terminal_event (en_Type e) then Removing key else Waiting key w) g)"
| "gw_next c t (Removing key) g = (if gw_mu g = None then Some (removeWaiter t key g) else None)"
| "gw_next c t (DeliverLock key w e) g =
     (if wt_mu (gw_heap g ! w) = None
      then Some (goto t (Delivering key w e) (set_cell w (\<lambda>x. x\<lparr>wt_mu := Some t\<rparr>) g)) else None)"
| "gw_next c t (Delivering key w e) g =
     map_option (\<lambda>sent. goto t (if sent \<and> terminal_event (en_Type e) then Removing key else Idle None)
         (set_cell w (\<lambda>x. if sent then x\<lparr>wt_events := wt_events x @ [e], wt_mu := None\<rparr> else x\<lparr>wt_mu := None\<rparr>) g))
       (select c (gw_heap g ! w))"

section \<open>Schedules\<close>

datatype gw_event = Call nat gw_op | Run nat choice

fun gw_event_step :: "gw_event \<Rightarrow> RuntimeRegistry \<Rightarrow> RuntimeRegistry option" where
  "gw_event_step (Call t op) g = (case gw_pc g t of Idle r \<Rightarrow> Some (goto t (Enter op) g) | _ \<Rightarrow> None)"
| "gw_event_step (Run t c) g = gw_next c t (gw_pc g t) g"

fun gw_exec :: "gw_event list \<Rightarrow> RuntimeRegistry \<Rightarrow> RuntimeRegistry option" where
  "gw_exec [] g = Some g"
| "gw_exec (e # es) g = (case gw_event_step e g of None \<Rightarrow> None | Some g1 \<Rightarrow> gw_exec es g1)"

definition gw_reachable :: "RuntimeRegistry \<Rightarrow> bool" where
  "gw_reachable g \<longleftrightarrow> (\<exists>es. gw_exec es NewRuntimeRegistry = Some g)"

end
