(* ===== verification/GatewayInv.thy ===== *)
theory GatewayInv
  imports Gateway
begin

text \<open>
  What holds of the runtime registry in every state its goroutines can reach, by induction over the
  schedule: answers go to the request they belong to, buffers stay within their 16 slots, the
  mutexes exclude. Then two schedules after which a goroutine never gets on.
\<close>

section \<open>Routing\<close>

definition cell_ok :: "waiter \<Rightarrow> bool" where
  "cell_ok x \<longleftrightarrow> length (wt_events x) \<le> buffer_size \<and> (\<forall>e\<in>set (wt_events x). env_key e = wt_key x)"

definition names :: "RuntimeRegistry \<Rightarrow> waiterKey \<Rightarrow> nat \<Rightarrow> bool" where
  "names g key w \<longleftrightarrow> w < length (gw_heap g) \<and> wt_key (gw_heap g ! w) = key"

fun pc_ok :: "RuntimeRegistry \<Rightarrow> pc \<Rightarrow> bool" where
  "pc_ok g (FailLock w e agentID reason) = names g (env_key e) w"
| "pc_ok g (FailSend w e agentID reason) = names g (env_key e) w"
| "pc_ok g (Writing key w) = names g key w"
| "pc_ok g (Waiting key w) = names g key w"
| "pc_ok g (Responding key w e) = (names g key w \<and> env_key e = key)"
| "pc_ok g (DeliverLock key w e) = (names g key w \<and> env_key e = key)"
| "pc_ok g (Delivering key w e) = (names g key w \<and> env_key e = key)"
| "pc_ok g p = True"

definition table_ok :: "RuntimeRegistry \<Rightarrow> bool" where
  "table_ok g \<longleftrightarrow> (\<forall>(key, w)\<in>set (gw_waiters g). names g key w)"

definition routes_ok :: "RuntimeRegistry \<Rightarrow> bool" where
  "routes_ok g \<longleftrightarrow> list_all cell_ok (gw_heap g) \<and> table_ok g \<and> (\<forall>t. pc_ok g (gw_pc g t))"

definition heap_ext :: "RuntimeRegistry \<Rightarrow> RuntimeRegistry \<Rightarrow> bool" where
  "heap_ext g g' \<longleftrightarrow> (\<forall>key w. names g key w \<longrightarrow> names g' key w)"

lemma pc_ok_ext: "heap_ext g g' \<Longrightarrow> pc_ok g p \<Longrightarrow> pc_ok g' p"
  by (cases p) (auto simp: heap_ext_def simp del: split_paired_All)

lemma goto_simps [simp]:
  "gw_mu (goto t p g) = gw_mu g" "gw_runtimes (goto t p g) = gw_runtimes g" "gw_waiters (goto t p g) = gw_waiters g"
  "gw_heap (goto t p g) = gw_heap g" "gw_pc (goto t p g) = (gw_pc g)(t := p)" "gw_closed (goto t p g) = gw_closed g"
  by (simp_all add: goto_def)

lemma set_cell_simps [simp]:
  "gw_mu (set_cell w f g) = gw_mu g" "gw_runtimes (set_cell w f g) = gw_runtimes g"
  "gw_waiters (set_cell w f g) = gw_waiters g" "gw_pc (set_cell w f g) = gw_pc g"
  "gw_heap (set_cell w f g) = (gw_heap g)[w := f (gw_heap g ! w)]" "gw_closed (set_cell w f g) = gw_closed g"
  by (simp_all add: set_cell_def)

lemma set_drop_key: "set (drop_key key ws) \<subseteq> set ws"
  by (auto simp: drop_key_def)

lemma wt_key_set: "(\<And>x. wt_key (f x) = wt_key x) \<Longrightarrow> wt_key (xs[w := f (xs ! w)] ! i) = wt_key (xs ! i)"
  by (cases "w < length xs"; cases "i = w") (simp_all add: not_less list_update_beyond)

lemma names_simps [simp]:
  "names (goto t p g) = names g"
  "(\<And>x. wt_key (f x) = wt_key x) \<Longrightarrow> names (set_cell w f g) = names g"
  "names (g\<lparr>gw_mu := m\<rparr>) = names g" "names (g\<lparr>gw_runtimes := r\<rparr>) = names g" "names (g\<lparr>gw_waiters := ws\<rparr>) = names g"
  "names (g\<lparr>gw_mu := m, gw_closed := cl\<rparr>) = names g" "names (g\<lparr>gw_mu := m, gw_runtimes := r\<rparr>) = names g"
  by (simp_all add: names_def fun_eq_iff wt_key_set)

text \<open>A step of the goroutine \<open>t\<close>.\<close>

definition only_pc :: "nat \<Rightarrow> RuntimeRegistry \<Rightarrow> RuntimeRegistry \<Rightarrow> bool" where
  "only_pc t g g' \<longleftrightarrow> (\<forall>u. u \<noteq> t \<longrightarrow> gw_pc g' u = gw_pc g u)"

lemma routes_step:
  assumes "routes_ok g" "heap_ext g g'" "list_all cell_ok (gw_heap g')" "table_ok g'"
    and "only_pc t g g'" "pc_ok g' (gw_pc g' t)"
  shows "routes_ok g'"
  using assms pc_ok_ext [OF assms(2)] unfolding routes_ok_def only_pc_def by metis

lemma heap_ext_same: "names g' = names g \<Longrightarrow> heap_ext g g'"
  by (simp add: heap_ext_def)

lemma table_same: "table_ok g \<Longrightarrow> names g' = names g \<Longrightarrow> set (gw_waiters g') \<subseteq> set (gw_waiters g) \<Longrightarrow> table_ok g'"
  by (auto simp: table_ok_def)

text \<open>A step that keeps the names of the cells and adds nothing to the table.\<close>

lemma routes_plain:
  assumes "routes_ok g" "names g' = names g" "list_all cell_ok (gw_heap g')" "set (gw_waiters g') \<subseteq> set (gw_waiters g)"
    and "only_pc t g g'" "pc_ok g' (gw_pc g' t)"
  shows "routes_ok g'"
proof -
  have "table_ok g" using assms(1) by (simp add: routes_ok_def)
  from routes_step [OF assms(1) heap_ext_same [OF assms(2)] assms(3) table_same [OF this assms(2,4)] assms(5,6)]
  show ?thesis .
qed

lemma cells_set: "list_all cell_ok h \<Longrightarrow> (w < length h \<Longrightarrow> cell_ok (f (h ! w))) \<Longrightarrow> list_all cell_ok (h[w := f (h ! w)])"
  by (cases "w < length h") (auto simp: list_all_length nth_list_update)

lemma cell_at: "list_all cell_ok h \<Longrightarrow> w < length h \<Longrightarrow> cell_ok (h ! w)"
  by (simp add: list_all_length)

lemma pc_ok_names: "names g' = names g \<Longrightarrow> pc_ok g' p = pc_ok g p"
  by (cases p) simp_all

lemma select_room: "select c x = Some True \<Longrightarrow> length (wt_events x) < buffer_size"
  by (auto simp: select_def Let_def split: if_splits)

lemma cell_ok_simps [simp]:
  "cell_ok (x\<lparr>wt_mu := m\<rparr>) = cell_ok x" "cell_ok (x\<lparr>wt_done := d\<rparr>) = cell_ok x"
  by (simp_all add: cell_ok_def)

lemma cell_ok_recv: "cell_ok x \<Longrightarrow> wt_events x = e # es \<Longrightarrow> cell_ok (x\<lparr>wt_events := es\<rparr>)"
  by (simp add: cell_ok_def)

lemma cell_ok_send:
  assumes "cell_ok x" "select c x = Some True" "env_key e = wt_key x"
  shows "cell_ok (x\<lparr>wt_events := wt_events x @ [e], wt_mu := m\<rparr>)"
    "cell_ok (x\<lparr>wt_events := wt_events x @ [e], wt_done := True, wt_mu := m\<rparr>)"
  using assms select_room [OF assms(2)] by (auto simp: cell_ok_def)

lemma table_find: "table_ok g \<Longrightarrow> map_of (gw_waiters g) key = Some w \<Longrightarrow> names g key w"
  by (auto simp: table_ok_def dest!: map_of_SomeD)

lemma enter_routes:
  assumes "routes_ok g" "enter t op g = Some g'"
  shows "routes_ok g'"
proof -
  have cells: "list_all cell_ok (gw_heap g)" and table: "table_ok g"
    using assms(1) by (auto simp: routes_ok_def)
  note plain = routes_plain [of g g' t, OF assms(1)]
  show ?thesis
  proof (cases op)
    case (SendTask agentID task)
    let ?key = "(agentID, en_MessageID task)"
    show ?thesis
    proof (cases "gw_runtimes g agentID")
      case None
      then show ?thesis
        by (intro plain)
           (use SendTask assms(2) cells in \<open>auto simp: step_SendTask_def only_pc_def split: if_splits\<close>)
    next
      case (Some conn)
      with SendTask assms(2) have g': "g' = goto t (Writing ?key (length (gw_heap g)))
          (g\<lparr>gw_heap := gw_heap g @ [newWaiter ?key], gw_waiters := (?key, length (gw_heap g)) # drop_key ?key (gw_waiters g)\<rparr>)"
        by (simp add: step_SendTask_def Let_def split: if_splits)
      have ext: "heap_ext g g'" by (auto simp: g' heap_ext_def names_def nth_append)
      have new: "names g' ?key (length (gw_heap g))" by (simp add: g' names_def newWaiter_def)
      have "names g' k w" if "(k, w) \<in> set (drop_key ?key (gw_waiters g))" for k w
        using that table ext set_drop_key [of ?key "gw_waiters g"] unfolding table_ok_def heap_ext_def by blast
      with new have "table_ok g'" unfolding table_ok_def by (auto simp: g')
      with assms(1) ext new cells show ?thesis
        by (intro routes_step [of g g' t]) (auto simp: g' only_pc_def cell_ok_def newWaiter_def)
    qed
  next
    case (Dispatch agentID conn event)
    show ?thesis
      by (intro plain) (use Dispatch assms(2) table cells in
        \<open>auto simp: step_Dispatch_def Let_def env_key_def only_pc_def split: if_splits option.splits dest: table_find\<close>)
  next
    case (Register agentID conn)
    show ?thesis
      by (intro plain) (use Register assms(2) cells in
        \<open>auto simp: step_Register_def Let_def only_pc_def split: if_splits option.splits\<close>)
  next
    case (Unregister agentID conn)
    show ?thesis
      by (intro plain) (use Unregister assms(2) cells in
        \<open>auto simp: step_Unregister_def Let_def only_pc_def split: if_splits option.splits\<close>)
  qed
qed

lemma gw_next_routes:
  assumes inv: "routes_ok g" and step: "gw_next c t (gw_pc g t) g = Some g'"
  shows "routes_ok g'"
proof -
  have ok: "pc_ok g (gw_pc g t)" and cells: "list_all cell_ok (gw_heap g)" and table: "table_ok g"
    using inv by (auto simp: routes_ok_def)
  have cell: "w < length (gw_heap g) \<Longrightarrow> cell_ok (gw_heap g ! w)" for w
    using cells by (simp add: list_all_length)
  note plain = routes_plain [of g g' t, OF inv]
  show ?thesis
  proof (cases "gw_pc g t")
    case (Enter op)
    with inv step show ?thesis by (auto intro: enter_routes)
  next
    case (FailLoop agentID reason)
    let ?mine = "filter (\<lambda>x. fst (fst x) = agentID) (gw_waiters g)"
    show ?thesis
    proof (cases "?mine = []")
      case True
      show ?thesis
        by (intro plain) (use True FailLoop step cells in \<open>auto simp: fail_turn_def only_pc_def\<close>)
    next
      case False
      obtain key w where kw: "?mine ! (ch_pick c mod length ?mine) = (key, w)" by fastforce
      then have "(key, w) \<in> set ?mine" using False by (metis length_greater_0_conv mod_less_divisor nth_mem)
      then have "names g key w" using table by (auto simp: table_ok_def)
      then show ?thesis
        by (intro plain) (use FailLoop step cells False kw set_drop_key [of key "gw_waiters g"] in
          \<open>auto simp: fail_turn_def Let_def failure_def env_key_def only_pc_def\<close>)
    qed
  next
    case (FailLock w e agentID reason)
    show ?thesis
      by (intro plain) (use FailLock step ok cells cell in
        \<open>auto split: if_splits intro!: cells_set simp: only_pc_def\<close>)
  next
    case (FailSend w e agentID reason)
    show ?thesis
      by (intro plain) (use FailSend step ok cells cell in
        \<open>auto intro!: cells_set cell_ok_send simp: only_pc_def names_def\<close>)
  next
    case (Waiting key w)
    then obtain e es where ev: "wt_events (gw_heap g ! w) = e # es" using step by (auto split: list.splits)
    then have "env_key e = key" using ok cell Waiting by (auto simp: names_def cell_ok_def)
    then show ?thesis
      by (intro plain) (use Waiting ev step ok cells cell in
        \<open>auto intro!: cells_set cell_ok_recv simp: only_pc_def\<close>)
  next
    case (DeliverLock key w e)
    show ?thesis
      by (intro plain) (use DeliverLock step ok cells cell in
        \<open>auto split: if_splits intro!: cells_set simp: only_pc_def\<close>)
  next
    case (Delivering key w e)
    show ?thesis
      by (intro plain) (use Delivering step ok cells cell in
        \<open>auto intro!: cells_set cell_ok_send simp: only_pc_def names_def\<close>)
  next
    case (Removing key)
    show ?thesis
      by (intro plain) (use Removing step cells table cell set_drop_key [of key "gw_waiters g"] in
        \<open>auto simp: removeWaiter_def Let_def only_pc_def split: if_splits option.splits
          intro!: cells_set dest!: table_find\<close>)
  next
    case (Writing key w)
    show ?thesis by (intro plain) (use Writing step ok cells in \<open>auto simp: only_pc_def\<close>)
  next
    case (Responding key w e)
    show ?thesis by (intro plain) (use Responding step ok cells in \<open>auto simp: only_pc_def\<close>)
  qed (use step in simp)
qed

lemma reachable_induct [consumes 1, case_names start step]:
  assumes "gw_reachable g" "P NewRuntimeRegistry"
    and "\<And>e g g'. P g \<Longrightarrow> gw_event_step e g = Some g' \<Longrightarrow> P g'"
  shows "P g"
proof -
  have "P g0 \<Longrightarrow> gw_exec es g0 = Some g \<Longrightarrow> P g" for es g0
    by (induction es arbitrary: g0) (auto split: option.splits intro: assms(3))
  with assms(1,2) show ?thesis by (auto simp: gw_reachable_def)
qed

lemma reachable_routes: "gw_reachable g \<Longrightarrow> routes_ok g"
proof (induction rule: reachable_induct)
  case start
  show ?case by (simp add: routes_ok_def NewRuntimeRegistry_def table_ok_def)
next
  case (step e g g')
  show ?case
  proof (cases e)
    case (Call t op)
    with step show ?thesis
      by (intro routes_plain [of g g' t]) (auto simp: routes_ok_def only_pc_def split: pc.splits)
  next
    case (Run t c)
    with step show ?thesis by (auto intro: gw_next_routes)
  qed
qed

section \<open>A conversation\<close>

definition chunk :: "string \<Rightarrow> string \<Rightarrow> string \<Rightarrow> Envelope" where
  "chunk eventType agentID messageID = \<lparr>en_Type = eventType, en_AgentID = agentID, en_SessionID = [],
     en_MessageID = messageID, en_Seq = 0, en_Payload = []\<rparr>"

definition go_on :: choice where
  "go_on = \<lparr>ch_pick = 0, ch_ok = True, ch_done = False\<rparr>"

definition write_fails :: choice where
  "write_fails = \<lparr>ch_pick = 0, ch_ok = False, ch_done = False\<rparr>"

text \<open>The runtime of agent \<open>a\<close> connects (goroutine 0), a browser asks (goroutine 1), and the runtime's
  reader (goroutine 2) delivers the answer.\<close>

definition connect_and_ask :: "gw_event list" where
  "connect_and_ask =
     [Call 0 (Register ''a'' 7), Run 0 go_on,
      Call 1 (SendTask ''a'' (chunk ''task.run'' ''a'' ''m'')), Run 1 go_on, Run 1 go_on]"

definition deliver_one :: "string \<Rightarrow> gw_event list" where
  "deliver_one eventType =
     [Call 2 (Dispatch ''a'' 7 (chunk eventType ''a'' ''m'')), Run 2 go_on, Run 2 go_on, Run 2 go_on]"

text \<open>C14: answers go where they belong: in every state the goroutines can reach, under every schedule,
  the event a browser's goroutine has taken out of its channel carries the agent and the message id
  of the request that goroutine made, and no channel holds more than its 16 events.\<close>

theorem answers_reach_their_request:
  assumes "gw_reachable g"
  shows "(gw_pc g t = Responding key w e \<longrightarrow> env_key e = key) \<and>
    (\<forall>x\<in>set (gw_heap g). length (wt_events x) \<le> 16 \<and> (\<forall>e'\<in>set (wt_events x). env_key e' = wt_key x))"
proof -
  have "pc_ok g (gw_pc g t)" "list_all cell_ok (gw_heap g)"
    using reachable_routes [OF assms] by (simp_all add: routes_ok_def)
  then show ?thesis by (auto simp: list_all_iff cell_ok_def buffer_size_def)
qed

definition sample_chat :: "gw_event list" where
  "sample_chat = connect_and_ask @ deliver_one ''message.delta'' @ [Run 1 go_on]"

lemma sample_chat_runs:
  "map_option (\<lambda>g. gw_pc g 1) (gw_exec sample_chat NewRuntimeRegistry)
     = Some (Responding (''a'', ''m'') 0 (chunk ''message.delta'' ''a'' ''m''))"
  by code_simp

theorem answers_reach_their_request_witness:
  "\<exists>g. gw_exec sample_chat NewRuntimeRegistry = Some g \<and>
     env_key (chunk ''message.delta'' ''a'' ''m'') = (''a'', ''m'')"
proof -
  obtain g where g: "gw_exec sample_chat NewRuntimeRegistry = Some g"
    and p: "gw_pc g 1 = Responding (''a'', ''m'') 0 (chunk ''message.delta'' ''a'' ''m'')"
    using sample_chat_runs by auto
  from g have "gw_reachable g" by (auto simp: gw_reachable_def)
  from answers_reach_their_request [OF this, of 1] g p show ?thesis by blast
qed

section \<open>A wedged registry\<close>

text \<open>Which goroutines hold \<open>r.mu\<close>, which hold a waiter's mutex or are about to take it, and which one
  still reads from a waiter's channel.\<close>

fun holds_mu :: "pc \<Rightarrow> bool" where
  "holds_mu (FailLoop agentID reason) = True"
| "holds_mu (FailLock w e agentID reason) = True"
| "holds_mu (FailSend w e agentID reason) = True"
| "holds_mu p = False"

fun sends_to :: "pc \<Rightarrow> nat option" where
  "sends_to (FailLock w e agentID reason) = Some w"
| "sends_to (FailSend w e agentID reason) = Some w"
| "sends_to (DeliverLock key w e) = Some w"
| "sends_to (Delivering key w e) = Some w"
| "sends_to p = None"

fun in_select :: "pc \<Rightarrow> nat option" where
  "in_select (FailSend w e agentID reason) = Some w"
| "in_select (Delivering key w e) = Some w"
| "in_select p = None"

fun reads_from :: "pc \<Rightarrow> nat option" where
  "reads_from (Writing key w) = Some w"
| "reads_from (Waiting key w) = Some w"
| "reads_from (Responding key w e) = Some w"
| "reads_from p = None"

text \<open>Goroutine \<open>t\<close> holds \<open>r.mu\<close> and waits for room in the full channel of \<open>w\<close>, which nobody reads any more.\<close>

definition wedged :: "nat \<Rightarrow> nat \<Rightarrow> RuntimeRegistry \<Rightarrow> bool" where
  "wedged t w g \<longleftrightarrow>
     gw_mu g = Some t \<and> (\<exists>e agentID reason. gw_pc g t = FailSend w e agentID reason) \<and>
     w < length (gw_heap g) \<and> wt_mu (gw_heap g ! w) = Some t \<and> \<not> wt_done (gw_heap g ! w) \<and>
     buffer_size \<le> length (wt_events (gw_heap g ! w)) \<and>
     (\<forall>u. reads_from (gw_pc g u) \<noteq> Some w \<and> (u \<noteq> t \<longrightarrow> \<not> holds_mu (gw_pc g u) \<and> in_select (gw_pc g u) \<noteq> Some w))"

lemma wedged_other:
  assumes "wedged t w g" "u \<noteq> t" "only_pc u g g'" "gw_mu g' = gw_mu g" "gw_heap g' ! w = gw_heap g ! w"
    and "length (gw_heap g') = length (gw_heap g)"
    and "reads_from (gw_pc g' u) \<noteq> Some w \<and> \<not> holds_mu (gw_pc g' u) \<and> in_select (gw_pc g' u) \<noteq> Some w"
  shows "wedged t w g'"
proof -
  have "reads_from (gw_pc g' v) \<noteq> Some w \<and> (v \<noteq> t \<longrightarrow> \<not> holds_mu (gw_pc g' v) \<and> in_select (gw_pc g' v) \<noteq> Some w)" for v
    using assms(1,3,7) by (cases "v = u") (auto simp: wedged_def only_pc_def)
  moreover have "gw_pc g' t = gw_pc g t" using assms(2,3) by (auto simp: only_pc_def)
  ultimately show ?thesis using assms(1,4-6) by (simp add: wedged_def)
qed

lemma wedged_step:
  assumes g: "wedged t w g" and step: "gw_event_step ev g = Some g'"
  shows "wedged t w g'"
proof -
  obtain e agentID reason where pc: "gw_pc g t = FailSend w e agentID reason" using g by (auto simp: wedged_def)
  have mu: "gw_mu g = Some t" and cell: "wt_mu (gw_heap g ! w) \<noteq> None" using g by (auto simp: wedged_def)
  have not_t: "gw_next c t (gw_pc g t) g = None" for c
    using g pc by (auto simp: wedged_def select_def Let_def)
  show ?thesis
  proof (cases ev)
    case (Call u op)
    with pc step have "u \<noteq> t" by auto
    then show ?thesis
      by (rule wedged_other [OF g]) (use Call step in \<open>auto simp: only_pc_def split: pc.splits\<close>)
  next
    case (Run u c)
    with step not_t have u: "u \<noteq> t" by auto
    then have others: "reads_from (gw_pc g u) \<noteq> Some w" "\<not> holds_mu (gw_pc g u)" "in_select (gw_pc g u) \<noteq> Some w"
      using g by (auto simp: wedged_def)
    show ?thesis
    proof (cases "gw_pc g u")
      case (Enter op)
      with Run step mu show ?thesis
        by (intro wedged_other [OF g u]) (cases op; auto simp: only_pc_def split: if_splits)+
    next
      case (DeliverLock key w' e)
      with Run step cell have "w' \<noteq> w" by (auto split: if_splits)
      with DeliverLock Run step show ?thesis
        by (auto simp: only_pc_def split: if_splits intro!: wedged_other [OF g u])
    qed (use Run step mu cell others in
          \<open>auto simp: only_pc_def split: if_splits list.splits intro!: wedged_other [OF g u]\<close>)
  qed
qed

lemma wedged_forever: "wedged t w g \<Longrightarrow> gw_exec es g = Some g' \<Longrightarrow> wedged t w g'"
  by (induction es arbitrary: g) (auto split: option.splits dest: wedged_step)

lemma gw_exec_append: "gw_exec (es @ es') g = (case gw_exec es g of None \<Rightarrow> None | Some g1 \<Rightarrow> gw_exec es' g1)"
  by (induction es arbitrary: g) (auto split: option.splits)

text \<open>One event has been read and its write to the browser fails while sixteen more wait in the channel
  and the runtime disconnects.\<close>

definition deadlock_schedule :: "gw_event list" where
  "deadlock_schedule = sample_chat @ concat (replicate 16 (deliver_one ''message.delta'')) @
     [Call 2 (Unregister ''a'' 7), Run 2 go_on, Run 2 go_on, Run 2 go_on, Run 1 write_fails]"

lemma deadlock_reached:
  "map_option (\<lambda>g. (gw_mu g, gw_pc g 0, gw_pc g 1,
      case gw_pc g 2 of FailSend w e agentID reason \<Rightarrow> Some w | _ \<Rightarrow> None,
      map (\<lambda>x. (length (wt_events x), wt_done x, wt_mu x)) (gw_heap g))) (gw_exec deadlock_schedule NewRuntimeRegistry)
    = Some (Some 2, Idle None, Removing (''a'', ''m''), Some 0, [(16, False, Some 2)])"
  by code_simp

lemma exec_other_pc: "gw_exec es g = Some g' \<Longrightarrow> u \<notin> set (map (\<lambda>e. case e of Call t op \<Rightarrow> t | Run t c \<Rightarrow> t) es) \<Longrightarrow> gw_pc g' u = gw_pc g u"
proof (induction es arbitrary: g)
  case (Cons e es)
  then obtain g1 where step: "gw_event_step e g = Some g1" and run: "gw_exec es g1 = Some g'" by (auto split: option.splits)
  have "gw_pc g1 u = gw_pc g u"
  proof (cases e)
    case (Call t op)
    with step Cons.prems show ?thesis by (auto split: pc.splits)
  next
    case (Run t c)
    have "only_pc t g g1" if "gw_next c t p g = Some g1" for p
      using that
      by (cases p) (auto simp: only_pc_def fail_turn_def removeWaiter_def Let_def step_Register_def step_Unregister_def
          step_SendTask_def step_Dispatch_def elim!: enter.elims split: if_splits option.splits list.splits prod.splits)
    with Run step Cons.prems show ?thesis by (auto simp: only_pc_def)
  qed
  with Cons.IH [OF run] Cons.prems show ?case by simp
qed simp

text \<open>C15: the registry can lock up for good: with a browser's channel full, a disconnect of the runtime
  waits for room while it holds the registry's mutex, and the browser's goroutine, whose write has
  failed, waits for that mutex to cancel. From then on, whatever else runs, the mutex is never
  given back, and no task can be sent and no runtime can register.\<close>

theorem registry_can_lock_up:
  assumes "gw_exec (deadlock_schedule @ es) NewRuntimeRegistry = Some g"
  shows "gw_mu g = Some 2 \<and> gw_next c 2 (gw_pc g 2) g = None \<and> gw_next c u (Removing key) g = None \<and>
    gw_next c u (Enter (SendTask agentID task)) g = None \<and> gw_next c u (Enter (Register agentID conn)) g = None"
proof -
  obtain g0 where g0: "gw_exec deadlock_schedule NewRuntimeRegistry = Some g0" and run: "gw_exec es g0 = Some g"
    using assms by (auto simp: gw_exec_append split: option.splits)
  have rest: "gw_pc g0 u = Idle None" if "u \<notin> {0, 1, 2}" for u
    using exec_other_pc [OF g0, of u] that
    by (simp add: deadlock_schedule_def sample_chat_def connect_and_ask_def deliver_one_def NewRuntimeRegistry_def)
  from deadlock_reached g0 obtain e a r where
    st: "gw_mu g0 = Some 2" "gw_pc g0 0 = Idle None" "gw_pc g0 1 = Removing (''a'', ''m'')" "gw_pc g0 2 = FailSend 0 e a r"
      "map (\<lambda>x. (length (wt_events x), wt_done x, wt_mu x)) (gw_heap g0) = [(16, False, Some 2)]"
    by (auto split: pc.splits)
  obtain x where x: "gw_heap g0 = [x]" "length (wt_events x) = 16" "\<not> wt_done x" "wt_mu x = Some 2"
    using st(5) by (auto simp: map_eq_Cons_conv)
  have "reads_from (gw_pc g0 u) \<noteq> Some 0 \<and> (u \<noteq> 2 \<longrightarrow> \<not> holds_mu (gw_pc g0 u) \<and> in_select (gw_pc g0 u) \<noteq> Some 0)" for u
    using st(2-4) rest [of u] by (cases "u \<in> {0, 1, 2}") auto
  with st(1,4) x have "wedged 2 0 g0" by (auto simp: wedged_def buffer_size_def)
  from wedged_forever [OF this run] show ?thesis by (auto simp: wedged_def select_def Let_def)
qed

theorem registry_can_lock_up_witness:
  "\<exists>g. gw_exec deadlock_schedule NewRuntimeRegistry = Some g \<and> gw_pc g 1 = Removing (''a'', ''m'') \<and>
     gw_next go_on 1 (gw_pc g 1) g = None \<and> gw_next go_on 2 (gw_pc g 2) g = None"
proof -
  obtain g where g: "gw_exec deadlock_schedule NewRuntimeRegistry = Some g" "gw_pc g 1 = Removing (''a'', ''m'')"
    using deadlock_reached by auto
  then have "gw_exec (deadlock_schedule @ []) NewRuntimeRegistry = Some g" by simp
  from registry_can_lock_up [OF this, of go_on 1 "(''a'', ''m'')"] g show ?thesis by auto
qed

section \<open>A request that is never answered\<close>

text \<open>Goroutine \<open>t\<close> waits at the empty channel of \<open>w\<close>, which the table has lost and nobody sends to.\<close>

definition starved :: "nat \<Rightarrow> waiterKey \<Rightarrow> nat \<Rightarrow> RuntimeRegistry \<Rightarrow> bool" where
  "starved t key w g \<longleftrightarrow>
     gw_pc g t = Waiting key w \<and> w < length (gw_heap g) \<and> wt_events (gw_heap g ! w) = [] \<and>
     w \<notin> snd ` set (gw_waiters g) \<and> (\<forall>u. sends_to (gw_pc g u) \<noteq> Some w)"

lemma starved_other:
  assumes "starved t key w g" "u \<noteq> t" "only_pc u g g'" "wt_events (gw_heap g' ! w) = []" "w < length (gw_heap g')"
    and "w \<notin> snd ` set (gw_waiters g')" "sends_to (gw_pc g' u) \<noteq> Some w"
  shows "starved t key w g'"
proof -
  have "sends_to (gw_pc g' v) \<noteq> Some w" for v
    using assms(1,3,7) by (cases "v = u") (auto simp: starved_def only_pc_def)
  moreover have "gw_pc g' t = gw_pc g t" using assms(2,3) by (auto simp: only_pc_def)
  ultimately show ?thesis using assms(1,4-6) by (simp add: starved_def)
qed

lemma drop_key_sub: "w \<notin> snd ` set ws \<Longrightarrow> w \<notin> snd ` set (drop_key key ws)"
  using set_drop_key by fastforce

lemma set_events: "wt_events (f (xs ! w')) = wt_events (xs ! w') \<or> w' \<noteq> w \<Longrightarrow> wt_events (xs[w' := f (xs ! w')] ! w) = wt_events (xs ! w)"
  by (cases "w' = w"; cases "w < length xs") (auto simp: list_update_beyond)

lemma starved_enter:
  assumes g: "starved t key w g" and u: "u \<noteq> t" and step: "enter u op g = Some g'"
  shows "starved t key w g'"
proof -
  have w: "w < length (gw_heap g)" "wt_events (gw_heap g ! w) = []" "w \<notin> snd ` set (gw_waiters g)"
    using g by (auto simp: starved_def)
  have found: "map_of (gw_waiters g) k \<noteq> Some w" for k
    using w(3) by (force dest: map_of_SomeD)
  have "w \<notin> snd ` set (gw_waiters g')"
    using w step
    by (cases op) (auto dest!: subsetD [OF set_drop_key] simp: step_Register_def step_Unregister_def step_SendTask_def step_Dispatch_def Let_def
        split: if_splits option.splits intro: rev_image_eqI)
  moreover have "sends_to (gw_pc g' u) \<noteq> Some w"
    using step found
    by (cases op) (auto simp: step_Register_def step_Unregister_def step_SendTask_def step_Dispatch_def Let_def
        split: if_splits option.splits)
  ultimately show ?thesis
    using w(1,2) step
    by (intro starved_other [OF g u])
       (cases op; auto simp: step_Register_def step_Unregister_def step_SendTask_def step_Dispatch_def Let_def only_pc_def
          nth_append split: if_splits option.splits)+
qed

lemma starved_step:
  assumes g: "starved t key w g" and step: "gw_event_step ev g = Some g'"
  shows "starved t key w g'"
proof -
  have pc: "gw_pc g t = Waiting key w" using g by (auto simp: starved_def)
  have w: "w < length (gw_heap g)" "wt_events (gw_heap g ! w) = []" "w \<notin> snd ` set (gw_waiters g)"
    and others: "sends_to (gw_pc g u) \<noteq> Some w" for u
    using g by (auto simp: starved_def)
  show ?thesis
  proof (cases ev)
    case (Call u op)
    with pc step have "u \<noteq> t" by auto
    then show ?thesis
      by (rule starved_other [OF g]) (use Call step w in \<open>auto simp: only_pc_def split: pc.splits\<close>)
  next
    case (Run u c)
    with step pc w(2) have u: "u \<noteq> t" by auto
    show ?thesis
    proof (cases "gw_pc g u")
      case (Enter op)
      with Run step show ?thesis by (auto intro: starved_enter [OF g u])
    next
      case (FailLoop agentID reason)
      let ?mine = "filter (\<lambda>x. fst (fst x) = agentID) (gw_waiters g)"
      show ?thesis
      proof (cases "?mine = []")
        case True
        with FailLoop Run step w show ?thesis
          by (intro starved_other [OF g u]) (auto simp: fail_turn_def only_pc_def)
      next
        case False
        obtain key' w' where kw: "?mine ! (ch_pick c mod length ?mine) = (key', w')" by fastforce
        then have "(key', w') \<in> set ?mine" using False by (metis length_greater_0_conv mod_less_divisor nth_mem)
        then have "w' \<noteq> w" using w(3) by force
        with FailLoop Run step w kw False drop_key_sub [OF w(3), of key'] show ?thesis
          by (intro starved_other [OF g u]) (auto simp: fail_turn_def only_pc_def)
      qed
    next
      case (Removing key')
      with Run step w drop_key_sub [OF w(3), of key'] show ?thesis
        by (intro starved_other [OF g u])
           (auto simp: removeWaiter_def Let_def only_pc_def set_events split: if_splits option.splits)
    next
      case (Waiting key' w')
      with Run step w show ?thesis
        by (intro starved_other [OF g u])
           (cases "w' = w"; auto simp: only_pc_def set_events split: list.splits)+
    qed (use Run step w others [of u] in
          \<open>auto simp: only_pc_def set_events split: if_splits intro!: starved_other [OF g u]\<close>)
  qed
qed

lemma starved_forever: "starved t key w g \<Longrightarrow> gw_exec es g = Some g' \<Longrightarrow> starved t key w g'"
  by (induction es arbitrary: g) (auto split: option.splits dest: starved_step)

text \<open>A second task under the key of a request that is waiting takes that request's place in the table.\<close>

lemma second_task_starves:
  assumes "gw_reachable g" "gw_pc g t = Waiting key w" "wt_events (gw_heap g ! w) = []"
    and none: "\<And>v. sends_to (gw_pc g v) \<noteq> Some w"
    and u: "gw_pc g u = Enter (SendTask (fst key) task)" "en_MessageID task = snd key"
    and conn: "gw_runtimes g (fst key) \<noteq> None" and step: "gw_next c u (gw_pc g u) g = Some g'"
  shows "starved t key w g'"
proof -
  note r = reachable_routes [OF assms(1)]
  then have "pc_ok g (gw_pc g t)" by (simp add: routes_ok_def)
  then have w: "w < length (gw_heap g)" "wt_key (gw_heap g ! w) = key" by (simp_all add: assms(2) names_def)
  have "k = key" if "(k, w) \<in> set (gw_waiters g)" for k
    using r that w(2) by (auto simp: routes_ok_def table_ok_def names_def)
  then have gone: "w \<notin> snd ` set (drop_key key (gw_waiters g))" by (auto simp: drop_key_def)
  have ut: "u \<noteq> t" using u(1) assms(2) by auto
  from step u conn have g': "g' = step_SendTask u (fst key) task g" by (auto split: if_splits)
  obtain cn where cn: "gw_runtimes g (fst key) = Some cn" using conn by blast
  have "starved t key w (goto u (Writing key (length (gw_heap g)))
      (g\<lparr>gw_heap := gw_heap g @ [newWaiter key], gw_waiters := (key, length (gw_heap g)) # drop_key key (gw_waiters g)\<rparr>))"
    using assms(2,3) w(1) gone ut none by (auto simp: starved_def nth_append)
  then show ?thesis by (simp add: g' step_SendTask_def cn u(2) Let_def)
qed

text \<open>C16: a message id used twice loses the first request: let a browser's goroutine wait for the answer
  to a request, with nothing in its channel and no goroutine about to send to it; if the agent's
  runtime is connected and another goroutine sends the agent a task under the same message id, then
  the first goroutine waits for ever, whatever runs afterwards: no answer, no error and no
  disconnect of the runtime reaches it.\<close>

theorem reused_id_starves_request:
  assumes "gw_reachable g" "gw_pc g t = Waiting key w" "wt_events (gw_heap g ! w) = []"
    and "\<forall>v. sends_to (gw_pc g v) \<noteq> Some w"
    and "gw_pc g u = Enter (SendTask (fst key) task)" "en_MessageID task = snd key" "gw_runtimes g (fst key) \<noteq> None"
    and "gw_exec (Run u c # es) g = Some g'"
  shows "gw_pc g' t = Waiting key w \<and> gw_next c' t (gw_pc g' t) g' = None"
proof -
  obtain g1 where g1: "gw_next c u (gw_pc g u) g = Some g1" and run: "gw_exec es g1 = Some g'"
    using assms(8) by (auto split: option.splits)
  have "starved t key w g1" by (rule second_task_starves [OF assms(1-3) _ assms(5-7) g1]) (simp add: assms(4))
  from starved_forever [OF this run] show ?thesis by (auto simp: starved_def)
qed

definition same_id_schedule :: "gw_event list" where
  "same_id_schedule = connect_and_ask @ [Call 3 (SendTask ''a'' (chunk ''task.run'' ''a'' ''m''))]"

lemma same_id_reached:
  "map_option (\<lambda>g. (gw_pc g 0, gw_pc g 1, gw_pc g 3, map wt_events (gw_heap g), gw_runtimes g ''a'',
       gw_exec (Run 3 go_on # Run 3 go_on # deliver_one ''message.done'') g \<noteq> None))
     (gw_exec same_id_schedule NewRuntimeRegistry)
   = Some (Idle None, Waiting (''a'', ''m'') 0, Enter (SendTask ''a'' (chunk ''task.run'' ''a'' ''m'')), [[]], Some 7, True)"
  by code_simp

theorem reused_id_starves_request_witness:
  "\<exists>g g'. gw_exec same_id_schedule NewRuntimeRegistry = Some g \<and>
     gw_exec (Run 3 go_on # Run 3 go_on # deliver_one ''message.done'') g = Some g' \<and> gw_next go_on 1 (gw_pc g' 1) g' = None"
proof -
  from same_id_reached obtain g where g: "gw_exec same_id_schedule NewRuntimeRegistry = Some g"
    and st: "gw_pc g 0 = Idle None" "gw_pc g 1 = Waiting (''a'', ''m'') 0"
      "gw_pc g 3 = Enter (SendTask ''a'' (chunk ''task.run'' ''a'' ''m''))" "map wt_events (gw_heap g) = [[]]"
      "gw_runtimes g ''a'' = Some 7"
    and runs: "gw_exec (Run 3 go_on # Run 3 go_on # deliver_one ''message.done'') g \<noteq> None"
    by (auto simp del: gw_exec.simps)
  from runs obtain g' where g': "gw_exec (Run 3 go_on # Run 3 go_on # deliver_one ''message.done'') g = Some g'" by blast
  have "gw_pc g v = Idle None" if "v \<notin> {0, 1, 3}" for v
    using exec_other_pc [OF g, of v] that
    by (simp add: same_id_schedule_def connect_and_ask_def NewRuntimeRegistry_def)
  then have "sends_to (gw_pc g v) \<noteq> Some 0" for v using st(1-3) by (cases "v \<in> {0, 1, 3}") auto
  moreover have "gw_reachable g" using g by (auto simp: gw_reachable_def)
  moreover have "wt_events (gw_heap g ! 0) = []" using st(4) by auto
  ultimately have "gw_next go_on 1 (gw_pc g' 1) g' = None"
    using reused_id_starves_request [of g 1 "(''a'', ''m'')" 0 3 "chunk ''task.run'' ''a'' ''m''" go_on
      "Run 3 go_on # deliver_one ''message.done''" g' go_on] st(2,3,5) g'
    by (auto simp: chunk_def simp del: gw_exec.simps)
  with g g' show ?thesis by blast
qed

end
