(* ===== verification/Runtime.thy ===== *)
theory Runtime
  imports Claw Gateway
begin

text \<open>
  The programs at the other end of the runtime websocket: \<open>cmd/shclop-runtime\<close>, which runs an
  adapter for each task it is sent, \<open>cmd/mock-runtime\<close>, which makes up its answers, and the canned
  runtime of \<open>internal/gateway/mock_runtime.go\<close>. A connection's reads are the list of the envelopes
  that arrive before the first read error; \<open>budget\<close> is the number of writes that succeed before one
  fails, which ends the program.
\<close>

section \<open>shclop-runtime\<close>

definition taskText :: "(string \<times> any) list \<Rightarrow> string" where
  "taskText payload = (case map_of payload ''text'' of Some (AnyString text) \<Rightarrow> text | _ \<Rightarrow> [])"

definition clawEventToEnvelope :: "Event \<Rightarrow> Envelope \<Rightarrow> int \<Rightarrow> Envelope" where
  "clawEventToEnvelope event task n =
     (let envelope = \<lparr>en_Type = [], en_AgentID = en_AgentID task, en_SessionID = en_SessionID task,
                      en_MessageID = en_MessageID task, en_Seq = n, en_Payload = []\<rparr>
      in if ev_Type event = ''started'' then envelope\<lparr>en_Type := ''message.started''\<rparr>
         else if ev_Type event = ''delta''
         then envelope\<lparr>en_Type := ''message.delta'', en_Payload := [(''text'', AnyString (ev_Text event))]\<rparr>
         else if ev_Type event = ''done'' then envelope\<lparr>en_Type := ''message.done''\<rparr>
         else if ev_Type event = ''error'' then
           envelope\<lparr>en_Type := ''message.error'', en_Payload :=
             (''text'', AnyString (case ev_Err event of Some err \<Rightarrow> error_text err | None \<Rightarrow> ev_Text event)) #
             (if ev_ExitCode event \<noteq> 0 then [(''exit_code'', AnyOther (Itoa (ev_ExitCode event)))] else [])\<rparr>
         else envelope\<lparr>en_Type := ''message.error'',
                en_Payload := [(''text'', AnyString (''unknown claw event type: '' @ ev_Type event))]\<rparr>)"

definition isTerminalEnvelope :: "string \<Rightarrow> bool" where
  "isTerminalEnvelope eventType \<longleftrightarrow> eventType = ''message.done'' \<or> eventType = ''message.error''"

text \<open>The event loop of one task: events up to a terminal one, and an error when there was none.\<close>

fun send_events :: "Envelope \<Rightarrow> int \<Rightarrow> Event list \<Rightarrow> Envelope list" where
  "send_events task n [] =
     [clawEventToEnvelope (plain_event ''error'' ''claw adapter ended without terminal event'') task n]"
| "send_events task n (event # events) =
     (let envelope = clawEventToEnvelope event task n in
      envelope # (if isTerminalEnvelope (en_Type envelope) then [] else send_events task (n + 1) events))"

definition answer_task :: "(Task \<Rightarrow> Event list result) \<Rightarrow> Envelope \<Rightarrow> Envelope list" where
  "answer_task run task =
     (case run \<lparr>tk_Text = taskText (en_Payload task), tk_SessionID = en_SessionID task\<rparr> of
        Inl err \<Rightarrow> [clawEventToEnvelope (failed err) task 1]
      | Inr events \<Rightarrow> send_events task 1 events)"

fun runtime_loop :: "(Task \<Rightarrow> Event list result) \<Rightarrow> nat \<Rightarrow> Envelope list \<Rightarrow> Envelope list" where
  "runtime_loop run budget [] = []"
| "runtime_loop run budget (task # tasks) =
     (if en_Type task \<noteq> ''task.run'' then runtime_loop run budget tasks
      else
        let replies = answer_task run task in
        if length replies \<le> budget then replies @ runtime_loop run (budget - length replies) tasks
        else take budget replies)"

datatype adapter = Nanoclaw | Openclaw | OpenAI | Demo string

definition adapterForRuntime :: "(string \<Rightarrow> string) \<Rightarrow> string \<Rightarrow> adapter" where
  "adapterForRuntime getenv runtimeName =
     (if runtimeName = ''nanoclaw'' then Nanoclaw
      else if runtimeName = ''openclaw'' then Openclaw
      else if TrimSpace (getenv ''LLM_GATEWAY_BASE_URL'') \<noteq> [] then OpenAI else Demo runtimeName)"

definition runtimeTokenFromEnv :: "(string \<Rightarrow> string) \<Rightarrow> (string \<Rightarrow> string result) \<Rightarrow> string" where
  "runtimeTokenFromEnv getenv readFile =
     (let path = TrimSpace (getenv ''SHCLOP_RUNTIME_TOKEN_FILE''); fallback = getenv ''SHCLOP_RUNTIME_TOKEN'' in
      if path = [] then fallback else (case readFile path of Inl _ \<Rightarrow> fallback | Inr content \<Rightarrow> TrimSpace content))"

text \<open>The handshake: what is written first, and whether the reply lets the loop begin.\<close>

definition hello :: "string \<Rightarrow> string \<Rightarrow> Envelope" where
  "hello agentID runtimeName = \<lparr>en_Type = ''runtime.hello'', en_AgentID = agentID, en_SessionID = [], en_MessageID = [],
     en_Seq = 0, en_Payload = [(''runtime'', AnyString runtimeName)]\<rparr>"

fun runtime_main :: "(Task \<Rightarrow> Event list result) \<Rightarrow> string \<Rightarrow> string \<Rightarrow> string \<Rightarrow> nat \<Rightarrow> Envelope list \<Rightarrow> Envelope list" where
  "runtime_main run agentID token runtimeName 0 incoming = []"
| "runtime_main run agentID token runtimeName (Suc budget) incoming =
     (if TrimSpace agentID = [] \<or> TrimSpace token = [] then []
      else hello agentID runtimeName #
        (case incoming of
           [] \<Rightarrow> []
         | accepted # tasks \<Rightarrow>
             if en_Type accepted \<noteq> ''runtime.accepted'' then [] else runtime_loop run budget tasks))"

lemma envelope_key [simp]: "env_key (clawEventToEnvelope event task n) = env_key task"
  by (simp add: clawEventToEnvelope_def env_key_def Let_def)

lemma envelope_seq [simp]: "en_Seq (clawEventToEnvelope event task n) = n"
  by (simp add: clawEventToEnvelope_def Let_def)

lemma envelope_session [simp]: "en_SessionID (clawEventToEnvelope event task n) = en_SessionID task"
  by (simp add: clawEventToEnvelope_def Let_def)

lemma terminal_same: "isTerminalEnvelope t = terminal_event t"
  by (simp add: isTerminalEnvelope_def terminal_event_def)

definition good_answer :: "Envelope \<Rightarrow> Envelope list \<Rightarrow> bool" where
  "good_answer task replies \<longleftrightarrow> replies \<noteq> [] \<and>
     list_all (\<lambda>r. env_key r = env_key task \<and> en_SessionID r = en_SessionID task) replies \<and>
     map en_Seq replies = map (\<lambda>i. 1 + int i) [0..<length replies] \<and>
     terminal_event (en_Type (last replies)) \<and> list_all (\<lambda>r. \<not> terminal_event (en_Type r)) (butlast replies)"

lemma send_events_shape:
  "send_events task n events \<noteq> [] \<and>
   list_all (\<lambda>r. env_key r = env_key task \<and> en_SessionID r = en_SessionID task) (send_events task n events) \<and>
   terminal_event (en_Type (last (send_events task n events))) \<and>
   list_all (\<lambda>r. \<not> terminal_event (en_Type r)) (butlast (send_events task n events)) \<and>
   map en_Seq (send_events task n events) = map (\<lambda>i. n + int i) [0..<length (send_events task n events)]"
proof (induction task n events rule: send_events.induct)
  case (1 task n)
  show ?case by (simp add: terminal_event_def clawEventToEnvelope_def plain_event_def Let_def env_key_def)
next
  case (2 task n event events)
  let ?e = "clawEventToEnvelope event task n"
  show ?case
  proof (cases "isTerminalEnvelope (en_Type ?e)")
    case True
    then show ?thesis by (simp add: terminal_same)
  next
    case False
    note IH = 2 [OF refl False]
    with False show ?thesis
      by (auto simp: Let_def terminal_same map_upt_Suc algebra_simps simp del: upt_Suc)
  qed
qed

text \<open>Every task gets one complete answer: whatever the adapter does, the replies to a task carry its
  agent, session and message ids, are numbered from 1, and exactly the last one ends the message;
  an adapter that fails to start or stops early is reported as an error.\<close>

theorem task_answered_once: "good_answer task (answer_task run task)"
proof -
  have "good_answer task (send_events task 1 events)" for events
    using send_events_shape [of task 1 events] by (simp add: good_answer_def)
  moreover have "good_answer task [clawEventToEnvelope (failed err) task 1]" for err
    by (simp add: good_answer_def terminal_event_def clawEventToEnvelope_def plain_event_def Let_def env_key_def)
  ultimately show ?thesis by (simp add: answer_task_def split: sum.split)
qed

text \<open>Nothing but answers leaves the runtime: what it writes is the hello and then, in the order of the
  tasks, a prefix of the complete answers to the tasks it was sent; other messages are ignored.\<close>

theorem runtime_writes_answers:
  "\<exists>rest. take 1 (runtime_main run agentID token runtimeName budget incoming) \<in> {[], [hello agentID runtimeName]} \<and>
     drop 1 (runtime_main run agentID token runtimeName budget incoming) @ rest =
       concat (map (answer_task run) (filter (\<lambda>task. en_Type task = ''task.run'') (drop 1 incoming)))"
proof -
  have "\<exists>rest. runtime_loop run n tasks @ rest = concat (map (answer_task run) (filter (\<lambda>task. en_Type task = ''task.run'') tasks))"
    for n tasks
  proof (induction run n tasks rule: runtime_loop.induct)
    case (2 run n task tasks)
    let ?a = "answer_task run task"
    show ?case
    proof (cases "en_Type task = ''task.run'' \<and> \<not> length ?a \<le> n")
      case True
      then show ?thesis
        by (intro exI [of _ "drop n ?a @ concat (map (answer_task run) (filter (\<lambda>task. en_Type task = ''task.run'') tasks))"])
           (simp add: Let_def append_assoc [symmetric] del: append_assoc)
    next
      case False
      with 2 show ?thesis by (cases "en_Type task = ''task.run''") (auto simp: Let_def)
    qed
  qed simp
  then show ?thesis by (cases budget) (auto split: list.split)
qed

section \<open>The canned runtimes\<close>

definition MockRuntime_Respond :: "string \<Rightarrow> string \<Rightarrow> string \<Rightarrow> string \<Rightarrow> Envelope list" where
  "MockRuntime_Respond agentID sessionID messageID text =
     (let envelope = (\<lambda>eventType n payload. \<lparr>en_Type = eventType, en_AgentID = agentID, en_SessionID = sessionID,
                        en_MessageID = messageID, en_Seq = n, en_Payload = payload\<rparr>)
      in [envelope ''message.started'' 1 [], envelope ''message.delta'' 2 [(''text'', AnyString ''Mock response: '')],
          envelope ''message.delta'' 3 [(''text'', AnyString text)], envelope ''message.done'' 4 []])"

text \<open>\<open>cmd/mock-runtime\<close>: a payload without a text is answered by its JSON.\<close>

definition mock_taskText :: "((string \<times> any) list \<Rightarrow> string) \<Rightarrow> (string \<times> any) list option \<Rightarrow> string" where
  "mock_taskText marshal payload =
     (case payload of None \<Rightarrow> []
      | Some p \<Rightarrow> (case map_of p ''text'' of Some (AnyString text) \<Rightarrow> text | _ \<Rightarrow> marshal p))"

definition generateResponse :: "(string \<Rightarrow> string) \<Rightarrow> string \<Rightarrow> string \<Rightarrow> string" where
  "generateResponse ul input0 flavor =
     (let input = ToLower ul (TrimSpace input0); has = Contains input; nl = newline in
      if has ''hello'' \<or> has ''hi'' \<or>
         has [CHR 0xD0, CHR 0xBF, CHR 0xD1, CHR 0x80, CHR 0xD0, CHR 0xB8, CHR 0xD0, CHR 0xB2, CHR 0xD0, CHR 0xB5, CHR 0xD1, CHR 0x82]
      then ''Hello! I'm '' @ flavor @ '', your AI assistant. I'm running inside a shclop sandbox. How can I help you today?''
      else if has ''who are you'' \<or> has ''what are you''
      then ''I'm '' @ flavor @ '', an AI agent running in a shclop sandbox. I'm isolated in my own runtime with no access to host secrets, network, or other agents. My communication goes through the shclop gateway.''
      else if has ''help''
      then ''I can help you with:'' @ nl @ ''- Answering questions'' @ nl @ ''- Writing code'' @ nl @
           ''- Analyzing data'' @ nl @ ''- Automating tasks'' @ nl @ nl @ ''Just ask me anything!''
      else if has ''code'' \<or> has ''program''
      then ''I can help with code! Here's a simple example:'' @ nl @ nl @ ''```go'' @ nl @ ''func main() {'' @ nl @
           ''    fmt.Println(\"Hello from shclop!\")'' @ nl @ ''}'' @ nl @ ''```'' @ nl @ nl @ ''What would you like to build?''
      else if has ''status'' \<or> has ''health''
      then ''Status: Running'' @ nl @ ''Runtime: '' @ flavor @ nl @ ''Sandbox: shclop mock'' @ nl @
           ''Network: isolated'' @ nl @ ''Secrets: none'' @ nl @ nl @ ''Everything looks good!''
      else ''I received your message: \"'' @ input @ ''\"'' @ nl @ nl @
           ''I'm a demo agent running in shclop's mock sandbox. In production, I'd be running as a Kata microVM with full isolation. For now, I'm demonstrating the chat flow through the shclop gateway.'')"

text \<open>\<open>strings.Fields\<close>: the words between runs of white space. \<open>cut_word\<close> splits after the first word.\<close>

definition at_space :: "string \<Rightarrow> bool" where
  "at_space s \<longleftrightarrow> list_ex (\<lambda>sp. prefix sp s) unicode_spaces"

fun cut_word :: "string \<Rightarrow> string \<times> string" where
  "cut_word [] = ([], [])"
| "cut_word (c # s) = (if at_space (c # s) then ([], c # s) else (case cut_word s of (w, r) \<Rightarrow> (c # w, r)))"

lemma cut_word_le: "length (snd (cut_word s)) \<le> length s"
  by (induction s) (auto split: prod.splits)

lemma spaces_nonempty: "[] \<notin> set unicode_spaces"
  by (simp add: unicode_spaces_def)

lemma trim_at_space: "TrimLeftSpace s = t \<Longrightarrow> \<not> at_space t"
  using strip_leading_fixed [of _ unicode_spaces s] spaces_nonempty
  unfolding TrimLeftSpace_def at_space_def list_ex_iff by metis

lemma cut_word_less:
  assumes "TrimLeftSpace s = c # r"
  shows "length (snd (cut_word (c # r))) < length s"
proof -
  have "length (c # r) \<le> length s"
    using strip_leading_suffix [of unicode_spaces s] assms suffix_length_le unfolding TrimLeftSpace_def by metis
  moreover have "snd (cut_word (c # r)) = snd (cut_word r)"
    using trim_at_space [OF assms] by (simp split: prod.split)
  ultimately show ?thesis using cut_word_le [of r] by simp
qed

function Fields :: "string \<Rightarrow> string list" where
  "Fields s =
     (case TrimLeftSpace s of [] \<Rightarrow> [] | c # r \<Rightarrow>
        (case cut_word (c # r) of (w, rest) \<Rightarrow> w # Fields rest))"
  by pat_completeness auto
termination
proof (relation "measure length")
  fix s c r w rest
  assume "TrimLeftSpace s = c # r" and "(w, rest) = cut_word (c # r)"
  with cut_word_less [of s c r] show "(rest, s) \<in> measure length" by (simp only: in_measure) (metis snd_conv)
qed simp

declare Fields.simps [simp del]

text \<open>The loop of \<open>splitChunks\<close>: \<open>current\<close> is the chunk being filled.\<close>

fun fill_chunks :: "string \<Rightarrow> string list \<Rightarrow> string list" where
  "fill_chunks current [] = (if current = [] then [] else [current])"
| "fill_chunks current (w # ws) =
     (if length current + length w + 1 > 30 then current # fill_chunks w ws
      else if current = [] then fill_chunks w ws else fill_chunks (current @ '' '' @ w) ws)"

definition splitChunks :: "string \<Rightarrow> string list" where
  "splitChunks text = fill_chunks [] (Fields text)"

text \<open>One turn of the mock runtime's loop: the envelopes written for a task.\<close>

definition mock_answer :: "(string \<Rightarrow> string) \<Rightarrow> ((string \<times> any) list \<Rightarrow> string) \<Rightarrow> string \<Rightarrow> Envelope \<Rightarrow> Envelope list" where
  "mock_answer ul marshal flavor task =
     (let envelope = (\<lambda>eventType n payload. \<lparr>en_Type = eventType, en_AgentID = en_AgentID task,
            en_SessionID = en_SessionID task, en_MessageID = en_MessageID task, en_Seq = n, en_Payload = payload\<rparr>);
          text = mock_taskText marshal (if en_Payload task = [] then None else Some (en_Payload task));
          chunks = splitChunks (generateResponse ul text flavor)
      in envelope ''message.started'' 1 [] #
         map (\<lambda>(i, chunk). envelope ''message.delta'' (2 + int i) [(''text'', AnyString chunk)]) (enumerate 0 chunks) @
         [envelope ''message.done'' (2 + int (length chunks)) []])"

lemma Join_Cons: "Join (w # ws) sep = (if ws = [] then w else w @ sep @ Join ws sep)"
  by (cases ws) simp_all

lemma fill_chunks_kept: "w \<noteq> [] \<Longrightarrow> filter (\<lambda>c. c \<noteq> []) (fill_chunks w ws) \<noteq> []"
  by (induction w ws rule: fill_chunks.induct) auto

lemma fill_chunks_words:
  "[] \<notin> set ws \<Longrightarrow>
     Join (filter (\<lambda>c. c \<noteq> []) (fill_chunks current ws)) '' '' = Join (filter (\<lambda>c. c \<noteq> []) (current # ws)) '' ''"
proof (induction current ws rule: fill_chunks.induct)
  case (2 current w ws)
  have ws: "filter (\<lambda>c. c \<noteq> []) ws = ws" using 2(4) by (auto simp: filter_id_conv)
  consider "length current + length w + 1 > 30" | "length current + length w + 1 \<le> 30" "current = []"
    | "length current + length w + 1 \<le> 30" "current \<noteq> []" by linarith
  then show ?case
  proof cases
    case 1
    with 2(1) 2(4) ws fill_chunks_kept [of w ws] show ?thesis by (auto simp: Join_Cons)
  next
    case 2
    with \<open>\<lbrakk>\<not> 30 < length current + length w + 1; current = []; [] \<notin> set ws\<rbrakk> \<Longrightarrow> _\<close> \<open>[] \<notin> set (w # ws)\<close> ws
    show ?thesis by auto
  next
    case 3
    with \<open>\<lbrakk>\<not> 30 < length current + length w + 1; current \<noteq> []; [] \<notin> set ws\<rbrakk> \<Longrightarrow> _\<close> \<open>[] \<notin> set (w # ws)\<close> ws
    show ?thesis by (auto simp: Join_Cons)
  qed
qed simp

lemma fill_chunks_short:
  "c \<in> set (fill_chunks current ws) \<Longrightarrow> length current \<le> 30 \<or> current \<in> W \<Longrightarrow> set ws \<subseteq> W \<Longrightarrow> length c \<le> 30 \<or> c \<in> W"
  by (induction current ws rule: fill_chunks.induct) (auto split: if_splits)

lemma Fields_words: "[] \<notin> set (Fields s)"
proof (induction s rule: Fields.induct)
  case (1 s)
  show ?case
  proof (cases "TrimLeftSpace s")
    case Nil
    then show ?thesis by (simp add: Fields.simps [of s])
  next
    case (Cons c r)
    with 1 trim_at_space [OF Cons] show ?thesis by (auto simp: Fields.simps [of s] split: prod.splits)
  qed
qed

text \<open>The mock runtime streams its whole answer in small pieces: apart from empty pieces, its chunks joined
  by spaces are the words of the answer in order, and a chunk longer than 30 bytes is a single word.\<close>

theorem splitChunks_words:
  "Join (filter (\<lambda>c. c \<noteq> []) (splitChunks text)) '' '' = Join (Fields text) '' '' \<and>
   (\<forall>c\<in>set (splitChunks text). length c \<le> 30 \<or> c \<in> set (Fields text))"
proof -
  have "filter (\<lambda>c. c \<noteq> []) ([] # Fields text) = Fields text"
    using Fields_words [of "text"] by (auto simp: filter_id_conv)
  with fill_chunks_words [OF Fields_words, of "[]" "text"] fill_chunks_short [of _ "[]" "Fields text" "set (Fields text)"]
  show ?thesis by (auto simp: splitChunks_def)
qed

theorem splitChunks_words_witness:
  "length ''word'' \<le> 30 \<or> ''word'' \<in> set (Fields ''a supercalifragilisticexpialidocious word'')"
  by (rule bspec [OF conjunct2 [OF splitChunks_words [of "''a supercalifragilisticexpialidocious word''"]]]) code_simp

text \<open>The mock runtime sends an empty piece first when the answer begins with a word of 30 bytes or more.\<close>

theorem long_word_sends_empty_chunk:
  "splitChunks ''supercalifragilisticexpialidocious'' = [[], ''supercalifragilisticexpialidocious'']"
  by code_simp

section \<open>The mock runtime's connection\<close>

text \<open>\<open>reads\<close> are the results of the connection's reads, errors included: an error is waited out and the
  connection read again. The results of the writes are not looked at.\<close>

fun mock_loop :: "(Envelope \<Rightarrow> Envelope list) \<Rightarrow> Envelope result list \<Rightarrow> Envelope list" where
  "mock_loop answer [] = []"
| "mock_loop answer (Inl err # reads) = mock_loop answer reads"
| "mock_loop answer (Inr task # reads) =
     (if en_Type task \<noteq> ''task.run'' then mock_loop answer reads else answer task @ mock_loop answer reads)"

text \<open>What is written, and the message of the fatal error that ends the program.\<close>

definition mock_main ::
  "(string \<Rightarrow> string) \<Rightarrow> ((string \<times> any) list \<Rightarrow> string) \<Rightarrow> string \<Rightarrow> string \<Rightarrow> string \<Rightarrow> unit result \<Rightarrow> unit result
     \<Rightarrow> Envelope result list \<Rightarrow> Envelope list \<times> string option" where
  "mock_main ul marshal agentID token flavor dial sent reads =
     (if agentID = [] \<or> token = [] then ([], Some ''agent-id and token are required'')
      else
        (case dial of
           Inl err \<Rightarrow> ([], Some (''failed to connect: '' @ error_text err))
         | Inr _ \<Rightarrow>
             (case sent of
                Inl err \<Rightarrow> ([], Some (''failed to send hello: '' @ error_text err))
              | Inr _ \<Rightarrow>
                  (case reads of
                     [] \<Rightarrow> ([hello agentID flavor], None)
                   | Inl err # _ \<Rightarrow> ([hello agentID flavor], Some (''failed to read accepted: '' @ error_text err))
                   | Inr accepted # reads' \<Rightarrow>
                       if en_Type accepted \<noteq> ''runtime.accepted''
                       then ([hello agentID flavor], Some ''runtime rejected'')
                       else (hello agentID flavor # mock_loop (mock_answer ul marshal flavor) reads', None)))))"

lemma mock_answer_good: "good_answer task (mock_answer ul marshal flavor task)"
proof -
  define chunks where "chunks = splitChunks (generateResponse ul (mock_taskText marshal
    (if en_Payload task = [] then None else Some (en_Payload task))) flavor)"
  define reply where "reply = (\<lambda>t n p. \<lparr>en_Type = t, en_AgentID = en_AgentID task, en_SessionID = en_SessionID task,
    en_MessageID = en_MessageID task, en_Seq = n, en_Payload = p\<rparr>)"
  define deltas where "deltas = map (\<lambda>(i, chunk). reply ''message.delta'' (2 + int i) [(''text'', AnyString chunk)]) (enumerate 0 chunks)"
  have answer: "mock_answer ul marshal flavor task =
      reply ''message.started'' 1 [] # deltas @ [reply ''message.done'' (2 + int (length chunks)) []]"
    by (simp add: mock_answer_def Let_def chunks_def reply_def deltas_def)
  have of_task: "env_key (reply t n p) = env_key task \<and> en_SessionID (reply t n p) = en_SessionID task" for t n p
    by (simp add: reply_def env_key_def)
  have "map en_Seq deltas = map (\<lambda>i. 2 + int i) [0..<length chunks]"
    by (rule nth_equalityI) (simp_all add: deltas_def reply_def nth_enumerate_eq)
  moreover have "map (\<lambda>i. 1 + int i) [0..<Suc (Suc n)] = 1 # map (\<lambda>i. 2 + int i) [0..<n] @ [2 + int n]" for n
    by (induction n) simp_all
  ultimately have seqs: "map en_Seq (mock_answer ul marshal flavor task) = map (\<lambda>i. 1 + int i) [0..<Suc (Suc (length chunks))]"
    by (simp add: answer reply_def del: upt_Suc)
  have "length (mock_answer ul marshal flavor task) = Suc (Suc (length chunks))"
    by (simp add: answer deltas_def)
  with seqs have numbers: "map en_Seq (mock_answer ul marshal flavor task) =
      map (\<lambda>i. 1 + int i) [0..<length (mock_answer ul marshal flavor task)]"
    by (simp only:)
  have same: "list_all (\<lambda>r. env_key r = env_key task \<and> en_SessionID r = en_SessionID task) (mock_answer ul marshal flavor task)"
    by (auto simp: answer of_task list_all_iff deltas_def)
  have "list_all (\<lambda>r. \<not> terminal_event (en_Type r)) (butlast (mock_answer ul marshal flavor task))"
    by (auto simp: answer list_all_iff deltas_def butlast_append terminal_event_def reply_def)
  moreover have "mock_answer ul marshal flavor task \<noteq> [] \<and> terminal_event (en_Type (last (mock_answer ul marshal flavor task)))"
    by (simp add: answer terminal_event_def reply_def)
  ultimately show ?thesis using numbers same by (simp only: good_answer_def simp_thms)
qed

text \<open>The mock runtime answers like the real one: every task it reads gets one complete answer, in order,
  and nothing else is written after the hello, however many reads fail in between.\<close>

lemma mock_loop_answers:
  "mock_loop answer reads = concat (map answer (filter (\<lambda>task. en_Type task = ''task.run'') [t. Inr t \<leftarrow> reads]))"
  by (induction answer reads rule: mock_loop.induct) auto

end
