(* ===== verification/Sockets.thy ===== *)
theory Sockets
  imports Operate GatewayInv Runtime
begin

text \<open>
  The two websockets of \<open>server.go\<close> and the runtime tokens they rest on. A websocket handler is cut
  where it waits for the other side: what it does to the server before (\<open>runtime_hello\<close>,
  \<open>runtime_opened\<close>, \<open>browser_task\<close>, \<open>task_routed\<close>) and after (\<open>runtime_closed\<close>) is a definition of its
  own; the waiting in between is the registry of theory \<open>Gateway\<close>. \<open>handshake\<close> is the websocket
  library's own check of an upgrade request; \<open>host\<close> parses the host of a URL.
\<close>

section \<open>Opening a websocket\<close>

definition sameOriginOrNoOrigin :: "(string \<Rightarrow> string option) \<Rightarrow> Request \<Rightarrow> bool" where
  "sameOriginOrNoOrigin host q =
     (if q_origin q = [] then True
      else (case url_Parse host (q_origin q) of None \<Rightarrow> False | Some (h, path) \<Rightarrow> h = q_host q))"

definition upgraded :: "(string \<Rightarrow> string option) \<Rightarrow> (Request \<Rightarrow> bool) \<Rightarrow> Request \<Rightarrow> bool" where
  "upgraded host handshake q \<longleftrightarrow> handshake q \<and> sameOriginOrNoOrigin host q"

section \<open>Runtimes\<close>

definition validRuntimeToken :: "string \<Rightarrow> string \<Rightarrow> 'w Server \<Rightarrow> bool" where
  "validRuntimeToken agentID secret s =
     (case s_tokens s agentID of None \<Rightarrow> False | Some t \<Rightarrow> t \<noteq> [] \<and> t = secret)"

datatype runtime_outcome =
    Refused Response
  | Dropped
  | Rejected Envelope
  | Accepted string

text \<open>The part of \<open>handleRuntimeWebSocket\<close> that decides; \<open>hello\<close> is the first message, if one can be read.\<close>

definition runtime_hello ::
  "(string \<Rightarrow> string option) \<Rightarrow> (Request \<Rightarrow> bool) \<Rightarrow> Request \<Rightarrow> Envelope option \<Rightarrow> 'w Server \<Rightarrow> runtime_outcome" where
  "runtime_hello host handshake q msg s =
     (let secret = bearer_token (q_authorization q) in
      if secret = [] then Refused unauthorized
      else if \<not> upgraded host handshake q then Dropped
      else
        (case msg of
           None \<Rightarrow> Dropped
         | Some h \<Rightarrow>
             if en_Type h \<noteq> ''runtime.hello'' \<or> TrimSpace (en_AgentID h) = [] \<or>
                \<not> validRuntimeToken (en_AgentID h) secret s
             then Rejected \<lparr>en_Type = ''runtime.rejected'', en_AgentID = en_AgentID h, en_SessionID = [],
                     en_MessageID = [], en_Seq = 0, en_Payload = [(''reason'', AnyString ''invalid runtime hello'')]\<rparr>
             else Accepted (en_AgentID h)))"

text \<open>What it does once the runtime is registered, and when a read fails.\<close>

definition runtime_opened :: "Request \<Rightarrow> string \<Rightarrow> 'w Server \<Rightarrow> 'w Server" where
  "runtime_opened q agentID s =
     recordActivity (q_now q 1) ''runtime.connected'' [] agentID ''runtime connected''
       [(''remote_addr'', AnyString (q_remote q))]
       (fst (store_call (UpdateAgentState (q_ctx q 0) (q_now q 0) agentID ''running'') s))"

definition runtime_closed :: "Request \<Rightarrow> string \<Rightarrow> go_error \<Rightarrow> 'w Server \<Rightarrow> 'w Server" where
  "runtime_closed q agentID err s =
     recordActivity (q_now q 3) ''runtime.disconnected'' [] agentID ''runtime disconnected''
       [(''error'', AnyString (error_text err))]
       (fst (store_call (UpdateAgentState (q_ctx q 1) (q_now q 2) agentID ''idle'') s))"

section \<open>Browsers\<close>

datatype browser_outcome =
    BrowserRefused Response
  | BrowserDropped
  | BrowserTold "(string \<times> any) list"
  | BrowserTask User Envelope

definition chatEventResponse :: "Envelope \<Rightarrow> (string \<times> any) list" where
  "chatEventResponse event =
     (''type'', AnyString (en_Type event)) #
     (case map_of (en_Payload event) ''text'' of
        Some (AnyString t) \<Rightarrow>
          if t = [] then []
          else [(if en_Type event = ''message.error'' then ''error'' else ''text'', AnyString t)]
      | _ \<Rightarrow> []) @
     (if terminal_event (en_Type event) then [(''done'', AnyOther ''true'')] else [])"

definition told :: "string \<Rightarrow> (string \<times> any) list" where
  "told msg = [(''type'', AnyString ''message.error''), (''error'', AnyString msg), (''done'', AnyOther ''true'')]"

definition conv_payload :: "(string \<times> any) list \<Rightarrow> any \<Rightarrow> (string \<times> any) list option" where
  "conv_payload acc v = (case v of AnyNil \<Rightarrow> Some [] | AnyMap kvs \<Rightarrow> Some (rev kvs @ acc) | _ \<Rightarrow> None)"

definition decode_chat :: "any option \<Rightarrow> (string \<times> string \<times> string \<times> (string \<times> any) list) option" where
  "decode_chat body = do {
     obj \<leftarrow> json_object body;
     txt \<leftarrow> str_field obj ''text'';
     kind \<leftarrow> str_field obj ''type'';
     session \<leftarrow> str_field obj ''session_id'';
     message \<leftarrow> str_field obj ''message_id'';
     payload \<leftarrow> json_field conv_payload [] obj ''payload'';
     Some (txt, session, message, payload) }"

definition chat_text :: "string \<Rightarrow> (string \<times> any) list \<Rightarrow> string" where
  "chat_text txt payload =
     (let t = TrimSpace txt in
      if t \<noteq> [] then t
      else (case map_of payload ''text'' of Some (AnyString p) \<Rightarrow> TrimSpace p | _ \<Rightarrow> []))"

text \<open>A random id, or the time when the random source fails; \<open>stamp\<close> formats it.\<close>

definition randomHexID :: "(time \<Rightarrow> string) \<Rightarrow> time \<Rightarrow> rnd \<Rightarrow> string" where
  "randomHexID stamp now r = (case r of None \<Rightarrow> stamp now | Some b \<Rightarrow> hex_encode b)"

text \<open>\<open>handleWebSocket\<close> up to the call of \<open>SendTask\<close>; \<open>q_body\<close> is the first message.\<close>

definition browser_task ::
  "(string \<Rightarrow> string option) \<Rightarrow> (Request \<Rightarrow> bool) \<Rightarrow> (time \<Rightarrow> string) \<Rightarrow> Request \<Rightarrow> 'w Server \<Rightarrow> browser_outcome" where
  "browser_task host handshake stamp q s =
     (case requireUserFromRequest q s of
        Inl r \<Rightarrow> BrowserRefused r
      | Inr user \<Rightarrow>
          let agentID = TrimSpace (query_get q ''agent_id'') in
          if agentID = [] then BrowserRefused (http_Error ''agent_id is required'' 400)
          else
            (case load_agent (q_ctx q 1) user agentID s of
               Inl r \<Rightarrow> BrowserRefused r
             | Inr agent \<Rightarrow>
                 if \<not> upgraded host handshake q then BrowserDropped
                 else
                   (case decode_chat (q_body q) of
                      None \<Rightarrow> BrowserDropped
                    | Some (txt0, session, message, payload) \<Rightarrow>
                        let txt = chat_text txt0 payload in
                        if txt = [] then BrowserTold (told ''message text is required'')
                        else BrowserTask user
                          \<lparr>en_Type = ''task.run'', en_AgentID = agentID,
                           en_SessionID = (if session = [] then randomHexID stamp (q_now q 0) (q_rnd q 0) else session),
                           en_MessageID = (if message = [] then randomHexID stamp (q_now q 1) (q_rnd q 1) else message),
                           en_Seq = 0, en_Payload = [(''text'', AnyString txt)]\<rparr>)))"

text \<open>After \<open>SendTask\<close>: the error written to the browser, if any, or the record of the task.\<close>

definition send_failed :: "go_error \<Rightarrow> (string \<times> any) list option" where
  "send_failed err = (if errors_Is err ErrRuntimeNotConnected then Some (told ''runtime not connected'') else None)"

definition task_routed :: "Request \<Rightarrow> User \<Rightarrow> Envelope \<Rightarrow> 'w Server \<Rightarrow> 'w Server" where
  "task_routed q user incoming s =
     recordActivity (q_now q 2) ''task.routed'' (u_ID user) (en_AgentID incoming) ''browser task routed to runtime''
       [(''message_id'', AnyString (en_MessageID incoming))]
       (s\<lparr>s_metrics := (s_metrics s)\<lparr>mc_chatEvents := mc_chatEvents (s_metrics s) + 1,
                                   mc_taskEvents := mc_taskEvents (s_metrics s) + 1\<rparr>\<rparr>)"

text \<open>The frames a browser is sent for the events its channel delivers: up to the first that ends the message.\<close>

fun browser_frames :: "Envelope list \<Rightarrow> (string \<times> any) list list" where
  "browser_frames [] = []"
| "browser_frames (event # events) =
     chatEventResponse event # (if terminal_event (en_Type event) then [] else browser_frames events)"

section \<open>Reachable systems\<close>

text \<open>A server that also has websockets open.\<close>

inductive system_reachable :: "'w Server \<Rightarrow> bool" where
  server: "server_reachable s \<Longrightarrow> system_reachable s"
| serve: "system_reachable s \<Longrightarrow> system_reachable (fst (dispatch host E route q s))"
| retry: "system_reachable s \<Longrightarrow> system_reachable (s\<lparr>s_idp := retryDegraded d ks (s_idp s)\<rparr>)"
| plugins: "system_reachable s \<Longrightarrow> system_reachable (s\<lparr>s_plugins := m\<rparr>)"
| opened: "system_reachable s \<Longrightarrow> system_reachable (runtime_opened q a s)"
| closed: "system_reachable s \<Longrightarrow> system_reachable (runtime_closed q a err s)"
| routed: "system_reachable s \<Longrightarrow> system_reachable (task_routed q user e s)"

lemma system_inv: "system_reachable s \<Longrightarrow> server_inv s"
proof (induction rule: system_reachable.induct)
  case (plugins s m)
  then show ?case by (simp add: server_inv_def)
next
  case (server s)
  then show ?case by (rule reachable_inv)
qed (simp_all add: runtime_opened_def runtime_closed_def task_routed_def dispatch_inv inv_retry inv_activity inv_call
      UpdateAgentState_op inv_metrics del: store_call_simps)

section \<open>A run from the boot\<close>

text \<open>The bootstrap administrator signs in, creates an agent and starts it; every id drawn is \<open>72\<close>.\<close>

definition sample_boot :: "unit Server" where
  "sample_boot =
     (case NewServer sample_crypto (\<lambda>t. Inr 0) (Inr ()) (Inl (ErrNew [])) (\<lambda>n i. Inl (ErrNew [])) None NewMerged None () sample_config of
        Inr (s, sandbox) \<Rightarrow> s | Inl err \<Rightarrow> sample_server)"
definition sample_login :: Request where
  "sample_login = (sample_request [])\<lparr>q_body := Some (AnyMap [(''username'', AnyString ''admin''), (''password'', AnyString ''admin'')])\<rparr>"
definition sample_create :: Request where
  "sample_create = (sample_request ''72'')\<lparr>q_body := Some (AnyMap [(''name'', AnyString ''helper'')])\<rparr>"
definition sample_start :: Request where
  "sample_start = (sample_request ''72'')\<lparr>q_pathvalue := (\<lambda>k. ''72'')\<rparr>"
definition sample_steps where
  "sample_steps = [(RLogin, sample_login), (RCreateAgent, sample_create), (RStartAgent, sample_start)]"
definition sample_serve :: "(route \<times> Request) list \<Rightarrow> unit Server" where
  "sample_serve steps = foldl (\<lambda>s (route, q). fst (dispatch Some sample_api route q s)) sample_boot steps"

lemma sample_serve_reachable: "system_reachable (sample_serve steps)"
proof -
  have "(case NewServer sample_crypto (\<lambda>t. Inr 0) (Inr ()) (Inl (ErrNew [])) (\<lambda>n i. Inl (ErrNew [])) None NewMerged None () sample_config of
      Inr r \<Rightarrow> True | Inl err \<Rightarrow> False)" by code_simp
  then have "server_reachable sample_boot"
    by (auto simp: sample_boot_def split: sum.splits intro: server_reachable.start)
  then have "system_reachable s \<Longrightarrow> system_reachable (foldl (\<lambda>s (route, q). fst (dispatch Some sample_api route q s)) s steps)" for s
    by (induction steps arbitrary: s) (auto intro: system_reachable.serve)
  with \<open>server_reachable sample_boot\<close> show ?thesis
    unfolding sample_serve_def by (blast intro: system_reachable.server)
qed

text \<open>C1: a server on the in-memory store, whose handlers run one at a time, in every state it can reach
  through requests, websockets, retries of providers and plugin rescans. In the store no two users
  have the same name, no two identities the same provider and subject, no two connections the same
  provider and user, no two bindings the same agent and provider, and a plugin manifest is filed
  under its own id. Every reference resolves: the user of an identity, the owner of an agent, the user
  of a connection and the agent of a binding exist. Each provider entry is consistent, the activity
  log has at most 200 entries, every session belongs to an account that exists under the name it was
  opened for, and runtime tokens exist only for agents that exist. The ids of users, agents and models
  are random draws the code does not compare with those in use; that they differ is not claimed.\<close>

theorem system_invariant:
  assumes "system_reachable s"
  shows "store_inv (s_store s) \<and>
    a_OwnerUserID ` set (m_agents (s_store s)) \<subseteq> u_ID ` set (m_users (s_store s)) \<and>
    ic_UserID ` set (m_integrations (s_store s)) \<subseteq> u_ID ` set (m_users (s_store s)) \<and>
    ai_AgentID ` set (m_agentIntegrations (s_store s)) \<subseteq> a_ID ` set (m_agents (s_store s)) \<and>
    idp_inv (s_idp s) \<and> length (s_activity s) \<le> 200 \<and>
    (\<forall>t u. sv_tokens (s_auth s) t = Some u \<longrightarrow> (\<exists>v\<in>set (m_users (s_store s)). u_ID v = u_ID u \<and> u_Username v = u_Username u)) \<and>
    dom (s_tokens s) \<subseteq> a_ID ` set (m_agents (s_store s))"
proof -
  from system_inv [OF assms] have i: "server_inv s" .
  then have "sessions_ok (s_auth s) (s_store s)" by (simp add: server_inv_def)
  then have "\<exists>v\<in>set (m_users (s_store s)). u_ID v = u_ID u \<and> u_Username v = u_Username u"
    if "sv_tokens (s_auth s) t = Some u" for t u
    using that by (fastforce simp: sessions_ok_def)
  with i show ?thesis
    by (simp add: server_inv_def tokens_ok_def refs_ok_def reachable_store_inv idp_reachable_inv)
qed

theorem system_invariant_witness:
  "let s = sample_serve [(RLogin, sample_login), (RCreateAgent, sample_create), (RStartAgent, sample_start)]
   in store_inv (s_store s) \<and>
    a_OwnerUserID ` set (m_agents (s_store s)) \<subseteq> u_ID ` set (m_users (s_store s)) \<and>
    ic_UserID ` set (m_integrations (s_store s)) \<subseteq> u_ID ` set (m_users (s_store s)) \<and>
    ai_AgentID ` set (m_agentIntegrations (s_store s)) \<subseteq> a_ID ` set (m_agents (s_store s)) \<and>
    idp_inv (s_idp s) \<and> length (s_activity s) \<le> 200 \<and>
    (\<forall>t u. sv_tokens (s_auth s) t = Some u \<longrightarrow> (\<exists>v\<in>set (m_users (s_store s)). u_ID v = u_ID u \<and> u_Username v = u_Username u)) \<and>
    dom (s_tokens s) \<subseteq> a_ID ` set (m_agents (s_store s))"
  unfolding Let_def by (rule system_invariant [OF sample_serve_reachable])

section \<open>Runtime tokens\<close>

text \<open>C7: a runtime gets in with the current token of its agent only: the connection is from no other
  site, the hello names the agent, and the bearer token is the one the server holds for that agent
  now; the agent exists.\<close>

theorem runtime_needs_current_token:
  assumes "system_reachable s" "runtime_hello host handshake q msg s = Accepted agentID"
  shows "s_tokens s agentID = Some (bearer_token (q_authorization q)) \<and> bearer_token (q_authorization q) \<noteq> [] \<and>
    sameOriginOrNoOrigin host q \<and> map_option en_AgentID msg = Some agentID \<and>
    agentID \<in> a_ID ` set (m_agents (s_store s))"
proof -
  have t: "s_tokens s agentID = Some (bearer_token (q_authorization q))" "bearer_token (q_authorization q) \<noteq> []"
    "sameOriginOrNoOrigin host q" "map_option en_AgentID msg = Some agentID"
    using assms(2)
    by (auto simp: runtime_hello_def validRuntimeToken_def upgraded_def Let_def split: if_splits option.splits)
  moreover from t(1) have "agentID \<in> dom (s_tokens s)" by blast
  ultimately show ?thesis using system_inv [OF assms(1)] by (auto simp: server_inv_def tokens_ok_def)
qed

theorem runtime_needs_current_token_witness:
  "let s = sample_serve [(RLogin, sample_login), (RCreateAgent, sample_create), (RStartAgent, sample_start)]
   in s_tokens s ''72'' = Some (bearer_token (q_authorization sample_start)) \<and> bearer_token (q_authorization sample_start) \<noteq> [] \<and>
    sameOriginOrNoOrigin Some sample_start \<and> map_option en_AgentID (Some (hello ''72'' ''nanoclaw'')) = Some ''72'' \<and>
    ''72'' \<in> a_ID ` set (m_agents (s_store s))"
  unfolding Let_def
proof (rule runtime_needs_current_token [OF sample_serve_reachable, where handshake = "\<lambda>q. True"])
  have "(case runtime_hello Some (\<lambda>q. True) sample_start (Some (hello ''72'' ''nanoclaw''))
      (sample_serve [(RLogin, sample_login), (RCreateAgent, sample_create), (RStartAgent, sample_start)])
    of Accepted a \<Rightarrow> a = ''72'' | _ \<Rightarrow> False)" by code_simp
  then show "runtime_hello Some (\<lambda>q. True) sample_start (Some (hello ''72'' ''nanoclaw''))
      (sample_serve [(RLogin, sample_login), (RCreateAgent, sample_create), (RStartAgent, sample_start)]) = Accepted ''72''"
    by (auto split: runtime_outcome.splits)
qed

lemma with_agent_ok:
  assumes "with_agent q i s f = (s', resp)" "rp_Status resp \<notin> {401, 404, 500}"
  obtains user agent where "requireUser q s = Inr user" "load_agent (q_ctx q 1) user i s = Inr agent" "f user agent = (s', resp)"
  using assms requireUser_Inl [of q s]
  by (auto simp: with_agent_def with_user_def load_agent_def split: sum.splits if_splits)

text \<open>C11: stopping or deleting an agent locks its runtime out: once the request is answered with success, no
  token opens a runtime connection for that agent until it is started again.\<close>

theorem stopped_runtime_refused:
  assumes "route = RStopAgent \<and> rp_Status resp = 200 \<or> route = RDeleteAgent \<and> rp_Status resp = 204"
    and "dispatch host E route q s = (s', resp)"
  shows "s_tokens s' (q_pathvalue q ''id'') = None \<and>
    runtime_hello host' handshake q' msg s' \<noteq> Accepted (q_pathvalue q ''id'')"
proof -
  have "s_tokens s' (q_pathvalue q ''id'') = None"
    using assms
    by (auto simp: handleStopAgent_def handleDeleteAgent_def or_500_def Let_def case_prod_beta
        split: sum.splits if_splits elim!: with_agent_ok)
  then show ?thesis
    by (auto simp: runtime_hello_def validRuntimeToken_def Let_def split: option.splits)
qed

theorem stopped_runtime_refused_witness:
  "runtime_hello Some (\<lambda>q. True) ((sample_request [])\<lparr>q_authorization := bearer @ ''secret''\<rparr>) (Some (hello ''g1'' ''nanoclaw''))
     (fst (dispatch Some sample_api RStopAgent ((sample_request ''tb'')\<lparr>q_pathvalue := (\<lambda>k. ''g1'')\<rparr>) sample_server))
     \<noteq> Accepted ''g1'' \<and>
   runtime_hello Some (\<lambda>q. True) ((sample_request [])\<lparr>q_authorization := bearer @ ''secret''\<rparr>) (Some (hello ''g1'' ''nanoclaw''))
     sample_server = Accepted ''g1''"
proof -
  have "rp_Status (snd (dispatch Some sample_api RStopAgent ((sample_request ''tb'')\<lparr>q_pathvalue := (\<lambda>k. ''g1'')\<rparr>) sample_server)) = 200"
    by code_simp
  moreover have "(case runtime_hello Some (\<lambda>q. True) ((sample_request [])\<lparr>q_authorization := bearer @ ''secret''\<rparr>)
      (Some (hello ''g1'' ''nanoclaw'')) sample_server of Accepted a \<Rightarrow> a | _ \<Rightarrow> []) = ''g1''"
    by code_simp
  ultimately show ?thesis
    using stopped_runtime_refused [OF _ surjective_pairing, of RStopAgent Some sample_api
        "(sample_request ''tb'')\<lparr>q_pathvalue := (\<lambda>k. ''g1'')\<rparr>" sample_server]
    by (auto simp del: dispatch.simps split: runtime_outcome.splits)
qed

lemma issue_and_launch_ok:
  assumes "issue_and_launch E q user i settings environ s = (s', resp)" "rp_Status resp \<noteq> 500"
  obtains secret agent s2 where "random_hex (q_rnd q 0) = Inr secret"
    "s_tokens s2 = (s_tokens s)(i \<mapsto> secret)" "s_sandbox s2 = s_sandbox s"
    "launch_agent E q user agent (start_request i user agent settings secret environ) s2 = (s', resp)"
proof -
  from assms obtain secret where secret: "random_hex (q_rnd q 0) = Inr secret"
    by (auto simp: issue_and_launch_def or_500_def split: sum.splits)
  let ?s1 = "s\<lparr>s_tokens := (s_tokens s)(i \<mapsto> secret)\<rparr>"
  let ?call = "store_call (UpdateAgentState (q_ctx q 5) (q_now q 0) i ''starting'') ?s1"
  from assms secret obtain agent where "snd ?call = Inr agent"
    by (auto simp: issue_and_launch_def or_500_def Let_def case_prod_beta split: sum.splits)
  then show ?thesis
    using assms(1) secret
    by (intro that [of secret "recordActivity (q_now q 1) ''agent.start_requested'' (u_ID user) i
          ''agent start requested'' [(''runtime'', AnyString (a_Runtime agent))] (fst ?call)" agent])
      (simp_all add: issue_and_launch_def or_500_def Let_def case_prod_beta)
qed

lemma launch_agent_ok:
  assumes "launch_agent E q user agent request s = (s', resp)" "rp_Status resp = 202"
  obtains w lease where "e_Start E (q_ctx q 6) request (s_sandbox s) = (w, Inr lease)" "s_sandbox s' = w" "s_tokens s' = s_tokens s"
proof (cases "e_Start E (q_ctx q 6) request (s_sandbox s)")
  case (Pair w r)
  show ?thesis
  proof (cases r)
    case (Inl err)
    with Pair assms show ?thesis
      by (auto simp: launch_agent_def Let_def case_prod_beta writeStoreError_def split: if_splits)
  next
    case (Inr lease)
    with Pair assms(1) have "s_sandbox s' = w" "s_tokens s' = s_tokens s"
      by (auto simp: launch_agent_def Let_def case_prod_beta)
    with Pair Inr show ?thesis by (intro that) simp_all
  qed
qed

text \<open>C10: a successful start gives the runtime a fresh token: the caller may see the agent, the sandbox was
  asked to start this agent with the token just drawn, that token is the agent's only one from now
  on, and the tokens of the other agents are untouched.\<close>

theorem start_issues_fresh_token:
  assumes "dispatch host E RStartAgent q s = (s', resp)" "rp_Status resp = 202"
  shows "\<exists>user agent secret request w lease.
    requireUser q s = Inr user \<and> GetAgent (q_ctx q 1) (q_pathvalue q ''id'') (s_store s) = Inr agent \<and> visible_agent user agent \<and>
    random_hex (q_rnd q 0) = Inr secret \<and> s_tokens s' = (s_tokens s)(q_pathvalue q ''id'' \<mapsto> secret) \<and>
    e_Start E (q_ctx q 6) request (s_sandbox s) = (w, Inr lease) \<and> s_sandbox s' = w \<and>
    st_AgentID request = q_pathvalue q ''id'' \<and> st_RuntimeToken request = secret"
proof -
  let ?i = "q_pathvalue q ''id''"
  from assms obtain user agent where user: "requireUser q s = Inr user" and agent: "load_agent (q_ctx q 1) user ?i s = Inr agent"
    and st: "start_visible_agent E q ?i s user agent = (s', resp)"
    by (auto simp: handleStartAgent_def Let_def elim!: with_agent_ok)
  have check: "check_model cx md msg s = Inl stop \<Longrightarrow> rp_Status (snd stop) \<noteq> 202" for cx md msg stop
    by (auto simp: check_model_def split: if_splits sum.splits)
  from st assms(2) obtain settings environ where "issue_and_launch E q user ?i settings environ s = (s', resp)"
    by (auto simp: start_visible_agent_def Let_def or_500_def split: sum.splits if_splits dest!: check)
  then obtain secret agent' s2 where secret: "random_hex (q_rnd q 0) = Inr secret"
    and s2: "s_tokens s2 = (s_tokens s)(?i \<mapsto> secret)" "s_sandbox s2 = s_sandbox s"
    and launch: "launch_agent E q user agent' (start_request ?i user agent' settings secret environ) s2 = (s', resp)"
    using assms(2) by (elim issue_and_launch_ok) simp
  from launch_agent_ok [OF launch assms(2)] obtain w lease where
    "e_Start E (q_ctx q 6) (start_request ?i user agent' settings secret environ) (s_sandbox s) = (w, Inr lease)"
    "s_sandbox s' = w" "s_tokens s' = (s_tokens s)(?i \<mapsto> secret)"
    using s2 by metis
  with user secret load_agent_Inr [OF agent] show ?thesis
    by (intro exI conjI) (assumption | simp add: start_request_def)+
qed

theorem start_issues_fresh_token_witness:
  "\<exists>user agent secret request w lease.
    requireUser ((sample_request ''tb'')\<lparr>q_pathvalue := (\<lambda>k. ''g1'')\<rparr>) sample_server = Inr user \<and>
    GetAgent None ''g1'' (s_store sample_server) = Inr agent \<and> visible_agent user agent \<and>
    random_hex (Some ''r'') = Inr secret \<and>
    s_tokens (fst (dispatch Some sample_api RStartAgent ((sample_request ''tb'')\<lparr>q_pathvalue := (\<lambda>k. ''g1'')\<rparr>) sample_server)) =
      (s_tokens sample_server)(''g1'' \<mapsto> secret) \<and>
    e_Start sample_api None request (s_sandbox sample_server) = (w, Inr lease) \<and> st_AgentID request = ''g1'' \<and> st_RuntimeToken request = secret"
proof -
  let ?q = "(sample_request ''tb'')\<lparr>q_pathvalue := (\<lambda>k. ''g1'')\<rparr>"
  have "rp_Status (snd (dispatch Some sample_api RStartAgent ?q sample_server)) = 202" by code_simp
  from start_issues_fresh_token [OF surjective_pairing this] show ?thesis
    by (simp del: dispatch.simps add: sample_request_def)
qed

end
