(* ===== verification/Chat.thy ===== *)
theory Chat
  imports Sockets
begin

text \<open>
  Properties of the chat from end to end: who may give an agent a task, what the browser is told, and
  what a failed start or a replaced connection leaves behind.
\<close>

section \<open>Tasks\<close>

text \<open>C17: a browser gives a task to an agent only on behalf of a live session of an account that exists
  and is enabled now, and that owns the agent or is an administrator, from no other site; the task is
  for that agent, has a text that is not blank and has no blanks around it (the text of the message, or
  when that is blank the one in its payload), and carries the ids the browser chose.\<close>

theorem browser_task_authorised:
  assumes "browser_task host handshake stamp q s = BrowserTask user task"
  shows "(\<exists>cached. sv_tokens (s_auth s) (request_token q) = Some cached \<and> u_ID cached = u_ID user) \<and> request_token q \<noteq> [] \<and>
    user \<in> set (m_users (s_store s)) \<and> \<not> u_Disabled user \<and> sameOriginOrNoOrigin host q \<and>
    (\<exists>agent\<in>set (m_agents (s_store s)). a_ID agent = en_AgentID task \<and>
       (a_OwnerUserID agent = u_ID user \<or> u_Role user = ''admin'')) \<and>
    en_Type task = ''task.run'' \<and>
    (\<exists>txt sess msg payload given. decode_chat (q_body q) = Some (txt, sess, msg, payload) \<and>
       (given = txt \<or> TrimSpace txt = [] \<and> map_of payload ''text'' = Some (AnyString given)) \<and>
       TrimSpace given \<noteq> [] \<and> en_Payload task = [(''text'', AnyString (TrimSpace given))] \<and>
       (sess \<noteq> [] \<longrightarrow> en_SessionID task = sess) \<and> (msg \<noteq> [] \<longrightarrow> en_MessageID task = msg))"
proof -
  from assms obtain agent t0 sess msg payload where
    u: "session_user q (request_token q) s = Inr user" and o: "sameOriginOrNoOrigin host q"
    and a: "load_agent (q_ctx q 1) user (en_AgentID task) s = Inr agent"
    and d: "decode_chat (q_body q) = Some (t0, sess, msg, payload)" "chat_text t0 payload \<noteq> []"
    and t: "en_Type task = ''task.run''" "en_Payload task = [(''text'', AnyString (chat_text t0 payload))]"
      "sess \<noteq> [] \<Longrightarrow> en_SessionID task = sess" "msg \<noteq> [] \<Longrightarrow> en_MessageID task = msg"
    by (auto simp: browser_task_def requireUserFromRequest_def upgraded_def Let_def split: sum.splits if_splits option.splits)
  have "request_token q \<noteq> []" using u by (auto simp: session_user_def)
  moreover have "agent \<in> set (m_agents (s_store s))" "a_ID agent = en_AgentID task"
    "a_OwnerUserID agent = u_ID user \<or> u_Role user = ''admin''"
    using load_agent_Inr [OF a]
    by (auto simp: GetAgent_def find_or_not_found_def visible_agent_def split: option.splits dest: find_SomeD)
  moreover have "\<exists>given. (given = t0 \<or> TrimSpace t0 = [] \<and> map_of payload ''text'' = Some (AnyString given)) \<and>
      TrimSpace given = chat_text t0 payload"
    using d(2) by (auto simp: chat_text_def Let_def split: if_splits option.splits any.splits)
  ultimately show ?thesis
    using session_user_Inr [OF u] o d t by (auto simp: Resolve_def)
qed

definition sample_question :: Request where
  "sample_question = (sample_request ''tb'')\<lparr>q_query := (\<lambda>k. if k = ''agent_id'' then [''g1''] else []),
     q_body := Some (AnyMap [(''text'', AnyString '' hi ''), (''session_id'', AnyString ''s''), (''message_id'', AnyString ''m'')])\<rparr>"

theorem browser_task_authorised_witness:
  "let task = \<lparr>en_Type = ''task.run'', en_AgentID = ''g1'', en_SessionID = ''s'', en_MessageID = ''m'', en_Seq = 0,
                en_Payload = [(''text'', AnyString ''hi'')]\<rparr>
   in sample_account ''u2'' ''bob'' ''user'' False \<in> set (m_users (s_store sample_server)) \<and>
      sameOriginOrNoOrigin Some sample_question \<and>
      (\<exists>agent\<in>set (m_agents (s_store sample_server)). a_ID agent = en_AgentID task \<and>
         (a_OwnerUserID agent = ''u2'' \<or> ''user'' = ''admin'')) \<and> en_Type task = ''task.run''"
proof -
  let ?task = "\<lparr>en_Type = ''task.run'', en_AgentID = ''g1'', en_SessionID = ''s'', en_MessageID = ''m'', en_Seq = 0,
                en_Payload = [(''text'', AnyString ''hi'')]\<rparr>"
  have "(case browser_task Some (\<lambda>q. True) (\<lambda>t. []) sample_question sample_server of
      BrowserTask user task \<Rightarrow> user = sample_account ''u2'' ''bob'' ''user'' False \<and> task = ?task | _ \<Rightarrow> False)"
    by code_simp
  then have "browser_task Some (\<lambda>q. True) (\<lambda>t. []) sample_question sample_server
      = BrowserTask (sample_account ''u2'' ''bob'' ''user'' False) ?task"
    by (auto split: browser_outcome.splits)
  from browser_task_authorised [OF this] show ?thesis
    unfolding Let_def by (simp add: sample_account_def)
qed

section \<open>Answers\<close>

lemma done_frame: "(''done'', AnyOther ''true'') \<in> set (chatEventResponse e) \<longleftrightarrow> terminal_event (en_Type e)"
  by (auto simp: chatEventResponse_def split: option.splits any.splits)

lemma browser_frames_upto:
  "es \<noteq> [] \<Longrightarrow> terminal_event (en_Type (last es)) \<Longrightarrow> list_all (\<lambda>e. \<not> terminal_event (en_Type e)) (butlast es)
     \<Longrightarrow> browser_frames es = map chatEventResponse es"
  by (induction es) (auto split: if_splits)

text \<open>C18: whatever the adapter of the runtime does with a task, the browser that gets its answer sees every
  event of it, in order; the last frame, and no other, says that the message is done.\<close>

theorem answer_reaches_browser:
  "let frames = browser_frames (answer_task run task); finished = (\<lambda>frame. (''done'', AnyOther ''true'') \<in> set frame)
   in frames = map chatEventResponse (answer_task run task) \<and> frames \<noteq> [] \<and>
      finished (last frames) \<and> list_all (\<lambda>frame. \<not> finished frame) (butlast frames)"
proof -
  have good: "good_answer task (answer_task run task)"
    using send_events_shape [of task 1]
    by (auto simp: good_answer_def answer_task_def terminal_event_def clawEventToEnvelope_def plain_event_def Let_def
        env_key_def split: sum.split)
  then have "browser_frames (answer_task run task) = map chatEventResponse (answer_task run task)"
    by (intro browser_frames_upto) (simp_all add: good_answer_def)
  with good show ?thesis
    by (simp add: Let_def good_answer_def last_map map_butlast [symmetric] list_all_length done_frame)
qed

section \<open>Tokens and connections that outlive their start\<close>

lemma launch_tokens: "s_tokens (fst (launch_agent E q user agent request s)) = s_tokens s"
  by (auto simp: launch_agent_def Let_def case_prod_beta split: prod.splits sum.splits)

lemma issue_tokens:
  "s_tokens (fst (issue_and_launch E q user i settings environ s)) =
     (case random_hex (q_rnd q 0) of Inl err \<Rightarrow> s_tokens s | Inr secret \<Rightarrow> (s_tokens s)(i \<mapsto> secret))"
  by (simp add: issue_and_launch_def or_500_def Let_def case_prod_beta launch_tokens split: sum.split)

lemma start_tokens:
  "s_tokens (fst (start_visible_agent E q i s user agent)) =
     (case random_hex (q_rnd q 0) of Inl err \<Rightarrow> s_tokens s | Inr secret \<Rightarrow> (s_tokens s)(i \<mapsto> secret)) \<or>
   s_tokens (fst (start_visible_agent E q i s user agent)) = s_tokens s"
proof -
  have check: "check_model cx md msg s = Inl stop \<Longrightarrow> s_tokens (fst stop) = s_tokens s" for cx md msg stop
    by (auto simp: check_model_def count_allowlist_error_def split: if_splits sum.splits)
  show ?thesis
    by (auto simp: start_visible_agent_def issue_tokens or_500_def Let_def check split: sum.split)
qed

text \<open>C12: a start that gets as far as drawing a runtime token leaves it valid, also when the sandbox then
  fails and the caller is told so: whoever holds that token opens a runtime connection for the agent.\<close>

theorem failed_start_leaves_valid_token:
  assumes "dispatch host E RStartAgent q s = (s', resp)" "s_tokens s' \<noteq> s_tokens s" "TrimSpace (q_pathvalue q ''id'') \<noteq> []"
    and "upgraded host' handshake q'" "random_hex (q_rnd q 0) = Inr (bearer_token (q_authorization q'))"
      "bearer_token (q_authorization q') \<noteq> []"
  shows "runtime_hello host' handshake q' (Some (hello (q_pathvalue q ''id'') name)) s' = Accepted (q_pathvalue q ''id'')"
proof -
  from assms(1,2) have "s_tokens s' = (s_tokens s)(q_pathvalue q ''id'' \<mapsto> bearer_token (q_authorization q'))"
    using start_tokens [of E q "q_pathvalue q ''id''" s] assms(5)
    by (auto simp: handleStartAgent_def with_agent_def with_user_def Let_def split: sum.splits) (metis fst_conv)+
  with assms(3,4,6) show ?thesis
    by (simp add: runtime_hello_def hello_def validRuntimeToken_def Let_def)
qed

definition sample_failing :: "unit api_env" where
  "sample_failing = sample_api\<lparr>e_Start := (\<lambda>cx request w. (w, Inl (ErrNew ''no cluster'')))\<rparr>"

theorem failed_start_leaves_valid_token_witness:
  "let (s', resp) = dispatch Some sample_failing RStartAgent ((sample_request ''tb'')\<lparr>q_pathvalue := (\<lambda>k. ''g1'')\<rparr>) sample_server
   in rp_Status resp = 500 \<and>
      runtime_hello Some (\<lambda>q. True) (sample_request ''72'') (Some (hello ''g1'' ''nanoclaw'')) s' = Accepted ''g1''"
proof -
  let ?q = "(sample_request ''tb'')\<lparr>q_pathvalue := (\<lambda>k. ''g1'')\<rparr>"
  let ?run = "dispatch Some sample_failing RStartAgent ?q sample_server"
  have status: "rp_Status (snd ?run) = 500" by code_simp
  have "s_tokens (fst ?run) ''g1'' \<noteq> s_tokens sample_server ''g1''" by code_simp
  then have tokens: "s_tokens (fst ?run) \<noteq> s_tokens sample_server" by fastforce
  have "upgraded Some (\<lambda>q. True) (sample_request ''72'')" "bearer_token (q_authorization (sample_request ''72'')) \<noteq> []"
    "TrimSpace (q_pathvalue ?q ''id'') \<noteq> []" "random_hex (q_rnd ?q 0) = Inr (bearer_token (q_authorization (sample_request ''72'')))"
    by code_simp+
  from failed_start_leaves_valid_token [OF surjective_pairing tokens this(3,1,4,2), of "''nanoclaw''"] status show ?thesis
    by (simp del: dispatch.simps add: case_prod_beta)
qed

lemma GetAgent_updated:
  "GetAgent None i m = Inr agent \<Longrightarrow>
     GetAgent None i (fst (UpdateAgentState None now i st m)) = Inr (agent\<lparr>a_State := st, a_UpdatedAt := now\<rparr>)"
  by (auto simp: GetAgent_def UpdateAgentState_def find_or_not_found_def update_first_def split: option.splits)

section \<open>A connection that is replaced\<close>

text \<open>The handlers of the runtime connections move the server and the registry: the calls of \<open>Register\<close> and
  \<open>Unregister\<close>, and the goroutines inside them, are events of the registry; between them a handler
  marks its agent as running and, when its read fails, as idle.\<close>

datatype link_event = Registry gw_event | Opened Request string | ReadFailed Request string go_error

fun link_step :: "link_event \<Rightarrow> 'w Server \<times> RuntimeRegistry \<Rightarrow> ('w Server \<times> RuntimeRegistry) option" where
  "link_step (Registry e) (s, g) = map_option (Pair s) (gw_event_step e g)"
| "link_step (Opened q agentID) (s, g) = Some (runtime_opened q agentID s, g)"
| "link_step (ReadFailed q agentID err) (s, g) = Some (runtime_closed q agentID err s, g)"

fun link_exec :: "link_event list \<Rightarrow> 'w Server \<times> RuntimeRegistry \<Rightarrow> ('w Server \<times> RuntimeRegistry) option" where
  "link_exec [] sg = Some sg"
| "link_exec (e # es) sg = (case link_step e sg of None \<Rightarrow> None | Some sg1 \<Rightarrow> link_exec es sg1)"

text \<open>Calls about which connection an agent has.\<close>

fun reconnects :: "string \<Rightarrow> gw_op \<Rightarrow> bool" where
  "reconnects i (Register agentID conn) = (agentID = i)"
| "reconnects i (Unregister agentID conn) = (agentID = i)"
| "reconnects i op = False"

fun calm_pc :: "string \<Rightarrow> pc \<Rightarrow> bool" where
  "calm_pc i (Enter op) = (\<not> reconnects i op)"
| "calm_pc i p = True"

fun calm_event :: "string \<Rightarrow> gw_event \<Rightarrow> bool" where
  "calm_event i (Call t op) = (\<not> reconnects i op)"
| "calm_event i (Run t c) = True"

definition calm :: "string \<Rightarrow> nat \<Rightarrow> nat \<Rightarrow> RuntimeRegistry \<Rightarrow> bool" where
  "calm i new old g \<longleftrightarrow> gw_runtimes g i = Some new \<and> old \<in> set (gw_closed g) \<and> (\<forall>t. calm_pc i (gw_pc g t))"

lemma calm_enter:
  assumes "calm i new old g" "\<not> reconnects i op" "enter t op g = Some g'"
  shows "calm i new old g'"
  using assms
  by (cases op) (auto simp: calm_def step_Register_def step_Unregister_def step_SendTask_def step_Dispatch_def Let_def
      split: if_splits option.splits)

lemma calm_step:
  assumes g: "calm i new old g" and e: "calm_event i e" and step: "gw_event_step e g = Some g'"
  shows "calm i new old g'"
proof (cases e)
  case (Call t op)
  with assms show ?thesis by (auto simp: calm_def split: pc.splits)
next
  case (Run t c)
  have pc: "calm_pc i (gw_pc g t)" using g by (simp add: calm_def)
  show ?thesis
  proof (cases "gw_pc g t")
    case (Enter op)
    with Run step pc show ?thesis by (auto intro: calm_enter [OF g])
  qed (use Run step g in \<open>auto simp: calm_def fail_turn_def removeWaiter_def Let_def
        split: if_splits option.splits list.splits prod.splits\<close>)
qed

lemma calm_link:
  "calm i new old g \<Longrightarrow> list_all (calm_event i) es \<Longrightarrow> link_exec (map Registry es) (s, g) = Some (s', g') \<Longrightarrow>
     calm i new old g' \<and> s' = s"
  by (induction es arbitrary: g) (auto split: option.splits dest: calm_step)

lemma link_exec_append:
  "link_exec (es @ es') sg = (case link_exec es sg of None \<Rightarrow> None | Some sg1 \<Rightarrow> link_exec es' sg1)"
  by (induction es arbitrary: sg) (auto split: option.splits)

text \<open>C19: the end of a connection marks its agent idle, whoever else is connected. A runtime opens a new
  connection for an agent that has another one: the registry puts it in the place of the old one,
  which it closes, and the agent is marked running; then the read on the old connection fails and its
  handler unregisters it. Whatever else the registry does meanwhile for others, in the end the new
  connection is the agent's, and the store says that the agent is idle.\<close>

theorem replaced_runtime_marks_idle:
  assumes "gw_runtimes g i = Some old" "old \<noteq> new" "\<forall>t. calm_pc i (gw_pc g t)"
    and "list_all (calm_event i) es" "list_all (calm_event i) es'"
    and "link_exec ([Registry (Call t (Register i new)), Registry (Run t c)] @ map Registry es @ [Opened qn i] @
        map Registry es' @ [ReadFailed qo i err, Registry (Call u (Unregister i old)), Registry (Run u c')]) (s, g)
      = Some (s', g')"
    and "GetAgent None i (s_store s) = Inr agent" "q_ctx qn 0 = None" "q_ctx qo 1 = None"
  shows "old \<in> set (gw_closed g') \<and> gw_runtimes g' i = Some new \<and>
    map_sum id a_State (GetAgent None i (s_store s')) = Inr ''idle''"
proof -
  from assms(6) obtain g1 g2 s2 where r1: "gw_event_step (Call t (Register i new)) g = Some g1"
    and r2: "gw_event_step (Run t c) g1 = Some g2"
    and r3: "link_exec (map Registry es @ [Opened qn i] @ map Registry es' @
        [ReadFailed qo i err, Registry (Call u (Unregister i old)), Registry (Run u c')]) (s, g2) = Some (s', g')"
    by (auto split: option.splits simp del: gw_event_step.simps)
  have g1: "g1 = goto t (Enter (Register i new)) g" using r1 by (auto split: pc.splits)
  have c2: "calm i new old g2"
    using r2 assms(1-3) by (auto simp: g1 calm_def step_Register_def Let_def split: if_splits)
  from r3 obtain s3 g3 where e3: "link_exec (map Registry es) (s, g2) = Some (s3, g3)"
    and r4: "link_exec (map Registry es' @ [ReadFailed qo i err, Registry (Call u (Unregister i old)), Registry (Run u c')])
      (runtime_opened qn i s3, g3) = Some (s', g')"
    by (auto simp: link_exec_append split: option.splits)
  from calm_link [OF c2 assms(4) e3] have c3: "calm i new old g3" "s3 = s" by blast+
  from r4 obtain s4 g4 where e4: "link_exec (map Registry es') (runtime_opened qn i s, g3) = Some (s4, g4)"
    and r5: "link_exec [ReadFailed qo i err, Registry (Call u (Unregister i old)), Registry (Run u c')] (s4, g4) = Some (s', g')"
    unfolding link_exec_append c3(2) by (auto split: option.splits)
  from calm_link [OF c3(1) assms(5) e4] have c4: "calm i new old g4" and s4: "s4 = runtime_opened qn i s" by blast+
  from r5 have s': "s' = runtime_closed qo i err (runtime_opened qn i s)"
    by (auto simp: s4 split: option.splits)
  have "old \<in> set (gw_closed g') \<and> gw_runtimes g' i = Some new"
    using r5 c4 assms(2) by (auto simp: calm_def step_Unregister_def split: option.splits if_splits pc.splits)
  moreover have "map_sum id a_State (GetAgent None i (s_store s')) = Inr ''idle''"
    using assms(7-9) by (simp add: s' runtime_opened_def runtime_closed_def GetAgent_updated)
  ultimately show ?thesis by blast
qed

definition sample_link :: RuntimeRegistry where
  "sample_link = NewRuntimeRegistry\<lparr>gw_runtimes := [''g1'' \<mapsto> 7]\<rparr>"

theorem replaced_runtime_marks_idle_witness:
  "case link_exec ([Registry (Call 2 (Register ''g1'' 8)), Registry (Run 2 go_on), Registry (Run 2 go_on),
       Opened (sample_request []) ''g1'', ReadFailed (sample_request []) ''g1'' ErrNotFound,
       Registry (Call 1 (Unregister ''g1'' 7)), Registry (Run 1 go_on)]) (sample_server, sample_link) of
     None \<Rightarrow> False
   | Some (s', g') \<Rightarrow> gw_runtimes g' ''g1'' = Some 8 \<and> map_sum id a_State (GetAgent None ''g1'' (s_store s')) = Inr ''idle''"
proof -
  let ?es = "[Registry (Call 2 (Register ''g1'' 8)), Registry (Run 2 go_on), Registry (Run 2 go_on),
       Opened (sample_request []) ''g1'', ReadFailed (sample_request []) ''g1'' ErrNotFound,
       Registry (Call 1 (Unregister ''g1'' 7)), Registry (Run 1 go_on)]"
  have "case link_exec ?es (sample_server, sample_link) of None \<Rightarrow> False | Some sg \<Rightarrow> True" by code_simp
  then obtain s' g' where run: "link_exec ?es (sample_server, sample_link) = Some (s', g')"
    by (auto split: option.splits)
  have "old \<in> set (gw_closed g') \<and> gw_runtimes g' ''g1'' = Some 8 \<and>
      map_sum id a_State (GetAgent None ''g1'' (s_store s')) = Inr ''idle''" if "old = 7" for old
    by (rule replaced_runtime_marks_idle [where g = sample_link and es = "[Run 2 go_on]" and es' = "[]" and t = 2 and c = go_on
          and u = 1 and c' = go_on and qn = "sample_request []" and qo = "sample_request []" and err = ErrNotFound and
          s = sample_server and agent = sample_agent])
       (use run that in \<open>simp_all add: sample_link_def NewRuntimeRegistry_def GetAgent_def find_or_not_found_def sample_defs
          del: link_exec.simps\<close>)
  with run show ?thesis by simp
qed

section \<open>A stop while a start is under way\<close>

lemma UpdateAgentState_state:
  "snd (UpdateAgentState cx now i st m) = Inr agent \<Longrightarrow> \<exists>x. GetAgent None i (fst (UpdateAgentState cx now i st m)) = Inr x"
  by (auto simp: GetAgent_def UpdateAgentState_def find_or_not_found_def update_first_def split: option.splits if_splits)

text \<open>C13: A stop that comes while the sandbox is being started does not stop the agent. The start has drawn
  its token and waits for the sandbox; a stop in that time is answered with success and takes the
  token away; the start then ends with success too: the agent is recorded as running in the sandbox
  that was just started, and no token in the world connects its runtime.\<close>

theorem stop_during_start_strands_runtime:
  assumes "handleStopAgent E qs s1 = (s2, r2)" "rp_Status r2 = 200" "q_pathvalue qs ''id'' = st_AgentID request"
    and "launch_agent E q user agent request s2 = (s3, r3)" "rp_Status r3 = 202" "q_ctx q 7 = None"
  shows "(\<exists>lease. e_Start E (q_ctx q 6) request (s_sandbox s2) = (s_sandbox s3, Inr lease)) \<and>
    map_sum id a_State (GetAgent None (st_AgentID request) (s_store s3)) = Inr ''running'' \<and>
    runtime_hello host handshake q' msg s3 \<noteq> Accepted (st_AgentID request)"
proof -
  let ?i = "st_AgentID request"
  from assms(1-3) have "s_tokens s2 ?i = None \<and> (\<exists>stopped. GetAgent None ?i (s_store s2) = Inr stopped)"
    by (auto simp: handleStopAgent_def or_500_def store_call_def Let_def case_prod_beta
        split: sum.splits if_splits prod.splits elim!: with_agent_ok)
       (rule UpdateAgentState_state, assumption)
  then obtain stopped where gone: "s_tokens s2 ?i = None" and stopped: "GetAgent None ?i (s_store s2) = Inr stopped" by blast
  from launch_agent_ok [OF assms(4,5)] obtain w lease where
    w: "e_Start E (q_ctx q 6) request (s_sandbox s2) = (w, Inr lease)" "s_sandbox s3 = w" "s_tokens s3 = s_tokens s2" .
  have "s_store s3 = fst (UpdateAgentState None (q_now q 3) ?i ''running'' (s_store s2))"
    using assms(4,6) w(1) by (auto simp: launch_agent_def store_call_def Let_def case_prod_beta)
  with GetAgent_updated [OF stopped] have "map_sum id a_State (GetAgent None ?i (s_store s3)) = Inr ''running''" by simp
  moreover have "runtime_hello host handshake q' msg s3 \<noteq> Accepted ?i"
    using gone w(3) by (auto simp: runtime_hello_def validRuntimeToken_def Let_def split: option.splits)
  ultimately show ?thesis using w by blast
qed

definition sample_start :: StartRequest where
  "sample_start = start_request ''g1'' (sample_account ''u2'' ''bob'' ''user'' False) sample_agent
     \<lparr>gs_Enabled = False, gs_BaseURL = [], gs_SecretName = [], gs_SecretKey = [], gs_UpdatedAt = 0\<rparr> ''72'' Map.empty"

theorem stop_during_start_strands_runtime_witness:
  "let s2 = fst (handleStopAgent sample_api ((sample_request ''tb'')\<lparr>q_pathvalue := (\<lambda>k. ''g1'')\<rparr>) (sample_server\<lparr>s_tokens := [''g1'' \<mapsto> ''72'']\<rparr>));
       s3 = fst (launch_agent sample_api (sample_request ''tb'') (sample_account ''u2'' ''bob'' ''user'' False) sample_agent sample_start s2)
   in map_sum id a_State (GetAgent None ''g1'' (s_store s3)) = Inr ''running'' \<and>
      runtime_hello Some (\<lambda>q. True) (sample_request ''72'') (Some (hello ''g1'' ''nanoclaw'')) s3 \<noteq> Accepted ''g1''"
proof -
  let ?qs = "(sample_request ''tb'')\<lparr>q_pathvalue := (\<lambda>k. ''g1'')\<rparr>"
  let ?stop = "handleStopAgent sample_api ?qs (sample_server\<lparr>s_tokens := [''g1'' \<mapsto> ''72'']\<rparr>)"
  let ?launch = "launch_agent sample_api (sample_request ''tb'') (sample_account ''u2'' ''bob'' ''user'' False) sample_agent sample_start (fst ?stop)"
  have "rp_Status (snd ?stop) = 200" by code_simp
  moreover have "rp_Status (snd ?launch) = 202"
    by (simp add: launch_agent_def sample_api_def mock_Start_def Let_def case_prod_beta)
  moreover have "st_AgentID sample_start = ''g1''" by code_simp
  ultimately have "rp_Status (snd ?stop) = 200" "rp_Status (snd ?launch) = 202" "st_AgentID sample_start = ''g1''" by blast+
  with stop_during_start_strands_runtime [OF surjective_pairing this(1) _ surjective_pairing this(2)] show ?thesis
    by (simp add: Let_def)
qed

end
