(* ===== verification/Controller.thy ===== *)
theory Controller
  imports Pods PluginEval
begin

text \<open>
  \<open>internal/controllers/mcpserver_controller.go\<close>: the reconciler that turns an \<open>MCPServer\<close> resource
  into a deployment, a service and a network policy, and the resources of \<open>k8s/types.go\<close> it reads.
  Its view of the cluster is what its field manager has applied: server-side apply with \<open>Force\<close> gives
  every field it names the value it names. A call of the API server succeeds unless
  \<open>fault verb kind name\<close> gives an error.
\<close>

section \<open>Resources\<close>

datatype mcp_env = Value string | ValueFrom "(string \<times> string) option"

record MCPServer =
  ms_Name :: string
  ms_Image :: string
  ms_Port :: int
  ms_Replicas :: int
  ms_Env :: "(string \<times> mcp_env) list"
  ms_Limits :: "(string \<rightharpoonup> string) option"
  ms_Requests :: "(string \<rightharpoonup> string) option"
  ms_ServiceAccountName :: string
  ms_EgressCIDRs :: "string list"
  ms_Phase :: string
  ms_ServiceURL :: string

record Deployment =
  dy_Labels :: "string \<rightharpoonup> string"
  dy_Replicas :: int
  dy_Selector :: "string \<rightharpoonup> string"
  dy_PodLabels :: "string \<rightharpoonup> string"
  dy_Image :: string
  dy_ContainerPort :: int
  dy_Env :: "(string \<times> mcp_env) list"
  dy_Resources :: "((string \<rightharpoonup> string) option \<times> (string \<rightharpoonup> string) option) option"
  dy_ServiceAccountName :: "string option"

record Service =
  sv_Labels :: "string \<rightharpoonup> string"
  sv_Type :: string
  sv_Selector :: "string \<rightharpoonup> string"
  sv_Port :: int
  sv_TargetPort :: int

record mcpPolicy =
  mp_Labels :: "string \<rightharpoonup> string"
  mp_PodSelector :: "string \<rightharpoonup> string"
  mp_IngressFrom :: "string \<rightharpoonup> string"
  mp_EgressTo :: "string list"
  mp_PolicyTypes :: "string list"

text \<open>A namespaced name is a pair; \<open>mw_servers\<close> are the resources at the API server.\<close>

record McpWorld =
  mw_deployments :: "string \<times> string \<rightharpoonup> Deployment"
  mw_services :: "string \<times> string \<rightharpoonup> Service"
  mw_policies :: "string \<times> string \<rightharpoonup> mcpPolicy"
  mw_servers :: "string \<times> string \<rightharpoonup> MCPServer"

section \<open>What a resource asks for\<close>

abbreviation fieldManager :: string where "fieldManager \<equiv> ''shclop-mcp-controller''"

definition resourceName :: "string \<Rightarrow> string" where
  "resourceName crName = ''mcp-'' @ crName"

definition selectorLabels :: "string \<Rightarrow> string \<rightharpoonup> string" where
  "selectorLabels crName = [''shclop.io/managed-by'' \<mapsto> fieldManager, ''shclop.io/mcp-server'' \<mapsto> crName]"

definition deployment_of :: "MCPServer \<Rightarrow> Deployment" where
  "deployment_of cr =
     (let labels = selectorLabels (ms_Name cr)
      in \<lparr>dy_Labels = labels, dy_Replicas = (if ms_Replicas cr \<le> 0 then 1 else ms_Replicas cr),
          dy_Selector = labels, dy_PodLabels = labels, dy_Image = ms_Image cr, dy_ContainerPort = ms_Port cr,
          dy_Env = ms_Env cr,
          dy_Resources = (if ms_Limits cr \<noteq> None \<or> ms_Requests cr \<noteq> None then Some (ms_Limits cr, ms_Requests cr) else None),
          dy_ServiceAccountName = (if ms_ServiceAccountName cr = [] then None else Some (ms_ServiceAccountName cr))\<rparr>)"

definition service_of :: "MCPServer \<Rightarrow> Service" where
  "service_of cr =
     (let labels = selectorLabels (ms_Name cr)
      in \<lparr>sv_Labels = labels, sv_Type = ''ClusterIP'', sv_Selector = labels, sv_Port = ms_Port cr, sv_TargetPort = ms_Port cr\<rparr>)"

definition policy_of :: "MCPServer \<Rightarrow> mcpPolicy" where
  "policy_of cr =
     (let labels = selectorLabels (ms_Name cr)
      in \<lparr>mp_Labels = labels, mp_PodSelector = labels, mp_IngressFrom = [''shclop.io/role'' \<mapsto> ''agent-runtime''],
          mp_EgressTo = (if ms_EgressCIDRs cr = [] then [''0.0.0.0/0''] else ms_EgressCIDRs cr),
          mp_PolicyTypes = [''Ingress'', ''Egress'']\<rparr>)"

section \<open>Reconciling\<close>

type_synonym api_faults = "string \<Rightarrow> string \<Rightarrow> string \<times> string \<Rightarrow> go_error option"

definition apply_object ::
  "api_faults \<Rightarrow> string \<Rightarrow> string \<times> string \<Rightarrow> 'o \<Rightarrow> (string \<times> string \<rightharpoonup> 'o) \<Rightarrow> (string \<times> string \<rightharpoonup> 'o) \<times> unit result" where
  "apply_object fault kind at obj m =
     (case fault ''apply'' kind at of Some err \<Rightarrow> (m, Inl err) | None \<Rightarrow> (m(at \<mapsto> obj), Inr ()))"

text \<open>A deletion whose error is only logged: the object goes unless the call fails.\<close>

definition delete_object ::
  "api_faults \<Rightarrow> string \<Rightarrow> string \<times> string \<Rightarrow> (string \<times> string \<rightharpoonup> 'o) \<Rightarrow> (string \<times> string \<rightharpoonup> 'o)" where
  "delete_object fault kind at m = (case fault ''delete'' kind at of Some err \<Rightarrow> m | None \<Rightarrow> m(at := None))"

definition applyDeployment :: "api_faults \<Rightarrow> string \<Rightarrow> MCPServer \<Rightarrow> McpWorld \<Rightarrow> McpWorld \<times> unit result" where
  "applyDeployment fault ns cr w =
     (case apply_object fault ''deployment'' (ns, resourceName (ms_Name cr)) (deployment_of cr) (mw_deployments w) of
        (m, r) \<Rightarrow> (w\<lparr>mw_deployments := m\<rparr>, r))"

definition applyService :: "api_faults \<Rightarrow> string \<Rightarrow> MCPServer \<Rightarrow> McpWorld \<Rightarrow> McpWorld \<times> unit result" where
  "applyService fault ns cr w =
     (case apply_object fault ''service'' (ns, resourceName (ms_Name cr)) (service_of cr) (mw_services w) of
        (m, r) \<Rightarrow> (w\<lparr>mw_services := m\<rparr>, r))"

definition applyNetworkPolicy :: "api_faults \<Rightarrow> string \<Rightarrow> MCPServer \<Rightarrow> McpWorld \<Rightarrow> McpWorld \<times> unit result" where
  "applyNetworkPolicy fault ns cr w =
     (case apply_object fault ''networkpolicy'' (ns, resourceName (ms_Name cr)) (policy_of cr) (mw_policies w) of
        (m, r) \<Rightarrow> (w\<lparr>mw_policies := m\<rparr>, r))"

definition server_url :: "string \<Rightarrow> MCPServer \<Rightarrow> string" where
  "server_url ns cr =
     ''http://'' @ resourceName (ms_Name cr) @ ''.'' @ ns @ ''.svc.cluster.local:'' @ Itoa (ms_Port cr)"

text \<open>The object is fetched again, so that only its status changes.\<close>

definition updateStatus :: "api_faults \<Rightarrow> string \<Rightarrow> MCPServer \<Rightarrow> McpWorld \<Rightarrow> McpWorld" where
  "updateStatus fault ns cr w =
     (let at = (ns, ms_Name cr) in
      if fault ''get'' ''mcpserver'' at \<noteq> None \<or> fault ''updatestatus'' ''mcpserver'' at \<noteq> None then w
      else
        (case mw_servers w at of
           None \<Rightarrow> w
         | Some uo \<Rightarrow> w\<lparr>mw_servers := (mw_servers w)(at \<mapsto> uo\<lparr>ms_ServiceURL := server_url ns cr, ms_Phase := ''Ready''\<rparr>)\<rparr>))"

definition cleanup :: "api_faults \<Rightarrow> string \<Rightarrow> string \<Rightarrow> McpWorld \<Rightarrow> McpWorld" where
  "cleanup fault ns crName w =
     (let at = (ns, resourceName crName)
      in w\<lparr>mw_deployments := delete_object fault ''deployment'' at (mw_deployments w),
           mw_services := delete_object fault ''service'' at (mw_services w),
           mw_policies := delete_object fault ''networkpolicy'' at (mw_policies w)\<rparr>)"

text \<open>What the informer's cache holds under a key; \<open>split\<close> takes a key into namespace and name.\<close>

datatype cached = WrongType | BadObject go_error | Server MCPServer

definition apply_all :: "api_faults \<Rightarrow> string \<Rightarrow> MCPServer \<Rightarrow> McpWorld \<Rightarrow> McpWorld \<times> unit result" where
  "apply_all fault ns cr w =
     (case applyDeployment fault ns cr w of
        (w1, Inl err) \<Rightarrow> (w1, Inl (ErrWrap ''apply deployment: '' err []))
      | (w1, Inr _) \<Rightarrow>
          (case applyService fault ns cr w1 of
             (w2, Inl err) \<Rightarrow> (w2, Inl (ErrWrap ''apply service: '' err []))
           | (w2, Inr _) \<Rightarrow>
               (case applyNetworkPolicy fault ns cr w2 of
                  (w3, Inl err) \<Rightarrow> (w3, Inl (ErrWrap ''apply networkpolicy: '' err []))
                | (w3, Inr _) \<Rightarrow> (updateStatus fault ns cr w3, Inr ()))))"

definition reconcile ::
  "(string \<Rightarrow> (string \<times> string) result) \<Rightarrow> api_faults \<Rightarrow> string \<Rightarrow> (string \<rightharpoonup> cached) \<Rightarrow> string \<Rightarrow> McpWorld
     \<Rightarrow> McpWorld \<times> unit result" where
  "reconcile split fault namespace cache key w =
     (case split key of
        Inl err \<Rightarrow> (w, Inl (ErrWrap (''split key '' @ Quote key @ '': '') err []))
      | Inr (ns, name) \<Rightarrow>
          (case cache key of
             None \<Rightarrow> (cleanup fault ns name w, Inr ())
           | Some WrongType \<Rightarrow> (w, Inr ())
           | Some (BadObject err) \<Rightarrow> (w, Inr ())
           | Some (Server cr) \<Rightarrow> apply_all fault namespace cr w))"

text \<open>One item of the work queue: \<open>None\<close> when the queue shuts down. What the worker then tells the
  queue, in order, and whether it goes on.\<close>

datatype queue_call = AddRateLimited string | Forget string | Done string

definition processNextItem ::
  "(string \<Rightarrow> (string \<times> string) result) \<Rightarrow> api_faults \<Rightarrow> string \<Rightarrow> (string \<rightharpoonup> cached) \<Rightarrow> string option \<Rightarrow> McpWorld
     \<Rightarrow> McpWorld \<times> queue_call list \<times> bool" where
  "processNextItem split fault namespace cache got w =
     (case got of
        None \<Rightarrow> (w, [], False)
      | Some key \<Rightarrow>
          (case reconcile split fault namespace cache key w of
             (w', Inl err) \<Rightarrow> (w', [AddRateLimited key, Done key], True)
           | (w', Inr _) \<Rightarrow> (w', [Forget key, Done key], True)))"

text \<open>A worker that is handed these keys one after the other.\<close>

definition work_through ::
  "(string \<Rightarrow> (string \<times> string) result) \<Rightarrow> api_faults \<Rightarrow> string \<Rightarrow> (string \<rightharpoonup> cached) \<Rightarrow> string list \<Rightarrow> McpWorld \<Rightarrow> McpWorld" where
  "work_through split fault namespace cache keys w =
     foldl (\<lambda>w key. fst (processNextItem split fault namespace cache (Some key) w)) w keys"

section \<open>What a worker achieves\<close>

text \<open>The children of a resource name in the namespace: what the cache asks for, or nothing.\<close>

definition in_sync :: "string \<Rightarrow> string \<Rightarrow> MCPServer option \<Rightarrow> McpWorld \<Rightarrow> bool" where
  "in_sync ns crName want w \<longleftrightarrow>
     mw_deployments w (ns, resourceName crName) = map_option deployment_of want \<and>
     mw_services w (ns, resourceName crName) = map_option service_of want \<and>
     mw_policies w (ns, resourceName crName) = map_option policy_of want"

definition wanted :: "(string \<rightharpoonup> cached) \<Rightarrow> string \<Rightarrow> MCPServer option" where
  "wanted cache key = (case cache key of Some (Server cr) \<Rightarrow> Some cr | _ \<Rightarrow> None)"

text \<open>The informer delivers resources of one namespace, each under its own key.\<close>

definition cache_ok :: "(string \<Rightarrow> (string \<times> string) result) \<Rightarrow> string \<Rightarrow> (string \<rightharpoonup> cached) \<Rightarrow> string list \<Rightarrow> bool" where
  "cache_ok split ns cache keys \<longleftrightarrow>
     (\<forall>key\<in>set keys. \<exists>name. split key = Inr (ns, name) \<and> (cache key = None \<or> (\<exists>cr. cache key = Some (Server cr) \<and> ms_Name cr = name)) \<and>
        (\<forall>key'\<in>set keys. split key' = Inr (ns, name) \<longrightarrow> key' = key))"

lemmas apply_defs = applyDeployment_def applyService_def applyNetworkPolicy_def apply_object_def

lemma updateStatus_children [simp]:
  "mw_deployments (updateStatus fault ns cr w) = mw_deployments w"
  "mw_services (updateStatus fault ns cr w) = mw_services w"
  "mw_policies (updateStatus fault ns cr w) = mw_policies w"
  by (simp_all add: updateStatus_def Let_def split: option.split)

lemma apply_all_Inr:
  "apply_all fault ns cr w = (w', Inr u) \<Longrightarrow> in_sync ns (ms_Name cr) (Some cr) w'"
  by (auto simp: apply_all_def apply_defs in_sync_def split: option.splits prod.splits)

lemma apply_all_other:
  "at \<noteq> (ns, resourceName (ms_Name cr)) \<Longrightarrow> apply_all fault ns cr w = (w', r) \<Longrightarrow>
     mw_deployments w' at = mw_deployments w at \<and> mw_services w' at = mw_services w at \<and> mw_policies w' at = mw_policies w at"
  by (auto simp: apply_all_def apply_defs split: option.splits prod.splits)

lemma resourceName_inj [simp]: "resourceName a = resourceName b \<longleftrightarrow> a = b"
  by (simp add: resourceName_def)

text \<open>An item is forgotten by the queue only when it is done with: if a worker forgets the key of a
  resource, the resource's deployment, service and network policy are what it asks for, whatever they
  were before and whichever other calls failed; if a call failed, the key is queued again.\<close>

theorem forgotten_means_applied:
  assumes "cache key = Some (Server cr)" "split key = Inr (ns0, name)"
    and "processNextItem split fault namespace cache (Some key) w = (w', calls, go)"
  shows "go \<and> (calls = [AddRateLimited key, Done key] \<or>
    calls = [Forget key, Done key] \<and> in_sync namespace (ms_Name cr) (Some cr) w')"
  using assms by (auto simp: processNextItem_def reconcile_def split: prod.splits sum.splits dest: apply_all_Inr)

lemma cache_okD:
  assumes "cache_ok split ns cache keys" "key \<in> set keys"
  shows "\<exists>name. split key = Inr (ns, name) \<and> (cache key = None \<or> (\<exists>cr. cache key = Some (Server cr) \<and> ms_Name cr = name)) \<and>
        (\<forall>key'\<in>set keys. split key' = Inr (ns, name) \<longrightarrow> key' = key)"
  using assms unfolding cache_ok_def by (rule bspec)

lemma item_same:
  assumes "split key = Inr (ns, name)" "cache key = None \<or> (\<exists>cr. cache key = Some (Server cr) \<and> ms_Name cr = name)"
  shows "in_sync ns name (wanted cache key) (fst (processNextItem split (\<lambda>verb kind at. None) ns cache (Some key) w))"
  using assms
  by (auto simp: processNextItem_def reconcile_def wanted_def cleanup_def delete_object_def in_sync_def apply_all_def
      apply_defs Let_def)

lemma item_other:
  assumes "split key = Inr (ns, other)" "cache key = None \<or> (\<exists>cr. cache key = Some (Server cr) \<and> ms_Name cr = other)" "name \<noteq> other"
  shows "in_sync ns name want (fst (processNextItem split fault ns cache (Some key) w)) = in_sync ns name want w"
proof -
  obtain w' r where r: "reconcile split fault ns cache key w = (w', r)" by fastforce
  have "mw_deployments w' at = mw_deployments w at \<and> mw_services w' at = mw_services w at \<and> mw_policies w' at = mw_policies w at"
    if "at = (ns, resourceName name)" for at
    using assms r that apply_all_other [of at ns _ fault w w' r]
    by (auto simp: reconcile_def cleanup_def delete_object_def Let_def split: option.splits)
  with r show ?thesis by (cases r) (simp_all add: processNextItem_def in_sync_def)
qed

lemma cache_ok_butlast:
  assumes "cache_ok split ns cache (keys @ [k])"
  shows "cache_ok split ns cache keys"
  unfolding cache_ok_def
proof
  fix key assume "key \<in> set keys"
  then have "key \<in> set (keys @ [k])" by simp
  from cache_okD [OF assms this]
  show "\<exists>name. split key = Inr (ns, name) \<and> (cache key = None \<or> (\<exists>cr. cache key = Some (Server cr) \<and> ms_Name cr = name)) \<and>
      (\<forall>key'\<in>set keys. split key' = Inr (ns, name) \<longrightarrow> key' = key)"
    by (metis UnI1 set_append)
qed

text \<open>A worker that is given the keys of the changed resources brings the cluster in line with the
  cache, in whatever order and however often the keys come, when no call of the API server fails:
  every resource of those keys has the children it asks for, a deleted one has none, and the children
  of every other name are as they were.\<close>

theorem worker_converges:
  assumes "cache_ok split ns cache keys"
  shows "(\<forall>key\<in>set keys. \<exists>name. split key = Inr (ns, name) \<and>
      in_sync ns name (wanted cache key) (work_through split (\<lambda>verb kind at. None) ns cache keys w)) \<and>
    (\<forall>name want. Inr (ns, name) \<notin> split ` set keys \<longrightarrow>
      in_sync ns name want (work_through split (\<lambda>verb kind at. None) ns cache keys w) = in_sync ns name want w)"
  using assms
proof (induction keys rule: rev_induct)
  case Nil
  then show ?case by (simp add: work_through_def)
next
  case (snoc k keys)
  let ?w = "work_through split (\<lambda>verb kind at. None) ns cache keys w"
  let ?w' = "work_through split (\<lambda>verb kind at. None) ns cache (keys @ [k]) w"
  have step: "?w' = fst (processNextItem split (\<lambda>verb kind at. None) ns cache (Some k) ?w)" by (simp add: work_through_def)
  have "k \<in> set (keys @ [k])" by simp
  from cache_okD [OF snoc.prems this] obtain other where k: "split k = Inr (ns, other)"
      "cache k = None \<or> (\<exists>cr. cache k = Some (Server cr) \<and> ms_Name cr = other)"
      "\<And>key. key \<in> set keys \<Longrightarrow> split key = Inr (ns, other) \<Longrightarrow> key = k"
    by (metis UnI1 set_append)
  note ok = cache_ok_butlast [OF snoc.prems]
  have ih: "\<exists>name. split key = Inr (ns, name) \<and> in_sync ns name (wanted cache key) ?w" if "key \<in> set keys" for key
    using snoc.IH [OF ok] that by blast
  have rest: "in_sync ns name want ?w = in_sync ns name want w" if "Inr (ns, name) \<notin> split ` set keys" for name want
    using snoc.IH [OF ok] that by blast
  have "\<exists>name. split key = Inr (ns, name) \<and> in_sync ns name (wanted cache key) ?w'" if "key \<in> set (keys @ [k])" for key
  proof (cases "key = k")
    case True
    with k(1) item_same [of split k ns other cache, OF k(1,2)] show ?thesis unfolding step by blast
  next
    case False
    with that ih obtain name where "split key = Inr (ns, name)" "in_sync ns name (wanted cache key) ?w" by auto
    moreover from this(1) False k(3) [of key] that have "name \<noteq> other" by auto
    ultimately show ?thesis unfolding step using item_other [of split k ns other cache, OF k(1,2)] by blast
  qed
  moreover have "in_sync ns name want ?w' = in_sync ns name want w" if "Inr (ns, name) \<notin> split ` set (keys @ [k])" for name want
  proof -
    from that k(1) have "name \<noteq> other" by auto
    moreover from that have "Inr (ns, name) \<notin> split ` set keys" by simp
    ultimately show ?thesis unfolding step using item_other [of split k ns other cache, OF k(1,2)] rest by blast
  qed
  ultimately show ?case by blast
qed

text \<open>A deletion that fails is never tried again: when the API server refuses to delete the deployment
  of a resource that is gone, the worker still forgets the key, and the deployment stays.\<close>

theorem failed_cleanup_forgotten:
  assumes "cache key = None" "split key = Inr (ns, name)"
    and "fault ''delete'' ''deployment'' (ns, resourceName name) = Some err"
  shows "\<exists>w'. processNextItem split fault namespace cache (Some key) w = (w', [Forget key, Done key], True) \<and>
    mw_deployments w' (ns, resourceName name) = mw_deployments w (ns, resourceName name)"
  using assms by (simp add: processNextItem_def reconcile_def cleanup_def delete_object_def Let_def)

section \<open>The agents' side\<close>

text \<open>A pod may open a connection to the pods of a policy when it carries the labels its one ingress rule
  selects.\<close>

definition ingress_allows :: "mcpPolicy \<Rightarrow> (string \<rightharpoonup> string) \<Rightarrow> bool" where
  "ingress_allows pol labels \<longleftrightarrow> (\<forall>k v. mp_IngressFrom pol k = Some v \<longrightarrow> labels k = Some v)"

lemma RuntimeLabels_role: "RuntimeLabels ul a r sb ''shclop.io/role'' = None"
  by (simp add: RuntimeLabels_def put_label_def)

text \<open>C29: no agent can reach an MCP server: the policy of every MCP server lets in pods labelled with the
  role \<open>agent-runtime\<close> only, and no agent's pod has that label, whatever the request it was built for.\<close>

theorem agents_cannot_reach_mcp_servers:
  "\<not> ingress_allows (policy_of cr) (as_Labels (BuildAgentPodSpec ul req))"
  by (simp add: ingress_allows_def policy_of_def Let_def BuildAgentPodSpec_def RuntimeLabels_role)

text \<open>What the resolver of theory \<open>PluginEval\<close> sees of a resource.\<close>

definition as_seen :: "MCPServer \<Rightarrow> MCPServerCR" where
  "as_seen cr = \<lparr>mcr_Name = ms_Name cr, mcr_Port = ms_Port cr, mcr_ServiceURL = ms_ServiceURL cr\<rparr>"

text \<open>The address an agent is given is the address of the service: for a resource without a status, and
  for one whose status the controller has written for its present spec, the resolver answers the
  cluster address of the service that the controller applies, on the port it applies.\<close>

theorem resolver_finds_service:
  assumes "ms_ServiceURL cr = [] \<or> ms_ServiceURL cr = server_url ns cr"
  shows "service_url ns (as_seen cr) = ''http://'' @ resourceName (ms_Name cr) @ ''.'' @ ns @ ''.svc.cluster.local:'' @ Itoa (sv_Port (service_of cr))"
  using assms by (auto simp: service_url_def as_seen_def server_url_def service_of_def resourceName_def Let_def)

text \<open>A status that could not be updated misleads the agents: when the port of a served resource changes
  and the update of the status fails, the worker forgets the key, the service listens on the new port
  only, and the resolver still answers the old one.\<close>

theorem stale_status_misleads:
  assumes "cache key = Some (Server (cr\<lparr>ms_Port := port\<rparr>))" "split key = Inr (ns, ms_Name cr)"
    and "ms_ServiceURL cr = server_url ns cr"
    and "\<And>verb kind at. fault verb kind at = (if verb = ''updatestatus'' then Some err else None)"
  shows "\<exists>w'. processNextItem split fault ns cache (Some key) w = (w', [Forget key, Done key], True) \<and>
    map_option sv_Port (mw_services w' (ns, resourceName (ms_Name cr))) = Some port \<and>
    service_url ns (as_seen (cr\<lparr>ms_Port := port\<rparr>)) = server_url ns cr"
  using assms
  by (simp add: processNextItem_def reconcile_def apply_all_def apply_defs updateStatus_def Let_def service_of_def
      service_url_def as_seen_def server_url_def)

section \<open>A concrete resource\<close>

definition sample_mcp :: MCPServer where
  "sample_mcp = \<lparr>ms_Name = ''git'', ms_Image = ''image'', ms_Port = 80, ms_Replicas = 0, ms_Env = [(''T'', ValueFrom (Some (''s'', ''k'')))],
     ms_Limits = None, ms_Requests = None, ms_ServiceAccountName = [], ms_EgressCIDRs = [], ms_Phase = ''Ready'',
     ms_ServiceURL = ''http://mcp-git.default.svc.cluster.local:80''\<rparr>"

definition sample_world :: McpWorld where
  "sample_world = \<lparr>mw_deployments = [(''default'', ''mcp-old'') \<mapsto> deployment_of sample_mcp], mw_services = Map.empty,
     mw_policies = Map.empty, mw_servers = [(''default'', ''git'') \<mapsto> sample_mcp]\<rparr>"

definition sample_split :: "string \<Rightarrow> (string \<times> string) result" where
  "sample_split key = Inr (''default'', key)"

definition sample_cache :: "string \<rightharpoonup> cached" where
  "sample_cache = [''git'' \<mapsto> Server sample_mcp]"

lemmas sample_mcp_defs = sample_split_def sample_cache_def sample_mcp_def

theorem forgotten_means_applied_witness:
  "let run = processNextItem sample_split (\<lambda>verb kind at. None) ''default'' sample_cache (Some ''git'') sample_world
   in snd (snd run) \<and> (fst (snd run) = [AddRateLimited ''git'', Done ''git''] \<or>
      fst (snd run) = [Forget ''git'', Done ''git''] \<and> in_sync ''default'' (ms_Name sample_mcp) (Some sample_mcp) (fst run))"
  unfolding Let_def
  by (rule forgotten_means_applied [where cache = sample_cache and split = sample_split and key = "''git''"])
     (simp_all add: sample_cache_def sample_split_def)

theorem worker_converges_witness:
  "let w = work_through sample_split (\<lambda>verb kind at. None) ''default'' sample_cache [''old'', ''git'', ''old''] sample_world
   in in_sync ''default'' ''old'' None w \<and> in_sync ''default'' ''git'' (Some sample_mcp) w \<and>
      in_sync ''default'' ''b'' None w = in_sync ''default'' ''b'' None sample_world"
proof -
  have "cache_ok sample_split ''default'' sample_cache [''old'', ''git'', ''old'']"
    by (simp add: cache_ok_def sample_mcp_defs)
  note c = worker_converges [OF this, of sample_world]
  from bspec [OF conjunct1 [OF c], of "''old''"] bspec [OF conjunct1 [OF c], of "''git''"] conjunct2 [OF c]
  show ?thesis unfolding Let_def by (auto simp: wanted_def sample_split_def sample_cache_def)
qed

theorem failed_cleanup_forgotten_witness:
  "\<exists>w'. processNextItem sample_split (\<lambda>verb kind at. Some ErrNotFound) ''default'' sample_cache (Some ''old'') sample_world
       = (w', [Forget ''old'', Done ''old''], True) \<and>
     mw_deployments w' (''default'', resourceName ''old'') = mw_deployments sample_world (''default'', resourceName ''old'')"
  by (rule failed_cleanup_forgotten) (simp_all add: sample_mcp_defs)

theorem resolver_finds_service_witness:
  "service_url ''default'' (as_seen sample_mcp)
     = ''http://'' @ resourceName ''git'' @ ''.'' @ ''default'' @ ''.svc.cluster.local:'' @ Itoa (sv_Port (service_of sample_mcp))"
proof -
  have "ms_ServiceURL sample_mcp = server_url ''default'' sample_mcp" by code_simp
  with resolver_finds_service [of sample_mcp "''default''"] show ?thesis by (simp add: sample_mcp_def)
qed

theorem stale_status_misleads_witness:
  "\<exists>w'. processNextItem sample_split (\<lambda>verb kind at. if verb = ''updatestatus'' then Some ErrNotFound else None) ''default''
        [''git'' \<mapsto> Server (sample_mcp\<lparr>ms_Port := 8080\<rparr>)] (Some ''git'') sample_world = (w', [Forget ''git'', Done ''git''], True) \<and>
     map_option sv_Port (mw_services w' (''default'', resourceName (ms_Name sample_mcp))) = Some 8080 \<and>
     service_url ''default'' (as_seen (sample_mcp\<lparr>ms_Port := 8080\<rparr>)) = server_url ''default'' sample_mcp"
proof (rule stale_status_misleads)
  show "ms_ServiceURL sample_mcp = server_url ''default'' sample_mcp" by code_simp
qed (simp_all add: sample_split_def sample_mcp_def)

end
