(* ===== verification/Watch.thy ===== *)
theory Watch
  imports Controller
begin

text \<open>
  \<open>Run\<close> of the MCP server controller: the informer's events, the work queue and its workers, as a step
  relation. client-go's cache and queue are not the program's: the cache changes as it likes and then
  hands its event to the controller; the queue is a parameter under \<open>queue_law\<close>, which states what its
  documentation promises. A worker gets a key, reads the cache and applies what it read, and the
  steps of all workers, events, deliveries and delays that end interleave.
\<close>

section \<open>The queue's interface\<close>

text \<open>\<open>qo_pending\<close> are the keys to be handed out, \<open>qo_delayed\<close> those that will be added when their time has
  come, which \<open>qo_elapse\<close> lets happen, and \<open>qo_active\<close> those handed out and not yet done. A key can be all
  of these at once.\<close>

record 'q queue_ops =
  qo_Add :: "string \<Rightarrow> 'q \<Rightarrow> 'q"
  qo_AddRateLimited :: "string \<Rightarrow> 'q \<Rightarrow> 'q"
  qo_Forget :: "string \<Rightarrow> 'q \<Rightarrow> 'q"
  qo_Done :: "string \<Rightarrow> 'q \<Rightarrow> 'q"
  qo_Get :: "'q \<Rightarrow> (string \<times> 'q) option"
  qo_elapse :: "string \<Rightarrow> 'q \<Rightarrow> 'q"
  qo_pending :: "'q \<Rightarrow> string set"
  qo_delayed :: "'q \<Rightarrow> string set"
  qo_active :: "'q \<Rightarrow> string set"

text \<open>Added keys are handed out later, each to one worker at a time. A key handed out stays delayed when it
  was: its later addition is not cancelled.\<close>

definition queue_law :: "'q queue_ops \<Rightarrow> bool" where
  "queue_law Q \<longleftrightarrow>
     (\<forall>k q. qo_pending Q (qo_Add Q k q) = insert k (qo_pending Q q) \<and> qo_delayed Q (qo_Add Q k q) = qo_delayed Q q \<and>
        qo_active Q (qo_Add Q k q) = qo_active Q q) \<and>
     (\<forall>k q. qo_pending Q (qo_AddRateLimited Q k q) = qo_pending Q q \<and>
        qo_delayed Q (qo_AddRateLimited Q k q) = insert k (qo_delayed Q q) \<and>
        qo_active Q (qo_AddRateLimited Q k q) = qo_active Q q) \<and>
     (\<forall>k q. qo_pending Q (qo_elapse Q k q) = insert k (qo_pending Q q) \<and>
        qo_delayed Q (qo_elapse Q k q) = qo_delayed Q q - {k} \<and> qo_active Q (qo_elapse Q k q) = qo_active Q q) \<and>
     (\<forall>k q. qo_pending Q (qo_Forget Q k q) = qo_pending Q q \<and> qo_delayed Q (qo_Forget Q k q) = qo_delayed Q q \<and>
        qo_active Q (qo_Forget Q k q) = qo_active Q q) \<and>
     (\<forall>k q. qo_pending Q (qo_Done Q k q) = qo_pending Q q \<and> qo_delayed Q (qo_Done Q k q) = qo_delayed Q q \<and>
        qo_active Q (qo_Done Q k q) = qo_active Q q - {k}) \<and>
     (\<forall>k q q'. qo_Get Q q = Some (k, q') \<longrightarrow> k \<in> qo_pending Q q \<and> k \<notin> qo_active Q q \<and>
        qo_pending Q q' = qo_pending Q q - {k} \<and> qo_delayed Q q' = qo_delayed Q q \<and>
        qo_active Q q' = insert k (qo_active Q q))"

fun tell :: "'q queue_ops \<Rightarrow> queue_call \<Rightarrow> 'q \<Rightarrow> 'q" where
  "tell Q (AddRateLimited k) q = qo_AddRateLimited Q k q"
| "tell Q (Forget k) q = qo_Forget Q k q"
| "tell Q (Done k) q = qo_Done Q k q"

text \<open>The three event handlers are one: they add the key of the object, if it has one.\<close>

definition handle_event :: "'q queue_ops \<Rightarrow> string result \<Rightarrow> 'q \<Rightarrow> 'q" where
  "handle_event Q key q = (case key of Inl err \<Rightarrow> q | Inr k \<Rightarrow> qo_Add Q k q)"

section \<open>The controller as a whole\<close>

datatype worker = Idle | Got string | Looked string "cached option"

text \<open>\<open>ct_undelivered\<close> are the keys of events the cache has taken in and not delivered; the first \<open>ct_size\<close>
  workers run. Two fields are history: \<open>ct_seen\<close>, the keys there has been an event about, and \<open>ct_lost\<close>, the
  keys for which a deletion failed when a worker last cleaned up.\<close>

record 'q Ctl =
  ct_cache :: "string \<rightharpoonup> cached"
  ct_world :: McpWorld
  ct_queue :: 'q
  ct_undelivered :: "string list"
  ct_size :: nat
  ct_workers :: "nat \<Rightarrow> worker"
  ct_seen :: "string set"
  ct_lost :: "string set"

text \<open>A resource that converts has the name of its key.\<close>

definition entry_ok :: "string \<Rightarrow> cached option \<Rightarrow> bool" where
  "entry_ok name entry = (case entry of Some (Server cr) \<Rightarrow> ms_Name cr = name | _ \<Rightarrow> True)"

definition only :: "string \<Rightarrow> cached option \<Rightarrow> string \<rightharpoonup> cached" where
  "only key entry k = (if k = key then entry else None)"

definition StartRun :: "'q \<Rightarrow> McpWorld \<Rightarrow> nat \<Rightarrow> 'q Ctl" where
  "StartRun q w workers = \<lparr>ct_cache = Map.empty, ct_world = w, ct_queue = q, ct_undelivered = [],
     ct_size = workers, ct_workers = (\<lambda>i. Idle), ct_seen = {}, ct_lost = {}\<rparr>"

definition cleanup_fails :: "api_faults \<Rightarrow> string \<Rightarrow> string \<Rightarrow> bool" where
  "cleanup_fails fault ns name \<longleftrightarrow>
     list_ex (\<lambda>kind. fault ''delete'' kind (ns, resourceName name) \<noteq> None) [''deployment'', ''service'', ''networkpolicy'']"

definition note_cleanup ::
  "(string \<Rightarrow> (string \<times> string) result) \<Rightarrow> api_faults \<Rightarrow> string \<Rightarrow> cached option \<Rightarrow> string set \<Rightarrow> string set" where
  "note_cleanup split fault key entry lost =
     (case (split key, entry) of
        (Inr (ns, name), None) \<Rightarrow> if cleanup_fails fault ns name then insert key lost else lost - {key}
      | _ \<Rightarrow> lost)"

text \<open>The controller's own steps and those of its queue, when the API server answers as \<open>fault\<close> says.\<close>

inductive work_step ::
  "'q queue_ops \<Rightarrow> (string \<Rightarrow> (string \<times> string) result) \<Rightarrow> string \<Rightarrow> api_faults \<Rightarrow> 'q Ctl \<Rightarrow> 'q Ctl \<Rightarrow> bool"
  for Q split ns fault where
  deliver: "ct_undelivered c = key # keys \<Longrightarrow>
    work_step Q split ns fault c (c\<lparr>ct_queue := handle_event Q (Inr key) (ct_queue c), ct_undelivered := keys\<rparr>)"
| elapse: "key \<in> qo_delayed Q (ct_queue c) \<Longrightarrow> work_step Q split ns fault c (c\<lparr>ct_queue := qo_elapse Q key (ct_queue c)\<rparr>)"
| get: "i < ct_size c \<Longrightarrow> ct_workers c i = Idle \<Longrightarrow> qo_Get Q (ct_queue c) = Some (key, q) \<Longrightarrow>
    work_step Q split ns fault c (c\<lparr>ct_queue := q, ct_workers := (ct_workers c)(i := Got key)\<rparr>)"
| look: "i < ct_size c \<Longrightarrow> ct_workers c i = Got key \<Longrightarrow>
    work_step Q split ns fault c (c\<lparr>ct_workers := (ct_workers c)(i := Looked key (ct_cache c key))\<rparr>)"
| finish: "i < ct_size c \<Longrightarrow> ct_workers c i = Looked key entry \<Longrightarrow>
    processNextItem split fault ns (only key entry) (Some key) (ct_world c) = (w, calls, go) \<Longrightarrow>
    work_step Q split ns fault c (c\<lparr>ct_world := w, ct_queue := fold (tell Q) calls (ct_queue c),
      ct_workers := (ct_workers c)(i := Idle), ct_lost := note_cleanup split fault key entry (ct_lost c)\<rparr>)"

text \<open>All steps: an event changes the cache under one key, to nothing, to a resource of that name, or to one
  that does not convert. Any call to the API server may fail.\<close>

inductive ctl_step ::
  "'q queue_ops \<Rightarrow> (string \<Rightarrow> (string \<times> string) result) \<Rightarrow> string \<Rightarrow> 'q Ctl \<Rightarrow> 'q Ctl \<Rightarrow> bool"
  for Q split ns where
  event: "split key = Inr (ns, name) \<Longrightarrow> entry_ok name entry \<Longrightarrow>
    ctl_step Q split ns c (c\<lparr>ct_cache := (ct_cache c)(key := entry), ct_undelivered := ct_undelivered c @ [key],
      ct_seen := insert key (ct_seen c)\<rparr>)"
| work: "work_step Q split ns fault c c' \<Longrightarrow> ctl_step Q split ns c c'"

inductive ctl_reachable ::
  "'q queue_ops \<Rightarrow> (string \<Rightarrow> (string \<times> string) result) \<Rightarrow> string \<Rightarrow> McpWorld \<Rightarrow> 'q Ctl \<Rightarrow> bool"
  for Q split ns w0 where
  start: "qo_pending Q q = {} \<Longrightarrow> qo_delayed Q q = {} \<Longrightarrow> qo_active Q q = {} \<Longrightarrow> ctl_reachable Q split ns w0 (StartRun q w0 workers)"
| step: "ctl_reachable Q split ns w0 c \<Longrightarrow> ctl_step Q split ns c c' \<Longrightarrow> ctl_reachable Q split ns w0 c'"

text \<open>\<open>SplitMetaNamespaceKey\<close> takes different keys of the namespace to different names.\<close>

definition keys_unique :: "(string \<Rightarrow> (string \<times> string) result) \<Rightarrow> string \<Rightarrow> bool" where
  "keys_unique split ns \<longleftrightarrow> (\<forall>k k' x. split k = Inr (ns, x) \<longrightarrow> split k' = Inr (ns, x) \<longrightarrow> k = k')"

section \<open>The invariant\<close>

fun holds :: "worker \<Rightarrow> string option" where
  "holds Idle = None" | "holds (Got k) = Some k" | "holds (Looked k e) = Some k"

text \<open>The cluster has what the cache wants under a key: the children of a resource that is there, and none of
  one that is gone, unless a deletion of them failed. Of a resource that does not convert nothing is said.\<close>

definition as_cached :: "string \<Rightarrow> string \<Rightarrow> cached option \<Rightarrow> bool \<Rightarrow> McpWorld \<Rightarrow> bool" where
  "as_cached ns name entry lost w =
     (case entry of
        None \<Rightarrow> lost \<or> in_sync ns name None w
      | Some (Server cr) \<Rightarrow> in_sync ns name (Some cr) w
      | _ \<Rightarrow> True)"

definition settled :: "(string \<Rightarrow> (string \<times> string) result) \<Rightarrow> string \<Rightarrow> 'q Ctl \<Rightarrow> string \<Rightarrow> bool" where
  "settled split ns c key \<longleftrightarrow> (\<exists>name. split key = Inr (ns, name) \<and>
     as_cached ns name (ct_cache c key) (key \<in> ct_lost c) (ct_world c))"

definition queued :: "'q queue_ops \<Rightarrow> 'q Ctl \<Rightarrow> string \<Rightarrow> bool" where
  "queued Q c key \<longleftrightarrow> key \<in> set (ct_undelivered c) \<or> key \<in> qo_pending Q (ct_queue c) \<or>
     key \<in> qo_delayed Q (ct_queue c)"

definition in_hand :: "'q Ctl \<Rightarrow> string \<Rightarrow> bool" where
  "in_hand c key \<longleftrightarrow> (\<exists>i. ct_workers c i = Got key \<or> ct_workers c i = Looked key (ct_cache c key))"

text \<open>Every key is settled or on its way; what a worker looked at is current or its key is queued again;
  workers hold different keys, those the queue calls active.\<close>

definition way_ok :: "'q queue_ops \<Rightarrow> (string \<Rightarrow> (string \<times> string) result) \<Rightarrow> string \<Rightarrow> 'q Ctl \<Rightarrow> bool" where
  "way_ok Q split ns c \<longleftrightarrow> (\<forall>key\<in>ct_seen c. queued Q c key \<or> in_hand c key \<or> settled split ns c key)"

definition looked_ok :: "'q queue_ops \<Rightarrow> (string \<Rightarrow> (string \<times> string) result) \<Rightarrow> string \<Rightarrow> 'q Ctl \<Rightarrow> bool" where
  "looked_ok Q split ns c \<longleftrightarrow>
     (\<forall>i key entry. ct_workers c i = Looked key entry \<longrightarrow>
        (entry = ct_cache c key \<or> queued Q c key) \<and> (\<exists>name. split key = Inr (ns, name) \<and> entry_ok name entry))"

definition keys_ok :: "'q queue_ops \<Rightarrow> (string \<Rightarrow> (string \<times> string) result) \<Rightarrow> string \<Rightarrow> 'q Ctl \<Rightarrow> bool" where
  "keys_ok Q split ns c \<longleftrightarrow>
     (\<forall>key. queued Q c key \<longrightarrow> key \<in> ct_seen c) \<and> (\<forall>i key. holds (ct_workers c i) = Some key \<longrightarrow> key \<in> ct_seen c) \<and>
     (\<forall>key\<in>ct_seen c. \<exists>name. split key = Inr (ns, name) \<and> entry_ok name (ct_cache c key))"

definition workers_ok :: "'q queue_ops \<Rightarrow> 'q Ctl \<Rightarrow> bool" where
  "workers_ok Q c \<longleftrightarrow>
     (\<forall>i k. holds (ct_workers c i) = Some k \<longrightarrow> k \<in> qo_active Q (ct_queue c)) \<and>
     (\<forall>i j k. holds (ct_workers c i) = Some k \<longrightarrow> holds (ct_workers c j) = Some k \<longrightarrow> j = i)"

lemmas ctl_defs = queued_def in_hand_def settled_def

lemma queue_lawD:
  assumes "queue_law Q"
  shows "qo_pending Q (qo_Add Q k q) = insert k (qo_pending Q q)" "qo_active Q (qo_Add Q k q) = qo_active Q q"
    "qo_delayed Q (qo_Add Q k q) = qo_delayed Q q"
    "qo_pending Q (qo_AddRateLimited Q k q) = qo_pending Q q" "qo_active Q (qo_AddRateLimited Q k q) = qo_active Q q"
    "qo_delayed Q (qo_AddRateLimited Q k q) = insert k (qo_delayed Q q)"
    "qo_pending Q (qo_elapse Q k q) = insert k (qo_pending Q q)" "qo_active Q (qo_elapse Q k q) = qo_active Q q"
    "qo_delayed Q (qo_elapse Q k q) = qo_delayed Q q - {k}"
    "qo_pending Q (qo_Forget Q k q) = qo_pending Q q" "qo_active Q (qo_Forget Q k q) = qo_active Q q"
    "qo_delayed Q (qo_Forget Q k q) = qo_delayed Q q"
    "qo_pending Q (qo_Done Q k q) = qo_pending Q q" "qo_active Q (qo_Done Q k q) = qo_active Q q - {k}"
    "qo_delayed Q (qo_Done Q k q) = qo_delayed Q q"
  using assms by (auto simp: queue_law_def)

lemma queue_law_Get:
  assumes "queue_law Q" "qo_Get Q q = Some (k, q')"
  shows "k \<in> qo_pending Q q" "k \<notin> qo_active Q q" "qo_pending Q q' = qo_pending Q q - {k}" "qo_active Q q' = insert k (qo_active Q q)"
    "qo_delayed Q q' = qo_delayed Q q"
  using assms by (auto simp: queue_law_def)

lemma event_kept:
  assumes "split key = Inr (ns, name)" "entry_ok name entry"
    and "keys_ok Q split ns c" "workers_ok Q c" "looked_ok Q split ns c" "way_ok Q split ns c"
  defines "c' \<equiv> c\<lparr>ct_cache := (ct_cache c)(key := entry), ct_undelivered := ct_undelivered c @ [key], ct_seen := insert key (ct_seen c)\<rparr>"
  shows "keys_ok Q split ns c' \<and> workers_ok Q c' \<and> looked_ok Q split ns c' \<and> way_ok Q split ns c'"
proof (intro conjI)
  show "keys_ok Q split ns c'" using assms(1-3) by (auto simp: keys_ok_def c'_def queued_def)
  show "workers_ok Q c'" using assms(4) by (simp add: workers_ok_def c'_def)
  show "looked_ok Q split ns c'" using assms(5) by (auto simp: looked_ok_def c'_def queued_def)
  show "way_ok Q split ns c'"
    using assms(6) by (auto simp: way_ok_def c'_def ctl_defs)
qed

lemma deliver_kept:
  assumes "queue_law Q" "ct_undelivered c = key # keys"
    and "keys_ok Q split ns c" "workers_ok Q c" "looked_ok Q split ns c" "way_ok Q split ns c"
  defines "c' \<equiv> c\<lparr>ct_queue := handle_event Q (Inr key) (ct_queue c), ct_undelivered := keys\<rparr>"
  shows "keys_ok Q split ns c' \<and> workers_ok Q c' \<and> looked_ok Q split ns c' \<and> way_ok Q split ns c'"
proof -
  have q: "queued Q c' k = queued Q c k" for k
    using assms(2) by (auto simp: queued_def c'_def handle_event_def queue_lawD [OF assms(1)])
  have "in_hand c' = in_hand c" "settled split ns c' = settled split ns c"
    by (auto simp: c'_def in_hand_def settled_def)
  with assms(3-6) q show ?thesis
    by (simp add: keys_ok_def workers_ok_def looked_ok_def way_ok_def)
       (simp add: c'_def handle_event_def queue_lawD [OF assms(1)])
qed

lemma elapse_kept:
  assumes "queue_law Q" "key \<in> qo_delayed Q (ct_queue c)"
    and "keys_ok Q split ns c" "workers_ok Q c" "looked_ok Q split ns c" "way_ok Q split ns c"
  defines "c' \<equiv> c\<lparr>ct_queue := qo_elapse Q key (ct_queue c)\<rparr>"
  shows "keys_ok Q split ns c' \<and> workers_ok Q c' \<and> looked_ok Q split ns c' \<and> way_ok Q split ns c'"
proof -
  have q: "queued Q c' k = queued Q c k" for k
    using assms(2) by (auto simp: queued_def c'_def queue_lawD [OF assms(1)])
  have "in_hand c' = in_hand c" "settled split ns c' = settled split ns c"
    by (auto simp: c'_def in_hand_def settled_def)
  with assms(3-6) q show ?thesis
    by (simp add: keys_ok_def workers_ok_def looked_ok_def way_ok_def)
       (simp add: c'_def queue_lawD [OF assms(1)])
qed

lemma get_kept:
  assumes "queue_law Q" "ct_workers c i = Idle" "qo_Get Q (ct_queue c) = Some (key, q)"
    and "keys_ok Q split ns c" "workers_ok Q c" "looked_ok Q split ns c" "way_ok Q split ns c"
  defines "c' \<equiv> c\<lparr>ct_queue := q, ct_workers := (ct_workers c)(i := Got key)\<rparr>"
  shows "keys_ok Q split ns c' \<and> workers_ok Q c' \<and> looked_ok Q split ns c' \<and> way_ok Q split ns c'"
proof (intro conjI)
  note got = queue_law_Get [OF assms(1,3)]
  have key: "key \<in> ct_seen c" using assms(4) got(1) by (auto simp: keys_ok_def queued_def)
  have fresh: "holds (ct_workers c j) \<noteq> Some key" for j using assms(5) got(2) by (auto simp: workers_ok_def)
  have q: "queued Q c' k = queued Q c k" if "k \<noteq> key" for k using that by (auto simp: queued_def c'_def got)
  show "keys_ok Q split ns c'" using assms(4) key by (auto simp: keys_ok_def c'_def queued_def got)
  show "workers_ok Q c'" using assms(5) fresh by (auto simp: workers_ok_def c'_def got)
  show "looked_ok Q split ns c'"
    unfolding looked_ok_def
  proof (intro allI impI)
    fix j k entry
    assume "ct_workers c' j = Looked k entry"
    then have j: "ct_workers c j = Looked k entry" by (auto simp: c'_def split: if_splits)
    with fresh [of j] have "k \<noteq> key" by auto
    with j assms(6) q [of k] show "(entry = ct_cache c' k \<or> queued Q c' k) \<and> (\<exists>name. split k = Inr (ns, name) \<and> entry_ok name entry)"
      by (simp add: looked_ok_def c'_def)
  qed
  show "way_ok Q split ns c'"
    unfolding way_ok_def
  proof
    fix k assume "k \<in> ct_seen c'"
    show "queued Q c' k \<or> in_hand c' k \<or> settled split ns c' k"
    proof (cases "k = key")
      case True
      then have "in_hand c' k" by (auto simp: in_hand_def c'_def)
      then show ?thesis by simp
    next
      case False
      have "in_hand c k \<Longrightarrow> in_hand c' k" using assms(2) by (force simp: in_hand_def c'_def)
      moreover have "settled split ns c' k = settled split ns c k" by (simp add: settled_def c'_def)
      moreover have "k \<in> ct_seen c" using \<open>k \<in> ct_seen c'\<close> by (simp add: c'_def)
      ultimately show ?thesis using assms(7) q [OF False] by (auto simp: way_ok_def)
    qed
  qed
qed

lemma look_kept:
  assumes "ct_workers c i = Got key"
    and "keys_ok Q split ns c" "workers_ok Q c" "looked_ok Q split ns c" "way_ok Q split ns c"
  defines "c' \<equiv> c\<lparr>ct_workers := (ct_workers c)(i := Looked key (ct_cache c key))\<rparr>"
  shows "keys_ok Q split ns c' \<and> workers_ok Q c' \<and> looked_ok Q split ns c' \<and> way_ok Q split ns c'"
proof (intro conjI)
  have q: "queued Q c' = queued Q c" by (auto simp: queued_def c'_def)
  have h: "holds (ct_workers c' j) = holds (ct_workers c j)" for j using assms(1) by (simp add: c'_def)
  have key: "key \<in> ct_seen c" using assms(1,2) unfolding keys_ok_def by (metis holds.simps(2))
  show "keys_ok Q split ns c'" using assms(2) q h by (simp add: keys_ok_def) (simp add: c'_def)
  show "workers_ok Q c'" using assms(3) h by (simp add: workers_ok_def) (simp add: c'_def)
  show "looked_ok Q split ns c'" using assms(2,4) key q by (auto simp: looked_ok_def keys_ok_def c'_def)
  have "in_hand c k \<Longrightarrow> in_hand c' k" for k using assms(1) by (force simp: in_hand_def c'_def)
  moreover have "settled split ns c' = settled split ns c" by (auto simp: settled_def c'_def)
  ultimately show "way_ok Q split ns c'" using assms(5) q by (auto simp: way_ok_def c'_def)
qed

text \<open>What a worker does with the entry it looked at.\<close>

lemma item_done:
  assumes "split key = Inr (ns, name)" "entry_ok name entry"
    and "processNextItem split fault ns (only key entry) (Some key) w = (w', calls, go)"
  shows "calls = [AddRateLimited key, Done key] \<or> calls = [Forget key, Done key] \<and>
    as_cached ns name entry (cleanup_fails fault ns name) w'"
proof (cases entry)
  case None
  with assms show ?thesis
    by (auto simp: processNextItem_def reconcile_def only_def cleanup_def delete_object_def in_sync_def cleanup_fails_def as_cached_def Let_def)
next
  case (Some e)
  show ?thesis
  proof (cases e)
    case (Server cr)
    with Some assms(2) have n: "ms_Name cr = name" by (simp add: entry_ok_def)
    obtain w1 r where r: "apply_all fault ns cr w = (w1, r)" by fastforce
    with apply_all_Inr [of fault ns cr w w1] n assms(1,3) Some Server show ?thesis
      by (cases r) (auto simp: processNextItem_def reconcile_def only_def as_cached_def)
  qed (use Some assms in \<open>auto simp: processNextItem_def reconcile_def only_def as_cached_def\<close>)
qed

lemma item_leaves:
  assumes "split key = Inr (ns, name)" "entry_ok name entry" "other \<noteq> name"
    and "processNextItem split fault ns (only key entry) (Some key) w = (w', calls, go)"
  shows "in_sync ns other want w' = in_sync ns other want w"
proof (cases "entry = None \<or> (\<exists>cr. entry = Some (Server cr))")
  case True
  then have "only key entry key = None \<or> (\<exists>cr. only key entry key = Some (Server cr) \<and> ms_Name cr = name)"
    using assms(2) by (auto simp: entry_ok_def only_def)
  from item_other [where split = split and key = key and ns = ns and fault = fault and cache = "only key entry", OF assms(1) this assms(3)] assms(4) show ?thesis by (metis fst_conv)
next
  case False
  with assms(1,4) show ?thesis
    by (auto simp: processNextItem_def reconcile_def only_def split: option.splits cached.splits)
qed

lemma finish_kept:
  assumes law: "queue_law Q" and inj: "keys_unique split ns"
    and wi: "ct_workers c i = Looked key entry"
    and run: "processNextItem split fault ns (only key entry) (Some key) (ct_world c) = (w, calls, go)"
    and inv: "keys_ok Q split ns c" "workers_ok Q c" "looked_ok Q split ns c" "way_ok Q split ns c"
  defines "c' \<equiv> c\<lparr>ct_world := w, ct_queue := fold (tell Q) calls (ct_queue c), ct_workers := (ct_workers c)(i := Idle),
    ct_lost := note_cleanup split fault key entry (ct_lost c)\<rparr>"
  shows "keys_ok Q split ns c' \<and> workers_ok Q c' \<and> looked_ok Q split ns c' \<and> way_ok Q split ns c'"
proof (intro conjI)
  from inv(3) wi obtain name where name: "split key = Inr (ns, name)" "entry_ok name entry"
    and current: "entry = ct_cache c key \<or> queued Q c key" unfolding looked_ok_def by blast
  note told = item_done [OF name run]
  have seen: "key \<in> ct_seen c" using inv(1) wi unfolding keys_ok_def by (metis holds.simps(3))
  have active: "qo_active Q (ct_queue c') = qo_active Q (ct_queue c) - {key}"
    using told by (auto simp: c'_def queue_lawD [OF law])
  have queued: "queued Q c' k \<longleftrightarrow> queued Q c k \<or> k = key \<and> calls = [AddRateLimited key, Done key]" for k
    using told by (auto simp: queued_def c'_def queue_lawD [OF law])
  have other: "ct_workers c j \<noteq> Got key" "ct_workers c j \<noteq> Looked key e" if "j \<noteq> i" for j e
    using inv(2) wi that unfolding workers_ok_def by (metis holds.simps(2,3))+
  show "keys_ok Q split ns c'" using inv(1) seen queued by (auto simp: keys_ok_def c'_def)
  show "workers_ok Q c'"
    unfolding workers_ok_def
  proof (intro conjI allI impI)
    fix j k assume "holds (ct_workers c' j) = Some k"
    then have j: "j \<noteq> i" "holds (ct_workers c j) = Some k" by (auto simp: c'_def split: if_splits)
    then have "k \<noteq> key" using other [of j] by (cases "ct_workers c j") auto
    with j inv(2) active show "k \<in> qo_active Q (ct_queue c')" by (simp add: workers_ok_def)
  next
    fix j j' k assume "holds (ct_workers c' j) = Some k" "holds (ct_workers c' j') = Some k"
    then have "holds (ct_workers c j) = Some k" "holds (ct_workers c j') = Some k" by (auto simp: c'_def split: if_splits)
    with inv(2) show "j' = j" unfolding workers_ok_def by blast
  qed
  show "looked_ok Q split ns c'" using inv(3) queued by (auto simp: looked_ok_def c'_def split: if_splits)
  show "way_ok Q split ns c'"
    unfolding way_ok_def
  proof
    fix k assume "k \<in> ct_seen c'"
    then have k: "k \<in> ct_seen c" by (simp add: c'_def)
    show "queued Q c' k \<or> in_hand c' k \<or> settled split ns c' k"
    proof (cases "k = key")
      case True
      have "entry = None \<Longrightarrow> cleanup_fails fault ns name \<Longrightarrow> key \<in> ct_lost c'"
        using name(1) by (simp add: c'_def note_cleanup_def)
      with told name(1) have "calls = [AddRateLimited key, Done key] \<or> entry \<noteq> ct_cache c key \<or> settled split ns c' key"
        by (auto simp: settled_def c'_def as_cached_def split: option.splits cached.splits)
      with current queued True show ?thesis by blast
    next
      case False
      from inv(1) k obtain x where x: "split k = Inr (ns, x)" unfolding keys_ok_def by blast
      with False inj name(1) have "x \<noteq> name" unfolding keys_unique_def by blast
      have "k \<in> ct_lost c' \<longleftrightarrow> k \<in> ct_lost c"
        using False by (auto simp: c'_def note_cleanup_def split: sum.split option.split)
      then have "settled split ns c k \<Longrightarrow> settled split ns c' k"
        using x item_leaves [OF name \<open>x \<noteq> name\<close> run] by (simp add: settled_def c'_def as_cached_def cong: option.case_cong cached.case_cong)
      moreover have "in_hand c k \<Longrightarrow> in_hand c' k" using wi False by (force simp: in_hand_def c'_def)
      ultimately show ?thesis using inv(4) k queued by (auto simp: way_ok_def)
    qed
  qed
qed

lemma ctl_inv:
  assumes law: "queue_law Q" and inj: "keys_unique split ns"
    and "ctl_reachable Q split ns w0 c"
  shows "keys_ok Q split ns c \<and> workers_ok Q c \<and> looked_ok Q split ns c \<and> way_ok Q split ns c"
  using assms(3)
proof (induction rule: ctl_reachable.induct)
  case (start q workers)
  then show ?case
    by (simp add: StartRun_def keys_ok_def workers_ok_def looked_ok_def way_ok_def queued_def)
next
  case (step c c')
  note ih = conjunct1 [OF step.IH] conjunct1 [OF conjunct2 [OF step.IH]]
    conjunct1 [OF conjunct2 [OF conjunct2 [OF step.IH]]] conjunct2 [OF conjunct2 [OF conjunct2 [OF step.IH]]]
  from step.hyps(2) show ?case
  proof cases
    case (event key name entry)
    from event_kept [OF event(2,3) ih] show ?thesis by (simp only: event(1))
  next
    case (work fault)
    from work(1) show ?thesis
    proof cases
      case (deliver key keys)
      from deliver_kept [OF law deliver(2) ih] show ?thesis by (simp only: deliver(1))
    next
      case (elapse key)
      from elapse_kept [OF law elapse(2) ih] show ?thesis by (simp only: elapse(1))
    next
      case (get i key q)
      from get_kept [OF law get(3,4) ih] show ?thesis by (simp only: get(1))
    next
      case (look i key)
      from look_kept [OF look(3) ih] show ?thesis by (simp only: look(1))
    next
      case (finish i key entry w calls go)
      from finish_kept [OF law inj finish(3,4) ih] show ?thesis by (simp only: finish(1))
    qed
  qed
qed

text \<open>C28: A controller at rest has caught up. However events, deliveries, delays and the workers' steps
  interleave and whichever calls to the API server fail, when no event is undelivered, no key is queued
  or delayed and no worker is busy, then for every resource there was an event about: if the cache has
  it and it converts, the cluster has exactly its deployment, service and network policy, in their
  present state; if it is gone, they are gone, unless a deletion failed when a worker last cleaned up
  after it, which the controller forgets. A resource that does not convert is skipped, whatever it had.\<close>

theorem controller_catches_up:
  assumes "queue_law Q" and "keys_unique split ns"
    and "ctl_reachable Q split ns w0 c"
    and "ct_undelivered c = []" "qo_pending Q (ct_queue c) = {}" "qo_delayed Q (ct_queue c) = {}" "ct_workers c = (\<lambda>i. Idle)"
    and "key \<in> ct_seen c"
  shows "\<exists>name. split key = Inr (ns, name) \<and>
    (case ct_cache c key of
       None \<Rightarrow> key \<in> ct_lost c \<or> in_sync ns name None (ct_world c)
     | Some (Server cr) \<Rightarrow> in_sync ns name (Some cr) (ct_world c)
     | _ \<Rightarrow> True)"
proof -
  have "queued Q c key \<or> in_hand c key \<or> settled split ns c key"
    using ctl_inv [OF assms(1,2,3)] assms(8) by (simp add: way_ok_def)
  with assms(4-7) have "settled split ns c key" by (simp add: queued_def in_hand_def)
  then show ?thesis unfolding settled_def as_cached_def .
qed

section \<open>Coming to rest\<close>

text \<open>A key that waits and that no worker holds is handed out in the end.\<close>

definition queue_delivers :: "'q queue_ops \<Rightarrow> bool" where
  "queue_delivers Q \<longleftrightarrow> (\<forall>q. qo_Get Q q = None \<longrightarrow> qo_pending Q q \<subseteq> qo_active Q q)"

abbreviation no_faults :: api_faults where
  "no_faults \<equiv> (\<lambda>verb kind at. None)"

fun burden :: "worker \<Rightarrow> nat" where
  "burden Idle = 0" | "burden (Looked k e) = 1" | "burden (Got k) = 2"

definition weight :: "'q queue_ops \<Rightarrow> 'q Ctl \<Rightarrow> nat" where
  "weight Q c = 4 * length (ct_undelivered c) + 4 * card (qo_delayed Q (ct_queue c)) +
     3 * card (qo_pending Q (ct_queue c)) + (\<Sum>i<ct_size c. burden (ct_workers c i))"

definition rest_ok :: "'q queue_ops \<Rightarrow> 'q Ctl \<Rightarrow> bool" where
  "rest_ok Q c \<longleftrightarrow> finite (qo_pending Q (ct_queue c)) \<and> finite (qo_delayed Q (ct_queue c)) \<and> (\<forall>i. ct_size c \<le> i \<longrightarrow> ct_workers c i = Idle) \<and>
     (\<forall>k\<in>qo_active Q (ct_queue c). \<exists>i. holds (ct_workers c i) = Some k)"

lemma told_calls:
  assumes "looked_ok Q split ns c" "ct_workers c i = Looked key entry"
    and "processNextItem split fault ns (only key entry) (Some key) (ct_world c) = (w, calls, go)"
  shows "calls = [AddRateLimited key, Done key] \<or> calls = [Forget key, Done key]"
proof -
  from assms(1,2) obtain name where "split key = Inr (ns, name)" "entry_ok name entry" unfolding looked_ok_def by blast
  from item_done [OF this assms(3)] show ?thesis by blast
qed

lemma calm_calls:
  assumes "looked_ok Q split ns c" "ct_workers c i = Looked key entry"
    and "processNextItem split no_faults ns (only key entry) (Some key) (ct_world c) = (w, calls, go)"
  shows "calls = [Forget key, Done key]"
proof -
  from assms(1,2) obtain name where "split key = Inr (ns, name)" "entry_ok name entry" unfolding looked_ok_def by blast
  with assms(3) show ?thesis
    by (auto simp: processNextItem_def reconcile_def only_def apply_all_def apply_defs entry_ok_def
        split: option.splits cached.splits)
qed

lemma rest_kept:
  assumes law: "queue_law Q" and inv: "workers_ok Q c" "looked_ok Q split ns c" and rest: "rest_ok Q c"
    and step: "work_step Q split ns fault c c'"
  shows "rest_ok Q c'"
  using step
proof cases
  case (deliver key keys)
  with rest show ?thesis by (simp add: rest_ok_def handle_event_def queue_lawD [OF law])
next
  case (elapse key)
  with rest show ?thesis by (simp add: rest_ok_def queue_lawD [OF law])
next
  case (get i key q)
  note got = queue_law_Get [OF law get(4)]
  have "\<exists>j. holds (ct_workers c' j) = Some k" if "k \<in> qo_active Q q" for k
  proof (cases "k = key")
    case True
    then show ?thesis by (intro exI [of _ i]) (simp add: get(1))
  next
    case False
    with that got(4) rest obtain j where j: "holds (ct_workers c j) = Some k" by (auto simp: rest_ok_def)
    with get(3) have "j \<noteq> i" by auto
    with j show ?thesis by (intro exI [of _ j]) (simp add: get(1))
  qed
  with rest get(2) show ?thesis by (simp add: rest_ok_def get(1) got(3,5))
next
  case (look i key)
  have "\<exists>j. holds (ct_workers c' j) = Some k" if "k \<in> qo_active Q (ct_queue c)" for k
  proof -
    from that rest obtain j where "holds (ct_workers c j) = Some k" by (auto simp: rest_ok_def)
    with look(3) show ?thesis by (intro exI [of _ j]) (auto simp: look(1))
  qed
  with rest look(2) show ?thesis by (simp add: rest_ok_def look(1))
next
  case (finish i key entry w calls go)
  have queue: "qo_active Q (fold (tell Q) calls (ct_queue c)) = qo_active Q (ct_queue c) - {key}"
    "finite (qo_pending Q (fold (tell Q) calls (ct_queue c)))" "finite (qo_delayed Q (fold (tell Q) calls (ct_queue c)))"
    using told_calls [OF inv(2) finish(3,4)] rest by (auto simp: rest_ok_def queue_lawD [OF law])
  have "\<exists>j. holds (ct_workers c' j) = Some k" if "k \<in> qo_active Q (ct_queue c)" "k \<noteq> key" for k
  proof -
    from that(1) rest obtain j where j: "holds (ct_workers c j) = Some k" by (auto simp: rest_ok_def)
    with that(2) finish(3) have "j \<noteq> i" by auto
    with j show ?thesis by (intro exI [of _ j]) (simp add: finish(1))
  qed
  with rest finish(2) queue show ?thesis by (simp add: rest_ok_def finish(1))
qed

lemma ctl_rest:
  assumes "queue_law Q" "keys_unique split ns" "ctl_reachable Q split ns w0 c"
  shows "rest_ok Q c"
  using assms(3)
proof (induction rule: ctl_reachable.induct)
  case (start q workers)
  then show ?case by (simp add: rest_ok_def StartRun_def)
next
  case (step c c')
  note inv = ctl_inv [OF assms(1,2) step.hyps(1)]
  from step.hyps(2) show ?case
  proof cases
    case (event key name entry)
    with step.IH show ?thesis by (simp add: rest_ok_def)
  next
    case (work fault)
    with rest_kept [OF assms(1) _ _ step.IH] inv show ?thesis by blast
  qed
qed

lemma sum_burden_update:
  fixes n :: nat
  assumes "i < n"
  shows "(\<Sum>j<n. burden ((f(i := x)) j)) + burden (f i) = (\<Sum>j<n. burden (f j)) + burden x"
proof -
  have "(\<Sum>j<n. burden ((f(i := x)) j)) = burden x + (\<Sum>j\<in>{..<n} - {i}. burden ((f(i := x)) j))"
    using assms by (subst sum.remove [of _ i]) simp_all
  also have "(\<Sum>j\<in>{..<n} - {i}. burden ((f(i := x)) j)) = (\<Sum>j\<in>{..<n} - {i}. burden (f j))"
    by (rule sum.cong) auto
  finally show ?thesis using assms by (subst (2) sum.remove [of _ i]) simp_all
qed

lemma calm_step_lighter:
  assumes law: "queue_law Q" and inv: "looked_ok Q split ns c" and rest: "rest_ok Q c"
    and step: "work_step Q split ns no_faults c c'"
  shows "weight Q c' < weight Q c"
  using step
proof cases
  case (deliver key keys)
  have "card (insert key (qo_pending Q (ct_queue c))) \<le> Suc (card (qo_pending Q (ct_queue c)))"
    using rest by (simp add: rest_ok_def card_insert_if)
  with deliver show ?thesis by (simp add: weight_def handle_event_def queue_lawD [OF law])
next
  case (elapse key)
  have "card (insert key (qo_pending Q (ct_queue c))) \<le> Suc (card (qo_pending Q (ct_queue c)))"
    using rest by (simp add: rest_ok_def card_insert_if)
  moreover have "Suc (card (qo_delayed Q (ct_queue c) - {key})) = card (qo_delayed Q (ct_queue c))"
    by (rule card_Suc_Diff1) (use rest elapse(2) in \<open>simp_all add: rest_ok_def\<close>)
  ultimately show ?thesis by (simp add: weight_def elapse(1) queue_lawD [OF law])
next
  case (get i key q)
  note got = queue_law_Get [OF law get(4)]
  have "card (qo_pending Q (ct_queue c)) = Suc (card (qo_pending Q q))"
    unfolding got(3) by (rule card_Suc_Diff1 [symmetric]) (use rest got(1) in \<open>simp_all add: rest_ok_def\<close>)
  with sum_burden_update [OF get(2), of "ct_workers c" "Got key"] get(1,3) got(5) show ?thesis by (simp add: weight_def)
next
  case (look i key)
  with sum_burden_update [OF look(2), of "ct_workers c" "Looked key (ct_cache c key)"] show ?thesis by (simp add: weight_def)
next
  case (finish i key entry w calls go)
  with calm_calls [OF inv finish(3,4)] sum_burden_update [OF finish(2), of "ct_workers c" Idle] show ?thesis
    by (simp add: weight_def queue_lawD [OF law])
qed

lemma stuck_at_rest:
  assumes law: "queue_law Q" "queue_delivers Q" and rest: "rest_ok Q c" and size: "0 < ct_size c"
    and stuck: "\<nexists>c'. work_step Q split ns no_faults c c'"
  shows "ct_undelivered c = [] \<and> qo_pending Q (ct_queue c) = {} \<and> qo_delayed Q (ct_queue c) = {} \<and> ct_workers c = (\<lambda>i. Idle)"
proof -
  have idle: "ct_workers c i = Idle" for i
  proof (cases "i < ct_size c")
    case True
    show ?thesis
    proof (cases "ct_workers c i")
      case (Got key)
      with stuck work_step.look [OF True Got] show ?thesis by blast
    next
      case (Looked key entry)
      obtain w calls go where "processNextItem split no_faults ns (only key entry) (Some key) (ct_world c) = (w, calls, go)"
        by (metis prod_cases3)
      with stuck work_step.finish [OF True Looked] show ?thesis by blast
    qed
  qed (use rest in \<open>simp add: rest_ok_def\<close>)
  then have "qo_active Q (ct_queue c) = {}" using rest by (auto simp: rest_ok_def)
  moreover have "qo_Get Q (ct_queue c) = None"
  proof (rule ccontr)
    assume "qo_Get Q (ct_queue c) \<noteq> None"
    then obtain key q where "qo_Get Q (ct_queue c) = Some (key, q)" by auto
    with stuck work_step.get [OF size idle] show False by blast
  qed
  ultimately have "qo_pending Q (ct_queue c) = {}" using law(2) by (auto simp: queue_delivers_def)
  moreover have "qo_delayed Q (ct_queue c) = {}"
    using stuck work_step.elapse by (metis ex_in_conv)
  moreover have "ct_undelivered c = []"
    using stuck work_step.deliver by (cases "ct_undelivered c") blast+
  ultimately show ?thesis using idle by auto
qed

lemma calm_run:
  assumes "queue_law Q" "keys_unique split ns" "ctl_reachable Q split ns w0 c"
    and "(work_step Q split ns no_faults ^^ n) c c'"
  shows "ctl_reachable Q split ns w0 c' \<and> n + weight Q c' \<le> weight Q c \<and> ct_size c' = ct_size c \<and> ct_seen c' = ct_seen c"
  using assms(4)
proof (induction n arbitrary: c')
  case 0
  with assms(3) show ?case by simp
next
  case (Suc n)
  then obtain d where d: "(work_step Q split ns no_faults ^^ n) c d" and step: "work_step Q split ns no_faults d c'" by auto
  note ih = Suc.IH [OF d]
  then have reach: "ctl_reachable Q split ns w0 d" by blast
  have "ctl_step Q split ns d c'" by (rule ctl_step.work [OF step])
  with reach have "ctl_reachable Q split ns w0 c'" by (rule ctl_reachable.step)
  moreover have "weight Q c' < weight Q d"
    using calm_step_lighter [OF assms(1) _ ctl_rest [OF assms(1,2) reach] step] ctl_inv [OF assms(1,2) reach] by blast
  moreover have "ct_size c' = ct_size d \<and> ct_seen c' = ct_seen d" using step by cases simp_all
  ultimately show ?case using ih by auto
qed

text \<open>C27: The controller comes to rest. From any state it can reach, with whatever failures on the way, if no
  further events come and no further call fails, its steps end, within the number \<open>weight\<close> gives for the
  state, so the workers never wait for each other; and when none is possible any more, every resource it
  has heard about that is in the cache and converts has its deployment, service and network policy in
  the cluster as the cache has it: a failure to apply them is made up for. Those of a resource that is gone
  are gone too, unless a deletion failed when a worker last cleaned up after it: that is not made up for.\<close>

theorem controller_comes_to_rest:
  assumes "queue_law Q" "queue_delivers Q" "keys_unique split ns" "ctl_reachable Q split ns w0 c" "0 < ct_size c"
    and "(work_step Q split ns no_faults ^^ n) c c'"
  shows "n \<le> weight Q c \<and>
    ((\<nexists>c''. work_step Q split ns no_faults c' c'') \<longrightarrow>
      (\<forall>key\<in>ct_seen c. \<exists>name. split key = Inr (ns, name) \<and>
        (case ct_cache c' key of
           None \<Rightarrow> key \<in> ct_lost c' \<or> in_sync ns name None (ct_world c')
         | Some (Server cr) \<Rightarrow> in_sync ns name (Some cr) (ct_world c')
         | _ \<Rightarrow> True)))"
proof -
  note run = calm_run [OF assms(1,3,4,6)]
  have "settled split ns c' key" if "\<nexists>c''. work_step Q split ns no_faults c' c''" "key \<in> ct_seen c" for key
  proof -
    have reach: "ctl_reachable Q split ns w0 c'" using run by blast
    have "queued Q c' key \<or> in_hand c' key \<or> settled split ns c' key"
      using ctl_inv [OF assms(1,3) reach] that(2) run by (simp add: way_ok_def)
    moreover have "ct_undelivered c' = [] \<and> qo_pending Q (ct_queue c') = {} \<and> qo_delayed Q (ct_queue c') = {} \<and>
        ct_workers c' = (\<lambda>i. Idle)"
      using stuck_at_rest [OF assms(1,2) ctl_rest [OF assms(1,3) reach] _ that(1)] run assms(5) by simp
    ultimately show ?thesis by (simp add: queued_def in_hand_def)
  qed
  then have "(\<nexists>c''. work_step Q split ns no_faults c' c'') \<longrightarrow> (\<forall>key\<in>ct_seen c. settled split ns c' key)" by blast
  with run show ?thesis unfolding settled_def as_cached_def by (intro conjI) (simp, assumption)
qed

text \<open>A queue: the pending, the active and the delayed keys.\<close>

definition sample_queue :: "(string list \<times> string list \<times> string list) queue_ops" where
  "sample_queue =
     \<lparr>qo_Add = (\<lambda>k (p, a, d). (List.insert k p, a, d)), qo_AddRateLimited = (\<lambda>k (p, a, d). (p, a, List.insert k d)),
      qo_Forget = (\<lambda>k q. q), qo_Done = (\<lambda>k (p, a, d). (p, removeAll k a, d)),
      qo_Get = (\<lambda>(p, a, d). case filter (\<lambda>k. k \<notin> set a) p of
                     [] \<Rightarrow> None | k # _ \<Rightarrow> Some (k, (removeAll k p, k # a, d))),
      qo_elapse = (\<lambda>k (p, a, d). (List.insert k p, a, removeAll k d)),
      qo_pending = (\<lambda>(p, a, d). set p), qo_delayed = (\<lambda>(p, a, d). set d), qo_active = (\<lambda>(p, a, d). set a)\<rparr>"

lemma sample_queue_Get:
  assumes "qo_Get sample_queue (p, a, d) = Some (k, q')"
  shows "k \<in> set p \<and> k \<notin> set a \<and> q' = (removeAll k p, k # a, d)"
proof (cases "filter (\<lambda>k. k \<notin> set a) p")
  case (Cons x xs)
  from filter_eq_ConsD [OF this] have "x \<in> set p \<and> x \<notin> set a" by auto
  moreover from Cons assms have "x = k" "q' = (removeAll x p, x # a, d)" by (auto simp: sample_queue_def)
  ultimately show ?thesis by simp
qed (use assms in \<open>simp add: sample_queue_def\<close>)

lemma sample_queue_law: "queue_law sample_queue"
  unfolding queue_law_def split_paired_All
  by (intro conjI allI impI; (drule sample_queue_Get)?) (auto simp: sample_queue_def)

lemma sample_queue_delivers: "queue_delivers sample_queue"
  unfolding queue_delivers_def split_paired_All
  by (auto simp: sample_queue_def list.case_eq_if filter_empty_conv split: if_splits)

lemma sample_keys_unique: "keys_unique sample_split ''default''"
  by (simp add: keys_unique_def sample_split_def)

text \<open>One resource appears, and one of two workers deals with it.\<close>

lemma sample_run:
  obtains c1 c where "ctl_reachable sample_queue sample_split ''default'' sample_world c1" "ct_size c1 = 2"
    "(work_step sample_queue sample_split ''default'' no_faults ^^ 4) c1 c"
    "\<nexists>c'. work_step sample_queue sample_split ''default'' no_faults c c'"
    "ct_undelivered c = []" "qo_pending sample_queue (ct_queue c) = {}" "qo_delayed sample_queue (ct_queue c) = {}"
    "ct_workers c = (\<lambda>i. Idle)" "ct_seen c1 = {''git''}" "ct_seen c = {''git''}" "ct_cache c = [''git'' \<mapsto> Server sample_mcp]"
proof -
  let ?R = "ctl_reachable sample_queue sample_split ''default'' sample_world"
  let ?W = "work_step sample_queue sample_split ''default'' no_faults"
  define c0 :: "(string list \<times> string list \<times> string list) Ctl" where "c0 = StartRun ([], [], []) sample_world 2"
  have "?R c0" unfolding c0_def by (rule ctl_reachable.start) (simp_all add: sample_queue_def)
  moreover define c1 where "c1 = c0\<lparr>ct_cache := (ct_cache c0)(''git'' := Some (Server sample_mcp)),
    ct_undelivered := ct_undelivered c0 @ [''git''], ct_seen := insert ''git'' (ct_seen c0)\<rparr>"
  have "ctl_step sample_queue sample_split ''default'' c0 c1" unfolding c1_def
    by (rule ctl_step.event [where name = "''git''"]) (simp_all add: sample_split_def entry_ok_def sample_mcp_def)
  ultimately have reach: "?R c1" by (rule ctl_reachable.step)
  note start = c1_def c0_def StartRun_def
  define c2 where "c2 = c1\<lparr>ct_queue := handle_event sample_queue (Inr ''git'') (ct_queue c1), ct_undelivered := []\<rparr>"
  have w1: "?W c1 c2" unfolding c2_def by (rule work_step.deliver) (simp add: start)
  define c3 where "c3 = c2\<lparr>ct_queue := ([], [''git''], []), ct_workers := (ct_workers c2)(0 := Got ''git'')\<rparr>"
  have w2: "?W c2 c3" unfolding c3_def
    by (rule work_step.get) (simp_all add: c2_def start handle_event_def sample_queue_def)
  define c4 where "c4 = c3\<lparr>ct_workers := (ct_workers c3)(0 := Looked ''git'' (ct_cache c3 ''git''))\<rparr>"
  have w3: "?W c3 c4" unfolding c4_def by (rule work_step.look) (simp_all add: c3_def c2_def start)
  obtain w calls go where run: "processNextItem sample_split no_faults ''default''
      (only ''git'' (Some (Server sample_mcp))) (Some ''git'') (ct_world c4) = (w, calls, go)" by (metis prod_cases3)
  have calls: "calls = [Forget ''git'', Done ''git'']"
    using run by (auto simp: processNextItem_def reconcile_def sample_split_def only_def apply_all_def apply_defs)
  define c5 where "c5 = c4\<lparr>ct_world := w, ct_queue := fold (tell sample_queue) calls (ct_queue c4),
    ct_workers := (ct_workers c4)(0 := Idle), ct_lost := note_cleanup sample_split no_faults ''git'' (Some (Server sample_mcp)) (ct_lost c4)\<rparr>"
  have w4: "?W c4 c5" unfolding c5_def
    by (rule work_step.finish [OF _ _ run]) (simp_all add: c4_def c3_def c2_def start)
  have "(?W ^^ 4) c1 c5"
    using w1 w2 w3 w4 by (auto simp: numeral_eq_Suc OO_def)
  moreover have end_state: "ct_undelivered c5 = []" "ct_queue c5 = ([], [], [])" "ct_workers c5 = (\<lambda>i. Idle)"
    "ct_seen c5 = {''git''}" "ct_cache c5 = [''git'' \<mapsto> Server sample_mcp]"
    by (auto simp: c5_def c4_def c3_def c2_def start sample_queue_def calls)
  moreover have "\<nexists>c'. ?W c5 c'"
    by (auto elim!: work_step.cases simp: end_state sample_queue_def)
  ultimately show ?thesis using reach by (intro that [of c1 c5]) (simp_all add: start sample_queue_def)
qed

theorem controller_catches_up_witness:
  "\<exists>c. ctl_reachable sample_queue sample_split ''default'' sample_world c \<and> ct_undelivered c = [] \<and>
     in_sync ''default'' ''git'' (Some sample_mcp) (ct_world c)"
proof -
  obtain c1 c where c1: "ctl_reachable sample_queue sample_split ''default'' sample_world c1"
    "(work_step sample_queue sample_split ''default'' no_faults ^^ 4) c1 c"
    and c: "ct_undelivered c = []" "qo_pending sample_queue (ct_queue c) = {}" "qo_delayed sample_queue (ct_queue c) = {}"
    "ct_workers c = (\<lambda>i. Idle)" "ct_seen c = {''git''}" "ct_cache c = [''git'' \<mapsto> Server sample_mcp]" by (rule sample_run)
  from calm_run [OF sample_queue_law sample_keys_unique c1]
  have reach: "ctl_reachable sample_queue sample_split ''default'' sample_world c" by blast
  from controller_catches_up [OF sample_queue_law sample_keys_unique reach c(1-4), of "''git''"] c reach show ?thesis
    by (intro exI [of _ c]) (simp add: sample_split_def)
qed

theorem controller_comes_to_rest_witness:
  "\<exists>c c'. (work_step sample_queue sample_split ''default'' no_faults ^^ 4) c c' \<and> 4 \<le> weight sample_queue c \<and>
     in_sync ''default'' ''git'' (Some sample_mcp) (ct_world c')"
proof -
  obtain c1 c where c1: "ctl_reachable sample_queue sample_split ''default'' sample_world c1" "ct_size c1 = 2"
    and run: "(work_step sample_queue sample_split ''default'' no_faults ^^ 4) c1 c"
    and stuck: "\<nexists>c'. work_step sample_queue sample_split ''default'' no_faults c c'"
    and c: "ct_seen c1 = {''git''}" "ct_cache c = [''git'' \<mapsto> Server sample_mcp]" by (rule sample_run)
  have "0 < ct_size c1" using c1(2) by simp
  from controller_comes_to_rest [OF sample_queue_law sample_queue_delivers sample_keys_unique c1(1) this run] stuck c run
  show ?thesis by (intro exI [of _ c1] exI [of _ c]) (simp add: sample_split_def)
qed

text \<open>What the controller has heard nothing about it never touches: a resource deleted while no controller
  runs leaves its children behind.\<close>

lemma unseen_untouched:
  assumes law: "queue_law Q" and inj: "keys_unique split ns"
    and "ctl_reachable Q split ns w0 c"
    and "\<And>k. k \<in> ct_seen c \<Longrightarrow> split k \<noteq> Inr (ns, name)"
  shows "in_sync ns name want (ct_world c) = in_sync ns name want w0"
  using assms(3,4)
proof (induction rule: ctl_reachable.induct)
  case (start q workers)
  then show ?case by (simp add: StartRun_def)
next
  case (step c c')
  note inv = ctl_inv [OF law inj step.hyps(1)]
  from step.hyps(2) show ?case
  proof cases
    case (work fault)
    from work(1) show ?thesis
    proof cases
      case (finish i key entry w calls go)
      from inv finish(3) obtain other where other: "split key = Inr (ns, other)" "entry_ok other entry"
        unfolding looked_ok_def by blast
      have seen: "key \<in> ct_seen c" using inv finish(3) unfolding keys_ok_def by (metis holds.simps(3))
      have "ct_seen c' = ct_seen c" by (simp add: finish(1))
      with seen other(1) step.prems have "name \<noteq> other" by auto
      from item_leaves [OF other this finish(4)] step finish(1) \<open>ct_seen c' = ct_seen c\<close> show ?thesis by simp
    qed (use step in auto)
  qed (use step in auto)
qed

end
