(* ===== verification/Security.thy ===== *)
theory Security
  imports Prelude
begin

text \<open>
  \<open>internal/security\<close>: the deterministic content scanner (\<open>audit.go\<close>) and the policy that turns a
  scan into a decision (\<open>policy.go\<close>). \<open>ul\<close> lowers text that is not ASCII, \<open>sha256\<close> is the digest.
\<close>

datatype RiskLevel = RiskNone | RiskLow | RiskMedium | RiskHigh | RiskCritical

datatype Decision =
    DecisionApproved | DecisionApprovedWithWarnings | DecisionPendingApproval
  | DecisionRejected | DecisionWarnOnlyAllowed

datatype PolicyMode = ModeEnforce | ModeWarn | ModeDisabledDevOnly | ModeOther string

record Policy =
  po_Mode :: PolicyMode
  po_Version :: int

record Finding =
  fi_RuleID :: string
  fi_Severity :: RiskLevel
  fi_Message :: string
  fi_Evidence :: string
  fi_Recommendation :: string

record ScanInput =
  si_TargetType :: string
  si_Text :: string

record ScanResult =
  sr_RiskLevel :: RiskLevel
  sr_Decision :: Decision
  sr_Findings :: "Finding list"

fun riskRank :: "RiskLevel \<Rightarrow> int" where
  "riskRank RiskCritical = 4"
| "riskRank RiskHigh = 3"
| "riskRank RiskMedium = 2"
| "riskRank RiskLow = 1"
| "riskRank RiskNone = 0"

definition maxRisk :: "Finding list \<Rightarrow> RiskLevel" where
  "maxRisk findings =
     foldl (\<lambda>risk f. if riskRank (fi_Severity f) > riskRank risk then fi_Severity f else risk) RiskNone findings"

definition DefaultPolicy :: Policy where
  "DefaultPolicy = \<lparr>po_Mode = ModeEnforce, po_Version = 1\<rparr>"

definition EvaluatePolicy :: "Policy \<Rightarrow> RiskLevel \<Rightarrow> Finding list \<Rightarrow> Decision" where
  "EvaluatePolicy policy risk findings =
     (if po_Mode policy = ModeWarn \<or> po_Mode policy = ModeDisabledDevOnly
      then (if findings = [] \<and> risk = RiskNone then DecisionApproved else DecisionWarnOnlyAllowed)
      else if risk = RiskHigh \<or> risk = RiskCritical then DecisionRejected
      else if risk = RiskMedium then DecisionPendingApproval
      else if risk = RiskLow then DecisionApprovedWithWarnings
      else DecisionApproved)"

definition DecisionAllowsUse :: "Decision \<Rightarrow> bool" where
  "DecisionAllowsUse d \<longleftrightarrow>
     d = DecisionApproved \<or> d = DecisionApprovedWithWarnings \<or> d = DecisionWarnOnlyAllowed"

definition containsAny :: "string \<Rightarrow> string list \<Rightarrow> bool" where
  "containsAny text needles = list_ex (Contains text) needles"

definition evidence :: "string \<Rightarrow> string" where
  "evidence text = (let trimmed = TrimSpace text in if length trimmed \<le> 160 then trimmed else take 160 trimmed)"

definition exfiltration_needles :: "string list" where
  "exfiltration_needles = [''exfiltrate'', ''steal secrets'', ''dump secrets'', ''send secrets'', ''vault token'']"

definition bypass_needles :: "string list" where
  "bypass_needles = [''ignore policy'', ''bypass policy'', ''disable audit'', ''skip approval'']"

definition network_needles :: "string list" where
  "network_needles = [''unrestricted network'', ''any external url'', ''private cidr'', ''169.254.169.254'']"

definition prompt_needles :: "string list" where
  "prompt_needles = [''prompt injection'', ''developer message'', ''system prompt'']"

text \<open>The four rules of the scanner: needles, rule id, severity, message, recommendation.\<close>

definition scan_rules :: "(string list \<times> string \<times> RiskLevel \<times> string \<times> string) list" where
  "scan_rules =
     [(exfiltration_needles, ''secrets.exfiltration'', RiskCritical,
       ''content asks to expose or exfiltrate secrets'', ''remove secret access/exfiltration instructions''),
      (bypass_needles, ''policy.bypass'', RiskHigh,
       ''content asks to bypass policy or approval'', ''remove policy bypass instructions''),
      (network_needles, ''network.unrestricted'', RiskHigh,
       ''content requests unsafe network access'', ''scope egress to approved destinations''),
      (prompt_needles, ''prompt.injection'', RiskMedium,
       ''content references prompt-injection sensitive behavior'', ''clarify safe handling of instructions'')]"

definition rule_findings :: "string \<Rightarrow> string \<Rightarrow> string list \<times> string \<times> RiskLevel \<times> string \<times> string \<Rightarrow> Finding list" where
  "rule_findings text lower = (\<lambda>(needles, rule, sev, msg, rec).
     if containsAny lower needles
     then [\<lparr>fi_RuleID = rule, fi_Severity = sev, fi_Message = msg, fi_Evidence = evidence text, fi_Recommendation = rec\<rparr>]
     else [])"

definition Scan :: "(string \<Rightarrow> string) \<Rightarrow> ScanInput \<Rightarrow> ScanResult" where
  "Scan ul input =
     (let lower = ToLower ul (si_Text input);
          findings = concat (map (rule_findings (si_Text input) lower) scan_rules);
          risk = maxRisk findings
      in \<lparr>sr_RiskLevel = risk,
          sr_Decision = EvaluatePolicy \<lparr>po_Mode = ModeEnforce, po_Version = 1\<rparr> risk findings,
          sr_Findings = findings\<rparr>)"

definition ContentDigest :: "(string \<Rightarrow> string) \<Rightarrow> string \<Rightarrow> string" where
  "ContentDigest sha256 text = hex_encode (sha256 text)"

section \<open>Facts\<close>

lemma worst_fold:
  fixes fs :: "Finding list"
  defines "worst \<equiv> foldl (\<lambda>risk f. if riskRank (fi_Severity f) > riskRank risk then fi_Severity f else risk)"
  shows "riskRank r \<le> riskRank (worst r fs) \<and> (\<forall>f\<in>set fs. riskRank (fi_Severity f) \<le> riskRank (worst r fs))"
proof (induction fs arbitrary: r)
  case Nil
  then show ?case by (simp add: worst_def)
next
  case (Cons f fs)
  let ?r = "if riskRank (fi_Severity f) > riskRank r then fi_Severity f else r"
  have "worst r (f # fs) = worst ?r fs" by (simp add: worst_def)
  moreover have "riskRank r \<le> riskRank ?r" "riskRank (fi_Severity f) \<le> riskRank ?r" by simp_all
  ultimately show ?case using Cons [of ?r] by (auto intro: order_trans)
qed

text \<open>The risk of a scan is that of its worst finding.\<close>

lemma maxRisk_ge: "f \<in> set fs \<Longrightarrow> riskRank (fi_Severity f) \<le> riskRank (maxRisk fs)"
  using worst_fold [of RiskNone fs] by (simp add: maxRisk_def)

lemma riskRank_inj: "riskRank a = riskRank b \<longleftrightarrow> a = b"
  by (cases a; cases b) simp_all

text \<open>The scanner lets content through exactly when none of its sixteen phrases occurs in the
  lowered text, and rejects it outright exactly when one of the thirteen phrases of the critical
  and high rules occurs.\<close>

theorem Scan_decision:
  "DecisionAllowsUse (sr_Decision (Scan ul input)) =
     (\<not> list_ex (containsAny (ToLower ul (si_Text input)))
          [exfiltration_needles, bypass_needles, network_needles, prompt_needles]) \<and>
   (sr_Decision (Scan ul input) = DecisionRejected) =
     list_ex (containsAny (ToLower ul (si_Text input))) [exfiltration_needles, bypass_needles, network_needles]"
proof -
  let ?c = "containsAny (ToLower ul (si_Text input))"
  show ?thesis
    by (cases "?c exfiltration_needles"; cases "?c bypass_needles"; cases "?c network_needles";
        cases "?c prompt_needles")
      (simp_all add: Scan_def Let_def rule_findings_def scan_rules_def maxRisk_def EvaluatePolicy_def
        DecisionAllowsUse_def)
qed

end
