(* ===== verification/Frontend.thy ===== *)
theory Frontend
  imports Http
begin

text \<open>
  The static frontend, \<open>handleFrontend\<close> of \<open>server.go\<close>: which file of the directory a request is
  answered with. \<open>filepath.Clean\<close> and \<open>filepath.Join\<close> are Go's for Unix, \<open>ServeFile\<close> the part of
  \<open>http.ServeFile\<close> that decides by the request's path; \<open>stat\<close> is the file system (\<open>Some True\<close> a
  directory).
\<close>

section \<open>Paths\<close>

definition clean_step :: "bool \<Rightarrow> string \<Rightarrow> string list \<Rightarrow> string list" where
  "clean_step rooted seg out =
     (if seg = [] \<or> seg = ''.'' then out
      else if seg = ''..''
      then if out \<noteq> [] \<and> last out \<noteq> ''..'' then butlast out else if rooted then out else out @ [seg]
      else out @ [seg])"

definition clean_segs :: "bool \<Rightarrow> string list \<Rightarrow> string list" where
  "clean_segs rooted segs = fold (clean_step rooted) segs []"

definition rooted :: "string \<Rightarrow> bool" where
  "rooted p \<longleftrightarrow> prefix ''/'' p"

definition path_at :: "bool \<Rightarrow> string list \<Rightarrow> string" where
  "path_at r segs = (if r then ''/'' @ Join segs ''/'' else if segs = [] then ''.'' else Join segs ''/'')"

definition Clean :: "string \<Rightarrow> string" where
  "Clean p = path_at (rooted p) (clean_segs (rooted p) (split_on CHR ''/'' p))"

definition filepath_Join :: "string list \<Rightarrow> string" where
  "filepath_Join elems = (case filter (\<lambda>e. e \<noteq> []) elems of [] \<Rightarrow> [] | es \<Rightarrow> Clean (Join es ''/''))"

section \<open>The handler\<close>

datatype page = Served string | PageRedirect string | PageResponse Response

definition containsDotDot :: "string \<Rightarrow> bool" where
  "containsDotDot v \<longleftrightarrow> list_ex (\<lambda>e. e = ''..'') (concat (map (split_on CHR 0x5C) (split_on CHR ''/'' v)))"

definition ServeFile :: "string \<Rightarrow> string \<Rightarrow> page" where
  "ServeFile path file =
     (if containsDotDot path then PageResponse (http_Error ''invalid URL path'' 400)
      else if suffix ''/index.html'' path then PageRedirect ''./''
      else Served file)"

definition handleFrontend :: "(string \<Rightarrow> bool option) \<Rightarrow> string \<Rightarrow> Request \<Rightarrow> page" where
  "handleFrontend stat staticDir q =
     (if q_method q \<noteq> ''GET'' \<and> q_method q \<noteq> ''HEAD'' then PageResponse methodNotAllowed
      else if HasPrefix (q_path q) ''/api/'' then PageResponse NotFound
      else if staticDir = [] then PageResponse NotFound
      else
        let requested = filepath_Join [staticDir, Clean (q_path q)] in
        if stat requested = Some False then ServeFile (q_path q) requested
        else
          let index = filepath_Join [staticDir, ''index.html''] in
          if stat index = None then PageResponse NotFound else ServeFile (q_path q) index)"

section \<open>What is served\<close>

definition plain :: "string \<Rightarrow> bool" where
  "plain seg \<longleftrightarrow> seg \<noteq> [] \<and> seg \<noteq> ''.'' \<and> seg \<noteq> ''..'' \<and> CHR ''/'' \<notin> set seg"

lemma fold_plain: "list_all plain segs \<Longrightarrow> fold (clean_step r) segs out = out @ segs"
  by (induction segs arbitrary: out) (simp_all add: clean_step_def plain_def)

lemma fold_names:
  "''..'' \<notin> set segs \<Longrightarrow> fold (clean_step r) segs out = out @ filter (\<lambda>s. s \<noteq> [] \<and> s \<noteq> ''.'') segs"
  by (induction segs arbitrary: out) (auto simp: clean_step_def)

lemma clean_segs_append: "clean_segs r (xs @ ys) = fold (clean_step r) ys (clean_segs r xs)"
  by (simp add: clean_segs_def)

lemma split_on_Join_two:
  "split_on d (p @ d # q) = split_on d p @ split_on d q"
  by (induction p) (auto split: list.splits)

lemma rooted_append: "p \<noteq> [] \<Longrightarrow> rooted (p @ q) = rooted p"
  by (cases p) (auto simp: rooted_def)

lemma Clean_under:
  assumes "dir \<noteq> []" "list_all plain names"
  shows "filepath_Join [dir, path_at r names] = path_at (rooted dir) (clean_segs (rooted dir) (split_on CHR ''/'' dir) @ names)"
proof -
  have "fold (clean_step (rooted dir)) (split_on CHR ''/'' (path_at r names)) out = out @ names" for out
  proof (cases "names = []")
    case True
    then show ?thesis by (simp add: path_at_def clean_step_def)
  next
    case False
    then have "split_on CHR ''/'' (Join names ''/'') = names"
      using assms(2) by (intro split_on_Join) (auto simp: plain_def list_all_iff)
    with False assms(2) show ?thesis
      by (auto simp: path_at_def clean_step_def fold_plain)
  qed
  moreover have "path_at r names \<noteq> []"
    using assms(2) by (cases names rule: Join.cases [of "(_, ''/'')"]) (auto simp: path_at_def plain_def)
  ultimately show ?thesis
    using assms(1) by (simp add: filepath_Join_def Clean_def rooted_append split_on_Join_two clean_segs_append)
qed

lemma no_dots_clean:
  assumes "\<not> containsDotDot p"
  shows "\<exists>names. list_all plain names \<and> clean_segs r (split_on CHR ''/'' p) = names"
proof -
  let ?segs = "split_on CHR ''/'' p"
  have "''..'' \<notin> set ?segs"
  proof
    assume "''..'' \<in> set ?segs"
    moreover have "split_on CHR 0x5C ''..'' = [''..'']" by simp
    ultimately have "''..'' \<in> set (concat (map (split_on CHR 0x5C) ?segs))" by force
    with assms show False by (auto simp: containsDotDot_def list_ex_iff)
  qed
  then have "clean_segs r ?segs = filter (\<lambda>s. s \<noteq> [] \<and> s \<noteq> ''.'') ?segs"
    using fold_names [of ?segs r "[]"] by (simp add: clean_segs_def)
  moreover have "list_all plain (filter (\<lambda>s. s \<noteq> [] \<and> s \<noteq> ''.'') ?segs)"
    using split_on_no_sep [of _ "CHR ''/''" p] \<open>''..'' \<notin> set ?segs\<close> by (auto simp: list_all_iff plain_def)
  ultimately show ?thesis by blast
qed

text \<open>C37: Static files stay inside. Whatever path a request names, the file it is answered with lies in the
  static directory: its path is the directory's, cleaned, followed by names none of which is empty or
  leads upwards.\<close>

theorem frontend_stays_inside:
  assumes "handleFrontend stat staticDir q = Served file"
  shows "\<exists>names. list_all plain names \<and> stat file \<noteq> None \<and>
    file = path_at (rooted staticDir) (clean_segs (rooted staticDir) (split_on CHR ''/'' staticDir) @ names)"
proof -
  from assms have dir: "staticDir \<noteq> []" and dots: "\<not> containsDotDot (q_path q)"
    by (auto simp: handleFrontend_def ServeFile_def Let_def split: if_splits)
  from assms consider (asked) "file = filepath_Join [staticDir, Clean (q_path q)]" "stat file = Some False"
    | (index) "file = filepath_Join [staticDir, ''index.html'']" "stat file \<noteq> None"
    by (auto simp: handleFrontend_def ServeFile_def Let_def split: if_splits)
  then show ?thesis
  proof cases
    case asked
    from no_dots_clean [OF dots] obtain names where names: "list_all plain names"
      "clean_segs (rooted (q_path q)) (split_on CHR ''/'' (q_path q)) = names" by blast
    have "Clean (q_path q) = path_at (rooted (q_path q)) names" by (simp only: Clean_def names(2))
    with asked(1) have "file = path_at (rooted staticDir) (clean_segs (rooted staticDir) (split_on CHR ''/'' staticDir) @ names)"
      by (simp only: Clean_under [OF dir names(1)])
    with asked(2) names(1) show ?thesis by (intro exI [of _ names]) simp
  next
    case index
    have "list_all plain [''index.html'']" by (simp add: plain_def)
    from Clean_under [OF dir this, of False] index this show ?thesis
      by (intro exI [of _ "[''index.html'']"]) (simp add: path_at_def)
  qed
qed

definition sample_files :: "string \<Rightarrow> bool option" where
  "sample_files f = (if f \<in> {''/srv/dist/app.js'', ''/srv/dist/index.html''} then Some False
     else if f = ''/srv/secret'' then Some False else None)"

definition sample_get :: "string \<Rightarrow> Request" where
  "sample_get path = \<lparr>q_method = ''GET'', q_path = path, q_pathvalue = (\<lambda>_. []),
        q_query = (\<lambda>_. []), q_authorization = [], q_cookie = Map.empty, q_origin = [], q_host = [], q_remote = [],
        q_body = None, q_ctx = (\<lambda>_. None), q_now = (\<lambda>_. 0), q_rnd = (\<lambda>_. None), q_order = []\<rparr>"

theorem frontend_stays_inside_witness:
  "\<exists>names. list_all plain names \<and> sample_files ''/srv/dist/app.js'' \<noteq> None \<and>
    ''/srv/dist/app.js'' = path_at (rooted ''/srv//x/../dist/'')
      (clean_segs (rooted ''/srv//x/../dist/'') (split_on CHR ''/'' ''/srv//x/../dist/'') @ names)"
proof (rule frontend_stays_inside)
  have "case handleFrontend sample_files ''/srv//x/../dist/'' (sample_get ''/./app.js'') of
      Served f \<Rightarrow> f = ''/srv/dist/app.js'' | _ \<Rightarrow> False"
    by code_simp
  then show "handleFrontend sample_files ''/srv//x/../dist/'' (sample_get ''/./app.js'') = Served ''/srv/dist/app.js''"
    by (simp split: page.splits)
qed

text \<open>A path that climbs out is refused; any other path without a file gets the application's page.\<close>

lemma climbing_refused:
  "containsDotDot (q_path q) \<Longrightarrow> handleFrontend stat staticDir q \<noteq> Served file"
  by (auto simp: handleFrontend_def ServeFile_def Let_def)

lemma unknown_path_gets_app:
  assumes "q_method q = ''GET''" "\<not> HasPrefix (q_path q) ''/api/''" "staticDir \<noteq> []" "\<not> containsDotDot (q_path q)"
    and "\<not> suffix ''/index.html'' (q_path q)" "stat (filepath_Join [staticDir, Clean (q_path q)]) = None"
    and "stat (filepath_Join [staticDir, ''index.html'']) = Some False"
  shows "handleFrontend stat staticDir q = Served (filepath_Join [staticDir, ''index.html''])"
  using assms by (simp add: handleFrontend_def ServeFile_def Let_def)

end
