(* ===== verification/Middleware.thy ===== *)
theory Middleware
  imports Http
begin

text \<open>
  What wraps every handler in \<open>server.go\<close>: \<open>withMetrics\<close> with its \<open>statusWriter\<close>, and \<open>withRecover\<close>.
  A handler is seen here as what it does to its response writer, followed by its end; \<open>on_wire\<close> is what
  net/http makes of that (the first status counts, a body without a status means 200). \<open>StatusText\<close> is
  \<open>http.StatusText\<close>.
\<close>

section \<open>Handlers as calls of the response writer\<close>

text \<open>\<open>SetStatus\<close> is a call of \<open>WriteHeader\<close> with a final status, \<open>Write\<close> one of \<open>Write\<close>; a handler that takes
  its connection over (a websocket) makes neither.\<close>

datatype call = SetStatus int | Write string

datatype ending = Returns | AbortsHandler | Panics string

type_synonym run = "call list \<times> ending"

record Wire =
  wi_Status :: "int option"
  wi_Body :: string

fun on_wire :: "Wire \<Rightarrow> call list \<Rightarrow> Wire" where
  "on_wire w [] = w"
| "on_wire w (SetStatus code # cs) = on_wire (if wi_Status w = None then w\<lparr>wi_Status := Some code\<rparr> else w) cs"
| "on_wire w (Write b # cs) =
     on_wire (w\<lparr>wi_Status := (case wi_Status w of None \<Rightarrow> Some 200 | Some c \<Rightarrow> Some c), wi_Body := wi_Body w @ b\<rparr>) cs"

definition no_wire :: Wire where
  "no_wire = \<lparr>wi_Status = None, wi_Body = []\<rparr>"

text \<open>The status line of a response whose handler returned; an aborted one has its connection closed.\<close>

definition sent_status :: "call list \<Rightarrow> int" where
  "sent_status cs = (case wi_Status (on_wire no_wire cs) of None \<Rightarrow> 200 | Some c \<Rightarrow> c)"

section \<open>Metrics\<close>

text \<open>\<open>statusWriter\<close>: 200 until the handler names a status, then the last one it names.\<close>

fun seen_status :: "int \<Rightarrow> call list \<Rightarrow> int" where
  "seen_status st [] = st"
| "seen_status st (SetStatus code # cs) = seen_status code cs"
| "seen_status st (Write b # cs) = seen_status st cs"

record RequestMetrics =
  rm_requests :: "(string \<times> string \<times> string) \<rightharpoonup> nat"
  rm_durations :: "((string \<times> string) \<times> time) list"

definition Inc :: "'k \<Rightarrow> ('k \<rightharpoonup> nat) \<Rightarrow> ('k \<rightharpoonup> nat)" where
  "Inc k m = m(k \<mapsto> (case m k of None \<Rightarrow> 1 | Some n \<Rightarrow> n + 1))"

definition withMetrics ::
  "(int \<Rightarrow> string) \<Rightarrow> time \<Rightarrow> string \<Rightarrow> string \<Rightarrow> run \<Rightarrow> RequestMetrics \<Rightarrow> RequestMetrics \<times> run" where
  "withMetrics StatusText duration mthd path next m =
     (case next of
        (cs, Returns) \<Rightarrow>
          (m\<lparr>rm_requests := Inc (mthd, path, StatusText (seen_status 200 cs)) (rm_requests m),
             rm_durations := rm_durations m @ [((mthd, path), duration)]\<rparr>, next)
      | (cs, _) \<Rightarrow> (m, next))"

section \<open>Recovery\<close>

definition withRecover :: "run \<Rightarrow> run" where
  "withRecover next =
     (case next of
        (cs, Returns) \<Rightarrow> next
      | (cs, AbortsHandler) \<Rightarrow> next
      | (cs, Panics what) \<Rightarrow> (cs @ [SetStatus 500, Write (''internal server error'' @ [CHR 0x0A])], Returns))"

definition serve ::
  "(int \<Rightarrow> string) \<Rightarrow> time \<Rightarrow> string \<Rightarrow> string \<Rightarrow> run \<Rightarrow> RequestMetrics \<Rightarrow> RequestMetrics \<times> run" where
  "serve StatusText duration mthd path next m =
     (case withMetrics StatusText duration mthd path next m of (m', r) \<Rightarrow> (m', withRecover r))"

section \<open>What clients and metrics see\<close>

lemma on_wire_append: "on_wire w (xs @ ys) = on_wire (on_wire w xs) ys"
  by (induction w xs rule: on_wire.induct) simp_all

lemma on_wire_status: "wi_Status w = Some c \<Longrightarrow> wi_Status (on_wire w cs) = Some c"
  by (induction w cs rule: on_wire.induct) simp_all

fun names_status :: "call \<Rightarrow> bool" where
  "names_status (SetStatus c) = True"
| "names_status (Write b) = False"

text \<open>A handler names its status at most once, before it writes.\<close>

definition disciplined :: "call list \<Rightarrow> bool" where
  "disciplined cs \<longleftrightarrow> (case cs of [] \<Rightarrow> True | c # rest \<Rightarrow> \<not> list_ex names_status rest)"

lemma seen_status_writes: "\<not> list_ex names_status cs \<Longrightarrow> seen_status st cs = st"
  by (induction st cs rule: seen_status.induct) simp_all

lemma seen_is_sent: "disciplined cs \<Longrightarrow> seen_status 200 cs = sent_status cs"
proof (cases cs)
  case (Cons c rest)
  assume "disciplined cs"
  with Cons have "\<not> list_ex names_status rest" by (simp add: disciplined_def)
  with Cons show ?thesis
    by (cases c) (simp_all add: sent_status_def no_wire_def seen_status_writes on_wire_status)
qed (simp add: sent_status_def no_wire_def)

lemma on_wire_body: "wi_Body (on_wire w cs) = wi_Body w @ concat (map (\<lambda>c. case c of Write b \<Rightarrow> b | SetStatus n \<Rightarrow> []) cs)"
  by (induction w cs rule: on_wire.induct) simp_all

text \<open>A handler that returns is counted once, under the status the client was sent, if it names one status
  at most and before it writes.\<close>

lemma counted_under_sent_status:
  "disciplined cs \<Longrightarrow> rm_requests (fst (serve T d mthd path (cs, Returns) m)) = Inc (mthd, path, T (sent_status cs)) (rm_requests m)"
  by (simp add: serve_def withMetrics_def seen_is_sent)

text \<open>A panic is contained. Whatever a handler has written when it panics, the connection is answered and
  what follows is a fixed text that says nothing of the panic; the status is 500 unless one was already
  sent. Such a request appears in no metric. Only the abort that net/http reserves for itself passes.\<close>

theorem panics_are_contained:
  "snd (snd (serve T d mthd path (cs, Panics what) m)) = Returns \<and>
   sent_status (fst (snd (serve T d mthd path (cs, Panics what) m))) =
     (case wi_Status (on_wire no_wire cs) of None \<Rightarrow> 500 | Some c \<Rightarrow> c) \<and>
   wi_Body (on_wire no_wire (fst (snd (serve T d mthd path (cs, Panics what) m)))) =
     wi_Body (on_wire no_wire cs) @ ''internal server error'' @ [CHR 0x0A] \<and>
   fst (serve T d mthd path (cs, Panics what) m) = m \<and>
   serve T d mthd path (cs, AbortsHandler) m = (m, (cs, AbortsHandler))"
  by (simp add: serve_def withMetrics_def withRecover_def sent_status_def on_wire_append split: option.split)

text \<open>Every path a client makes up adds a series, and no series is ever dropped.\<close>

lemma Inc_dom [simp]: "dom (Inc k m) = insert k (dom m)"
  by (auto simp: Inc_def)

definition series :: "RequestMetrics \<Rightarrow> (string \<times> string \<times> string) set" where
  "series m = dom (rm_requests m)"

lemma series_grow:
  "series (fold (\<lambda>p m. fst (serve T d ''GET'' p (cs, Returns) m)) paths m) =
     series m \<union> (\<lambda>p. (''GET'', p, T (seen_status 200 cs))) ` set paths"
  by (induction paths arbitrary: m) (auto simp: serve_def withMetrics_def series_def)

lemma one_series_per_path:
  assumes "distinct paths" "series m = {}"
  shows "card (series (fold (\<lambda>p m. fst (serve T d ''GET'' p (cs, Returns) m)) paths m)) = length paths"
  using assms by (simp add: series_grow card_image inj_on_def distinct_card)

end
