(* ===== verification/Background.thy ===== *)
theory Background
  imports Registry IdP
begin

text \<open>
  The goroutines that keep the registries up to date: the directory watcher of \<open>file_registry.go\<close>, the poll
  loop of \<open>db_registry.go\<close> and the retry loop of \<open>identity/registry.go\<close>. A loop is a function of what
  its \<open>select\<close> receives, in order; what it does each time is an operation of the theories
  \<open>Registry\<close> and \<open>IdP\<close>.
\<close>

section \<open>The directory watcher\<close>

text \<open>What the watcher's \<open>select\<close> receives; \<open>Fires\<close> comes with the directory as the scan finds it then.\<close>

datatype watch_event =
  CtxDone | FsEvent | EventsClosed | WatchError | ErrorsClosed | Fires "dir_entry list result"

text \<open>\<open>armed\<close>: the debounce timer is set. The flag of the result says whether the loop still runs.\<close>

fun watch ::
  "plugin_ops \<Rightarrow> (string \<Rightarrow> string) \<Rightarrow> (string \<Rightarrow> string) \<Rightarrow> bool \<Rightarrow> watch_event list \<Rightarrow> FileRegistry \<Rightarrow> FileRegistry \<times> bool" where
  "watch P ul path armed [] r = (r, True)"
| "watch P ul path armed (CtxDone # es) r = (r, False)"
| "watch P ul path armed (FsEvent # es) r = watch P ul path True es r"
| "watch P ul path armed (EventsClosed # es) r = (r, False)"
| "watch P ul path armed (WatchError # es) r = watch P ul path armed es r"
| "watch P ul path armed (ErrorsClosed # es) r = (r, False)"
| "watch P ul path armed (Fires entries # es) r =
     (if armed then watch P ul path False es (file_rescan P ul path entries r) else watch P ul path armed es r)"

text \<open>\<open>Run\<close>: the first scan, then the watcher if it can be made and the directory added to it.\<close>

definition file_Run ::
  "plugin_ops \<Rightarrow> (string \<Rightarrow> string) \<Rightarrow> (string \<Rightarrow> string) \<Rightarrow> dir_entry list result \<Rightarrow> unit result \<Rightarrow> unit result
     \<Rightarrow> watch_event list \<Rightarrow> FileRegistry \<Rightarrow> FileRegistry" where
  "file_Run P ul path entries watcher added es r =
     (let r1 = scan P ul path entries r in
      case watcher of
        Inl err \<Rightarrow> r1
      | Inr _ \<Rightarrow> (case added of Inl err \<Rightarrow> r1 | Inr _ \<Rightarrow> fst (watch P ul path False es r1)))"

lemma watch_append:
  "watch P ul path armed (xs @ ys) r =
     (if snd (watch P ul path armed xs r)
      then watch P ul path (foldl (\<lambda>a e. case e of FsEvent \<Rightarrow> True | Fires x \<Rightarrow> False | _ \<Rightarrow> a) armed xs) ys (fst (watch P ul path armed xs r))
      else watch P ul path armed xs r)"
  by (induction P ul path armed xs r rule: watch.induct) auto

text \<open>A burst of changes costs one scan, and no change is lost: whatever went before, a change followed by
  the timer ends with a scan of the directory as it then is.\<close>

lemma burst_scanned_once:
  "watch P ul path armed (replicate (Suc n) FsEvent @ Fires entries # es) r =
     watch P ul path False es (file_rescan P ul path entries r)"
proof -
  have "watch P ul path True (replicate n FsEvent @ Fires entries # es) r =
      watch P ul path False es (file_rescan P ul path entries r)"
    by (induction n) simp_all
  then show ?thesis by simp
qed

lemma last_change_scanned:
  assumes "snd (watch P ul path armed es r)"
  shows "watch P ul path armed (es @ [FsEvent, Fires entries]) r =
    (file_rescan P ul path entries (fst (watch P ul path armed es r)), True)"
  using assms by (simp add: watch_append)

text \<open>A directory that cannot be watched when the program starts is never looked at again.\<close>

lemma unwatched_directory_fixed:
  "file_Run P ul path entries (Inr ()) (Inl err) es r = scan P ul path entries r"
  by (simp add: file_Run_def)

section \<open>The poll of the database\<close>

datatype tick = Tick "PluginManifest list result" | Stop_polling

fun poll_loop :: "plugin_ops \<Rightarrow> (string \<Rightarrow> string) \<Rightarrow> tick list \<Rightarrow> DBRegistry \<Rightarrow> DBRegistry" where
  "poll_loop P sha256 [] r = r"
| "poll_loop P sha256 (Stop_polling # ts) r = r"
| "poll_loop P sha256 (Tick listed # ts) r = poll_loop P sha256 ts (poll P sha256 listed r)"

text \<open>The constructor's interval; \<open>time.NewTicker\<close> panics when it is not positive, and the panic of a
  goroutine ends the program (\<open>None\<close>).\<close>

definition poll_interval :: "int \<Rightarrow> int" where
  "poll_interval interval = (if interval = 0 then 10000000000 else interval)"

definition db_Run ::
  "plugin_ops \<Rightarrow> (string \<Rightarrow> string) \<Rightarrow> int \<Rightarrow> PluginManifest list result \<Rightarrow> tick list \<Rightarrow> DBRegistry \<Rightarrow> DBRegistry option" where
  "db_Run P sha256 interval listed ts r =
     (let r1 = poll P sha256 listed r in
      if poll_interval interval \<le> 0 then None else Some (poll_loop P sha256 ts r1))"

text \<open>\<open>NewServer\<close> takes the interval from the configuration and drops the error of a text that is no
  duration.\<close>

definition configured_interval :: "plugin_ops \<Rightarrow> string \<Rightarrow> int" where
  "configured_interval P s = (case ParseTimeout P s of Inl err \<Rightarrow> 0 | Inr d \<Rightarrow> d)"

lemma interval_crash_iff:
  "db_Run P sha256 (configured_interval P s) listed ts r = None \<longleftrightarrow> (\<exists>d<0. ParseTimeout P s = Inr d)"
  by (auto simp: db_Run_def poll_interval_def configured_interval_def Let_def split: sum.splits)

lemma failed_polls_keep:
  "list_all (\<lambda>t. case t of Tick listed \<Rightarrow> isl listed | Stop_polling \<Rightarrow> True) ts \<Longrightarrow> poll_loop P sha256 ts r = r"
  by (induction P sha256 ts r rule: poll_loop.induct) (auto simp: poll_def isl_def)

section \<open>The retries of the identity providers\<close>

text \<open>Each tick comes with the answers of the providers' discovery at that time.\<close>

datatype retry_tick = Retry "string \<Rightarrow> string \<Rightarrow> discovered result" "string list" | Stop_retrying

fun retry_loop :: "retry_tick list \<Rightarrow> idpRegistry \<Rightarrow> idpRegistry" where
  "retry_loop [] r = r"
| "retry_loop (Stop_retrying # ts) r = r"
| "retry_loop (Retry discover ks # ts) r = retry_loop ts (retryDegraded discover ks r)"

lemma retry_loop_reachable: "idp_reachable r \<Longrightarrow> idp_reachable (retry_loop ts r)"
proof (induction ts r rule: retry_loop.induct)
  case (3 discover ks ts r)
  then show ?case using idp_reachable.step [of r "OpRetry discover ks"] by simp
qed simp_all

end
