(* ===== verification/Cli.thy ===== *)
theory Cli
  imports Samples
begin

text \<open>
  The server's main program, \<open>cmd/shclop/main.go\<close>, with \<open>ListenAndServe\<close> of \<open>server.go\<close> up to the point
  where it listens, and \<open>logging.New\<close>. \<open>parse_flags\<close> is \<open>flag.Parse\<close> of Go's library on the flags that
  \<open>main\<close> declares; a refused command line ends the program with the status the library gives it.
\<close>

section \<open>Flags\<close>

datatype setter = StringVar "string \<Rightarrow> Config \<Rightarrow> Config" | BoolVar "bool \<Rightarrow> Config \<Rightarrow> Config"

definition main_flags :: "(string \<times> setter) list" where
  "main_flags =
     [(''addr'', StringVar (\<lambda>v c. c\<lparr>c_Addr := v\<rparr>)),
      (''dev'', BoolVar (\<lambda>v c. c\<lparr>c_Dev := v\<rparr>)),
      (''mock-runtime'', BoolVar (\<lambda>v c. c\<lparr>c_MockRuntime := v\<rparr>)),
      (''mock-llm'', BoolVar (\<lambda>v c. c\<lparr>c_MockLLM := v\<rparr>)),
      (''mock-secrets'', BoolVar (\<lambda>v c. c\<lparr>c_MockSecrets := v\<rparr>)),
      (''store'', StringVar (\<lambda>v c. c\<lparr>c_Store := v\<rparr>)),
      (''postgres-dsn'', StringVar (\<lambda>v c. c\<lparr>c_PostgresDSN := v\<rparr>)),
      (''sandbox-provider'', StringVar (\<lambda>v c. c\<lparr>c_SandboxProvider := v\<rparr>)),
      (''docker-gateway-url'', StringVar (\<lambda>v c. c\<lparr>c_DockerGatewayURL := v\<rparr>)),
      (''kubernetes-namespace'', StringVar (\<lambda>v c. c\<lparr>c_KubernetesNamespace := v\<rparr>)),
      (''kubernetes-gateway-url'', StringVar (\<lambda>v c. c\<lparr>c_KubernetesGatewayURL := v\<rparr>)),
      (''agent-runtime-class'', StringVar (\<lambda>v c. c\<lparr>c_AgentRuntimeClassName := v\<rparr>)),
      (''workspace-storage-class'', StringVar (\<lambda>v c. c\<lparr>c_WorkspaceStorageClass := v\<rparr>)),
      (''workspace-size'', StringVar (\<lambda>v c. c\<lparr>c_WorkspaceSize := v\<rparr>)),
      (''workspace-retention'', StringVar (\<lambda>v c. c\<lparr>c_WorkspaceRetention := v\<rparr>)),
      (''network-policy'', BoolVar (\<lambda>v c. c\<lparr>c_NetworkPolicyEnabled := v\<rparr>)),
      (''network-policy-mode'', StringVar (\<lambda>v c. c\<lparr>c_NetworkPolicyMode := v\<rparr>)),
      (''network-policy-allowed-cidrs'', StringVar (\<lambda>v c. c\<lparr>c_NetworkPolicyCIDRs := v\<rparr>)),
      (''runtime-secret-store'', StringVar (\<lambda>v c. c\<lparr>c_SecretStore := v\<rparr>)),
      (''log-level'', StringVar (\<lambda>v c. c\<lparr>c_LogLevel := v\<rparr>)),
      (''metrics'', BoolVar (\<lambda>v c. c\<lparr>c_Metrics := v\<rparr>)),
      (''static-dir'', StringVar (\<lambda>v c. c\<lparr>c_StaticDir := v\<rparr>)),
      (''llm-gateway-base-url'', StringVar (\<lambda>v c. c\<lparr>c_LLMGatewayBaseURL := v\<rparr>)),
      (''llm-gateway-secret-name'', StringVar (\<lambda>v c. c\<lparr>c_LLMGatewaySecretName := v\<rparr>)),
      (''llm-gateway-secret-key'', StringVar (\<lambda>v c. c\<lparr>c_LLMGatewaySecretKey := v\<rparr>)),
      (''bootstrap-admin-username'', StringVar (\<lambda>v c. c\<lparr>c_BootstrapAdminUsername := v\<rparr>)),
      (''observability-grafana-url'', StringVar (\<lambda>v c. c\<lparr>c_GrafanaURL := v\<rparr>))]"

definition ParseBool :: "string \<Rightarrow> bool option" where
  "ParseBool v =
     (if v \<in> {''1'', ''t'', ''T'', ''TRUE'', ''true'', ''True''} then Some True
      else if v \<in> {''0'', ''f'', ''F'', ''FALSE'', ''false'', ''False''} then Some False else None)"

fun cut_value :: "string \<Rightarrow> string \<times> string option" where
  "cut_value [] = ([], None)"
| "cut_value (c # s) = (if c = CHR ''='' then ([], Some s) else (case cut_value s of (n, v) \<Rightarrow> (c # n, v)))"

datatype argument = Rest | BadSyntax | Flag string "string option"

definition read_argument :: "string \<Rightarrow> argument" where
  "read_argument s =
     (if length s < 2 \<or> \<not> HasPrefix s ''-'' \<or> s = ''--'' then Rest
      else
        let body = (if HasPrefix s ''--'' then drop 2 s else drop 1 s) in
        if body = [] \<or> HasPrefix body ''-'' \<or> HasPrefix body ''='' then BadSyntax
        else (case cut_value body of (name, v) \<Rightarrow> Flag name v))"

datatype parsed = Parsed Config | Exits int

fun parse_flags :: "(string \<times> setter) list \<Rightarrow> Config \<Rightarrow> string list \<Rightarrow> parsed" where
  "parse_flags flags cfg [] = Parsed cfg"
| "parse_flags flags cfg (a # args) =
     (case read_argument a of
        Rest \<Rightarrow> Parsed cfg
      | BadSyntax \<Rightarrow> Exits 2
      | Flag name v \<Rightarrow>
          (case map_of flags name of
             None \<Rightarrow> Exits (if name \<in> {''help'', ''h''} then 0 else 2)
           | Some (BoolVar put) \<Rightarrow>
               (case v of
                  None \<Rightarrow> parse_flags flags (put True cfg) args
                | Some w \<Rightarrow> (case ParseBool w of None \<Rightarrow> Exits 2 | Some b \<Rightarrow> parse_flags flags (put b cfg) args))
           | Some (StringVar put) \<Rightarrow>
               (case v of
                  Some w \<Rightarrow> parse_flags flags (put w cfg) args
                | None \<Rightarrow> (case args of [] \<Rightarrow> Exits 2 | w # args' \<Rightarrow> parse_flags flags (put w cfg) args'))))"

section \<open>Logging\<close>

text \<open>\<open>Level.UnmarshalText\<close>: a name, in capitals, and an offset; \<open>uu\<close> is \<open>strings.ToUpper\<close>.\<close>

definition parse_level :: "(string \<Rightarrow> string) \<Rightarrow> string \<Rightarrow> int option" where
  "parse_level uu s =
     (let name = takeWhile (\<lambda>c. c \<noteq> CHR ''+'' \<and> c \<noteq> CHR ''-'') s; rest = drop (length name) s;
          base = map_of [(''DEBUG'', -4), (''INFO'', 0), (''WARN'', 4), (''ERROR'', 8)] (uu name)
      in if rest = [] then base
         else (case Atoi rest of None \<Rightarrow> None | Some offset \<Rightarrow> map_option (\<lambda>b. b + offset) base))"

definition logging_New :: "(string \<Rightarrow> string) \<Rightarrow> string \<Rightarrow> int" where
  "logging_New uu level = (case parse_level uu level of None \<Rightarrow> 0 | Some l \<Rightarrow> l)"

section \<open>The program\<close>

text \<open>What \<open>main\<close> has when it starts: environment variables, arguments, and what building the server takes
  (\<open>NewServer\<close>).\<close>

record 'w host =
  ho_env :: "'w api_env"
  ho_args :: "string list"
  ho_duration :: "string \<Rightarrow> int result"
  ho_client :: "unit result"
  ho_postgres :: "Memory result"
  ho_discover :: "string \<Rightarrow> string \<Rightarrow> discovered result"
  ho_cookie_key :: rnd
  ho_plugins :: MergedRegistry
  ho_resolver :: "string option"
  ho_world :: 'w
  ho_now :: time
  ho_salt :: rnd
  ho_id :: rnd

definition config_of :: "'w host \<Rightarrow> parsed result" where
  "config_of H = rbind (Default (e_ul (ho_env H)) (e_getenv (ho_env H))) (\<lambda>cfg. Inr (parse_flags main_flags cfg (ho_args H)))"

definition ListenAndServe :: "'w host \<Rightarrow> 'w Server \<Rightarrow> 'w Server result" where
  "ListenAndServe H s =
     rbind (requireBootstrapPassword (e_getenv (ho_env H)) (s_cfg s)) (\<lambda>_.
       Inr (bootstrapAdmin (ho_env H) (ho_now H) (ho_salt H) (ho_id H) s))"

datatype 'w started = Serves "'w Server" RuntimeProvider | Stops int | Fatal go_error

definition shclop_main :: "'w host \<Rightarrow> 'w started" where
  "shclop_main H =
     (case config_of H of
        Inl err \<Rightarrow> Fatal err
      | Inr (Exits code) \<Rightarrow> Stops code
      | Inr (Parsed cfg) \<Rightarrow>
          (case NewServer (e_crypto (ho_env H)) (ho_duration H) (ho_client H) (ho_postgres H) (ho_discover H)
                  (ho_cookie_key H) (ho_plugins H) (ho_resolver H) (ho_world H) cfg of
             Inl err \<Rightarrow> Fatal err
           | Inr (s, sandbox) \<Rightarrow> (case ListenAndServe H s of Inl err \<Rightarrow> Fatal err | Inr s' \<Rightarrow> Serves s' sandbox)))"

section \<open>What the command line decides\<close>

text \<open>The settings no flag reaches.\<close>

definition only_from_environment :: "Config \<Rightarrow> _" where
  "only_from_environment c =
     (c_IntegrationEncryptionKey c, c_AuthCookieKey c, c_IdPProviders c, c_LLMGatewayAPIKey c,
      c_RuntimeImages c, c_RuntimeImagePrefix c, c_PluginDir c, c_PluginPollInterval c, c_KubeconfigPath c, c_PodReadyTimeout c)"

fun keeps_environment :: "setter \<Rightarrow> bool" where
  "keeps_environment (StringVar put) = (\<forall>v c. only_from_environment (put v c) = only_from_environment c)"
| "keeps_environment (BoolVar put) = (\<forall>v c. only_from_environment (put v c) = only_from_environment c)"

lemma main_flags_keep: "list_all (\<lambda>f. keeps_environment (snd f)) main_flags"
  by (simp add: main_flags_def only_from_environment_def)

lemma parse_flags_keep:
  "list_all (\<lambda>f. keeps_environment (snd f)) flags \<Longrightarrow> parse_flags flags cfg args = Parsed cfg' \<Longrightarrow>
     only_from_environment cfg' = only_from_environment cfg"
proof (induction flags cfg args rule: parse_flags.induct)
  case (2 flags cfg a args)
  have "keeps_environment f" if "map_of flags name = Some f" for name f
    using map_of_SomeD [OF that] "2.prems"(1) by (auto simp: list_all_iff)
  then have kept: "only_from_environment (put v cfg) = only_from_environment cfg"
    if "map_of flags name = Some (StringVar put)" for name put v using that by fastforce
  have kept_bool: "only_from_environment (put v cfg) = only_from_environment cfg"
    if "map_of flags name = Some (BoolVar put)" for name put v
    using \<open>\<And>name f. map_of flags name = Some f \<Longrightarrow> keeps_environment f\<close> [OF that] by simp
  show ?case
  proof (cases "read_argument a")
    case (Flag name v)
    show ?thesis
    proof (cases "map_of flags name")
      case (Some f)
      show ?thesis
      proof (cases f)
        case (StringVar put)
        show ?thesis
        proof (cases v)
          case None
          with "2.prems"(2) Flag Some StringVar show ?thesis
            using "2.IH"(1) [OF Flag Some StringVar None _ "2.prems"(1)] kept [of name put] by (auto split: list.splits)
        next
          case (Some w)
          with "2.prems"(2) Flag \<open>map_of flags name = Some f\<close> StringVar show ?thesis
            using "2.IH"(2) [OF Flag \<open>map_of flags name = Some f\<close> StringVar Some "2.prems"(1)] kept [of name put w] by simp
        qed
      next
        case (BoolVar put)
        show ?thesis
        proof (cases v)
          case None
          with "2.prems"(2) Flag Some BoolVar show ?thesis
            using "2.IH"(3) [OF Flag Some BoolVar None "2.prems"(1)] kept_bool [of name put True] by simp
        next
          case (Some w)
          with "2.prems"(2) Flag \<open>map_of flags name = Some f\<close> BoolVar obtain b where "ParseBool w = Some b"
            by (auto split: option.splits)
          with Some "2.prems"(2) Flag \<open>map_of flags name = Some f\<close> BoolVar show ?thesis
            using "2.IH"(4) [OF Flag \<open>map_of flags name = Some f\<close> BoolVar Some _ "2.prems"(1)] kept_bool [of name put b] by simp
        qed
      qed
    qed (use "2.prems" Flag in \<open>simp split: if_splits\<close>)
  qed (use "2.prems" in simp_all)
qed simp

lemma cut_value_render: "CHR ''='' \<notin> set name \<Longrightarrow> cut_value (name @ CHR ''='' # v) = (name, Some v)"
  by (induction name) auto

text \<open>A command line that sets declared flags, each with an equals sign, sets exactly those, in order.\<close>

definition render_flag :: "string \<times> string \<Rightarrow> string" where
  "render_flag f = ''-'' @ fst f @ ''='' @ snd f"

definition apply_flag :: "(string \<times> setter) list \<Rightarrow> string \<times> string \<Rightarrow> Config \<Rightarrow> Config" where
  "apply_flag flags f cfg =
     (case map_of flags (fst f) of Some (StringVar put) \<Rightarrow> put (snd f) cfg | _ \<Rightarrow> cfg)"

definition string_flag :: "(string \<times> setter) list \<Rightarrow> string \<times> string \<Rightarrow> bool" where
  "string_flag flags f \<longleftrightarrow> fst f \<noteq> [] \<and> hd (fst f) \<noteq> CHR ''-'' \<and> CHR ''='' \<notin> set (fst f) \<and>
     (case map_of flags (fst f) of Some (StringVar put) \<Rightarrow> True | _ \<Rightarrow> False)"

lemma read_rendered: "string_flag flags f \<Longrightarrow> read_argument (render_flag f) = Flag (fst f) (Some (snd f))"
  by (cases "fst f") (auto simp: read_argument_def render_flag_def string_flag_def cut_value_render Let_def)

lemma flags_take_effect:
  "list_all (string_flag flags) fs \<Longrightarrow>
     parse_flags flags cfg (map render_flag fs @ rest) = parse_flags flags (fold (apply_flag flags) fs cfg) rest"
proof (induction fs arbitrary: cfg)
  case (Cons f fs)
  then show ?case
    using read_rendered [of flags f]
    by (auto simp: apply_flag_def string_flag_def split: option.splits setter.splits)
qed simp

section \<open>What a started server rests on\<close>

lemma main_Serves:
  assumes "shclop_main H = Serves s sandbox"
  obtains cfg s0 where "config_of H = Inr (Parsed cfg)" "s_cfg s0 = cfg" "s_cfg s = cfg" "s_box s = s_box s0"
    "NewServer (e_crypto (ho_env H)) (ho_duration H) (ho_client H) (ho_postgres H) (ho_discover H)
       (ho_cookie_key H) (ho_plugins H) (ho_resolver H) (ho_world H) cfg = Inr (s0, sandbox)"
    "ListenAndServe H s0 = Inr s"
proof -
  from assms obtain cfg s0 where cfg: "config_of H = Inr (Parsed cfg)"
    and new: "NewServer (e_crypto (ho_env H)) (ho_duration H) (ho_client H) (ho_postgres H) (ho_discover H)
       (ho_cookie_key H) (ho_plugins H) (ho_resolver H) (ho_world H) cfg = Inr (s0, sandbox)"
    and listen: "ListenAndServe H s0 = Inr s"
    by (auto simp: shclop_main_def split: sum.splits parsed.splits)
  from new have "s_cfg s0 = cfg" by (auto simp: NewServer_def Let_def)
  moreover from listen have "s_cfg s = s_cfg s0" "s_box s = s_box s0"
    by (auto simp: ListenAndServe_def bootstrapAdmin_def split: if_splits)
  ultimately show ?thesis using that cfg new listen by simp
qed

text \<open>The first administrator: what \<open>bootstrapAdmin\<close> leaves in the store, on each of its branches.\<close>

lemma seed_admin_account:
  assumes "e_bcrypt_generate E salt (admin_password (e_getenv E)) = Inr hash"
    "snd (BootstrapAdmin None now r (admin_username cfg) hash m) = Inr x"
  shows "GetPasswordHash (admin_username cfg) (seed_admin E now salt r cfg m) = Inr hash \<and>
    (\<exists>user. GetUserByUsername None (admin_username cfg) (seed_admin E now salt r cfg m) = Inr user \<and>
       u_Role user = ''admin'' \<and> \<not> u_Disabled user)"
proof -
  let ?n = "admin_username cfg"
  from assms(2) obtain m1 where b: "BootstrapAdmin None now r ?n hash m = (m1, Inr x)" by (metis prod.collapse)
  then have "\<exists>user. find (\<lambda>u. u_Username u = ?n) (m_users m1) = Some user \<and> u_Role user = ''admin'' \<and> \<not> u_Disabled user"
    by (auto simp: BootstrapAdmin_def update_first_def find_append Let_def split: option.splits sum.splits if_splits)
  moreover have "m_users (seed_admin E now salt r cfg m) = m_users m1"
    by (simp add: seed_admin_def assms(1) b SetPasswordHash_def UpsertLLMGatewaySettings_def Let_def)
  moreover have "m_passwordHashes (seed_admin E now salt r cfg m) ?n = Some hash"
    by (simp add: seed_admin_def assms(1) b SetPasswordHash_def)
  ultimately show ?thesis by (auto simp: GetUserByUsername_def find_or_not_found_def GetPasswordHash_def)
qed


text \<open>A production host: Postgres, Kubernetes, one identity provider and a bootstrap password, and neither key.\<close>

definition production_env :: "string \<Rightarrow> string" where
  "production_env k =
     (if k = ''SHCLOP_BOOTSTRAP_ADMIN_PASSWORD'' then ''s3cret''
      else if k = ''SHCLOP_SANDBOX_PROVIDER'' then ''kubernetes''
      else if k = provider_prefix 0 @ ''_NAME'' then ''okta''
      else if k \<in> {provider_prefix 0 @ ''_ISSUER'', provider_prefix 0 @ ''_CLIENT_ID'',
                   provider_prefix 0 @ ''_CLIENT_SECRET'', provider_prefix 0 @ ''_REDIRECT_URI''} then ''https://okta''
      else [])"

definition production_host :: "unit host" where
  "production_host =
     \<lparr>ho_env = sample_api\<lparr>e_getenv := production_env\<rparr>,
      ho_args = [''-store=postgres'', ''--postgres-dsn'', ''postgres://db''],
      ho_duration = (\<lambda>t. Inr 0), ho_client = Inr (), ho_postgres = Inr NewMemory,
      ho_discover = (\<lambda>n i. Inl (ErrNew ''unreachable'')), ho_cookie_key = Some (replicate 32 CHR ''c''),
      ho_plugins = NewMerged, ho_resolver = None, ho_world = (), ho_now = 0, ho_salt = Some ''salt'', ho_id = Some ''id''\<rparr>"

lemma production_starts:
  obtains s sandbox where "shclop_main production_host = Serves s sandbox"
    "c_Store (s_cfg s) = ''postgres''" "c_SandboxProvider (s_cfg s) = ''kubernetes''" "\<not> c_Dev (s_cfg s)"
    "isl (Config_Validate (s_cfg s))" "admin_username (s_cfg s) = ''admin''" "c_PostgresDSN (s_cfg s) \<noteq> []"
proof -
  have "case shclop_main production_host of Serves s sandbox \<Rightarrow>
      c_Store (s_cfg s) = ''postgres'' \<and> c_SandboxProvider (s_cfg s) = ''kubernetes'' \<and> \<not> c_Dev (s_cfg s) \<and>
      isl (Config_Validate (s_cfg s)) \<and> admin_username (s_cfg s) = ''admin'' \<and> c_PostgresDSN (s_cfg s) \<noteq> [] | _ \<Rightarrow> False"
    by code_simp
  then show ?thesis using that by (auto split: started.splits)
qed


text \<open>C22: The encryption key is not enforced. A server that is started without an integration key encrypts
  its users' tokens under the key written in the source.\<close>

theorem tokens_under_public_key:
  assumes "shclop_main H = Serves s sandbox" "e_getenv (ho_env H) ''SHCLOP_INTEGRATION_ENCRYPTION_KEY'' = []"
  shows "s_box s = NewSecretBox (e_crypto (ho_env H)) dev_fallback_key"
proof -
  from assms(1) obtain cfg s0 where cfg: "config_of H = Inr (Parsed cfg)" "s_cfg s = cfg" "s_box s = s_box s0"
    and new: "NewServer (e_crypto (ho_env H)) (ho_duration H) (ho_client H) (ho_postgres H) (ho_discover H)
       (ho_cookie_key H) (ho_plugins H) (ho_resolver H) (ho_world H) cfg = Inr (s0, sandbox)"
    by (rule main_Serves)
  from cfg(1) obtain cfg0 where d: "Default (e_ul (ho_env H)) (e_getenv (ho_env H)) = Inr cfg0"
    and "parse_flags main_flags cfg0 (ho_args H) = Parsed cfg" by (auto simp: config_of_def)
  from parse_flags_keep [OF main_flags_keep this(2)] have "c_IntegrationEncryptionKey cfg = c_IntegrationEncryptionKey cfg0"
    by (simp add: only_from_environment_def)
  also from d assms(2) have "\<dots> = []" by (auto simp: Default_def)
  finally show ?thesis using new by (auto simp: cfg(3) NewServer_def NewSecretBoxFromConfig_def Let_def wrap_def split: sum.splits)
qed

theorem tokens_under_public_key_witness:
  "\<exists>s sandbox. shclop_main production_host = Serves s sandbox \<and> c_Store (s_cfg s) = ''postgres'' \<and>
     c_SandboxProvider (s_cfg s) = ''kubernetes'' \<and> \<not> c_Dev (s_cfg s) \<and> isl (Config_Validate (s_cfg s)) \<and>
     s_box s = NewSecretBox sample_crypto dev_fallback_key"
proof -
  obtain s sandbox where s: "shclop_main production_host = Serves s sandbox"
    "c_Store (s_cfg s) = ''postgres''" "c_SandboxProvider (s_cfg s) = ''kubernetes''" "\<not> c_Dev (s_cfg s)"
    "isl (Config_Validate (s_cfg s))"
    using production_starts by metis
  have "e_getenv (ho_env production_host) ''SHCLOP_INTEGRATION_ENCRYPTION_KEY'' = []"
    by code_simp
  from tokens_under_public_key [OF s(1) this] s show ?thesis by (auto simp: production_host_def sample_api_def)
qed

end
