(* ===== verification/Clients.thy ===== *)
theory Clients
  imports Prelude
begin

text \<open>
  How the program reaches Kubernetes: \<open>internal/k8s/clientset.go\<close>, \<open>informers.go\<close> and the client of the sandbox
  provider (\<open>buildKubernetesClient\<close> in \<open>kubernetes_provider.go\<close>). client-go's constructors are parameters:
  \<open>'cfg\<close> is a REST configuration, \<open>'d\<close> and \<open>'k\<close> its dynamic and typed clients, \<open>'u\<close> an unstructured object.
\<close>

section \<open>Resources\<close>

record GroupVersionResource =
  gvr_Group :: string
  gvr_Version :: string
  gvr_Resource :: string

definition IntegrationPluginGVR :: GroupVersionResource where
  "IntegrationPluginGVR = \<lparr>gvr_Group = ''shclop.io'', gvr_Version = ''v1alpha1'', gvr_Resource = ''integrationplugins''\<rparr>"

definition MCPServerGVR :: GroupVersionResource where
  "MCPServerGVR = \<lparr>gvr_Group = ''shclop.io'', gvr_Version = ''v1alpha1'', gvr_Resource = ''mcpservers''\<rparr>"

section \<open>Clients\<close>

record ('d, 'k) Client =
  cl_Dynamic :: 'd
  cl_Kubernetes :: 'k
  cl_Namespace :: string

record ('cfg, 'd, 'k) client_go =
  cg_InClusterConfig :: "'cfg result"
  cg_BuildConfigFromFlags :: "string \<Rightarrow> 'cfg result"
  cg_dynamic :: "'cfg \<Rightarrow> 'd result"
  cg_kubernetes :: "'cfg \<Rightarrow> 'k result"

definition NewClient :: "('cfg, 'd, 'k) client_go \<Rightarrow> string \<Rightarrow> string \<Rightarrow> ('d, 'k) Client result" where
  "NewClient G kubeconfig namespace =
     rbind (if kubeconfig = [] then wrap ''in-cluster config: '' (cg_InClusterConfig G)
            else wrap (''kubeconfig '' @ Quote kubeconfig @ '': '') (cg_BuildConfigFromFlags G kubeconfig)) (\<lambda>cfg.
     rbind (wrap ''dynamic client: '' (cg_dynamic G cfg)) (\<lambda>dyn.
     rbind (wrap ''kubernetes client: '' (cg_kubernetes G cfg)) (\<lambda>kube.
       Inr \<lparr>cl_Dynamic = dyn, cl_Kubernetes = kube, cl_Namespace = namespace\<rparr>)))"

text \<open>A resource interface is the resource and the namespace it is bound to, if any.\<close>

definition IntegrationPlugins :: "('d, 'k) Client \<Rightarrow> 'd \<times> GroupVersionResource \<times> string option" where
  "IntegrationPlugins c = (cl_Dynamic c, IntegrationPluginGVR, None)"

definition MCPServers :: "string \<Rightarrow> ('d, 'k) Client \<Rightarrow> 'd \<times> GroupVersionResource \<times> string option" where
  "MCPServers namespace c = (cl_Dynamic c, MCPServerGVR, Some namespace)"

definition UnstructuredToIntegrationPlugin :: "('u \<Rightarrow> 'a result) \<Rightarrow> 'u \<Rightarrow> 'a result" where
  "UnstructuredToIntegrationPlugin FromUnstructured u = wrap ''convert to IntegrationPlugin: '' (FromUnstructured u)"

definition UnstructuredToMCPServer :: "('u \<Rightarrow> 'a result) \<Rightarrow> 'u \<Rightarrow> 'a result" where
  "UnstructuredToMCPServer FromUnstructured u = wrap ''convert to MCPServer: '' (FromUnstructured u)"

text \<open>The sandbox provider's own client: the cluster's, then the one of \<open>KUBECONFIG\<close>.\<close>

definition buildKubernetesClient :: "('cfg, 'd, 'k) client_go \<Rightarrow> (string \<Rightarrow> string) \<Rightarrow> 'k result" where
  "buildKubernetesClient G getenv =
     (case rbind (cg_InClusterConfig G) (cg_kubernetes G) of
        Inr client \<Rightarrow> Inr client
      | Inl _ \<Rightarrow>
          let kubeconfig = TrimSpace (getenv ''KUBECONFIG'') in
          if kubeconfig \<noteq> []
          then rbind (wrap ''build kubernetes client from kubeconfig: '' (cg_BuildConfigFromFlags G kubeconfig)) (\<lambda>cfg.
                 wrap ''create kubernetes client: '' (cg_kubernetes G cfg))
          else Inl (ErrNew ''unable to configure kubernetes client from in-cluster config or KUBECONFIG''))"

section \<open>Informers\<close>

text \<open>A factory is the namespace it watches (none is all of them) and the resources informers were asked for.\<close>

record InformerFactory =
  if_namespace :: string
  if_informers :: "GroupVersionResource list"

record Factory =
  fa_cluster :: InformerFactory
  fa_namespaced :: InformerFactory

definition NewFactory :: "string \<Rightarrow> Factory" where
  "NewFactory namespace =
     \<lparr>fa_cluster = \<lparr>if_namespace = [], if_informers = []\<rparr>, fa_namespaced = \<lparr>if_namespace = namespace, if_informers = []\<rparr>\<rparr>"

definition ForResource :: "GroupVersionResource \<Rightarrow> InformerFactory \<Rightarrow> InformerFactory" where
  "ForResource gvr f = f\<lparr>if_informers := List.insert gvr (if_informers f)\<rparr>"

definition IntegrationPluginInformer :: "Factory \<Rightarrow> Factory" where
  "IntegrationPluginInformer f = f\<lparr>fa_cluster := ForResource IntegrationPluginGVR (fa_cluster f)\<rparr>"

definition MCPServerInformer :: "Factory \<Rightarrow> Factory" where
  "MCPServerInformer f = f\<lparr>fa_namespaced := ForResource MCPServerGVR (fa_namespaced f)\<rparr>"

text \<open>What each started informer of a factory answers when the wait for its cache ends.\<close>

definition synced_of :: "(GroupVersionResource \<Rightarrow> bool) \<Rightarrow> InformerFactory \<Rightarrow> bool list" where
  "synced_of synced f = map synced (if_informers f)"

definition WaitForCacheSync :: "(GroupVersionResource \<Rightarrow> bool) \<Rightarrow> (GroupVersionResource \<Rightarrow> bool) \<Rightarrow> Factory \<Rightarrow> bool" where
  "WaitForCacheSync cluster namespaced f =
     (if \<not> list_all id (synced_of cluster (fa_cluster f)) then False
      else if \<not> list_all id (synced_of namespaced (fa_namespaced f)) then False else True)"

section \<open>Facts\<close>

lemma NewClient_ok:
  "(\<exists>c. NewClient G kubeconfig namespace = Inr c) \<longleftrightarrow>
     (\<exists>cfg. (if kubeconfig = [] then cg_InClusterConfig G else cg_BuildConfigFromFlags G kubeconfig) = Inr cfg \<and>
        \<not> isl (cg_dynamic G cfg) \<and> \<not> isl (cg_kubernetes G cfg))"
  by (auto simp: NewClient_def wrap_def rbind_def isl_def split: sum.splits)

text \<open>The two ways to a client differ: in a cluster, \<open>NewClient\<close> follows \<open>KUBECONFIG\<close> and the sandbox
  provider does not.\<close>

lemma clients_of_two_clusters:
  assumes "cg_InClusterConfig G = Inr inside" "cg_kubernetes G inside = Inr k1"
    and "kubeconfig \<noteq> []" "TrimSpace kubeconfig = kubeconfig" "cg_BuildConfigFromFlags G kubeconfig = Inr outside"
    and "cg_dynamic G outside = Inr d" "cg_kubernetes G outside = Inr k2"
  shows "buildKubernetesClient G (\<lambda>v. kubeconfig) = Inr k1 \<and>
    (\<exists>c. NewClient G kubeconfig namespace = Inr c \<and> cl_Kubernetes c = k2)"
  using assms by (simp add: buildKubernetesClient_def NewClient_def wrap_def rbind_def)

text \<open>The wait succeeds only when both kinds are in the caches, each watched where it lives: the plugins in
  every namespace, the MCP servers in the configured one.\<close>

lemma caches_synced:
  "let f = MCPServerInformer (IntegrationPluginInformer (NewFactory namespace)) in
   (WaitForCacheSync cluster namespaced f \<longleftrightarrow> cluster IntegrationPluginGVR \<and> namespaced MCPServerGVR) \<and>
   if_namespace (fa_cluster f) = [] \<and> if_namespace (fa_namespaced f) = namespace"
  by (simp add: WaitForCacheSync_def synced_of_def MCPServerInformer_def IntegrationPluginInformer_def NewFactory_def
      ForResource_def Let_def)

end
