(* ===== verification/DeepCopy.thy ===== *)
theory DeepCopy
  imports Prelude "HOL-Library.AList"
begin

text \<open>
  The deep copies of \<open>internal/k8s/types.go\<close>, over an explicit heap. Structs are values; slices, maps and
  pointers are references (\<open>None\<close> is nil) to cells. The heap is the list of its cells and allocation
  appends one. A map is the list of its entries in the order in which the loop over it meets them. The Kubernetes
  library's own types (\<open>ObjectMeta\<close>, \<open>ListMeta\<close>, \<open>EnvVar\<close>, \<open>ResourceRequirements\<close>, \<open>Condition\<close>) are
  the type \<open>'v\<close>, its cells \<open>'l\<close> and its \<open>DeepCopyInto\<close> a parameter.

  \<open>Tree\<close> is what a reader of a value sees, with the address of every cell on the way; the locale
  \<open>deep_copy\<close> says what a deep copy promises in terms of it, and one rule per construct of the code (flat
  values, references, loops, structs) shows that the promise is kept.
\<close>

section \<open>Types\<close>

type_synonym addr = nat

type_synonym TypeMeta = "string \<times> string"

record FormField =
  ff_Name :: string
  ff_Label :: string
  ff_Secret :: bool
  ff_Placeholder :: string
  ff_HelpURL :: string

record AuthSpec =
  as_Type :: string
  as_Fields :: "addr option"

record ExtractSpec =
  ex_ExternalAccountID :: string
  ex_ExternalLogin :: string
  ex_AccountType :: string

record SidecarSpec =
  sc_URL :: string
  sc_Timeout :: string

record ExternalMCP =
  em_URL :: string
  em_AuthHeader :: string

record HTTPValidate =
  hv_Method :: string
  hv_URL :: string
  hv_Headers :: "addr option"
  hv_SuccessStatus :: "addr option"
  hv_Extract :: ExtractSpec
  hv_Timeout :: string

record ValidateSpec =
  vs_HTTP :: "addr option"

record MCPRef =
  mr_Name :: string
  mr_Ref :: string
  mr_External :: "addr option"
  mr_EnvFrom :: "addr option"

record Contributions =
  cb_Env :: "addr option"
  cb_MCPServers :: "addr option"

record IntegrationPluginSpec =
  ps_ID :: string
  ps_DisplayName :: string
  ps_Description :: string
  ps_PluginKind :: string
  ps_ScopesSupported :: "addr option"
  ps_Auth :: AuthSpec
  ps_Validate :: ValidateSpec
  ps_Sidecar :: "addr option"
  ps_Contributions :: Contributions

record IntegrationPluginStatus =
  pt_Phase :: string
  pt_LastSyncedAt :: int
  pt_Message :: string

record 'v IntegrationPlugin =
  ip_TypeMeta :: TypeMeta
  ip_ObjectMeta :: 'v
  ip_Spec :: IntegrationPluginSpec
  ip_Status :: IntegrationPluginStatus

record 'v IntegrationPluginList =
  pl_TypeMeta :: TypeMeta
  pl_ListMeta :: 'v
  pl_Items :: "addr option"

record MCPNetworkPolicySpec =
  np_EgressCIDRs :: "addr option"

record 'v MCPServerSpec =
  ms_Image :: string
  ms_Port :: int
  ms_Replicas :: int
  ms_Env :: "addr option"
  ms_Resources :: 'v
  ms_ServiceAccountName :: string
  ms_NetworkPolicy :: MCPNetworkPolicySpec

record MCPServerStatus =
  mt_Phase :: string
  mt_Replicas :: int
  mt_ServiceURL :: string
  mt_Conditions :: "addr option"

record 'v MCPServer =
  mc_TypeMeta :: TypeMeta
  mc_ObjectMeta :: 'v
  mc_Spec :: "'v MCPServerSpec"
  mc_Status :: MCPServerStatus

record 'v MCPServerList =
  sl_TypeMeta :: TypeMeta
  sl_ListMeta :: 'v
  sl_Items :: "addr option"

datatype ('l, 'v) cell =
    Strings "string list" | Ints "int list" | StringMap "(string \<times> string) list"
  | FormFields "FormField list" | Sidecar SidecarSpec | External ExternalMCP
  | HTTP HTTPValidate | MCPRefs "MCPRef list"
  | EnvVars "'v list" | Conditions "'v list"
  | Plugin "'v IntegrationPlugin" | Plugins "'v IntegrationPlugin list" | PluginList "'v IntegrationPluginList"
  | Server "'v MCPServer" | Servers "'v MCPServer list" | ServerList "'v MCPServerList"
  | Library 'l

type_synonym ('l, 'v) heap = "('l, 'v) cell list"

definition cell_at :: "('l, 'v) heap \<Rightarrow> addr \<Rightarrow> ('l, 'v) cell option" where
  "cell_at h a = (if a < length h then Some (h ! a) else None)"

type_synonym ('l, 'v, 'a) copier = "('l, 'v) heap \<Rightarrow> 'a \<Rightarrow> ('l, 'v) heap \<times> 'a"

section \<open>The constructs of the code\<close>

text \<open>\<open>if in.F != nil { out.F = new(T); ... }\<close>: \<open>part\<close> takes the contents out of the cell, \<open>whole\<close> makes the
  new cell of their copy. A reference to a cell of another type does not exist in Go; it is left alone here.\<close>

definition copy_ref ::
  "(('l, 'v) cell \<Rightarrow> 'a option) \<Rightarrow> ('a \<Rightarrow> ('l, 'v) cell) \<Rightarrow> ('l, 'v, 'a) copier \<Rightarrow> ('l, 'v, addr option) copier" where
  "copy_ref part whole cp h p =
     (case p of
        None \<Rightarrow> (h, None)
      | Some a \<Rightarrow>
          (case Option.bind (cell_at h a) part of
             None \<Rightarrow> (h, p)
           | Some x \<Rightarrow> (case cp h x of (h1, y) \<Rightarrow> (h1 @ [whole y], Some (length h1)))))"

text \<open>\<open>for i := range in.F { in.F[i].DeepCopyInto(&out.F[i]) }\<close>; the elements are copied first and the array
  is allocated with them.\<close>

fun copy_each :: "('l, 'v, 'a) copier \<Rightarrow> ('l, 'v, 'a list) copier" where
  "copy_each cp h [] = (h, [])"
| "copy_each cp h (x # xs) =
     (case cp h x of (h1, y) \<Rightarrow> (case copy_each cp h1 xs of (h2, ys) \<Rightarrow> (h2, y # ys)))"

text \<open>An assignment of a struct without references, and \<open>copy(out.F, in.F)\<close>.\<close>

definition assign :: "('l, 'v, 'a) copier" where
  "assign h x = (h, x)"

text \<open>\<open>for k, v := range in.F { out.F[k] = v }\<close>.\<close>

definition copy_entries :: "('l, 'v, (string \<times> string) list) copier" where
  "copy_entries h m = (h, fold (\<lambda>(k, v) out. AList.update k v out) m [])"

fun strings_of :: "('l, 'v) cell \<Rightarrow> string list option" where
  "strings_of (Strings x) = Some x" | "strings_of _ = None"
fun ints_of :: "('l, 'v) cell \<Rightarrow> int list option" where
  "ints_of (Ints x) = Some x" | "ints_of _ = None"
fun map_of_cell :: "('l, 'v) cell \<Rightarrow> (string \<times> string) list option" where
  "map_of_cell (StringMap x) = Some x" | "map_of_cell _ = None"
fun fields_of :: "('l, 'v) cell \<Rightarrow> FormField list option" where
  "fields_of (FormFields x) = Some x" | "fields_of _ = None"
fun sidecar_of :: "('l, 'v) cell \<Rightarrow> SidecarSpec option" where
  "sidecar_of (Sidecar x) = Some x" | "sidecar_of _ = None"
fun external_of :: "('l, 'v) cell \<Rightarrow> ExternalMCP option" where
  "external_of (External x) = Some x" | "external_of _ = None"
fun http_of :: "('l, 'v) cell \<Rightarrow> HTTPValidate option" where
  "http_of (HTTP x) = Some x" | "http_of _ = None"
fun mcprefs_of :: "('l, 'v) cell \<Rightarrow> MCPRef list option" where
  "mcprefs_of (MCPRefs x) = Some x" | "mcprefs_of _ = None"
fun envvars_of :: "('l, 'v) cell \<Rightarrow> 'v list option" where
  "envvars_of (EnvVars x) = Some x" | "envvars_of _ = None"
fun conditions_of :: "('l, 'v) cell \<Rightarrow> 'v list option" where
  "conditions_of (Conditions x) = Some x" | "conditions_of _ = None"
fun plugin_of :: "('l, 'v) cell \<Rightarrow> 'v IntegrationPlugin option" where
  "plugin_of (Plugin x) = Some x" | "plugin_of _ = None"
fun plugins_of :: "('l, 'v) cell \<Rightarrow> 'v IntegrationPlugin list option" where
  "plugins_of (Plugins x) = Some x" | "plugins_of _ = None"
fun plugin_list_of :: "('l, 'v) cell \<Rightarrow> 'v IntegrationPluginList option" where
  "plugin_list_of (PluginList x) = Some x" | "plugin_list_of _ = None"
fun server_of :: "('l, 'v) cell \<Rightarrow> 'v MCPServer option" where
  "server_of (Server x) = Some x" | "server_of _ = None"
fun servers_of :: "('l, 'v) cell \<Rightarrow> 'v MCPServer list option" where
  "servers_of (Servers x) = Some x" | "servers_of _ = None"
fun server_list_of :: "('l, 'v) cell \<Rightarrow> 'v MCPServerList option" where
  "server_list_of (ServerList x) = Some x" | "server_list_of _ = None"

section \<open>The copies\<close>

definition Auth_DeepCopyInto :: "('l, 'v, AuthSpec) copier" where
  "Auth_DeepCopyInto h x =
     (case copy_ref fields_of FormFields assign h (as_Fields x) of (h, y) \<Rightarrow> (h, x\<lparr>as_Fields := y\<rparr>))"

definition HTTP_DeepCopyInto :: "('l, 'v, HTTPValidate) copier" where
  "HTTP_DeepCopyInto h x =
     (case copy_ref map_of_cell StringMap copy_entries h (hv_Headers x) of (h, headers) \<Rightarrow>
      (case copy_ref ints_of Ints assign h (hv_SuccessStatus x) of (h, success) \<Rightarrow>
        (h, x\<lparr>hv_Headers := headers, hv_SuccessStatus := success\<rparr>)))"

definition Validate_DeepCopyInto :: "('l, 'v, ValidateSpec) copier" where
  "Validate_DeepCopyInto h x =
     (case copy_ref http_of HTTP HTTP_DeepCopyInto h (vs_HTTP x) of (h, y) \<Rightarrow> (h, x\<lparr>vs_HTTP := y\<rparr>))"

definition MCPRef_DeepCopyInto :: "('l, 'v, MCPRef) copier" where
  "MCPRef_DeepCopyInto h x =
     (case copy_ref external_of External assign h (mr_External x) of (h, ext) \<Rightarrow>
      (case copy_ref map_of_cell StringMap copy_entries h (mr_EnvFrom x) of (h, envFrom) \<Rightarrow>
        (h, x\<lparr>mr_External := ext, mr_EnvFrom := envFrom\<rparr>)))"

definition Contributions_DeepCopyInto :: "('l, 'v, Contributions) copier" where
  "Contributions_DeepCopyInto h x =
     (case copy_ref map_of_cell StringMap copy_entries h (cb_Env x) of (h, vars) \<Rightarrow>
      (case copy_ref mcprefs_of MCPRefs (copy_each MCPRef_DeepCopyInto) h (cb_MCPServers x) of (h, servers) \<Rightarrow>
        (h, x\<lparr>cb_Env := vars, cb_MCPServers := servers\<rparr>)))"

definition PluginSpec_DeepCopyInto :: "('l, 'v, IntegrationPluginSpec) copier" where
  "PluginSpec_DeepCopyInto h x =
     (case copy_ref strings_of Strings assign h (ps_ScopesSupported x) of (h, scopes) \<Rightarrow>
      (case Auth_DeepCopyInto h (ps_Auth x) of (h, auth) \<Rightarrow>
      (case Validate_DeepCopyInto h (ps_Validate x) of (h, validate) \<Rightarrow>
      (case copy_ref sidecar_of Sidecar assign h (ps_Sidecar x) of (h, sidecar) \<Rightarrow>
      (case Contributions_DeepCopyInto h (ps_Contributions x) of (h, contributions) \<Rightarrow>
        (h, x\<lparr>ps_ScopesSupported := scopes, ps_Auth := auth, ps_Validate := validate, ps_Sidecar := sidecar,
              ps_Contributions := contributions\<rparr>))))))"

definition Plugin_DeepCopyInto :: "('l, 'v, 'v) copier \<Rightarrow> ('l, 'v, 'v IntegrationPlugin) copier" where
  "Plugin_DeepCopyInto lib h x =
     (case lib h (ip_ObjectMeta x) of (h, meta) \<Rightarrow>
      (case PluginSpec_DeepCopyInto h (ip_Spec x) of (h, spec) \<Rightarrow>
        (h, x\<lparr>ip_ObjectMeta := meta, ip_Spec := spec\<rparr>)))"

definition PluginList_DeepCopyInto :: "('l, 'v, 'v) copier \<Rightarrow> ('l, 'v, 'v IntegrationPluginList) copier" where
  "PluginList_DeepCopyInto lib h x =
     (case lib h (pl_ListMeta x) of (h, meta) \<Rightarrow>
      (case copy_ref plugins_of Plugins (copy_each (Plugin_DeepCopyInto lib)) h (pl_Items x) of (h, items) \<Rightarrow>
        (h, x\<lparr>pl_ListMeta := meta, pl_Items := items\<rparr>)))"

definition NetworkPolicy_DeepCopyInto :: "('l, 'v, MCPNetworkPolicySpec) copier" where
  "NetworkPolicy_DeepCopyInto h x =
     (case copy_ref strings_of Strings assign h (np_EgressCIDRs x) of (h, y) \<Rightarrow> (h, x\<lparr>np_EgressCIDRs := y\<rparr>))"

definition ServerSpec_DeepCopyInto :: "('l, 'v, 'v) copier \<Rightarrow> ('l, 'v, 'v MCPServerSpec) copier" where
  "ServerSpec_DeepCopyInto lib h x =
     (case copy_ref envvars_of EnvVars (copy_each lib) h (ms_Env x) of (h, vars) \<Rightarrow>
      (case lib h (ms_Resources x) of (h, resources) \<Rightarrow>
      (case NetworkPolicy_DeepCopyInto h (ms_NetworkPolicy x) of (h, policy) \<Rightarrow>
        (h, x\<lparr>ms_Env := vars, ms_Resources := resources, ms_NetworkPolicy := policy\<rparr>))))"

definition ServerStatus_DeepCopyInto :: "('l, 'v, 'v) copier \<Rightarrow> ('l, 'v, MCPServerStatus) copier" where
  "ServerStatus_DeepCopyInto lib h x =
     (case copy_ref conditions_of Conditions (copy_each lib) h (mt_Conditions x) of (h, y) \<Rightarrow>
        (h, x\<lparr>mt_Conditions := y\<rparr>))"

definition Server_DeepCopyInto :: "('l, 'v, 'v) copier \<Rightarrow> ('l, 'v, 'v MCPServer) copier" where
  "Server_DeepCopyInto lib h x =
     (case lib h (mc_ObjectMeta x) of (h, meta) \<Rightarrow>
      (case ServerSpec_DeepCopyInto lib h (mc_Spec x) of (h, spec) \<Rightarrow>
      (case ServerStatus_DeepCopyInto lib h (mc_Status x) of (h, status) \<Rightarrow>
        (h, x\<lparr>mc_ObjectMeta := meta, mc_Spec := spec, mc_Status := status\<rparr>))))"

definition ServerList_DeepCopyInto :: "('l, 'v, 'v) copier \<Rightarrow> ('l, 'v, 'v MCPServerList) copier" where
  "ServerList_DeepCopyInto lib h x =
     (case lib h (sl_ListMeta x) of (h, meta) \<Rightarrow>
      (case copy_ref servers_of Servers (copy_each (Server_DeepCopyInto lib)) h (sl_Items x) of (h, items) \<Rightarrow>
        (h, x\<lparr>sl_ListMeta := meta, sl_Items := items\<rparr>)))"

text \<open>\<open>DeepCopy\<close> and \<open>DeepCopyObject\<close>, which differ in their result's type only: nil is copied to nil.\<close>

definition Plugin_DeepCopy :: "('l, 'v, 'v) copier \<Rightarrow> ('l, 'v, addr option) copier" where
  "Plugin_DeepCopy lib = copy_ref plugin_of Plugin (Plugin_DeepCopyInto lib)"

definition PluginList_DeepCopy :: "('l, 'v, 'v) copier \<Rightarrow> ('l, 'v, addr option) copier" where
  "PluginList_DeepCopy lib = copy_ref plugin_list_of PluginList (PluginList_DeepCopyInto lib)"

definition Server_DeepCopy :: "('l, 'v, 'v) copier \<Rightarrow> ('l, 'v, addr option) copier" where
  "Server_DeepCopy lib = copy_ref server_of Server (Server_DeepCopyInto lib)"

definition ServerList_DeepCopy :: "('l, 'v, 'v) copier \<Rightarrow> ('l, 'v, addr option) copier" where
  "ServerList_DeepCopy lib = copy_ref server_list_of ServerList (ServerList_DeepCopyInto lib)"

end
