(* ===== verification/DeepCopyInv.thy ===== *)
theory DeepCopyInv
  imports DeepCopy
begin

text \<open>
  What the deep copies promise: the contract, the rule for each construct, and the contract of every copy
  of \<open>DeepCopy\<close>.
\<close>

section \<open>What a reader sees\<close>

datatype ('l, 'v) tree =
    Leaf "('l, 'v) cell" | Seq "('l, 'v) tree list" | Both "('l, 'v) tree" "('l, 'v) tree"
  | NilRef | Ref addr "('l, 'v) tree" | Broken

fun addrs :: "('l, 'v) tree \<Rightarrow> addr list" where
  "addrs (Seq ts) = concat (map addrs ts)"
| "addrs (Both s t) = addrs s @ addrs t"
| "addrs (Ref a t) = a # addrs t"
| "addrs t = []"

text \<open>The value without its addresses, and whether every reference led to a cell of its type.\<close>

fun shape :: "('l, 'v) tree \<Rightarrow> ('l, 'v) tree" where
  "shape (Seq ts) = Seq (map shape ts)"
| "shape (Both s t) = Both (shape s) (shape t)"
| "shape (Ref a t) = Ref 0 (shape t)"
| "shape t = t"

fun sound :: "('l, 'v) tree \<Rightarrow> bool" where
  "sound (Seq ts) = list_all sound ts"
| "sound (Both s t) = (sound s \<and> sound t)"
| "sound (Ref a t) = sound t"
| "sound Broken = False"
| "sound t = True"

lemma sound_shape [simp]: "sound (shape t) = sound t"
  by (induction t rule: sound.induct) (auto simp: list_all_iff)

lemma same_shape_sound: "shape t = shape s \<Longrightarrow> sound s \<Longrightarrow> sound t"
  by (metis sound_shape)

type_synonym ('l, 'v, 'a) reader = "('l, 'v) heap \<Rightarrow> 'a \<Rightarrow> ('l, 'v) tree"

definition read_flat :: "('a \<Rightarrow> ('l, 'v) cell) \<Rightarrow> ('l, 'v, 'a) reader" where
  "read_flat whole h x = Leaf (whole x)"

definition read_entries :: "('l, 'v, (string \<times> string) list) reader" where
  "read_entries h m = (if distinct (map fst m) then Leaf (StringMap m) else Broken)"

definition read_ref :: "(('l, 'v) cell \<Rightarrow> 'a option) \<Rightarrow> ('l, 'v, 'a) reader \<Rightarrow> ('l, 'v, addr option) reader" where
  "read_ref part rd h p =
     (case p of
        None \<Rightarrow> NilRef
      | Some a \<Rightarrow> (case Option.bind (cell_at h a) part of None \<Rightarrow> Broken | Some x \<Rightarrow> Ref a (rd h x)))"

definition read_each :: "('l, 'v, 'a) reader \<Rightarrow> ('l, 'v, 'a list) reader" where
  "read_each rd h xs = Seq (map (rd h) xs)"

definition read_both :: "('l, 'v, 'a) reader \<Rightarrow> ('l, 'v, 'b) reader \<Rightarrow> ('l, 'v, 'a \<times> 'b) reader" where
  "read_both rd1 rd2 h p = Both (rd1 h (fst p)) (rd2 h (snd p))"

definition copy_both :: "('l, 'v, 'a) copier \<Rightarrow> ('l, 'v, 'b) copier \<Rightarrow> ('l, 'v, 'a \<times> 'b) copier" where
  "copy_both cp1 cp2 h p =
     (case cp1 h (fst p) of (h1, x) \<Rightarrow> (case cp2 h1 (snd p) of (h2, y) \<Rightarrow> (h2, (x, y))))"

section \<open>The contract\<close>

lemma cell_at_append [simp]: "a < length h \<Longrightarrow> cell_at (h @ new) a = cell_at h a"
  by (simp add: cell_at_def nth_append)

lemma cell_at_update [simp]: "a \<noteq> b \<Longrightarrow> cell_at (h[b := c]) a = cell_at h a"
  by (simp add: cell_at_def)

lemma cell_at_new [simp]: "cell_at (h @ [c]) (length h) = Some c"
  by (simp add: cell_at_def)

lemma cell_at_Some: "cell_at h a = Some c \<Longrightarrow> a < length h"
  by (simp add: cell_at_def split: if_splits)

locale deep_copy =
  fixes rd :: "('l, 'v, 'a) reader" and cp :: "('l, 'v, 'a) copier"
  assumes footprint: "sound (rd h x) \<Longrightarrow> (\<And>a. a \<in> set (addrs (rd h x)) \<Longrightarrow> cell_at h' a = cell_at h a) \<Longrightarrow> rd h' x = rd h x"
    and inside: "sound (rd h x) \<Longrightarrow> a \<in> set (addrs (rd h x)) \<Longrightarrow> a < length h"
    and grows: "sound (rd h x) \<Longrightarrow> cp h x = (h', y) \<Longrightarrow> \<exists>new. h' = h @ new"
    and same_value: "sound (rd h x) \<Longrightarrow> cp h x = (h', y) \<Longrightarrow> shape (rd h' y) = shape (rd h x)"
    and all_new: "sound (rd h x) \<Longrightarrow> cp h x = (h', y) \<Longrightarrow> a \<in> set (addrs (rd h' y)) \<Longrightarrow> length h \<le> a"
begin

lemma kept_by_append: "sound (rd h x) \<Longrightarrow> rd (h @ new) x = rd h x"
  by (rule footprint) (simp_all add: inside)

lemma original_kept: "sound (rd h x) \<Longrightarrow> cp h z = (h', y) \<Longrightarrow> sound (rd h z) \<Longrightarrow> rd h' x = rd h x"
  using grows kept_by_append by blast

lemma copy_sound: "sound (rd h x) \<Longrightarrow> cp h x = (h', y) \<Longrightarrow> sound (rd h' y)"
  using same_value same_shape_sound by blast

lemma write_elsewhere: "sound (rd h x) \<Longrightarrow> b \<notin> set (addrs (rd h x)) \<Longrightarrow> rd (h[b := c]) x = rd h x"
  by (rule footprint) (auto intro: cell_at_update)

lemma write_to_copy:
  assumes "sound (rd h x)" "cp h x = (h', y)" "b \<in> set (addrs (rd h' y))"
  shows "rd (h'[b := c]) x = rd h x"
proof -
  have keep: "rd h' x = rd h x" using original_kept assms(1,2) by blast
  have "b \<notin> set (addrs (rd h x))" using inside [OF assms(1)] all_new [OF assms] by fastforce
  with keep assms(1) show ?thesis using write_elsewhere [of h' x b c] by simp
qed

lemma write_to_original:
  assumes "sound (rd h x)" "cp h x = (h', y)" "b \<in> set (addrs (rd h x))"
  shows "rd (h'[b := c]) y = rd h' y"
proof (rule write_elsewhere)
  show "sound (rd h' y)" by (rule copy_sound [OF assms(1,2)])
  show "b \<notin> set (addrs (rd h' y))" using inside [OF assms(1,3)] all_new [OF assms(1,2)] by fastforce
qed

lemma independent:
  assumes "sound (rd h x)" "cp h x = (h', y)"
  shows "shape (rd h' y) = shape (rd h x) \<and> (\<forall>a\<in>set (addrs (rd h' y)). rd (h'[a := c]) x = rd h x) \<and>
    (\<forall>a\<in>set (addrs (rd h x)). rd (h'[a := c]) y = rd h' y)"
  using assms by (simp add: same_value write_to_copy write_to_original)

text \<open>The loop over a slice's elements.\<close>

lemma copy_each_facts:
  "sound (read_each rd h xs) \<Longrightarrow> copy_each cp h xs = (h', ys) \<Longrightarrow>
     (\<exists>new. h' = h @ new) \<and> shape (read_each rd h' ys) = shape (read_each rd h xs) \<and>
     (\<forall>a\<in>set (addrs (read_each rd h' ys)). length h \<le> a)"
proof (induction xs arbitrary: h h' ys)
  case Nil
  then show ?case by (simp add: read_each_def)
next
  case (Cons x xs)
  from Cons.prems(2) obtain h1 y zs where first: "cp h x = (h1, y)" and rest: "copy_each cp h1 xs = (h', zs)" and ys: "ys = y # zs"
    by (auto split: prod.splits)
  from Cons.prems(1) have sx: "sound (rd h x)" and sxs: "list_all sound (map (rd h) xs)" by (simp_all add: read_each_def)
  from grows [OF sx first] obtain new where h1: "h1 = h @ new" by blast
  from sxs have same: "map (rd h1) xs = map (rd h) xs" by (auto simp: h1 list_all_iff kept_by_append)
  with sxs have IH: "(\<exists>new. h' = h1 @ new) \<and> shape (read_each rd h' zs) = shape (read_each rd h1 xs) \<and>
     (\<forall>a\<in>set (addrs (read_each rd h' zs)). length h1 \<le> a)"
    by (intro Cons.IH [OF _ rest]) (simp add: read_each_def list_all_iff)
  then obtain new' where h': "h' = h1 @ new'" by blast
  have y: "rd h' y = rd h1 y" unfolding h' by (rule kept_by_append [OF copy_sound [OF sx first]])
  from IH same have "map shape (map (rd h') zs) = map shape (map (rd h) xs)" by (simp add: read_each_def)
  with y same_value [OF sx first] have "shape (read_each rd h' ys) = shape (read_each rd h (x # xs))"
    by (simp add: read_each_def ys)
  moreover have "\<forall>a\<in>set (addrs (read_each rd h' ys)). length h \<le> a"
    using IH y all_new [OF sx first] by (fastforce simp: read_each_def ys h1)
  ultimately show ?case by (simp add: h' h1)
qed

lemma each: "deep_copy (read_each rd) (copy_each cp)"
proof
  fix h h' :: "('l, 'v) heap" and xs
  assume sx: "sound (read_each rd h xs)" and keep: "\<And>a. a \<in> set (addrs (read_each rd h xs)) \<Longrightarrow> cell_at h' a = cell_at h a"
  have "rd h' x = rd h x" if "x \<in> set xs" for x
  proof (rule footprint)
    show "sound (rd h x)" using sx that by (simp add: read_each_def list_all_iff)
    fix a assume "a \<in> set (addrs (rd h x))"
    with that show "cell_at h' a = cell_at h a" by (intro keep) (auto simp: read_each_def)
  qed
  then show "read_each rd h' xs = read_each rd h xs" by (simp add: read_each_def)
next
  fix h :: "('l, 'v) heap" and xs a
  assume "sound (read_each rd h xs)" "a \<in> set (addrs (read_each rd h xs))"
  then show "a < length h" by (auto simp: read_each_def list_all_iff dest: inside)
qed (use copy_each_facts in blast)+

text \<open>A reference to a cell of its own.\<close>

lemma ref:
  assumes part: "\<And>y. part (whole y) = Some y"
  shows "deep_copy (read_ref part rd) (copy_ref part whole cp)"
proof -
  have main: "(\<exists>new. h' = h @ new) \<and> shape (read_ref part rd h' q) = shape (read_ref part rd h p) \<and>
     (\<forall>a\<in>set (addrs (read_ref part rd h' q)). length h \<le> a)"
    if sp: "sound (read_ref part rd h p)" and cp: "copy_ref part whole cp h p = (h', q)" for h p h' q
  proof (cases p)
    case None
    with cp show ?thesis by (simp add: copy_ref_def read_ref_def)
  next
    case (Some a)
    with sp obtain x where x: "Option.bind (cell_at h a) part = Some x" and sx: "sound (rd h x)"
      by (auto simp: read_ref_def split: option.splits)
    obtain h1 y where y: "cp h x = (h1, y)" by (cases "cp h x") auto
    from cp Some x y have h': "h' = h1 @ [whole y]" and q: "q = Some (length h1)" by (simp_all add: copy_ref_def)
    from grows [OF sx y] obtain new where h1: "h1 = h @ new" by blast
    have "rd h' y = rd h1 y" unfolding h' by (rule kept_by_append [OF copy_sound [OF sx y]])
    then have "read_ref part rd h' q = Ref (length h1) (rd h1 y)" by (simp add: read_ref_def q h' part)
    with same_value [OF sx y] all_new [OF sx y] show ?thesis
      by (simp add: h' h1 read_ref_def Some x)
  qed
  show ?thesis
  proof
    fix h h' :: "('l, 'v) heap" and p
    assume sp: "sound (read_ref part rd h p)"
      and keep: "\<And>a. a \<in> set (addrs (read_ref part rd h p)) \<Longrightarrow> cell_at h' a = cell_at h a"
    show "read_ref part rd h' p = read_ref part rd h p"
    proof (cases p)
      case (Some a)
      with sp obtain x where x: "Option.bind (cell_at h a) part = Some x" and sx: "sound (rd h x)"
        by (auto simp: read_ref_def split: option.splits)
      have "cell_at h' a = cell_at h a" by (rule keep) (simp add: read_ref_def Some x)
      moreover have "rd h' x = rd h x" by (rule footprint [OF sx]) (rule keep, simp add: read_ref_def Some x)
      ultimately show ?thesis by (simp add: read_ref_def Some x)
    qed (simp add: read_ref_def)
  next
    fix h :: "('l, 'v) heap" and p a
    assume "sound (read_ref part rd h p)" "a \<in> set (addrs (read_ref part rd h p))"
    then show "a < length h"
      by (auto simp: read_ref_def bind_eq_Some_conv dest: inside cell_at_Some split: option.splits)
  qed (use main in blast)+
qed

end

lemma flat: "deep_copy (read_flat whole) assign"
  by standard (auto simp: read_flat_def assign_def)

lemma copy_entries_id: "distinct (map fst m) \<Longrightarrow> copy_entries h m = (h, m)"
proof -
  have "fold (\<lambda>(k, v) out. AList.update k v out) m out = out @ m" if "distinct (map fst (out @ m))" for out
    using that
  proof (induction m arbitrary: out)
    case (Cons kv m)
    obtain k v where kv: "kv = (k, v)" by force
    have new: "AList.update k v out = out @ [(k, v)]" using Cons.prems kv
      by (induction out) (auto split: if_splits)
    have "distinct (map fst ((out @ [(k, v)]) @ m))" using Cons.prems kv by simp
    from Cons.IH [OF this] new show ?case by (simp add: kv)
  qed simp
  from this [of "[]"] show "distinct (map fst m) \<Longrightarrow> copy_entries h m = (h, m)" by (simp add: copy_entries_def)
qed

lemma entries: "deep_copy read_entries copy_entries"
  by standard (auto simp: read_entries_def copy_entries_id split: if_splits)

lemma both:
  assumes "deep_copy rd1 cp1" "deep_copy rd2 cp2"
  shows "deep_copy (read_both rd1 rd2) (copy_both cp1 cp2)"
proof -
  have main: "(\<exists>new. h' = h @ new) \<and> shape (read_both rd1 rd2 h' q) = shape (read_both rd1 rd2 h p) \<and>
     (\<forall>a\<in>set (addrs (read_both rd1 rd2 h' q)). length h \<le> a)"
    if sp: "sound (read_both rd1 rd2 h p)" and cp: "copy_both cp1 cp2 h p = (h', q)" for h p h' q
  proof -
    from sp have s1: "sound (rd1 h (fst p))" and s2: "sound (rd2 h (snd p))" by (simp_all add: read_both_def)
    from cp obtain h1 where c1: "cp1 h (fst p) = (h1, fst q)" and c2: "cp2 h1 (snd p) = (h', snd q)"
      by (auto simp: copy_both_def split: prod.splits)
    from deep_copy.grows [OF assms(1) s1 c1] obtain new where h1: "h1 = h @ new" by blast
    have k2: "rd2 h1 (snd p) = rd2 h (snd p)" unfolding h1 by (rule deep_copy.kept_by_append [OF assms(2) s2])
    then have s2': "sound (rd2 h1 (snd p))" using s2 by simp
    from deep_copy.grows [OF assms(2) s2' c2] obtain new' where h': "h' = h1 @ new'" by blast
    have k1: "rd1 h' (fst q) = rd1 h1 (fst q)" unfolding h'
      by (rule deep_copy.kept_by_append [OF assms(1) deep_copy.copy_sound [OF assms(1) s1 c1]])
    show ?thesis
      using deep_copy.same_value [OF assms(1) s1 c1] deep_copy.same_value [OF assms(2) s2' c2] k1 k2
        deep_copy.all_new [OF assms(1) s1 c1] deep_copy.all_new [OF assms(2) s2' c2]
      by (fastforce simp: read_both_def h' h1)
  qed
  show ?thesis
  proof
    fix h h' :: "('a, 'b) heap" and p
    assume "sound (read_both rd1 rd2 h p)"
      and "\<And>a. a \<in> set (addrs (read_both rd1 rd2 h p)) \<Longrightarrow> cell_at h' a = cell_at h a"
    then show "read_both rd1 rd2 h' p = read_both rd1 rd2 h p"
      using deep_copy.footprint [OF assms(1), of h "fst p" h'] deep_copy.footprint [OF assms(2), of h "snd p" h']
      by (simp add: read_both_def)
  next
    fix h :: "('a, 'b) heap" and p a
    assume "sound (read_both rd1 rd2 h p)" "a \<in> set (addrs (read_both rd1 rd2 h p))"
    then show "a < length h"
      using deep_copy.inside [OF assms(1)] deep_copy.inside [OF assms(2)] by (auto simp: read_both_def)
  qed (use main in blast)+
qed

text \<open>A struct: \<open>refs\<close> are its fields with references, \<open>rest\<close> shows those the assignment copies.\<close>

lemma struct:
  assumes "deep_copy rd cp"
    and rd': "\<And>h x. rd' h x = Both (rest x) (rd h (refs x))"
    and cp': "\<And>h x. cp' h x = (case cp h (refs x) of (h, y) \<Rightarrow> (h, put y x))"
    and put: "\<And>x y. refs (put y x) = y" "\<And>x y. rest (put y x) = rest x" "\<And>x. addrs (rest x) = []"
  shows "deep_copy rd' cp'"
proof
  fix h h' :: "('a, 'b) heap" and x
  assume "sound (rd' h x)" "\<And>a. a \<in> set (addrs (rd' h x)) \<Longrightarrow> cell_at h' a = cell_at h a"
  then show "rd' h' x = rd' h x" using deep_copy.footprint [OF assms(1), of h "refs x" h'] by (simp add: rd')
next
  fix h :: "('a, 'b) heap" and x a
  assume "sound (rd' h x)" "a \<in> set (addrs (rd' h x))"
  then show "a < length h" using deep_copy.inside [OF assms(1)] by (auto simp: rd' put)
next
  fix h h' :: "('a, 'b) heap" and x y
  assume s: "sound (rd' h x)" and c: "cp' h x = (h', y)"
  then show "\<exists>new. h' = h @ new" using deep_copy.grows [OF assms(1)] by (auto simp: rd' cp' split: prod.splits)
  from s c show "shape (rd' h' y) = shape (rd' h x)"
    using deep_copy.same_value [OF assms(1)] by (auto simp: rd' cp' put split: prod.splits)
  fix a assume "a \<in> set (addrs (rd' h' y))"
  with s c show "length h \<le> a"
    using deep_copy.all_new [OF assms(1)] by (auto simp: rd' cp' put split: prod.splits)
qed

section \<open>The copies of the code\<close>

definition read_Auth :: "('l, 'v, AuthSpec) reader" where
  "read_Auth h x = Both (Leaf (Strings [as_Type x])) (read_ref fields_of (read_flat FormFields) h (as_Fields x))"

definition read_HTTP :: "('l, 'v, HTTPValidate) reader" where
  "read_HTTP h x =
     Both (Leaf (HTTP (x\<lparr>hv_Headers := None, hv_SuccessStatus := None\<rparr>)))
       (read_both (read_ref map_of_cell read_entries) (read_ref ints_of (read_flat Ints)) h (hv_Headers x, hv_SuccessStatus x))"

definition read_Validate :: "('l, 'v, ValidateSpec) reader" where
  "read_Validate h x = Both (Seq []) (read_ref http_of read_HTTP h (vs_HTTP x))"

definition read_MCPRef :: "('l, 'v, MCPRef) reader" where
  "read_MCPRef h x =
     Both (Leaf (Strings [mr_Name x, mr_Ref x]))
       (read_both (read_ref external_of (read_flat External)) (read_ref map_of_cell read_entries) h (mr_External x, mr_EnvFrom x))"

definition read_Contributions :: "('l, 'v, Contributions) reader" where
  "read_Contributions h x =
     Both (Seq [])
       (read_both (read_ref map_of_cell read_entries) (read_ref mcprefs_of (read_each read_MCPRef)) h (cb_Env x, cb_MCPServers x))"

definition read_PluginSpec :: "('l, 'v, IntegrationPluginSpec) reader" where
  "read_PluginSpec h x =
     Both (Leaf (Strings [ps_ID x, ps_DisplayName x, ps_Description x, ps_PluginKind x]))
       (read_both (read_ref strings_of (read_flat Strings))
         (read_both read_Auth (read_both read_Validate (read_both (read_ref sidecar_of (read_flat Sidecar)) read_Contributions)))
         h (ps_ScopesSupported x, ps_Auth x, ps_Validate x, ps_Sidecar x, ps_Contributions x))"

definition read_Plugin :: "('l, 'v, 'v) reader \<Rightarrow> ('l, 'v, 'v IntegrationPlugin) reader" where
  "read_Plugin lib h x =
     Both (Seq [Leaf (StringMap [ip_TypeMeta x, (pt_Phase (ip_Status x), pt_Message (ip_Status x))]),
                Leaf (Ints [pt_LastSyncedAt (ip_Status x)])])
       (read_both lib read_PluginSpec h (ip_ObjectMeta x, ip_Spec x))"

definition read_PluginList :: "('l, 'v, 'v) reader \<Rightarrow> ('l, 'v, 'v IntegrationPluginList) reader" where
  "read_PluginList lib h x =
     Both (Leaf (StringMap [pl_TypeMeta x]))
       (read_both lib (read_ref plugins_of (read_each (read_Plugin lib))) h (pl_ListMeta x, pl_Items x))"

definition read_NetworkPolicy :: "('l, 'v, MCPNetworkPolicySpec) reader" where
  "read_NetworkPolicy h x = Both (Seq []) (read_ref strings_of (read_flat Strings) h (np_EgressCIDRs x))"

definition read_ServerSpec :: "('l, 'v, 'v) reader \<Rightarrow> ('l, 'v, 'v MCPServerSpec) reader" where
  "read_ServerSpec lib h x =
     Both (Seq [Leaf (Strings [ms_Image x, ms_ServiceAccountName x]), Leaf (Ints [ms_Port x, ms_Replicas x])])
       (read_both (read_ref envvars_of (read_each lib)) (read_both lib read_NetworkPolicy)
         h (ms_Env x, ms_Resources x, ms_NetworkPolicy x))"

definition read_ServerStatus :: "('l, 'v, 'v) reader \<Rightarrow> ('l, 'v, MCPServerStatus) reader" where
  "read_ServerStatus lib h x =
     Both (Seq [Leaf (Strings [mt_Phase x, mt_ServiceURL x]), Leaf (Ints [mt_Replicas x])])
       (read_ref conditions_of (read_each lib) h (mt_Conditions x))"

definition read_Server :: "('l, 'v, 'v) reader \<Rightarrow> ('l, 'v, 'v MCPServer) reader" where
  "read_Server lib h x =
     Both (Leaf (StringMap [mc_TypeMeta x]))
       (read_both lib (read_both (read_ServerSpec lib) (read_ServerStatus lib)) h (mc_ObjectMeta x, mc_Spec x, mc_Status x))"

definition read_ServerList :: "('l, 'v, 'v) reader \<Rightarrow> ('l, 'v, 'v MCPServerList) reader" where
  "read_ServerList lib h x =
     Both (Leaf (StringMap [sl_TypeMeta x]))
       (read_both lib (read_ref servers_of (read_each (read_Server lib))) h (sl_ListMeta x, sl_Items x))"

interpretation auth_copy: deep_copy read_Auth Auth_DeepCopyInto
  by (rule struct [OF deep_copy.ref [OF flat, of fields_of FormFields], where rest = "\<lambda>x. Leaf (Strings [as_Type x])"
        and refs = as_Fields and put = "\<lambda>y x. x\<lparr>as_Fields := y\<rparr>"])
     (simp_all add: read_Auth_def Auth_DeepCopyInto_def)

interpretation http_copy: deep_copy read_HTTP HTTP_DeepCopyInto
  by (rule struct [OF both [OF deep_copy.ref [OF entries, of map_of_cell StringMap] deep_copy.ref [OF flat, of ints_of Ints]],
        where rest = "\<lambda>x. Leaf (HTTP (x\<lparr>hv_Headers := None, hv_SuccessStatus := None\<rparr>))"
        and refs = "\<lambda>x. (hv_Headers x, hv_SuccessStatus x)"
        and put = "\<lambda>y x. x\<lparr>hv_Headers := fst y, hv_SuccessStatus := snd y\<rparr>"])
     (simp_all add: read_HTTP_def HTTP_DeepCopyInto_def copy_both_def split: prod.splits)

interpretation validate_copy: deep_copy read_Validate Validate_DeepCopyInto
  by (rule struct [OF http_copy.ref [of http_of HTTP], where rest = "\<lambda>x. Seq []"
        and refs = vs_HTTP and put = "\<lambda>y x. x\<lparr>vs_HTTP := y\<rparr>"])
     (simp_all add: read_Validate_def Validate_DeepCopyInto_def)

interpretation mcpref_copy: deep_copy read_MCPRef MCPRef_DeepCopyInto
  by (rule struct [OF both [OF deep_copy.ref [OF flat, of external_of External] deep_copy.ref [OF entries, of map_of_cell StringMap]],
        where rest = "\<lambda>x. Leaf (Strings [mr_Name x, mr_Ref x])" and refs = "\<lambda>x. (mr_External x, mr_EnvFrom x)"
        and put = "\<lambda>y x. x\<lparr>mr_External := fst y, mr_EnvFrom := snd y\<rparr>"])
     (simp_all add: read_MCPRef_def MCPRef_DeepCopyInto_def copy_both_def split: prod.splits)

interpretation contributions_copy: deep_copy read_Contributions Contributions_DeepCopyInto
  by (rule struct [OF both [OF deep_copy.ref [OF entries, of map_of_cell StringMap]
        deep_copy.ref [OF mcpref_copy.each, of mcprefs_of MCPRefs]],
        where rest = "\<lambda>x. Seq []" and refs = "\<lambda>x. (cb_Env x, cb_MCPServers x)"
        and put = "\<lambda>y x. x\<lparr>cb_Env := fst y, cb_MCPServers := snd y\<rparr>"])
     (simp_all add: read_Contributions_def Contributions_DeepCopyInto_def copy_both_def split: prod.splits)

interpretation plugin_spec_copy: deep_copy read_PluginSpec PluginSpec_DeepCopyInto
  by (rule struct [OF both [OF deep_copy.ref [OF flat, of strings_of Strings] both [OF auth_copy.deep_copy_axioms
        both [OF validate_copy.deep_copy_axioms both [OF deep_copy.ref [OF flat, of sidecar_of Sidecar]
          contributions_copy.deep_copy_axioms]]]],
        where rest = "\<lambda>x. Leaf (Strings [ps_ID x, ps_DisplayName x, ps_Description x, ps_PluginKind x])"
        and refs = "\<lambda>x. (ps_ScopesSupported x, ps_Auth x, ps_Validate x, ps_Sidecar x, ps_Contributions x)"
        and put = "\<lambda>(s, a, v, c, t) x. x\<lparr>ps_ScopesSupported := s, ps_Auth := a, ps_Validate := v, ps_Sidecar := c,
              ps_Contributions := t\<rparr>"])
     (auto simp: read_PluginSpec_def PluginSpec_DeepCopyInto_def copy_both_def split: prod.splits)

text \<open>With the library's copies under the same contract, those that contain library values meet it too.\<close>

lemma plugin_deep:
  assumes "deep_copy lib_rd lib"
  shows "deep_copy (read_Plugin lib_rd) (Plugin_DeepCopyInto lib)"
  by (rule struct [OF both [OF assms plugin_spec_copy.deep_copy_axioms],
        where rest = "\<lambda>x. Seq [Leaf (StringMap [ip_TypeMeta x, (pt_Phase (ip_Status x), pt_Message (ip_Status x))]),
                Leaf (Ints [pt_LastSyncedAt (ip_Status x)])]"
        and refs = "\<lambda>x. (ip_ObjectMeta x, ip_Spec x)" and put = "\<lambda>y x. x\<lparr>ip_ObjectMeta := fst y, ip_Spec := snd y\<rparr>"])
     (simp_all add: read_Plugin_def Plugin_DeepCopyInto_def copy_both_def split: prod.splits)

lemma plugin_list_deep:
  assumes "deep_copy lib_rd lib"
  shows "deep_copy (read_PluginList lib_rd) (PluginList_DeepCopyInto lib)"
  by (rule struct [OF both [OF assms deep_copy.ref [OF deep_copy.each [OF plugin_deep [OF assms]], of plugins_of Plugins]],
        where rest = "\<lambda>x. Leaf (StringMap [pl_TypeMeta x])" and refs = "\<lambda>x. (pl_ListMeta x, pl_Items x)"
        and put = "\<lambda>y x. x\<lparr>pl_ListMeta := fst y, pl_Items := snd y\<rparr>"])
     (simp_all add: read_PluginList_def PluginList_DeepCopyInto_def copy_both_def split: prod.splits)

interpretation policy_copy: deep_copy read_NetworkPolicy NetworkPolicy_DeepCopyInto
  by (rule struct [OF deep_copy.ref [OF flat, of strings_of Strings], where rest = "\<lambda>x. Seq []"
        and refs = np_EgressCIDRs and put = "\<lambda>y x. x\<lparr>np_EgressCIDRs := y\<rparr>"])
     (simp_all add: read_NetworkPolicy_def NetworkPolicy_DeepCopyInto_def)

lemma server_spec_deep:
  assumes "deep_copy lib_rd lib"
  shows "deep_copy (read_ServerSpec lib_rd) (ServerSpec_DeepCopyInto lib)"
  by (rule struct [OF both [OF deep_copy.ref [OF deep_copy.each [OF assms], of envvars_of EnvVars]
          both [OF assms policy_copy.deep_copy_axioms]],
        where rest = "\<lambda>x. Seq [Leaf (Strings [ms_Image x, ms_ServiceAccountName x]), Leaf (Ints [ms_Port x, ms_Replicas x])]"
        and refs = "\<lambda>x. (ms_Env x, ms_Resources x, ms_NetworkPolicy x)"
        and put = "\<lambda>(e, r, p) x. x\<lparr>ms_Env := e, ms_Resources := r, ms_NetworkPolicy := p\<rparr>"])
     (auto simp: read_ServerSpec_def ServerSpec_DeepCopyInto_def copy_both_def split: prod.splits)

lemma server_status_deep:
  assumes "deep_copy lib_rd lib"
  shows "deep_copy (read_ServerStatus lib_rd) (ServerStatus_DeepCopyInto lib)"
  by (rule struct [OF deep_copy.ref [OF deep_copy.each [OF assms], of conditions_of Conditions],
        where rest = "\<lambda>x. Seq [Leaf (Strings [mt_Phase x, mt_ServiceURL x]), Leaf (Ints [mt_Replicas x])]"
        and refs = mt_Conditions and put = "\<lambda>y x. x\<lparr>mt_Conditions := y\<rparr>"])
     (simp_all add: read_ServerStatus_def ServerStatus_DeepCopyInto_def)

lemma server_deep:
  assumes "deep_copy lib_rd lib"
  shows "deep_copy (read_Server lib_rd) (Server_DeepCopyInto lib)"
  by (rule struct [OF both [OF assms both [OF server_spec_deep [OF assms] server_status_deep [OF assms]]],
        where rest = "\<lambda>x. Leaf (StringMap [mc_TypeMeta x])" and refs = "\<lambda>x. (mc_ObjectMeta x, mc_Spec x, mc_Status x)"
        and put = "\<lambda>(m, p, t) x. x\<lparr>mc_ObjectMeta := m, mc_Spec := p, mc_Status := t\<rparr>"])
     (auto simp: read_Server_def Server_DeepCopyInto_def copy_both_def split: prod.splits)

lemma server_list_deep:
  assumes "deep_copy lib_rd lib"
  shows "deep_copy (read_ServerList lib_rd) (ServerList_DeepCopyInto lib)"
  by (rule struct [OF both [OF assms deep_copy.ref [OF deep_copy.each [OF server_deep [OF assms]], of servers_of Servers]],
        where rest = "\<lambda>x. Leaf (StringMap [sl_TypeMeta x])" and refs = "\<lambda>x. (sl_ListMeta x, sl_Items x)"
        and put = "\<lambda>y x. x\<lparr>sl_ListMeta := fst y, sl_Items := snd y\<rparr>"])
     (simp_all add: read_ServerList_def ServerList_DeepCopyInto_def copy_both_def split: prod.splits)

text \<open>C36: A deep copy shares nothing with its original. The copy of a list of integration plugins is the
  same value, item by item, map by map and field by field; whatever is then written to any cell of the
  copy, the original reads as before, and whatever is written to a cell of the original, the copy does.\<close>

theorem deep_copy_shares_nothing:
  assumes "deep_copy lib_rd lib"
    and "sound (read_ref plugin_list_of (read_PluginList lib_rd) h p)"
    and "PluginList_DeepCopy lib h p = (h', q)"
  shows "let see = read_ref plugin_list_of (read_PluginList lib_rd) in
    shape (see h' q) = shape (see h p) \<and>
    list_all (\<lambda>a. see (h'[a := c]) p = see h p) (addrs (see h' q)) \<and>
    list_all (\<lambda>a. see (h'[a := c]) q = see h' q) (addrs (see h p))"
  unfolding Let_def list_all_iff
  by (rule deep_copy.independent [OF deep_copy.ref [OF plugin_list_deep [OF assms(1)], of plugin_list_of PluginList] assms(2)])
     (use assms(3) in \<open>simp_all add: PluginList_DeepCopy_def\<close>)

definition sample_plugin :: "int IntegrationPlugin" where
  "sample_plugin = \<lparr>ip_TypeMeta = (''IntegrationPlugin'', ''shclop.io/v1alpha1''), ip_ObjectMeta = 7,
     ip_Spec = \<lparr>ps_ID = ''github'', ps_DisplayName = ''GitHub'', ps_Description = [], ps_PluginKind = ''http'',
       ps_ScopesSupported = Some 0, ps_Auth = \<lparr>as_Type = ''form'', as_Fields = None\<rparr>,
       ps_Validate = \<lparr>vs_HTTP = Some 2\<rparr>, ps_Sidecar = None,
       ps_Contributions = \<lparr>cb_Env = Some 3, cb_MCPServers = Some 4\<rparr>\<rparr>,
     ip_Status = \<lparr>pt_Phase = ''Ready'', pt_LastSyncedAt = 0, pt_Message = []\<rparr>\<rparr>"

definition sample_heap :: "(unit, int) heap" where
  "sample_heap =
     [Strings [''repo''],
      StringMap [(''Accept'', ''json'')],
      HTTP \<lparr>hv_Method = ''GET'', hv_URL = ''https://api'', hv_Headers = Some 1, hv_SuccessStatus = None,
        hv_Extract = \<lparr>ex_ExternalAccountID = ''id'', ex_ExternalLogin = ''login'', ex_AccountType = []\<rparr>, hv_Timeout = []\<rparr>,
      StringMap [(''GITHUB_TOKEN'', ''{{.Token}}''), (''HOST'', ''github.com'')],
      MCPRefs [\<lparr>mr_Name = ''gh'', mr_Ref = ''gh-mcp'', mr_External = None, mr_EnvFrom = Some 3\<rparr>],
      Plugins [sample_plugin],
      PluginList \<lparr>pl_TypeMeta = (''List'', ''v1''), pl_ListMeta = 1, pl_Items = Some 5\<rparr>]"

theorem deep_copy_shares_nothing_witness:
  "let see = read_ref plugin_list_of (read_PluginList (read_flat (\<lambda>n. Ints [n])));
       (h', q) = PluginList_DeepCopy assign sample_heap (Some 6) in
    shape (see h' q) = shape (see sample_heap (Some 6)) \<and>
    list_all (\<lambda>a. see (h'[a := Library ()]) (Some 6) = see sample_heap (Some 6)) (addrs (see h' q)) \<and>
    list_all (\<lambda>a. see (h'[a := Library ()]) q = see h' q) (addrs (see sample_heap (Some 6)))"
proof -
  have "sound (read_ref plugin_list_of (read_PluginList (read_flat (\<lambda>n. Ints [n]))) sample_heap (Some 6))"
    by code_simp
  from deep_copy_shares_nothing [OF flat this surjective_pairing] show ?thesis
    by (simp add: Let_def case_prod_beta)
qed

text \<open>Lists of MCP servers are copied with the same promise, as is every struct below them. In the sample,
  the two references to one map become references to two.\<close>

lemma server_copies_share_nothing:
  assumes "deep_copy lib_rd lib" "sound (read_ref server_list_of (read_ServerList lib_rd) h p)"
    and "ServerList_DeepCopy lib h p = (h', q)"
  shows "(\<forall>a\<in>set (addrs (read_ref server_list_of (read_ServerList lib_rd) h' q)).
    read_ref server_list_of (read_ServerList lib_rd) (h'[a := c]) p = read_ref server_list_of (read_ServerList lib_rd) h p)"
  using deep_copy.independent [OF deep_copy.ref [OF server_list_deep [OF assms(1)], of server_list_of ServerList] assms(2)] assms(3)
  by (simp add: ServerList_DeepCopy_def)

lemma sharing_is_undone:
  "let see = read_ref plugin_list_of (read_PluginList (read_flat (\<lambda>n. Ints [n]))) in
   \<not> distinct (addrs (see sample_heap (Some 6))) \<and>
   (case PluginList_DeepCopy assign sample_heap (Some 6) of (h', q) \<Rightarrow> distinct (addrs (see h' q)))"
  by code_simp

end
