(* ===== verification/Spec2Isabelle.thy ===== *)
theory Spec2Isabelle
  imports PostgresClients Chat SignIn Access Operate GatewayInv Runtime Watch Kube Security ReturnTo StoreInv
    Frontend Middleware Background Cli Clients DeepCopyInv
begin

text \<open>
  A verification library of shclop, a control plane for agents (Go).

  The program. A server (\<open>internal/api\<close>) keeps accounts, agents, models and settings in a store
  (\<open>internal/store\<close>), signs users in by password or through OIDC providers (\<open>internal/auth\<close>,
  \<open>internal/identity\<close>), starts agents in a sandbox (\<open>internal/sandbox\<close>) with the credentials of the
  integrations they may use (\<open>internal/integrations\<close>, \<open>internal/plugins\<close>), and routes chat messages
  between browsers and the runtimes of agents over websockets (\<open>internal/gateway\<close>). A runtime
  (\<open>cmd/shclop-runtime\<close>) answers tasks through an adapter (\<open>internal/claw\<close>). A controller
  (\<open>internal/controllers\<close>) keeps the deployments of MCP servers in line with their resources.

  The theories, in the order they build on each other:

  \<^item> \<open>Prelude\<close>: errors as values (\<open>go_error\<close>, \<open>'a result\<close>), first-match loops over slices, map iteration
    with an explicit visiting order, the string functions of Go's library, JSON values.
  \<^item> \<open>Domain\<close>, \<open>MemStore\<close>, \<open>StoreInv\<close>: \<open>domain.go\<close> and the in-memory store of \<open>store.go\<close>, one definition
    per method, and what every reachable store keeps by itself (unique keys, identities of users that exist).
  \<^item> \<open>Sql\<close>, \<open>Postgres\<close>, \<open>PostgresInv\<close>, \<open>PostgresRefine\<close>, \<open>PostgresClients\<close>: what the statements of
    \<open>postgres.go\<close> do to tables, one definition per method, the schema's keys and references, what a write
    leaves when its statements or their answers are lost, the agreement with the in-memory store on all
    writes but disconnections, and Postgres as a provider of the interfaces.
  \<^item> \<open>Crypto\<close>, \<open>Auth\<close>, \<open>IdP\<close>: \<open>aesgcm.go\<close> and \<open>secretbox.go\<close>; \<open>auth.go\<close> and \<open>cookiecodec.go\<close>; the
    provider registry of \<open>identity/registry.go\<close>, \<open>oidc.go\<close> and the demo provider \<open>mockyaml.go\<close>.
  \<^item> \<open>Manifest\<close>, \<open>PluginEval\<close>, \<open>Registry\<close>, \<open>Integrations\<close>: parsing and checking of plugin manifests, their
    evaluation (templates, probes, sidecars, MCP servers), the file, database, CRD and merged
    registries, and \<open>integrations/service.go\<close>.
  \<^item> \<open>Security\<close>, \<open>Config\<close>: \<open>security/policy.go\<close> and \<open>audit.go\<close>; \<open>config.go\<close>.
  \<^item> \<open>Sandbox\<close>, \<open>Pods\<close>, \<open>Kube\<close>: labels, network policies and pod specifications; the Kubernetes objects and
    the docker, Kata and mock providers; the Kubernetes provider over a cluster whose calls may fail.
  \<^item> \<open>Controller\<close>, \<open>Watch\<close>: the MCP server controller, one reconciliation at a time and as a whole: events,
    work queue and workers interleaved, resources that do not convert and deletions that fail included,
    what holds when it is at rest, and that it comes to rest.
  \<^item> \<open>Clients\<close>, \<open>DeepCopy\<close>, \<open>DeepCopyInv\<close>: \<open>k8s/clientset.go\<close> and \<open>informers.go\<close>; the deep copies of
    \<open>k8s/types.go\<close> over an explicit heap, and that a copy shares no cell with its original.
  \<^item> \<open>Background\<close>: the goroutines that watch the plugin directory, poll the database and retry providers.
  \<^item> \<open>Http\<close>, \<open>ApiAgents\<close>, \<open>ApiAdmin\<close>, \<open>ApiAuth\<close>, \<open>Api\<close>, \<open>ApiInv\<close>, \<open>Boot\<close>, \<open>ReturnTo\<close>: the server's state, requests
    and responses; the handlers of \<open>server.go\<close> and \<open>oidc.go\<close>, one definition each; the routing table
    \<open>dispatch\<close>; the invariant of the server (\<open>server_inv\<close>, with the references of the store that its
    handlers see to, \<open>refs_ok\<close>); its construction; the sanitizing of return addresses.
  \<^item> \<open>Frontend\<close>, \<open>Middleware\<close>, \<open>Cli\<close>: the static files; request metrics and panic recovery around every
    handler; \<open>cmd/shclop/main.go\<close>, from the command line to a listening server.
  \<^item> \<open>Gateway\<close>, \<open>GatewayInv\<close>, \<open>Claw\<close>, \<open>Runtime\<close>, \<open>Sockets\<close>, \<open>Chat\<close>: the runtime registry as interleaved
    threads, the adapters, the runtime programs, and the two websocket handlers.
  \<^item> \<open>Samples\<close>, \<open>Access\<close>, \<open>SignIn\<close>, \<open>Operate\<close>: one concrete server, and the properties that span handlers:
    who may do what, how one signs in, and that settings take effect.

  How state corresponds to the code. A struct is a record with the struct's fields under a prefix; a
  method is a function from the receiver to the receiver and its results; an error is \<open>Inl\<close>. What the
  code calls outside the repository (SQL, Kubernetes, YAML, templates, bcrypt, AES-GCM, HTTP
  servers, the clock, random numbers) is a parameter; laws about it are hypotheses (\<open>aead_law\<close>,
  \<open>gob_law\<close>). A request carries what the handler will read: body, query, the outcomes of its random
  draws (\<open>q_rnd\<close>), clock readings (\<open>q_now\<close>), the state of its context at each call (\<open>q_ctx\<close>).

  Interfaces. \<open>connection_store\<close> (theory \<open>Integrations\<close>) is what the integrations service needs of a
  store, \<open>runtime_provider\<close> (\<open>Boot\<close>) what the server needs of a sandbox, and \<open>settings_source\<close> (\<open>IdP\<close>)
  what the provider registry needs of the settings table; each is interpreted on the model's own
  definitions, the first and the last on both stores. \<open>deep_copy\<close> (\<open>DeepCopyInv\<close>) is what a copy
  promises, interpreted on the copies that need no library type. client-go's work queue is not the
  program's, so its contract is the hypothesis \<open>queue_law\<close>.

  Concurrency. The store's methods are atomic, as its mutex makes them, and a handler runs to its end
  before the next starts; handlers that wait (websockets) are cut at the wait. The runtime registry,
  whose locks and channels are the point, is modelled at the grain of single lock and channel
  operations (\<open>gw_event_step\<close>), under any schedule; where the end of a replaced runtime connection meets
  its successor, server and registry run together (\<open>link_step\<close>).

  Bounds and fuel. \<open>chat_loop\<close> has the code's own bound of ten rounds. \<open>runtime_loop\<close> takes the number of
  messages the connection still accepts. \<open>parse_providers\<close> counts the code's 32 iterations. All other
  recursion is structural or has a termination proof.

  The database. A statement is atomic and its meaning is that of its form in the PostgreSQL manual: keys and
  references are checked, an upsert updates the row in conflict, a transaction that does not commit
  leaves nothing. Any statement may fail in transport, before it is carried out or after, when only its
  answer is lost (\<open>wire\<close>). Concurrent transactions are taken one after the other. The servers that are
  reached step by step (\<open>server_reachable\<close>, \<open>system_reachable\<close>) are on the in-memory store.

  Not modelled: the SQL parser and planner and the connection pool; client-go's clients, informers and
  work queue, and the registration of the types with its scheme; the text of the metrics page; log
  lines; cancellation of a running adapter.

  What is next: the interleaving of handlers at the grain of store calls, and the cancellation of
  contexts in the adapters.
\<close>

end
